(* ===== verification/Prelude.thy ===== *)
theory Prelude
  imports Main "HOL-Library.AList" "HOL-Library.Word" "HOL-Library.Sublist"
    "HOL-Library.List_Lexorder" "HOL-Library.Char_ord" "HOL-Library.Product_Lexorder"
    "HOL-Library.Multiset"
begin

text \<open>
  Shared ground of the development: the types that name Go's built-in values, the collections
  of rewrite rules, the model of Go maps with its interface, the loops with early return, and
  the generic facts on lists and sorting that several components use.

  Go's \<open>string\<close> is a sequence of bytes; the development works on ASCII strings, HOL's
  \<open>string\<close> (a list of \<open>char\<close>), whose order (byte-wise, lexicographic) is the one of
  Go's \<open><\<close>.  A Go \<open>time.Time\<close> is an integer number of nanoseconds since Go's zero time, so
  that \<open>IsZero\<close> is \<open>= 0\<close>; a \<open>time.Duration\<close> is an integer number of nanoseconds.
\<close>

named_theorems map_laws \<open>lookup laws of the association lists that model Go maps\<close>
named_theorems shape \<open>projections of the records a component builds\<close>

type_synonym go_time = int
type_synonym duration = int
type_synonym int64 = "64 word"
type_synonym uint64 = "64 word"

abbreviation second :: duration where
  "second \<equiv> 1000000000"

text \<open>\<open>time.Time.Sub\<close>: the difference, saturated to the range of \<open>time.Duration\<close>.\<close>

definition time_sub :: "go_time \<Rightarrow> go_time \<Rightarrow> duration" where
  "time_sub a b = max (- (2 ^ 63)) (min (2 ^ 63 - 1) (a - b))"

lemma time_sub_le_iff:
  assumes "0 \<le> d" "d < 2 ^ 63 - 1"
  shows "time_sub a b \<le> d \<longleftrightarrow> a - b \<le> d"
  using assms by (auto simp: time_sub_def)

lemma find_append_option:
  "find P (xs @ ys) = (case find P xs of None \<Rightarrow> find P ys | Some x \<Rightarrow> Some x)"
  by (induction xs) auto

lemma collect_image_eq:
  assumes "\<And>d. d \<in> A \<and> P d \<longleftrightarrow> d \<in> f ` S \<and> P d \<and> Q d"
  shows "{d \<in> A. P d} = f ` {x \<in> S. P (f x) \<and> Q (f x)}"
  using assms by auto

lemma find_SomeD: "find P xs = Some x \<Longrightarrow> x \<in> set xs \<and> P x"
  by (induction xs) (auto split: if_splits)

section \<open>Go maps\<close>

text \<open>
  A Go map is an association list with distinct keys.  \<open>range\<close> visits it in list order; Go
  leaves that order open, and a statement about every list is a statement about every order.
\<close>

type_synonym ('k, 'v) gomap = "('k \<times> 'v) list"

definition gm_get :: "('k, 'v) gomap \<Rightarrow> 'k \<Rightarrow> 'v option" where
  "gm_get m k = map_of m k"

definition gm_put :: "'k \<Rightarrow> 'v \<Rightarrow> ('k, 'v) gomap \<Rightarrow> ('k, 'v) gomap" where
  "gm_put k v m = AList.update k v m"

definition gm_del :: "'k \<Rightarrow> ('k, 'v) gomap \<Rightarrow> ('k, 'v) gomap" where
  "gm_del k m = AList.delete k m"

definition gm_keys :: "('k, 'v) gomap \<Rightarrow> 'k list" where
  "gm_keys m = map fst m"

definition gm_wf :: "('k, 'v) gomap \<Rightarrow> bool" where
  "gm_wf m \<longleftrightarrow> distinct (map fst m)"

lemma gm_get_put [simp]: "gm_get (gm_put k v m) j = (if j = k then Some v else gm_get m j)"
  by (simp add: gm_get_def gm_put_def update_conv)

lemma gm_get_del [simp]: "gm_get (gm_del k m) j = (if j = k then None else gm_get m j)"
  by (simp add: gm_get_def gm_del_def delete_conv)

lemma gm_get_Nil [simp]: "gm_get [] k = None"
  by (simp add: gm_get_def)

lemma gm_get_Cons: "gm_get ((a, b) # m) k = (if a = k then Some b else gm_get m k)"
  by (simp add: gm_get_def)

definition gm_string :: "(string, string) gomap \<Rightarrow> string \<Rightarrow> string" where
  "gm_string m k = (case gm_get m k of None \<Rightarrow> [] | Some v \<Rightarrow> v)"

lemma gm_wf_Cons: "gm_wf ((a, b) # m) \<longleftrightarrow> gm_get m a = None \<and> gm_wf m"
  by (simp add: gm_wf_def gm_get_def map_of_eq_None_iff)

lemma gm_wf_Nil [simp]: "gm_wf []"
  by (simp add: gm_wf_def)

lemma gm_wf_put [simp]: "gm_wf m \<Longrightarrow> gm_wf (gm_put k v m)"
  by (simp add: gm_wf_def gm_put_def distinct_update)

lemma gm_wf_del [simp]: "gm_wf m \<Longrightarrow> gm_wf (gm_del k m)"
  by (simp add: gm_wf_def gm_del_def distinct_delete)

lemma set_gm_keys_put [simp]: "set (gm_keys (gm_put k v m)) = insert k (set (gm_keys m))"
  unfolding gm_keys_def gm_put_def using dom_update [of k v m] by simp

lemma set_gm_keys_del [simp]: "set (gm_keys (gm_del k m)) = set (gm_keys m) - {k}"
  unfolding gm_keys_def gm_del_def using delete_keys [of k m] by (auto simp: removeAll_filter_not_eq)

lemma gm_get_None_iff: "gm_get m k = None \<longleftrightarrow> k \<notin> set (gm_keys m)"
  by (simp add: gm_get_def gm_keys_def map_of_eq_None_iff)

lemma gm_get_Some_iff: "gm_wf m \<Longrightarrow> gm_get m k = Some v \<longleftrightarrow> (k, v) \<in> set m"
  by (simp add: gm_get_def gm_wf_def)

lemma gm_get_SomeD: "gm_get m k = Some v \<Longrightarrow> (k, v) \<in> set m"
  by (simp add: gm_get_def map_of_SomeD)

text \<open>
  The contract the clients of a Go map rely on: what a lookup returns after a store or a
  \<open>delete\<close>, and which keys \<open>range\<close> visits.
\<close>

locale go_map =
  fixes empty :: "'m"
    and get :: "'m \<Rightarrow> 'k \<Rightarrow> 'v option"
    and put :: "'k \<Rightarrow> 'v \<Rightarrow> 'm \<Rightarrow> 'm"
    and keys :: "'m \<Rightarrow> 'k list"
    and wf :: "'m \<Rightarrow> bool"
  assumes get_empty: "get empty k = None"
    and get_put: "get (put k v m) j = (if j = k then Some v else get m j)"
    and wf_empty: "wf empty"
    and wf_put: "wf m \<Longrightarrow> wf (put k v m)"
    and keys_get: "k \<in> set (keys m) \<longleftrightarrow> get m k \<noteq> None"
    and keys_distinct: "wf m \<Longrightarrow> distinct (keys m)"
begin

text \<open>
  The loop \<open>for _, item := range items { m[key(item)] = item }\<close>, by which the code indexes
  a slice: the last item with a key wins.
\<close>

lemma get_index:
  "get (fold (\<lambda>x m. put (f x) x m) xs m) k =
     (case find (\<lambda>x. f x = k) (rev xs) of None \<Rightarrow> get m k | Some x \<Rightarrow> Some x)"
proof (induction xs arbitrary: m)
  case Nil
  then show ?case by simp
next
  case (Cons x xs)
  then show ?case
    by (cases "find (\<lambda>x. f x = k) (rev xs)")
      (auto simp: get_put find_append_option split: option.splits)
qed

lemma wf_index: "wf m \<Longrightarrow> wf (fold (\<lambda>x m. put (f x) x m) xs m)"
  by (induction xs arbitrary: m) (auto simp: wf_put)

lemma get_index_distinct:
  assumes "distinct (map f xs)" and "x \<in> set xs"
  shows "get (fold (\<lambda>x m. put (f x) x m) xs m) (f x) = Some x"
proof -
  have "find (\<lambda>y. f y = f x) (rev xs) \<noteq> None"
    using assms(2) by (auto simp: find_None_iff)
  then obtain y where y: "find (\<lambda>y. f y = f x) (rev xs) = Some y" by blast
  then have "f y = f x" and "y \<in> set xs"
    using find_SomeD [OF y] by auto
  with assms have "y = x" by (auto simp: distinct_map inj_on_def)
  with y show ?thesis by (simp add: get_index)
qed

lemma get_index_SomeD:
  "get (fold (\<lambda>x m. put (f x) x m) xs empty) k = Some x \<Longrightarrow> x \<in> set xs \<and> f x = k"
  by (auto simp: get_index get_empty dest: find_SomeD split: option.splits)

lemma get_index_None_iff:
  "get (fold (\<lambda>x m. put (f x) x m) xs empty) k = None \<longleftrightarrow> k \<notin> f ` set xs"
  by (auto simp: get_index get_empty find_None_iff dest: find_SomeD split: option.splits)

end

interpretation gm: go_map "[]" gm_get gm_put gm_keys gm_wf
proof
  show "distinct (gm_keys m)" if "gm_wf m" for m :: "('a, 'b) gomap"
    using that by (simp add: gm_keys_def gm_wf_def)
qed (auto simp: gm_get_None_iff)

text \<open>Indexing a slice by a key.\<close>

definition index_by :: "('a \<Rightarrow> 'k) \<Rightarrow> 'a list \<Rightarrow> ('k, 'a) gomap" where
  "index_by f xs = fold (\<lambda>x m. gm_put (f x) x m) xs []"

lemma index_by_distinct:
  "distinct (map f xs) \<Longrightarrow> x \<in> set xs \<Longrightarrow> gm_get (index_by f xs) (f x) = Some x"
  unfolding index_by_def by (rule gm.get_index_distinct)

lemma index_by_SomeD: "gm_get (index_by f xs) k = Some x \<Longrightarrow> x \<in> set xs \<and> f x = k"
  unfolding index_by_def by (rule gm.get_index_SomeD)

lemma index_by_None_iff: "gm_get (index_by f xs) k = None \<longleftrightarrow> k \<notin> f ` set xs"
  unfolding index_by_def by (rule gm.get_index_None_iff)

lemma index_by_wf [simp]: "gm_wf (index_by f xs)"
  unfolding index_by_def by (rule gm.wf_index) simp

lemmas index_by_laws = index_by_distinct index_by_None_iff

section \<open>Loops with early return\<close>

text \<open>
  \<open>for _, x := range xs { if body(x) { return true } }; return false\<close>, with the state the
  body mutates passed along.
\<close>

fun try_each :: "('a \<Rightarrow> 's \<Rightarrow> bool \<times> 's) \<Rightarrow> 'a list \<Rightarrow> 's \<Rightarrow> bool \<times> 's" where
  "try_each f [] s = (False, s)"
| "try_each f (x # xs) s =
     (case f x s of (True, s') \<Rightarrow> (True, s') | (False, s') \<Rightarrow> try_each f xs s')"

lemma try_each_False:
  assumes "try_each f xs s = (False, s')" and "I s"
    and "\<And>x s s'. x \<in> set xs \<Longrightarrow> I s \<Longrightarrow> f x s = (False, s') \<Longrightarrow> I s'"
  shows "I s'"
  using assms
proof (induction xs arbitrary: s)
  case (Cons x xs)
  obtain b s1 where f: "f x s = (b, s1)" by fastforce
  with Cons.prems(1) have "\<not> b" and "try_each f xs s1 = (False, s')"
    by (auto split: bool.splits)
  with f Cons.prems(2,3) show ?case
    by (intro Cons.IH [of s1]) auto
qed auto

lemma try_each_True:
  assumes "try_each f xs s = (True, s')" and "I s"
    and "\<And>x s s'. x \<in> set xs \<Longrightarrow> I s \<Longrightarrow> f x s = (False, s') \<Longrightarrow> I s'"
  shows "\<exists>x \<in> set xs. \<exists>s0. I s0 \<and> f x s0 = (True, s')"
  using assms
proof (induction xs arbitrary: s)
  case (Cons x xs)
  obtain b s1 where f: "f x s = (b, s1)" by fastforce
  show ?case
  proof (cases b)
    case True
    with f Cons.prems(1,2) show ?thesis by auto
  next
    case False
    with f Cons.prems(1) have "try_each f xs s1 = (True, s')" by simp
    moreover have "I s1" using Cons.prems(2,3) f False by auto
    moreover have "\<And>y s s'. y \<in> set xs \<Longrightarrow> I s \<Longrightarrow> f y s = (False, s') \<Longrightarrow> I s'"
      using Cons.prems(3) by (meson list.set_intros(2))
    ultimately have "\<exists>y \<in> set xs. \<exists>s0. I s0 \<and> f y s0 = (True, s')"
      by (rule Cons.IH)
    then show ?thesis by simp
  qed
qed auto

lemma try_each_complete:
  assumes "x \<in> set xs" and "I s"
    and "\<And>x s s'. x \<in> set xs \<Longrightarrow> I s \<Longrightarrow> f x s = (False, s') \<Longrightarrow> I s'"
    and "\<And>s. I s \<Longrightarrow> fst (f x s)"
  shows "fst (try_each f xs s)"
  using assms
proof (induction xs arbitrary: s)
  case (Cons y ys)
  obtain b s1 where f: "f y s = (b, s1)" by fastforce
  show ?case
  proof (cases b)
    case False
    with f Cons.prems(2,3) have "I s1" by auto
    moreover from f False Cons.prems(4) [OF Cons.prems(2)] have "y \<noteq> x" by auto
    ultimately have "fst (try_each f ys s1)"
      using Cons.IH [of s1] Cons.prems(1,3,4) by auto
    with f False show ?thesis by simp
  qed (simp add: f)
qed simp

section \<open>Sorting and lists\<close>

text \<open>
  \<open>sort.Slice\<close> is modelled by HOL's stable \<open>sort_key\<close>.  Where all keys differ, every
  correct sorting routine returns this list.
\<close>

lemma sort_key_perm_unique:
  assumes "mset xs = mset ys" and "distinct (map f xs)"
  shows "sort_key f xs = sort_key f ys"
proof -
  have inj: "inj_on f (set xs)" using assms(2) by (simp add: distinct_map)
  have "sorted (map f (sort_key f xs))" "sorted (map f (sort_key f ys))" by simp_all
  moreover have "distinct (map f (sort_key f xs))" "distinct (map f (sort_key f ys))"
  proof -
    have "mset (map f (sort_key f xs)) = mset (map f xs)" by simp
    then show "distinct (map f (sort_key f xs))" using assms(2) by (metis mset_eq_imp_distinct_iff)
    have "mset (map f (sort_key f ys)) = mset (map f xs)" using assms(1) by simp
    then show "distinct (map f (sort_key f ys))" using assms(2) by (metis mset_eq_imp_distinct_iff)
  qed
  moreover have "set (map f (sort_key f xs)) = set (map f (sort_key f ys))"
    using assms(1) by (metis list.set_map set_mset_mset set_sort)
  ultimately have "map f (sort_key f xs) = map f (sort_key f ys)"
    by (metis sorted_distinct_set_unique)
  moreover have "set (sort_key f xs) \<union> set (sort_key f ys) \<subseteq> set xs"
    using assms(1) by (metis Un_absorb order_refl set_mset_mset set_sort)
  ultimately show ?thesis
    using inj by (metis (no_types, lifting) inj_on_map_eq_map inj_on_subset)
qed

lemma distinct_subseq: "subseq xs ys \<Longrightarrow> distinct ys \<Longrightarrow> distinct xs"
proof (induction rule: list_emb.induct)
  case (list_emb_Cons2 x y xs ys)
  then show ?case by (auto dest: list_emb_set)
qed auto

end
