(* ===== verification/Api_Types.thy ===== *)
theory Api_Types
  imports Prelude
begin

text \<open>
  The API objects of \<open>src/internal/api/types.go\<close> that the topology, placement and controller
  code computes on.  Field names carry a prefix per struct, because HOL record fields are
  global.  The Kubernetes metadata of an object is reduced to the fields the code reads.
\<close>

record TopologyLink =
  tl_Name :: string
  tl_State :: string
  tl_SpeedGbps :: uint64
  tl_RemoteEndpointID :: string

record TopologyDevice =
  td_Pool :: string
  td_Name :: string
  td_StableID :: string
  td_ChipSeries :: string
  td_FabricID :: string
  td_RingID :: string
  td_EndpointID :: string
  td_Links :: "TopologyLink list"

record NodeTopologySpec =
  nt_NodeName :: string
  nt_ObservedAt :: go_time
  nt_Devices :: "TopologyDevice list"

record FabricEndpoint =
  fe_NodeName :: string
  fe_Pool :: string
  fe_DeviceName :: string
  fe_StableID :: string
  fe_ChipSeries :: string
  fe_FabricID :: string
  fe_RingID :: string
  fe_EndpointID :: string
  fe_Links :: "TopologyLink list"

record Condition =
  cd_Type :: string
  cd_Status :: bool
  cd_Reason :: string
  cd_Message :: string
  cd_ObservedGeneration :: int
  cd_LastTransitionTime :: go_time

record FabricTopologyStatus =
  fs_Generation :: string
  fs_ObservedAt :: go_time
  fs_Valid :: bool
  fs_Endpoints :: "FabricEndpoint list"
  fs_Errors :: "string list"
  fs_Conditions :: "Condition list"

record WorkloadRank =
  wr_Name :: string
  wr_DeviceClassName :: string
  wr_Count :: int64
  wr_ChipSeries :: string

record WorkloadTopology =
  wt_FabricID :: string
  wt_RingID :: string

record AssignedDevice =
  ad_Pool :: string
  ad_Name :: string
  ad_StableID :: string
  ad_EndpointID :: string

record RankAssignment =
  ra_Rank :: string
  ra_NodeName :: string
  ra_ClaimName :: string
  ra_PodName :: string
  ra_Devices :: "AssignedDevice list"

text \<open>
  The part of a \<open>Workload\<close> that placement reads: its name and UID, the topology constraint
  and the ranks.
\<close>

record Workload =
  wl_Name :: string
  wl_UID :: string
  wl_Topology :: WorkloadTopology
  wl_Ranks :: "WorkloadRank list"

end
