(* ===== verification/Go_Strings.thy ===== *)
theory Go_Strings
  imports Prelude
begin

text \<open>
  The parts of Go's \<open>strings\<close>, \<open>strconv\<close> and \<open>fmt\<close> packages the driver uses, on ASCII
  strings, and the facts about them the components need: what trimming and sanitizing keep,
  and that decimal printing and parsing are inverse.
\<close>

section \<open>strings\<close>

definition is_space :: "char \<Rightarrow> bool" where
  "is_space c \<longleftrightarrow> c \<in> {CHR 0x09, CHR 0x0A, CHR 0x0B, CHR 0x0C, CHR 0x0D, CHR 0x20}"

definition trim_left_func :: "(char \<Rightarrow> bool) \<Rightarrow> string \<Rightarrow> string" where
  "trim_left_func p s = dropWhile p s"

definition trim_right_func :: "(char \<Rightarrow> bool) \<Rightarrow> string \<Rightarrow> string" where
  "trim_right_func p s = rev (dropWhile p (rev s))"

text \<open>\<open>strings.TrimSpace\<close>, \<open>strings.Trim(s, "-")\<close> and \<open>strings.TrimRight(s, "-")\<close>.\<close>

definition trim_space :: "string \<Rightarrow> string" where
  "trim_space s = trim_right_func is_space (trim_left_func is_space s)"

definition trim_char :: "char \<Rightarrow> string \<Rightarrow> string" where
  "trim_char c s = trim_right_func (\<lambda>x. x = c) (trim_left_func (\<lambda>x. x = c) s)"

definition trim_right_char :: "char \<Rightarrow> string \<Rightarrow> string" where
  "trim_right_char c s = trim_right_func (\<lambda>x. x = c) s"

definition lower_char :: "char \<Rightarrow> char" where
  "lower_char c = (if CHR ''A'' \<le> c \<and> c \<le> CHR ''Z'' then char_of (of_char c + 32 :: nat) else c)"

definition to_lower :: "string \<Rightarrow> string" where
  "to_lower s = map lower_char s"

definition has_prefix :: "string \<Rightarrow> string \<Rightarrow> bool" where
  "has_prefix s p \<longleftrightarrow> take (length p) s = p"

definition has_suffix :: "string \<Rightarrow> string \<Rightarrow> bool" where
  "has_suffix s p \<longleftrightarrow> has_prefix (rev s) (rev p)"

definition trim_prefix :: "string \<Rightarrow> string \<Rightarrow> string" where
  "trim_prefix s p = (if has_prefix s p then drop (length p) s else s)"

text \<open>\<open>strings.Split\<close> and \<open>strings.SplitN\<close> (for a positive count) on a one-byte separator.\<close>

fun split_char :: "char \<Rightarrow> string \<Rightarrow> string list" where
  "split_char c [] = [[]]"
| "split_char c (x # xs) =
     (if x = c then [] # split_char c xs
      else case split_char c xs of [] \<Rightarrow> [[x]] | w # ws \<Rightarrow> (x # w) # ws)"

fun splitn_char :: "nat \<Rightarrow> char \<Rightarrow> string \<Rightarrow> string list" where
  "splitn_char 0 c s = []"
| "splitn_char (Suc 0) c s = [s]"
| "splitn_char (Suc (Suc n)) c s =
     (case dropWhile (\<lambda>x. x \<noteq> c) s of
        [] \<Rightarrow> [s]
      | _ # rest \<Rightarrow> takeWhile (\<lambda>x. x \<noteq> c) s # splitn_char (Suc n) c rest)"

fun join_with :: "string \<Rightarrow> string list \<Rightarrow> string" where
  "join_with sep [] = []"
| "join_with sep [s] = s"
| "join_with sep (s # t # ss) = s @ sep @ join_with sep (t # ss)"

definition replace_char :: "char \<Rightarrow> char \<Rightarrow> string \<Rightarrow> string" where
  "replace_char a b s = map (\<lambda>x. if x = a then b else x) s"

section \<open>strconv and fmt\<close>

definition digit_char :: "nat \<Rightarrow> char" where
  "digit_char d = (if d < 10 then char_of (48 + d) else char_of (87 + d))"

text \<open>The value of a digit in base 10 or 16 (both cases), as \<open>ParseUint\<close> reads it.\<close>

definition digit_val :: "char \<Rightarrow> nat option" where
  "digit_val c =
     (if CHR ''0'' \<le> c \<and> c \<le> CHR ''9'' then Some (of_char c - 48)
      else if CHR ''a'' \<le> lower_char c \<and> lower_char c \<le> CHR ''z'' then Some (of_char (lower_char c) - 87)
      else None)"

datatype num_error = ErrSyntax | ErrRange

text \<open>
  The digit loop of \<open>ParseUint\<close>: left to right, stopping at the first character that is no
  digit of the base and at the first digit that takes the value past the 64-bit range.
\<close>

fun parse_digits :: "nat \<Rightarrow> nat \<Rightarrow> string \<Rightarrow> num_error + nat" where
  "parse_digits base acc [] = Inr acc"
| "parse_digits base acc (c # cs) =
     (case digit_val c of
        None \<Rightarrow> Inl ErrSyntax
      | Some d \<Rightarrow>
          if base \<le> d then Inl ErrSyntax
          else if 2 ^ 64 \<le> acc * base + d then Inl ErrRange
          else parse_digits base (acc * base + d) cs)"

text \<open>
  \<open>strconv.ParseUint(s, base, 64)\<close>: the value and the error.  A syntax error comes with the
  value 0, an overflow with the largest value.
\<close>

definition parse_uint64 :: "nat \<Rightarrow> string \<Rightarrow> uint64 \<times> num_error option" where
  "parse_uint64 base s =
     (if s = [] then (0, Some ErrSyntax)
      else case parse_digits base 0 s of
        Inl ErrSyntax \<Rightarrow> (0, Some ErrSyntax)
      | Inl ErrRange \<Rightarrow> (of_nat (2 ^ 64 - 1), Some ErrRange)
      | Inr n \<Rightarrow> (of_nat n, None))"

text \<open>
  \<open>strconv.Atoi\<close>: an optional sign and decimal digits; on overflow the nearest \<open>int\<close>.
\<close>

definition atoi :: "string \<Rightarrow> int \<times> num_error option" where
  "atoi s =
     (let neg = (take 1 s = ''-'');
          ds = (if take 1 s = ''-'' \<or> take 1 s = ''+'' then drop 1 s else s);
          range = (if neg then (- (2 ^ 63), Some ErrRange) else (2 ^ 63 - 1, Some ErrRange))
      in if ds = [] then (0, Some ErrSyntax)
         else case parse_digits 10 0 ds of
           Inl ErrSyntax \<Rightarrow> (0, Some ErrSyntax)
         | Inl ErrRange \<Rightarrow> range
         | Inr n \<Rightarrow>
             if neg then (if int n \<le> 2 ^ 63 then (- int n, None) else range)
             else (if int n < 2 ^ 63 then (int n, None) else range))"

text \<open>Decimal and hexadecimal output of \<open>fmt\<close>'s \<open>%d\<close> and \<open>%x\<close>.\<close>

fun show_base :: "nat \<Rightarrow> nat \<Rightarrow> string" where
  "show_base base n =
     (if n < base \<or> base < 2 then [digit_char n] else show_base base (n div base) @ [digit_char (n mod base)])"

declare show_base.simps [simp del]

definition show_nat :: "nat \<Rightarrow> string" where
  "show_nat n = show_base 10 n"

definition show_int :: "int \<Rightarrow> string" where
  "show_int i = (if i < 0 then ''-'' @ show_nat (nat (- i)) else show_nat (nat i))"

definition hex_byte :: "8 word \<Rightarrow> string" where
  "hex_byte b = [digit_char (unat b div 16), digit_char (unat b mod 16)]"

definition hex_string :: "8 word list \<Rightarrow> string" where
  "hex_string bs = concat (map hex_byte bs)"

text \<open>\<open>%q\<close>: a quoted ASCII string with Go's escapes.\<close>

definition quote_char :: "char \<Rightarrow> string" where
  "quote_char c =
     (if c = CHR 0x22 \<or> c = CHR 0x5C then [CHR 0x5C, c]
      else if c = CHR 0x07 then [CHR 0x5C, CHR ''a'']
      else if c = CHR 0x08 then [CHR 0x5C, CHR ''b'']
      else if c = CHR 0x0C then [CHR 0x5C, CHR ''f'']
      else if c = CHR 0x0A then [CHR 0x5C, CHR ''n'']
      else if c = CHR 0x0D then [CHR 0x5C, CHR ''r'']
      else if c = CHR 0x09 then [CHR 0x5C, CHR ''t'']
      else if c = CHR 0x0B then [CHR 0x5C, CHR ''v'']
      else if (of_char c :: nat) < 32 \<or> c = CHR 0x7F
      then [CHR 0x5C, CHR ''x'', digit_char (of_char c div 16), digit_char (of_char c mod 16)]
      else [c])"

definition go_quote :: "string \<Rightarrow> string" where
  "go_quote s = [CHR 0x22] @ concat (map quote_char s) @ [CHR 0x22]"

section \<open>errors\<close>

text \<open>\<open>time.Duration.String\<close>: hours, minutes and seconds, or one smaller unit, with the digits of a fraction.\<close>

definition fraction_digits :: "nat \<Rightarrow> nat \<Rightarrow> string" where
  "fraction_digits v prec =
     (let f = show_nat (v mod 10 ^ prec);
          ds = rev (dropWhile (\<lambda>c. c = CHR ''0'') (rev (replicate (prec - length f) (CHR ''0'') @ f)))
      in if ds = [] then [] else CHR ''.'' # ds)"

definition duration_string :: "int \<Rightarrow> string" where
  "duration_string d =
     (let u = nat \<bar>d\<bar>; secs = u div 10 ^ 9; mins = secs div 60; hours = mins div 60;
          body = (if u = 0 then ''0s''
            else if u < 10 ^ 3 then show_nat u @ ''ns''
            else if u < 10 ^ 6 then show_nat (u div 10 ^ 3) @ fraction_digits u 3 @ [CHR 0xC2, CHR 0xB5, CHR ''s'']
            else if u < 10 ^ 9 then show_nat (u div 10 ^ 6) @ fraction_digits u 6 @ ''ms''
            else (if hours > 0 then show_nat hours @ ''h'' else []) @
              (if mins > 0 then show_nat (mins mod 60) @ ''m'' else []) @
              show_nat (secs mod 60) @ fraction_digits u 9 @ ''s'')
      in if d < 0 then CHR ''-'' # body else body)"

text \<open>
  An \<open>error\<close> is its message, \<open>nil\<close> is \<open>None\<close>.  \<open>errors.Join\<close> drops the nil errors and separates
  the messages of the others by newlines.
\<close>

type_synonym go_error = "string option"

fun errors_join :: "go_error \<Rightarrow> go_error \<Rightarrow> go_error" where
  "errors_join None e = e"
| "errors_join (Some a) None = Some a"
| "errors_join (Some a) (Some b) = Some (a @ [CHR 0x0A] @ b)"

text \<open>A loop that returns the first error of its body.\<close>

fun first_error :: "('a \<Rightarrow> go_error) \<Rightarrow> 'a list \<Rightarrow> go_error" where
  "first_error f [] = None"
| "first_error f (x # xs) = (case f x of None \<Rightarrow> first_error f xs | Some e \<Rightarrow> Some e)"

lemma first_error_None: "first_error f xs = None \<longleftrightarrow> (\<forall>x \<in> set xs. f x = None)"
  by (induction xs) (auto split: option.splits)

lemma errors_join_None_iff [simp]: "errors_join a b = None \<longleftrightarrow> a = None \<and> b = None"
  by (cases a; cases b) auto

lemma errors_join_None2 [simp]: "errors_join a None = a"
  by (cases a) auto

section \<open>Facts about trimming\<close>

lemma trim_right_func_append: "\<exists>t. s = trim_right_func p s @ t"
proof -
  have "rev s = takeWhile p (rev s) @ dropWhile p (rev s)" by simp
  then have "s = rev (dropWhile p (rev s)) @ rev (takeWhile p (rev s))"
    by (metis rev_append rev_rev_ident)
  then show ?thesis unfolding trim_right_func_def by blast
qed

lemma set_trim_right_func: "set (trim_right_func p s) \<subseteq> set s"
  unfolding trim_right_func_def using set_dropWhileD by fastforce

lemma length_trim_right_func: "length (trim_right_func p s) \<le> length s"
  unfolding trim_right_func_def by (metis length_dropWhile_le length_rev)

lemma last_trim_right_func: "trim_right_func p s \<noteq> [] \<Longrightarrow> \<not> p (last (trim_right_func p s))"
  unfolding trim_right_func_def by (simp add: last_rev hd_dropWhile)

lemma hd_trim_right_func: "trim_right_func p s \<noteq> [] \<Longrightarrow> hd (trim_right_func p s) = hd s"
  using trim_right_func_append [of s p] by (metis hd_append2)

lemma set_trim_char: "set (trim_char c s) \<subseteq> set s"
proof
  fix x assume "x \<in> set (trim_char c s)"
  then have "x \<in> set (dropWhile (\<lambda>x. x = c) s)"
    unfolding trim_char_def trim_left_func_def using set_trim_right_func by blast
  then show "x \<in> set s" by (rule set_dropWhileD)
qed

lemma length_trim_char: "length (trim_char c s) \<le> length s"
  unfolding trim_char_def trim_left_func_def
  by (meson length_dropWhile_le length_trim_right_func order_trans)

lemma last_trim_char: "trim_char c s \<noteq> [] \<Longrightarrow> last (trim_char c s) \<noteq> c"
  unfolding trim_char_def using last_trim_right_func by blast

lemma hd_trim_char: "trim_char c s \<noteq> [] \<Longrightarrow> hd (trim_char c s) \<noteq> c"
proof -
  assume ne: "trim_char c s \<noteq> []"
  then have "hd (trim_char c s) = hd (dropWhile (\<lambda>x. x = c) s)"
    unfolding trim_char_def trim_left_func_def by (rule hd_trim_right_func)
  moreover from ne have "dropWhile (\<lambda>x. x = c) s \<noteq> []"
    unfolding trim_char_def trim_left_func_def trim_right_func_def by (intro notI) simp
  ultimately show ?thesis using hd_dropWhile [of "\<lambda>x. x = c" s] by simp
qed

lemma set_trim_right_char: "set (trim_right_char c s) \<subseteq> set s"
  unfolding trim_right_char_def by (rule set_trim_right_func)

lemma length_trim_right_char: "length (trim_right_char c s) \<le> length s"
  unfolding trim_right_char_def by (rule length_trim_right_func)

lemma last_trim_right_char: "trim_right_char c s \<noteq> [] \<Longrightarrow> last (trim_right_char c s) \<noteq> c"
  unfolding trim_right_char_def by (rule last_trim_right_func)

lemma hd_trim_right_char: "trim_right_char c s \<noteq> [] \<Longrightarrow> hd (trim_right_char c s) = hd s"
  unfolding trim_right_char_def by (rule hd_trim_right_func)

lemma trim_right_char_nonempty: "s \<noteq> [] \<Longrightarrow> hd s \<noteq> c \<Longrightarrow> trim_right_char c s \<noteq> []"
  unfolding trim_right_char_def trim_right_func_def
  by (cases s) (auto simp: dropWhile_append dropWhile_eq_Nil_conv)

lemma trim_char_id:
  "s \<noteq> [] \<Longrightarrow> hd s \<noteq> c \<Longrightarrow> last s \<noteq> c \<Longrightarrow> trim_char c s = s"
  unfolding trim_char_def trim_left_func_def trim_right_func_def
  by (cases s) (auto simp: dropWhile_eq_self_iff hd_append last_rev hd_rev)

section \<open>Facts about numbers\<close>

lemma digit_val_digit_char: "d < 16 \<Longrightarrow> digit_val (digit_char d) = Some d"
proof -
  assume "d < 16"
  then have "d \<in> set [0..<16]" by simp
  moreover have "\<forall>d \<in> set [0..<16]. digit_val (digit_char d) = Some d" by code_simp
  ultimately show ?thesis by blast
qed

lemma parse_digits_append:
  "parse_digits b acc (xs @ ys) =
     (case parse_digits b acc xs of Inl e \<Rightarrow> Inl e | Inr n \<Rightarrow> parse_digits b n ys)"
  by (induction xs arbitrary: acc) (auto split: option.splits)

lemma parse_show_base:
  assumes b: "2 \<le> b" "b \<le> 16" and "n < 2 ^ 64"
  shows "parse_digits b 0 (show_base b n) = Inr n"
  using assms(3)
proof (induction n rule: less_induct)
  case (less n)
  show ?case
  proof (cases "n < b")
    case True
    with b less.prems show ?thesis
      by (simp add: show_base.simps [of b n] digit_val_digit_char)
  next
    case False
    then have "parse_digits b 0 (show_base b (n div b)) = Inr (n div b)"
      using b less.prems by (intro less.IH) (auto intro: le_less_trans [OF div_le_dividend])
    moreover have pos: "0 < b" using b by simp
    moreover from mod_less_divisor [OF pos, of n] b have "digit_val (digit_char (n mod b)) = Some (n mod b)"
      by (intro digit_val_digit_char) linarith
    ultimately show ?thesis using False b less.prems
      by (simp add: show_base.simps [of b n] parse_digits_append not_le)
  qed
qed

lemma show_base_nonempty [simp]: "show_base b n \<noteq> []"
  by (subst show_base.simps) simp

lemma show_nat_nonempty [simp]: "show_nat n \<noteq> []"
  by (simp add: show_nat_def)

text \<open>Printing and reading back an unsigned number.\<close>

lemma parse_uint64_show_nat: "n < 2 ^ 64 \<Longrightarrow> parse_uint64 10 (show_nat n) = (of_nat n, None)"
  by (simp add: parse_uint64_def show_nat_def parse_show_base)

lemma length_hex_string: "length (hex_string bs) = 2 * length bs"
  unfolding hex_string_def by (induction bs) (auto simp: hex_byte_def)

end
