(* ===== verification/Go_Json.thy ===== *)
theory Go_Json
  imports Go_Strings
begin

text \<open>
  The part of \<open>encoding/json\<close> the driver's digests are computed over: strings with Go's
  escapes, unsigned numbers, objects in declaration order with \<open>omitempty\<close>, and arrays.  Strings
  are ASCII: Go passes those through apart from the escapes below.
\<close>

definition json_unicode :: "char \<Rightarrow> string" where
  "json_unicode c = [CHR 0x5C] @ ''u00'' @ [digit_char (of_char c div 16), digit_char (of_char c mod 16)]"

definition json_char :: "char \<Rightarrow> string" where
  "json_char c =
     (if c = CHR 0x22 then [CHR 0x5C, CHR 0x22]
      else if c = CHR 0x5C then [CHR 0x5C, CHR 0x5C]
      else if c = CHR 0x08 then [CHR 0x5C, CHR ''b'']
      else if c = CHR 0x0C then [CHR 0x5C, CHR ''f'']
      else if c = CHR 0x0A then [CHR 0x5C, CHR ''n'']
      else if c = CHR 0x0D then [CHR 0x5C, CHR ''r'']
      else if c = CHR 0x09 then [CHR 0x5C, CHR ''t'']
      else if (of_char c :: nat) < 32 \<or> c = CHR ''<'' \<or> c = CHR ''>'' \<or> c = CHR ''&'' then json_unicode c
      else [c])"

definition json_string :: "string \<Rightarrow> string" where
  "json_string s = [CHR 0x22] @ concat (map json_char s) @ [CHR 0x22]"

definition json_array :: "string list \<Rightarrow> string" where
  "json_array items = ''['' @ join_with '','' items @ '']''"

text \<open>An object is given by its fields in order, \<open>None\<close> for one that \<open>omitempty\<close> drops.\<close>

definition json_object :: "(string \<times> string option) list \<Rightarrow> string" where
  "json_object fields =
     ''{'' @ join_with '',''
       (concat (map (\<lambda>(k, v). case v of None \<Rightarrow> [] | Some j \<Rightarrow> [json_string k @ '':'' @ j]) fields)) @ ''}''"

definition omit_string :: "string \<Rightarrow> string option" where
  "omit_string s = (if s = [] then None else Some (json_string s))"

end
