(* ===== verification/Sha256.thy ===== *)
theory Sha256
  imports Go_Strings
begin

text \<open>
  Go's \<open>crypto/sha256\<close>, as FIPS 180-4 defines it, on byte lists: the driver derives child
  names, device names and topology generations from it.  The theorems of the development use
  only that a digest has 32 bytes; the definition is complete so that the names the model
  computes are the names the code computes.
\<close>

unbundle bit_operations_syntax

text \<open>The round constants, in decimal.\<close>

definition sha_k :: "32 word list" where
  "sha_k =
    [1116352408, 1899447441, 3049323471, 3921009573, 961987163, 1508970993, 2453635748, 2870763221,
     3624381080, 310598401, 607225278, 1426881987, 1925078388, 2162078206, 2614888103, 3248222580,
     3835390401, 4022224774, 264347078, 604807628, 770255983, 1249150122, 1555081692, 1996064986,
     2554220882, 2821834349, 2952996808, 3210313671, 3336571891, 3584528711, 113926993, 338241895,
     666307205, 773529912, 1294757372, 1396182291, 1695183700, 1986661051, 2177026350, 2456956037,
     2730485921, 2820302411, 3259730800, 3345764771, 3516065817, 3600352804, 4094571909, 275423344,
     430227734, 506948616, 659060556, 883997877, 958139571, 1322822218, 1537002063, 1747873779,
     1955562222, 2024104815, 2227730452, 2361852424, 2428436474, 2756734187, 3204031479, 3329325298]"

datatype sha_state = ShaState "32 word" "32 word" "32 word" "32 word" "32 word" "32 word" "32 word" "32 word"

definition sha_init :: sha_state where
  "sha_init = ShaState 1779033703 3144134277 1013904242 2773480762 1359893119 2600822924 528734635 1541459225"

definition rotr32 :: "nat \<Rightarrow> 32 word \<Rightarrow> 32 word" where
  "rotr32 n x = drop_bit n x OR push_bit (32 - n) x"

definition be32 :: "8 word list \<Rightarrow> 32 word" where
  "be32 bs = foldl (\<lambda>acc b. push_bit 8 acc OR ucast b) 0 bs"

definition bytes_of32 :: "32 word \<Rightarrow> 8 word list" where
  "bytes_of32 w = [ucast (drop_bit 24 w), ucast (drop_bit 16 w), ucast (drop_bit 8 w), ucast w]"

fun chunks :: "nat \<Rightarrow> nat \<Rightarrow> 'a list \<Rightarrow> 'a list list" where
  "chunks 0 n xs = []"
| "chunks (Suc k) n xs = take n xs # chunks k n (drop n xs)"

text \<open>The message schedule, newest word first, so that the recurrence reads fixed positions.\<close>

fun sha_extend :: "nat \<Rightarrow> 32 word list \<Rightarrow> 32 word list" where
  "sha_extend 0 ws = ws"
| "sha_extend (Suc k) ws =
     (let w2 = ws ! 1; w15 = ws ! 14;
          s0 = rotr32 7 w15 XOR rotr32 18 w15 XOR drop_bit 3 w15;
          s1 = rotr32 17 w2 XOR rotr32 19 w2 XOR drop_bit 10 w2
      in sha_extend k ((ws ! 15 + s0 + ws ! 6 + s1) # ws))"

definition sha_schedule :: "8 word list \<Rightarrow> 32 word list" where
  "sha_schedule block = rev (sha_extend 48 (rev (map be32 (chunks 16 4 block))))"

fun sha_round :: "sha_state \<Rightarrow> 32 word \<times> 32 word \<Rightarrow> sha_state" where
  "sha_round (ShaState a b c d e f g h) (k, w) =
     (let s1 = rotr32 6 e XOR rotr32 11 e XOR rotr32 25 e;
          ch = (e AND f) XOR (NOT e AND g);
          t1 = h + s1 + ch + k + w;
          s0 = rotr32 2 a XOR rotr32 13 a XOR rotr32 22 a;
          maj = (a AND b) XOR (a AND c) XOR (b AND c);
          t2 = s0 + maj
      in ShaState (t1 + t2) a b c (d + t1) e f g)"

fun sha_add :: "sha_state \<Rightarrow> sha_state \<Rightarrow> sha_state" where
  "sha_add (ShaState a b c d e f g h) (ShaState a' b' c' d' e' f' g' h') =
     ShaState (a + a') (b + b') (c + c') (d + d') (e + e') (f + f') (g + g') (h + h')"

definition sha_block :: "sha_state \<Rightarrow> 8 word list \<Rightarrow> sha_state" where
  "sha_block st block = sha_add st (foldl sha_round st (zip sha_k (sha_schedule block)))"

definition sha_pad :: "8 word list \<Rightarrow> 8 word list" where
  "sha_pad msg =
     (let n = length msg; z = (119 - n mod 64) mod 64; bits = (of_nat (8 * n) :: 64 word)
      in msg @ [0x80] @ replicate z 0
         @ bytes_of32 (ucast (drop_bit 32 bits)) @ bytes_of32 (ucast bits))"

fun sha_bytes :: "sha_state \<Rightarrow> 8 word list" where
  "sha_bytes (ShaState a b c d e f g h) = concat (map bytes_of32 [a, b, c, d, e, f, g, h])"

definition sha256_bytes :: "8 word list \<Rightarrow> 8 word list" where
  "sha256_bytes msg =
     (let padded = sha_pad msg
      in sha_bytes (foldl sha_block sha_init (chunks (length padded div 64) 64 padded)))"

definition string_bytes :: "string \<Rightarrow> 8 word list" where
  "string_bytes s = map (\<lambda>c. of_nat (of_char c)) s"

text \<open>\<open>sha256.Sum256([]byte(s))\<close>.\<close>

definition sum256 :: "string \<Rightarrow> 8 word list" where
  "sum256 s = sha256_bytes (string_bytes s)"

lemma length_sum256 [simp]: "length (sum256 s) = 32"
proof -
  have "length (sha_bytes st) = 32" for st by (cases st) (simp add: bytes_of32_def)
  then show ?thesis by (simp add: sum256_def sha256_bytes_def Let_def)
qed

lemma length_hex_digest: "n \<le> 32 \<Longrightarrow> length (hex_string (take n (sum256 s))) = 2 * n"
  by (simp add: length_hex_string)

end
