(* ===== verification/Topology.thy ===== *)
theory Topology
  imports Api_Types Go_Json Sha256
begin

text \<open>
  \<open>src/internal/topology/topology.go\<close>: \<open>BuildFabric\<close>, which merges the observations of the
  nodes into one validated graph, and \<open>WorkloadGeneration\<close>, the digest by which the controller
  detects that the part of the graph a workload runs on has changed.  The three local variables
  of the loop over the nodes are the record \<open>fabric_acc\<close>.
\<close>

section \<open>Digests of endpoints\<close>

definition json_link :: "TopologyLink \<Rightarrow> string" where
  "json_link l = json_object
     [(''name'', Some (json_string (tl_Name l))), (''state'', omit_string (tl_State l)),
      (''speedGbps'', if tl_SpeedGbps l = 0 then None else Some (show_nat (unat (tl_SpeedGbps l)))),
      (''remoteEndpointID'', omit_string (tl_RemoteEndpointID l))]"

definition json_endpoint :: "FabricEndpoint \<Rightarrow> string" where
  "json_endpoint e = json_object
     [(''nodeName'', Some (json_string (fe_NodeName e))), (''pool'', Some (json_string (fe_Pool e))),
      (''deviceName'', Some (json_string (fe_DeviceName e))),
      (''stableID'', Some (json_string (fe_StableID e))),
      (''chipSeries'', Some (json_string (fe_ChipSeries e))),
      (''fabricID'', Some (json_string (fe_FabricID e))), (''ringID'', Some (json_string (fe_RingID e))),
      (''endpointID'', Some (json_string (fe_EndpointID e))),
      (''links'', if fe_Links e = [] then None else Some (json_array (map json_link (fe_Links e))))]"

definition endpoints_digest :: "FabricEndpoint list \<Rightarrow> string" where
  "endpoints_digest eps = hex_string (take 8 (sum256 (json_array (map json_endpoint eps))))"

section \<open>BuildFabric\<close>

definition MaxNodes :: nat where "MaxNodes = 256"
definition Topology_MaxEndpoints :: nat where "Topology_MaxEndpoints = 2048"
definition MaxFabrics :: nat where "MaxFabrics = 256"

record fabric_acc =
  fa_seen :: "string set"
  fa_fabrics :: "string set"
  fa_overflow :: bool
  fa_Endpoints :: "FabricEndpoint list"
  fa_Errors :: "string list"

definition fabric_endpoint :: "string \<Rightarrow> TopologyDevice \<Rightarrow> FabricEndpoint" where
  "fabric_endpoint nodeName item =
     \<lparr>fe_NodeName = nodeName, fe_Pool = td_Pool item, fe_DeviceName = td_Name item,
      fe_StableID = td_StableID item, fe_ChipSeries = td_ChipSeries item, fe_FabricID = td_FabricID item,
      fe_RingID = td_RingID item, fe_EndpointID = td_EndpointID item, fe_Links = td_Links item\<rparr>"

definition add_error :: "string \<Rightarrow> fabric_acc \<Rightarrow> fabric_acc" where
  "add_error e acc = acc\<lparr>fa_Errors := fa_Errors acc @ [e]\<rparr>"

text \<open>The body of the loop over the devices of a node.\<close>

definition add_device :: "string \<Rightarrow> TopologyDevice \<Rightarrow> fabric_acc \<Rightarrow> fabric_acc" where
  "add_device nodeName item acc =
     (if td_EndpointID item = [] then acc
      else
        let acc = (if td_FabricID item = [] \<or> td_RingID item = []
                   then add_error (''endpoint '' @ td_EndpointID item @ '' has incomplete fabric identity'') acc
                   else acc)
        in if td_EndpointID item \<in> fa_seen acc
           then add_error (''duplicate endpoint '' @ td_EndpointID item) acc
           else if length (fa_Endpoints acc) = Topology_MaxEndpoints
           then (if \<not> fa_overflow acc
                 then (add_error (''endpoint count exceeds maximum '' @ show_nat Topology_MaxEndpoints) acc)
                        \<lparr>fa_overflow := True\<rparr>
                 else acc)
           else acc\<lparr>fa_seen := insert (td_EndpointID item) (fa_seen acc),
                    fa_fabrics := insert (td_FabricID item) (fa_fabrics acc),
                    fa_Endpoints := fa_Endpoints acc @ [fabric_endpoint nodeName item]\<rparr>)"

definition stale :: "duration \<Rightarrow> go_time \<Rightarrow> NodeTopologySpec \<Rightarrow> bool" where
  "stale ttl now node \<longleftrightarrow> ttl > 0 \<and> time_sub now (nt_ObservedAt node) > ttl"

text \<open>The body of the loop over the nodes.\<close>

definition add_node :: "duration \<Rightarrow> go_time \<Rightarrow> NodeTopologySpec \<Rightarrow> fabric_acc \<Rightarrow> fabric_acc" where
  "add_node ttl now node acc =
     (if stale ttl now node
      then add_error (''node '' @ nt_NodeName node @ '' topology is stale'') acc
      else fold (add_device (nt_NodeName node)) (nt_Devices node) acc)"

definition links_back :: "FabricEndpoint \<Rightarrow> FabricEndpoint \<Rightarrow> bool" where
  "links_back peer item \<longleftrightarrow>
     list_ex (\<lambda>back. tl_State back = ''up'' \<and> tl_RemoteEndpointID back = fe_EndpointID item) (fe_Links peer)"

text \<open>The errors one link of an endpoint gives, at most one.\<close>

definition link_errors :: "(string, FabricEndpoint) gomap \<Rightarrow> FabricEndpoint \<Rightarrow> TopologyLink \<Rightarrow> string list" where
  "link_errors byID item link =
     (if tl_State link \<noteq> ''up'' \<or> tl_RemoteEndpointID link = [] then []
      else case gm_get byID (tl_RemoteEndpointID link) of
        None \<Rightarrow> [''endpoint '' @ fe_EndpointID item @ '' references missing peer '' @ tl_RemoteEndpointID link]
      | Some peer \<Rightarrow>
          if fe_FabricID peer \<noteq> fe_FabricID item \<or> fe_RingID peer \<noteq> fe_RingID item
          then [''endpoint '' @ fe_EndpointID item @ '' crosses fabric or ring'']
          else if \<not> links_back peer item
          then [''link '' @ fe_EndpointID item @ '' to '' @ fe_EndpointID peer @ '' is not reciprocal'']
          else [])"

definition BuildFabric :: "NodeTopologySpec list \<Rightarrow> duration \<Rightarrow> go_time \<Rightarrow> FabricTopologyStatus" where
  "BuildFabric nodes ttl now =
     (let acc = \<lparr>fa_seen = {}, fa_fabrics = {}, fa_overflow = False, fa_Endpoints = [], fa_Errors = []\<rparr>;
          acc = (if length nodes > MaxNodes
                 then add_error (''node count '' @ show_nat (length nodes) @ '' exceeds maximum '' @ show_nat MaxNodes) acc
                 else acc);
          nodes = (if length nodes > MaxNodes then take MaxNodes nodes else nodes);
          acc = fold (add_node ttl now) nodes acc;
          acc = (if card (fa_fabrics acc) > MaxFabrics
                 then add_error (''fabric count '' @ show_nat (card (fa_fabrics acc)) @ '' exceeds maximum ''
                        @ show_nat MaxFabrics) acc
                 else acc);
          endpoints = sort_key fe_EndpointID (fa_Endpoints acc);
          byID = index_by fe_EndpointID endpoints;
          errors = fa_Errors acc @
            concat (map (\<lambda>item. concat (map (link_errors byID item) (fe_Links item))) endpoints);
          valid = (length errors = 0)
      in \<lparr>fs_Generation = endpoints_digest endpoints, fs_ObservedAt = now, fs_Valid = valid,
          fs_Endpoints = endpoints, fs_Errors = errors,
          fs_Conditions =
            [\<lparr>cd_Type = ''Ready'', cd_Status = valid, cd_Reason = (if valid then ''Valid'' else ''Invalid''),
              cd_Message = (if valid then ''fabric graph is valid'' else errors ! 0),
              cd_ObservedGeneration = 0, cd_LastTransitionTime = now\<rparr>]\<rparr>)"

section \<open>WorkloadGeneration\<close>

definition generation_domain ::
    "FabricTopologyStatus \<Rightarrow> WorkloadTopology \<Rightarrow> RankAssignment list \<Rightarrow> string \<times> string" where
  "generation_domain status requested assignments =
     (let selected = (\<Union>a \<in> set assignments. ad_EndpointID ` set (ra_Devices a))
      in if wt_FabricID requested = [] \<and> wt_RingID requested = [] \<and> selected \<noteq> {}
         then case find (\<lambda>e. fe_EndpointID e \<in> selected) (fs_Endpoints status) of
                None \<Rightarrow> ([], [])
              | Some e \<Rightarrow> (fe_FabricID e, fe_RingID e)
         else (wt_FabricID requested, wt_RingID requested))"

definition relevant :: "string \<times> string \<Rightarrow> FabricEndpoint \<Rightarrow> bool" where
  "relevant d e \<longleftrightarrow>
     \<not> ((fst d \<noteq> [] \<and> fe_FabricID e \<noteq> fst d) \<or> (snd d \<noteq> [] \<and> fe_RingID e \<noteq> snd d))"

definition WorkloadGeneration ::
    "FabricTopologyStatus \<Rightarrow> WorkloadTopology \<Rightarrow> RankAssignment list \<Rightarrow> string" where
  "WorkloadGeneration status requested assignments =
     endpoints_digest (filter (relevant (generation_domain status requested assignments)) (fs_Endpoints status))"

end
