(* ===== verification/Device_Class.thy ===== *)
theory Device_Class
  imports Prelude
begin

text \<open>
  The DeviceClass names of \<open>src/internal/dra/deviceclass.go\<close> and the two predicates on them,
  used by placement to filter endpoints and by the controller to validate ranks.
\<close>

definition GenericDeviceClassName :: string where
  "GenericDeviceClassName = ''tenstorrent''"

definition WormholeDeviceClassName :: string where
  "WormholeDeviceClassName = GenericDeviceClassName @ ''-wormhole''"

definition BlackholeDeviceClassName :: string where
  "BlackholeDeviceClassName = GenericDeviceClassName @ ''-blackhole''"

lemmas class_names = GenericDeviceClassName_def WormholeDeviceClassName_def BlackholeDeviceClassName_def

definition MatchesDeviceClass :: "string \<Rightarrow> string \<Rightarrow> bool" where
  "MatchesDeviceClass name chipSeries =
     (if name = GenericDeviceClassName then chipSeries = ''wormhole'' \<or> chipSeries = ''blackhole''
      else if name = WormholeDeviceClassName then chipSeries = ''wormhole''
      else if name = BlackholeDeviceClassName then chipSeries = ''blackhole''
      else False)"

definition SupportedDeviceClass :: "string \<Rightarrow> bool" where
  "SupportedDeviceClass name \<longleftrightarrow>
     name = GenericDeviceClassName \<or> name = WormholeDeviceClassName \<or> name = BlackholeDeviceClassName"

lemma MatchesDeviceClass_supported: "MatchesDeviceClass n c \<Longrightarrow> SupportedDeviceClass n"
  by (auto simp: MatchesDeviceClass_def SupportedDeviceClass_def split: if_splits)

lemma MatchesDeviceClass_chip: "MatchesDeviceClass n c \<Longrightarrow> c = ''wormhole'' \<or> c = ''blackhole''"
  by (auto simp: MatchesDeviceClass_def split: if_splits)

text \<open>A class is supported exactly when some chip series satisfies it.\<close>

lemma SupportedDeviceClass_iff: "SupportedDeviceClass n \<longleftrightarrow> (\<exists>c. MatchesDeviceClass n c)"
proof
  assume "SupportedDeviceClass n"
  then consider "n = GenericDeviceClassName" | "n = WormholeDeviceClassName"
    | "n = BlackholeDeviceClassName"
    unfolding SupportedDeviceClass_def by blast
  then show "\<exists>c. MatchesDeviceClass n c"
  proof cases
    case 3
    moreover have "BlackholeDeviceClassName \<noteq> WormholeDeviceClassName"
      by (simp add: class_names)
    ultimately have "MatchesDeviceClass n ''blackhole''" by (simp add: MatchesDeviceClass_def)
    then show ?thesis by blast
  qed (auto simp: MatchesDeviceClass_def)
next
  assume "\<exists>c. MatchesDeviceClass n c"
  then show "SupportedDeviceClass n" by (blast dest: MatchesDeviceClass_supported)
qed

end
