(* ===== verification/Dns_Labels.thy ===== *)
theory Dns_Labels
  imports Sha256
begin

text \<open>
  The names the driver gives to Kubernetes objects: the character-wise sanitizing loop that child
  names (\<open>placement.go\<close>) and device names (\<open>normalize.go\<close>) share, what a DNS label is, and that a
  sanitized prefix, cut to length, with a digest appended is one.
\<close>

definition sanitize_char :: "char \<Rightarrow> char" where
  "sanitize_char c =
     (if (CHR ''a'' \<le> c \<and> c \<le> CHR ''z'') \<or> (CHR ''0'' \<le> c \<and> c \<le> CHR ''9'') \<or> c = CHR ''-''
      then c else CHR ''-'')"

definition label_char :: "char \<Rightarrow> bool" where
  "label_char c \<longleftrightarrow> (CHR ''a'' \<le> c \<and> c \<le> CHR ''z'') \<or> (CHR ''0'' \<le> c \<and> c \<le> CHR ''9'') \<or> c = CHR ''-''"

definition dns_label :: "string \<Rightarrow> bool" where
  "dns_label s \<longleftrightarrow> s \<noteq> [] \<and> length s \<le> 63 \<and> list_all label_char s \<and>
     hd s \<noteq> CHR ''-'' \<and> last s \<noteq> CHR ''-''"

lemma label_char_digit: "d < 16 \<Longrightarrow> label_char (digit_char d) \<and> digit_char d \<noteq> CHR ''-''"
proof -
  assume "d < 16"
  then have "d \<in> set [0..<16]" by simp
  moreover have "\<forall>d \<in> set [0..<16]. label_char (digit_char d) \<and> digit_char d \<noteq> CHR ''-''" by code_simp
  ultimately show ?thesis by blast
qed

lemma hex_byte_label: "list_all label_char (hex_byte b) \<and> hex_byte b \<noteq> [] \<and> last (hex_byte b) \<noteq> CHR ''-''"
proof -
  have "unat b < 256" using unsigned_less [of b, where 'a = nat] by simp
  then have "unat b div 16 < 16" "unat b mod 16 < 16" by auto
  then show ?thesis using label_char_digit by (simp add: hex_byte_def)
qed

lemma hex_string_label: "list_all label_char (hex_string bs)"
  using hex_byte_label by (induction bs) (auto simp: hex_string_def)

lemma hex_string_last: "bs \<noteq> [] \<Longrightarrow> hex_string bs \<noteq> [] \<and> last (hex_string bs) \<noteq> CHR ''-''"
proof (induction bs rule: rev_induct)
  case (snoc b bs)
  then show ?case using hex_byte_label [of b] by (simp add: hex_string_def)
qed simp

lemma sanitize_label: "label_char (sanitize_char c)"
  by (auto simp: sanitize_char_def label_char_def)

text \<open>A prefix that is safe to use in front of a digest.\<close>

definition label_prefix :: "nat \<Rightarrow> string \<Rightarrow> bool" where
  "label_prefix n s \<longleftrightarrow> s \<noteq> [] \<and> length s \<le> n \<and> list_all label_char s \<and> hd s \<noteq> CHR ''-''"

lemma label_prefix_cut:
  assumes "label_prefix m s" and "0 < n"
  shows "label_prefix n (if length s > n then trim_right_char CHR ''-'' (take n s) else s)"
proof (cases "length s > n")
  case True
  let ?t = "trim_right_char CHR ''-'' (take n s)"
  have "take n s \<noteq> []" "hd (take n s) \<noteq> CHR ''-''"
    using assms by (auto simp: label_prefix_def)
  then have ne: "?t \<noteq> []" by (rule trim_right_char_nonempty)
  moreover have "set ?t \<subseteq> set s"
    using set_trim_right_char [of "CHR ''-''" "take n s"] set_take_subset [of n s] by blast
  then have "list_all label_char ?t" using assms by (auto simp: label_prefix_def list_all_iff)
  moreover have "length ?t \<le> n" using length_trim_right_char [of "CHR ''-''" "take n s"] by simp
  moreover have "hd ?t \<noteq> CHR ''-''" using hd_trim_right_char [OF ne] assms by (simp add: label_prefix_def)
  ultimately show ?thesis using True by (simp add: label_prefix_def)
qed (use assms in \<open>simp add: label_prefix_def\<close>)

lemma label_prefix_sanitized:
  fixes base :: string
  defines "p \<equiv> trim_char CHR ''-'' (map sanitize_char base)"
  assumes "label_prefix n dflt"
  shows "label_prefix (max n (length base)) (if p = [] then dflt else p)"
proof (cases "p = []")
  case True
  then show ?thesis using assms(2) by (auto simp: label_prefix_def)
next
  case False
  have "set p \<subseteq> sanitize_char ` set base"
    using set_trim_char [of "CHR ''-''" "map sanitize_char base"] by (simp add: p_def)
  then have "list_all label_char p" using sanitize_label by (auto simp: list_all_iff)
  moreover have "length p \<le> length base"
    using length_trim_char [of "CHR ''-''" "map sanitize_char base"] by (simp add: p_def)
  moreover have "hd p \<noteq> CHR ''-''" using False hd_trim_char unfolding p_def by blast
  ultimately show ?thesis using False by (simp add: label_prefix_def)
qed

text \<open>A prefix, a dash and a digest of six bytes make a label.\<close>

lemma label_prefix_digest:
  assumes "label_prefix 50 p"
  shows "dns_label (p @ ''-'' @ hex_string (take 6 (sum256 s)))"
proof -
  have "take 6 (sum256 s) \<noteq> []" by (metis length_sum256 list.size(3) take_eq_Nil zero_neq_numeral)
  note h = hex_string_last [OF this] hex_string_label [of "take 6 (sum256 s)"]
  have "length (hex_string (take 6 (sum256 s))) = 12" using length_hex_digest [of 6 s] by simp
  then show ?thesis using h assms by (simp add: dns_label_def label_prefix_def label_char_def)
qed

end
