(* ===== verification/Placement.thy ===== *)
theory Placement
  imports Api_Types Device_Class Dns_Labels
begin

text \<open>
  \<open>src/internal/placement/placement.go\<close>: the deterministic backtracking search for a
  connected device assignment, and the names of the child objects.

  The search is translated as the code has it: \<open>chooseRank\<close> picks a node and a combination of
  devices for one rank and recurses, \<open>choose_from\<close> enumerates combinations, and the mutable
  variables of the closure (\<open>selected\<close>, \<open>assignments\<close>) are a state record passed along.
  The context's deadline is part of that state: the code polls \<open>ctx.Err()\<close>, and since a
  context that has expired stays expired, the answers to the polls are some number of \<open>nil\<close>s
  followed by errors only.

  Where the code ranges over a map (\<open>connected\<close>), the visiting order is an argument \<open>rng\<close> of
  the definitions, any function that permutes its list.
\<close>

section \<open>Contexts\<close>

text \<open>\<open>None\<close> never expires; \<open>Some n\<close> expires after \<open>n\<close> more polls.\<close>

type_synonym ctx = "nat option"

fun ctx_poll :: "ctx \<Rightarrow> bool \<times> ctx" where
  "ctx_poll None = (False, None)"
| "ctx_poll (Some 0) = (True, Some 0)"
| "ctx_poll (Some (Suc n)) = (False, Some n)"

section \<open>Data\<close>

record DeviceID =
  id_Pool :: string
  id_Name :: string

type_synonym Reservations = "DeviceID set"

record Limits =
  MaxRanks :: int
  MaxEndpoints :: int
  MaxDevices :: int64

definition DefaultLimits :: Limits where
  "DefaultLimits = \<lparr>MaxRanks = 64, MaxEndpoints = 2048, MaxDevices = 128\<rparr>"

definition res_Add :: "Reservations \<Rightarrow> string \<Rightarrow> string \<Rightarrow> Reservations" where
  "res_Add r pool name = insert \<lparr>id_Pool = pool, id_Name = name\<rparr> r"

definition res_AddAssignment :: "Reservations \<Rightarrow> RankAssignment \<Rightarrow> Reservations" where
  "res_AddAssignment r a = fold (\<lambda>item r. res_Add r (ad_Pool item) (ad_Name item)) (ra_Devices a) r"

definition res_AddAssignments :: "Reservations \<Rightarrow> RankAssignment list \<Rightarrow> Reservations" where
  "res_AddAssignments r as = fold (\<lambda>a r. res_AddAssignment r a) as r"

record solve_state =
  st_ctx :: ctx
  st_selected :: Reservations
  st_assignments :: "RankAssignment list"

definition poll :: "solve_state \<Rightarrow> bool \<times> solve_state" where
  "poll st = (let (e, c) = ctx_poll (st_ctx st) in (e, st\<lparr>st_ctx := c\<rparr>))"

section \<open>Candidates\<close>

definition device_id :: "FabricEndpoint \<Rightarrow> DeviceID" where
  "device_id item = \<lparr>id_Pool = fe_Pool item, id_Name = fe_DeviceName item\<rparr>"

definition rank_matches :: "WorkloadRank \<Rightarrow> FabricEndpoint \<Rightarrow> bool" where
  "rank_matches rank item \<longleftrightarrow>
     \<not> (wr_ChipSeries rank \<noteq> [] \<and> fe_ChipSeries item \<noteq> wr_ChipSeries rank) \<and>
     MatchesDeviceClass (wr_DeviceClassName rank) (fe_ChipSeries item)"

definition matchesTopology :: "WorkloadTopology \<Rightarrow> FabricEndpoint \<Rightarrow> bool" where
  "matchesTopology topo item \<longleftrightarrow>
     \<not> (wt_FabricID topo \<noteq> [] \<and> fe_FabricID item \<noteq> wt_FabricID topo) \<and>
     (wt_RingID topo = [] \<or> fe_RingID item = wt_RingID topo)"

definition candidate_ok ::
    "Workload \<Rightarrow> WorkloadRank \<Rightarrow> Reservations \<Rightarrow> Reservations \<Rightarrow> FabricEndpoint \<Rightarrow> bool" where
  "candidate_ok wl rank reserved selected item \<longleftrightarrow>
     device_id item \<notin> reserved \<and> device_id item \<notin> selected \<and>
     rank_matches rank item \<and> matchesTopology (wl_Topology wl) item"

definition candidatesByNode ::
    "Workload \<Rightarrow> WorkloadRank \<Rightarrow> FabricEndpoint list \<Rightarrow> Reservations \<Rightarrow> Reservations
     \<Rightarrow> (string, FabricEndpoint list) gomap" where
  "candidatesByNode wl rank endpoints reserved selected =
     fold (\<lambda>item m.
        if candidate_ok wl rank reserved selected item
        then gm_put (fe_NodeName item)
               ((case gm_get m (fe_NodeName item) of None \<Rightarrow> [] | Some xs \<Rightarrow> xs) @ [item]) m
        else m) endpoints []"

definition sortedNodeNames :: "(string, FabricEndpoint list) gomap \<Rightarrow> string list" where
  "sortedNodeNames devices = sort (gm_keys devices)"

section \<open>Combinations\<close>

text \<open>
  \<open>chooseCombinations\<close>: the recursive closure (\<open>choose\<close> in the code, \<open>choose_from\<close> here) and its loop over the remaining items.
  \<open>items\<close> is the suffix that starts at the index \<open>start\<close> of the code.
\<close>

function choose_from ::
    "('a list \<Rightarrow> solve_state \<Rightarrow> bool \<times> solve_state) \<Rightarrow> nat \<Rightarrow> 'a list \<Rightarrow> 'a list
     \<Rightarrow> solve_state \<Rightarrow> bool \<times> solve_state"
  and choose_loop ::
    "('a list \<Rightarrow> solve_state \<Rightarrow> bool \<times> solve_state) \<Rightarrow> nat \<Rightarrow> 'a list \<Rightarrow> 'a list
     \<Rightarrow> solve_state \<Rightarrow> bool \<times> solve_state" where
  "choose_from visit cnt items picked st =
     (case poll st of (expired, st) \<Rightarrow>
        if expired then (False, st)
        else if length picked = cnt then visit picked st
        else choose_loop visit cnt items picked st)"
| "choose_loop visit cnt [] picked st = (False, st)"
| "choose_loop visit cnt (x # xs) picked st =
     (if cnt - length picked \<le> length (x # xs)
      then case choose_from visit cnt xs (picked @ [x]) st of
             (True, st) \<Rightarrow> (True, st)
           | (False, st) \<Rightarrow> choose_loop visit cnt xs picked st
      else (False, st))"
  by pat_completeness auto
termination
  by (relation "measure (\<lambda>x. case x of
        Inl (_, _, items, _, _) \<Rightarrow> 2 * length items + 1
      | Inr (_, _, items, _, _) \<Rightarrow> 2 * length items)") auto

definition chooseCombinations ::
    "'a list \<Rightarrow> nat \<Rightarrow> ('a list \<Rightarrow> solve_state \<Rightarrow> bool \<times> solve_state)
     \<Rightarrow> solve_state \<Rightarrow> bool \<times> solve_state" where
  "chooseCombinations items cnt visit st = choose_from visit cnt items [] st"

section \<open>Names and assignments\<close>

definition ChildName :: "string \<Rightarrow> string \<Rightarrow> string \<Rightarrow> string" where
  "ChildName workloadName workloadUID rankName =
     (let base = to_lower (workloadName @ ''-'' @ rankName);
          clean = map sanitize_char base;
          prefix = trim_char CHR ''-'' clean;
          prefix = (if prefix = [] then ''tt'' else prefix);
          prefix = (if length prefix > 50 then trim_right_char CHR ''-'' (take 50 prefix) else prefix);
          digest = sum256 (workloadUID @ [CHR 0x00] @ rankName)
      in prefix @ ''-'' @ hex_string (take 6 digest))"

definition assigned_device :: "FabricEndpoint \<Rightarrow> AssignedDevice" where
  "assigned_device item =
     \<lparr>ad_Pool = fe_Pool item, ad_Name = fe_DeviceName item,
      ad_StableID = fe_StableID item, ad_EndpointID = fe_EndpointID item\<rparr>"

definition makeAssignment ::
    "Workload \<Rightarrow> string \<Rightarrow> string \<Rightarrow> FabricEndpoint list \<Rightarrow> RankAssignment" where
  "makeAssignment wl rankName nodeName devices =
     (let name = ChildName (wl_Name wl) (wl_UID wl) rankName
      in \<lparr>ra_Rank = rankName, ra_NodeName = nodeName, ra_ClaimName = name, ra_PodName = name,
          ra_Devices = map assigned_device devices\<rparr>)"

section \<open>Connectivity\<close>

text \<open>The selected endpoint identifiers: the keys of the map \<open>selected\<close>, each once.\<close>

definition selected_ids :: "RankAssignment list \<Rightarrow> string list" where
  "selected_ids as = remdups (concat (map (\<lambda>a. map ad_EndpointID (ra_Devices a)) as))"

text \<open>
  The first loop of \<open>connected\<close>: every selected endpoint exists and shares the fabric and ring
  of the first non-empty identifier visited, which becomes the start of the search.
\<close>

fun same_ring ::
    "(string, FabricEndpoint) gomap \<Rightarrow> string list \<Rightarrow> string \<times> string \<times> string \<Rightarrow> string option" where
  "same_ring byID [] (start, fabricID, ringID) = Some start"
| "same_ring byID (eid # ids) (start, fabricID, ringID) =
     (case gm_get byID eid of
        None \<Rightarrow> None
      | Some item \<Rightarrow>
          (let (start, fabricID, ringID) =
                 (if start = [] then (eid, fe_FabricID item, fe_RingID item)
                  else (start, fabricID, ringID))
           in if fe_FabricID item \<noteq> fabricID \<or> fe_RingID item \<noteq> ringID then None
              else same_ring byID ids (start, fabricID, ringID)))"

definition links_of :: "(string, FabricEndpoint) gomap \<Rightarrow> string \<Rightarrow> TopologyLink list" where
  "links_of byID eid = (case gm_get byID eid of None \<Rightarrow> [] | Some item \<Rightarrow> fe_Links item)"

fun visit_links ::
    "string list \<Rightarrow> TopologyLink list \<Rightarrow> string list \<times> string list \<Rightarrow> string list \<times> string list" where
  "visit_links sel [] (seen, queue) = (seen, queue)"
| "visit_links sel (l # ls) (seen, queue) =
     (if tl_State l \<noteq> ''up'' \<or> tl_RemoteEndpointID l \<notin> set sel \<or> tl_RemoteEndpointID l \<in> set seen
      then visit_links sel ls (seen, queue)
      else visit_links sel ls (seen @ [tl_RemoteEndpointID l], queue @ [tl_RemoteEndpointID l]))"

lemma visit_links_measure:
  "visit_links sel ls (seen, queue) = (seen', queue') \<Longrightarrow>
     2 * card (set sel - set seen') + length queue' \<le> 2 * card (set sel - set seen) + length queue"
proof (induction ls arbitrary: seen queue)
  case (Cons l ls)
  let ?r = "tl_RemoteEndpointID l"
  show ?case
  proof (cases "tl_State l \<noteq> ''up'' \<or> ?r \<notin> set sel \<or> ?r \<in> set seen")
    case False
    then have "visit_links sel ls (seen @ [?r], queue @ [?r]) = (seen', queue')"
      using Cons.prems by simp
    from Cons.IH [OF this] have
      "2 * card (set sel - set (seen @ [?r])) + length (queue @ [?r]) \<ge>
       2 * card (set sel - set seen') + length queue'" by simp
    moreover have "set sel - set (seen @ [?r]) = (set sel - set seen) - {?r}" by auto
    moreover have "?r \<in> set sel - set seen" using False by simp
    ultimately show ?thesis using card_Suc_Diff1 [of "set sel - set seen" ?r] by simp
  qed (use Cons in simp)
qed simp

text \<open>The breadth-first search over links that are up and stay within the selection.\<close>

function bfs ::
    "string list \<Rightarrow> (string, FabricEndpoint) gomap \<Rightarrow> string list \<Rightarrow> string list \<Rightarrow> string list" where
  "bfs sel byID seen [] = seen"
| "bfs sel byID seen (eid # queue) =
     (case visit_links sel (links_of byID eid) (seen, queue) of
        (seen', queue') \<Rightarrow> bfs sel byID seen' queue')"
  by pat_completeness auto
termination
proof (relation "measure (\<lambda>(sel, byID, seen, queue). 2 * card (set sel - set seen) + length queue)",
       goal_cases)
  case (2 sel byID seen eid queue seen' queue')
  then have "visit_links sel (links_of byID eid) (seen, queue) = (seen', queue')" by simp
  then show ?case using visit_links_measure by fastforce
qed simp

definition connected ::
    "(string list \<Rightarrow> string list) \<Rightarrow> RankAssignment list \<Rightarrow> FabricEndpoint list \<Rightarrow> bool" where
  "connected rng as endpoints =
     (let sel = selected_ids as; byID = index_by fe_EndpointID endpoints
      in if length sel = 0 then False
         else case same_ring byID (rng sel) ([], [], []) of
           None \<Rightarrow> False
         | Some start \<Rightarrow> length (bfs sel byID [start] [start]) = length sel)"

section \<open>The search\<close>

definition wanted_count :: "WorkloadRank \<Rightarrow> int64" where
  "wanted_count rank = (if sint (wr_Count rank) \<le> 0 then 1 else wr_Count rank)"

text \<open>
  The visitor passed to \<open>chooseCombinations\<close>: record the assignment, reserve its devices, go on
  with the next rank (\<open>next_rank\<close>), and release the devices if that fails.
\<close>

definition visit_rank ::
    "Workload \<Rightarrow> WorkloadRank \<Rightarrow> string \<Rightarrow> nat \<Rightarrow> (solve_state \<Rightarrow> bool \<times> solve_state)
     \<Rightarrow> FabricEndpoint list \<Rightarrow> solve_state \<Rightarrow> bool \<times> solve_state" where
  "visit_rank wl rank nodeName index next_rank picked st =
     (let assignment = makeAssignment wl (wr_Name rank) nodeName picked;
          st = st\<lparr>st_assignments := (st_assignments st)[index := assignment],
                  st_selected := res_AddAssignment (st_selected st) assignment\<rparr>
      in case next_rank st of
           (True, st) \<Rightarrow> (True, st)
         | (False, st) \<Rightarrow>
             (False, st\<lparr>st_selected := st_selected st -
                (\<lambda>item. \<lparr>id_Pool = ad_Pool item, id_Name = ad_Name item\<rparr>) ` set (ra_Devices assignment)\<rparr>))"

primrec chooseRank ::
    "(string list \<Rightarrow> string list) \<Rightarrow> Workload \<Rightarrow> FabricEndpoint list \<Rightarrow> Reservations
     \<Rightarrow> WorkloadRank list \<Rightarrow> nat \<Rightarrow> solve_state \<Rightarrow> bool \<times> solve_state" where
  "chooseRank rng wl candidates reserved [] index st =
     (case poll st of (expired, st) \<Rightarrow>
        if expired then (False, st)
        else (connected rng (st_assignments st) candidates, st))"
| "chooseRank rng wl candidates reserved (rank # ranks) index st =
     (case poll st of (expired, st) \<Rightarrow>
        if expired then (False, st)
        else
          (let count = wanted_count rank;
               byNode = candidatesByNode wl rank candidates reserved (st_selected st)
           in try_each (\<lambda>nodeName st.
                let choices = (case gm_get byNode nodeName of None \<Rightarrow> [] | Some xs \<Rightarrow> xs)
                in if int (length choices) < sint count then (False, st)
                   else chooseCombinations choices (nat (sint count))
                          (visit_rank wl rank nodeName index
                             (\<lambda>st. chooseRank rng wl candidates reserved ranks (Suc index) st)) st)
                (sortedNodeNames byNode) st))"

datatype solve_error = WorkloadIsNil | LimitsExceeded | ContextExpired

definition zero_assignment :: RankAssignment where
  "zero_assignment = \<lparr>ra_Rank = [], ra_NodeName = [], ra_ClaimName = [], ra_PodName = [], ra_Devices = []\<rparr>"

definition endpoint_key :: "FabricEndpoint \<Rightarrow> string \<times> string" where
  "endpoint_key e = (fe_NodeName e, fe_DeviceName e)"

definition total_count :: "WorkloadRank list \<Rightarrow> int64" where
  "total_count ranks = foldl (\<lambda>total rank. total + wr_Count rank) 0 ranks"

text \<open>
  \<open>SolveContext\<close>: the assignments, the success flag and the error.  A nil workload is \<open>None\<close>.
  The sum of the counts is a 64-bit sum and wraps as in the code.
\<close>

definition SolveContext ::
    "(string list \<Rightarrow> string list) \<Rightarrow> ctx \<Rightarrow> Workload option \<Rightarrow> FabricEndpoint list \<Rightarrow> Reservations
     \<Rightarrow> Limits \<Rightarrow> RankAssignment list \<times> bool \<times> solve_error option" where
  "SolveContext rng ctx workload endpoints reserved limits =
     (case workload of
        None \<Rightarrow> ([], False, Some WorkloadIsNil)
      | Some wl \<Rightarrow>
          if int (length (wl_Ranks wl)) > MaxRanks limits \<or> int (length endpoints) > MaxEndpoints limits
             \<or> sint (total_count (wl_Ranks wl)) > sint (MaxDevices limits)
          then ([], False, Some LimitsExceeded)
          else
            (let candidates = sort_key endpoint_key endpoints;
                 st = \<lparr>st_ctx = ctx, st_selected = {},
                       st_assignments = replicate (length (wl_Ranks wl)) zero_assignment\<rparr>;
                 (ok, st) = chooseRank rng wl candidates reserved (wl_Ranks wl) 0 st;
                 (expired, _) = ctx_poll (st_ctx st)
             in (st_assignments st, ok, if expired then Some ContextExpired else None)))"

text \<open>\<open>Solve\<close>: a background context, which never expires, and the default limits.\<close>

definition Solve ::
    "(string list \<Rightarrow> string list) \<Rightarrow> Workload option \<Rightarrow> FabricEndpoint list \<Rightarrow> Reservations
     \<Rightarrow> RankAssignment list \<times> bool" where
  "Solve rng workload endpoints reserved =
     (let (assignments, ok, _) = SolveContext rng None workload endpoints reserved DefaultLimits
      in (assignments, ok))"

end
