(* ===== verification/Placement_Connected.thy ===== *)
theory Placement_Connected
  imports Placement
begin

text \<open>
  What \<open>connected\<close> decides.  The specification \<open>connected_set\<close> says it without any search:
  the selected endpoints exist, share one fabric and ring, and every one reaches every other
  over links that are up and stay inside the selection.  On a reciprocal graph (what a valid
  fabric guarantees) the breadth-first search decides exactly this, whatever order the map
  iteration takes.
\<close>

section \<open>Specification\<close>

definition range_order :: "(string list \<Rightarrow> string list) \<Rightarrow> bool" where
  "range_order rng \<longleftrightarrow> (\<forall>xs. mset (rng xs) = mset xs)"

lemma range_order_set: "range_order rng \<Longrightarrow> set (rng xs) = set xs"
  unfolding range_order_def by (metis set_mset_mset)

definition up_edges :: "FabricEndpoint list \<Rightarrow> string set \<Rightarrow> (string \<times> string) set" where
  "up_edges eps S =
     {(a, b). b \<in> S \<and> (\<exists>e \<in> set eps. fe_EndpointID e = a \<and>
        (\<exists>l \<in> set (fe_Links e). tl_State l = ''up'' \<and> tl_RemoteEndpointID l = b))}"

definition same_domain :: "FabricEndpoint list \<Rightarrow> string set \<Rightarrow> bool" where
  "same_domain eps S \<longleftrightarrow>
     (\<exists>f r. \<forall>e \<in> set eps. fe_EndpointID e \<in> S \<longrightarrow> fe_FabricID e = f \<and> fe_RingID e = r)"

definition connected_set :: "FabricEndpoint list \<Rightarrow> string set \<Rightarrow> bool" where
  "connected_set eps S \<longleftrightarrow>
     S \<noteq> {} \<and> S \<subseteq> fe_EndpointID ` set eps \<and> same_domain eps S \<and>
     (\<forall>a \<in> S. \<forall>b \<in> S. (a, b) \<in> (up_edges eps S)\<^sup>*)"

definition reciprocal :: "FabricEndpoint list \<Rightarrow> bool" where
  "reciprocal eps \<longleftrightarrow>
     (\<forall>e \<in> set eps. \<forall>l \<in> set (fe_Links e).
        tl_State l = ''up'' \<and> tl_RemoteEndpointID l \<noteq> [] \<longrightarrow>
        (\<exists>p \<in> set eps. fe_EndpointID p = tl_RemoteEndpointID l \<and>
           (\<exists>b \<in> set (fe_Links p). tl_State b = ''up'' \<and> tl_RemoteEndpointID b = fe_EndpointID e)))"

section \<open>The search\<close>

declare bfs.simps [simp del]

definition link_rel :: "string list \<Rightarrow> (string, FabricEndpoint) gomap \<Rightarrow> (string \<times> string) set" where
  "link_rel sel byID =
     {(a, b). b \<in> set sel \<and>
        (\<exists>l \<in> set (links_of byID a). tl_State l = ''up'' \<and> tl_RemoteEndpointID l = b)}"

lemma visit_links_spec:
  assumes "visit_links sel ls (seen, queue) = (seen', queue')" and "distinct seen"
  shows "\<exists>new. seen' = seen @ new \<and> queue' = queue @ new \<and> distinct (seen @ new) \<and>
     set new = {b \<in> set sel. \<exists>l \<in> set ls. tl_State l = ''up'' \<and> tl_RemoteEndpointID l = b} - set seen"
  using assms
proof (induction ls arbitrary: seen queue)
  case (Cons l ls)
  let ?r = "tl_RemoteEndpointID l"
  show ?case
  proof (cases "tl_State l \<noteq> ''up'' \<or> ?r \<notin> set sel \<or> ?r \<in> set seen")
    case True
    then have "visit_links sel ls (seen, queue) = (seen', queue')" using Cons.prems by simp
    from Cons.IH [OF this Cons.prems(2)] True show ?thesis by fastforce
  next
    case False
    then have v: "visit_links sel ls (seen @ [?r], queue @ [?r]) = (seen', queue')"
      using Cons.prems by simp
    have "distinct (seen @ [?r])" using False Cons.prems(2) by simp
    from Cons.IH [OF v this] obtain new where new:
      "seen' = (seen @ [?r]) @ new" "queue' = (queue @ [?r]) @ new" "distinct ((seen @ [?r]) @ new)"
      "set new = {b \<in> set sel. \<exists>l \<in> set ls. tl_State l = ''up'' \<and> tl_RemoteEndpointID l = b}
         - set (seen @ [?r])" by blast
    show ?thesis
      by (rule exI [of _ "?r # new"]) (use new False in auto)
  qed
qed simp

lemma Image_rtrancl_closed:
  assumes "\<And>x y. x \<in> S \<Longrightarrow> (x, y) \<in> R \<Longrightarrow> y \<in> S"
  shows "R\<^sup>* `` S = S"
proof -
  have "y \<in> S" if "(x, y) \<in> R\<^sup>*" "x \<in> S" for x y
    using that by (induction rule: rtrancl_induct) (auto intro: assms)
  then show ?thesis by auto
qed

lemma bfs_reachable:
  assumes "distinct seen" and "set queue \<subseteq> set seen"
    and "\<And>x y. x \<in> set seen - set queue \<Longrightarrow> (x, y) \<in> link_rel sel byID \<Longrightarrow> y \<in> set seen"
  shows "distinct (bfs sel byID seen queue) \<and>
     set (bfs sel byID seen queue) = (link_rel sel byID)\<^sup>* `` set seen"
  using assms
proof (induction sel byID seen queue rule: bfs.induct)
  case (1 sel byID seen)
  then show ?case by (simp add: Image_rtrancl_closed bfs.simps)
next
  case (2 sel byID seen eid queue)
  let ?R = "link_rel sel byID"
  obtain seen' queue' where v: "visit_links sel (links_of byID eid) (seen, queue) = (seen', queue')"
    by fastforce
  from visit_links_spec [OF v "2.prems"(1)] obtain new where new:
    "seen' = seen @ new" "queue' = queue @ new" "distinct (seen @ new)"
    "set new = ?R `` {eid} - set seen"
    by (auto simp: link_rel_def Image_def)
  have eid: "eid \<in> set seen" using "2.prems"(2) by simp
  have "distinct seen'" "set queue' \<subseteq> set seen'" using new "2.prems"(2) by auto
  moreover have "y \<in> set seen'" if x: "x \<in> set seen' - set queue'" and "(x, y) \<in> ?R" for x y
  proof (cases "x = eid")
    case True
    with that new(4) have "y \<in> set new \<union> set seen" by blast
    then show ?thesis using new(1) by auto
  next
    case False
    with x new(1,2) have "x \<in> set seen - set (eid # queue)" by auto
    from "2.prems"(3) [OF this \<open>(x, y) \<in> ?R\<close>] show ?thesis using new(1) by simp
  qed
  ultimately have IH: "distinct (bfs sel byID seen' queue') \<and>
      set (bfs sel byID seen' queue') = ?R\<^sup>* `` set seen'"
    using "2.IH" [OF v [symmetric]] by blast
  have "set new \<subseteq> ?R\<^sup>* `` set seen" using new(4) eid by blast
  then have "?R\<^sup>* `` set seen' = ?R\<^sup>* `` set seen"
    using new(1) by (auto intro: rtrancl_trans)
  with IH v show ?case by (simp add: bfs.simps)
qed

lemma link_rel_in_sel: "(a, b) \<in> (link_rel sel byID)\<^sup>* \<Longrightarrow> a \<in> set sel \<Longrightarrow> b \<in> set sel"
  by (induction rule: rtrancl_induct) (auto simp: link_rel_def)

lemma bfs_from_start:
  assumes "start \<in> set sel"
  shows "distinct (bfs sel byID [start] [start])"
    and "set (bfs sel byID [start] [start]) = (link_rel sel byID)\<^sup>* `` {start}"
    and "set (bfs sel byID [start] [start]) \<subseteq> set sel"
  using bfs_reachable [of "[start]" "[start]" sel byID] link_rel_in_sel assms by auto

section \<open>The fabric check\<close>

definition domain_of :: "(string, FabricEndpoint) gomap \<Rightarrow> string \<Rightarrow> (string \<times> string) option" where
  "domain_of byID eid = map_option (\<lambda>e. (fe_FabricID e, fe_RingID e)) (gm_get byID eid)"

lemma same_ring_started:
  "start \<noteq> [] \<Longrightarrow> same_ring byID ids (start, f, r) =
     (if \<forall>i \<in> set ids. domain_of byID i = Some (f, r) then Some start else None)"
  by (induction ids) (auto simp: domain_of_def split: option.splits)

lemma same_ring_Some_iff:
  assumes "ids \<noteq> []" and "[] \<notin> set ids"
  shows "same_ring byID ids ([], [], []) = Some start \<longleftrightarrow>
     start = hd ids \<and> (\<exists>f r. \<forall>i \<in> set ids. domain_of byID i = Some (f, r))"
proof -
  obtain i rest where ids: "ids = i # rest" using assms(1) by (cases ids) auto
  then have "i \<noteq> []" using assms(2) by auto
  then show ?thesis
    by (auto simp: ids same_ring_started domain_of_def split: option.splits)
qed

section \<open>Correctness\<close>

lemma domain_of_index:
  assumes "distinct (map fe_EndpointID eps)"
  shows "domain_of (index_by fe_EndpointID eps) i = Some (f, r) \<longleftrightarrow>
     (\<exists>e \<in> set eps. fe_EndpointID e = i \<and> fe_FabricID e = f \<and> fe_RingID e = r)"
  using index_by_distinct [OF assms] index_by_SomeD [of fe_EndpointID eps i]
  by (auto simp: domain_of_def)

lemma link_rel_index:
  assumes "distinct (map fe_EndpointID eps)"
  shows "link_rel sel (index_by fe_EndpointID eps) = up_edges eps (set sel)"
proof -
  have "(\<exists>l \<in> set (links_of (index_by fe_EndpointID eps) a). P l) \<longleftrightarrow>
      (\<exists>e \<in> set eps. fe_EndpointID e = a \<and> (\<exists>l \<in> set (fe_Links e). P l))" for a P
  proof (cases "gm_get (index_by fe_EndpointID eps) a")
    case None
    then have "a \<notin> fe_EndpointID ` set eps" by (simp add: index_by_None_iff)
    then show ?thesis using None by (auto simp: links_of_def)
  next
    case (Some e)
    then have "e \<in> set eps" "fe_EndpointID e = a" by (auto dest: index_by_SomeD)
    then have "e' = e" if "e' \<in> set eps" "fe_EndpointID e' = a" for e'
      using assms that unfolding distinct_map inj_on_def by metis
    then show ?thesis
      unfolding links_of_def Some option.case
      using \<open>e \<in> set eps\<close> \<open>fe_EndpointID e = a\<close> by blast
  qed
  then show ?thesis by (simp add: link_rel_def up_edges_def)
qed

lemma same_domain_iff:
  assumes "distinct (map fe_EndpointID eps)" and "S \<noteq> {}"
  shows "(\<exists>f r. \<forall>i \<in> S. domain_of (index_by fe_EndpointID eps) i = Some (f, r)) \<longleftrightarrow>
     S \<subseteq> fe_EndpointID ` set eps \<and> same_domain eps S"
proof -
  have inj: "e = e'" if "e \<in> set eps" "e' \<in> set eps" "fe_EndpointID e = fe_EndpointID e'" for e e'
    using assms(1) that by (auto simp: distinct_map inj_on_def)
  show ?thesis (is "?L \<longleftrightarrow> ?R")
  proof
    assume ?L
    then obtain f r where fr: "\<forall>i \<in> S. \<exists>e \<in> set eps. fe_EndpointID e = i \<and> fe_FabricID e = f \<and> fe_RingID e = r"
      unfolding domain_of_index [OF assms(1)] by blast
    then have "S \<subseteq> fe_EndpointID ` set eps" by auto
    moreover have "same_domain eps S" unfolding same_domain_def using fr inj by metis
    ultimately show ?R ..
  next
    assume ?R
    then obtain f r where fr: "\<forall>e \<in> set eps. fe_EndpointID e \<in> S \<longrightarrow> fe_FabricID e = f \<and> fe_RingID e = r"
      and sub: "S \<subseteq> fe_EndpointID ` set eps" unfolding same_domain_def by blast
    have "\<exists>e \<in> set eps. fe_EndpointID e = i \<and> fe_FabricID e = f \<and> fe_RingID e = r" if "i \<in> S" for i
      using that sub fr by auto
    then show ?L unfolding domain_of_index [OF assms(1)] by blast
  qed
qed

lemma up_edges_converse:
  assumes "reciprocal eps" and "[] \<notin> S" and "(a, b) \<in> up_edges eps S" and "a \<in> S"
  shows "(b, a) \<in> up_edges eps S"
  using assms unfolding reciprocal_def up_edges_def by fastforce

lemma up_edges_rtrancl_converse:
  assumes "reciprocal eps" and "[] \<notin> S" and "a \<in> S" and "(a, b) \<in> (up_edges eps S)\<^sup>*"
  shows "b \<in> S \<and> (b, a) \<in> (up_edges eps S)\<^sup>*"
  using assms(4,3)
proof (induction rule: rtrancl_induct)
  case (step y z)
  then have "y \<in> S" "(y, a) \<in> (up_edges eps S)\<^sup>*" by auto
  moreover from step have "z \<in> S" by (auto simp: up_edges_def)
  ultimately show ?case
    using up_edges_converse [OF assms(1,2) step.hyps(2)] by (meson converse_rtrancl_into_rtrancl)
qed simp

lemma all_connected_iff:
  assumes "reciprocal eps" and "[] \<notin> S" and "s \<in> S"
  shows "(\<forall>a \<in> S. \<forall>b \<in> S. (a, b) \<in> (up_edges eps S)\<^sup>*) \<longleftrightarrow> S \<subseteq> (up_edges eps S)\<^sup>* `` {s}"
  using assms up_edges_rtrancl_converse [OF assms(1,2)] by (blast intro: rtrancl_trans)

lemma distinct_selected_ids [simp]: "distinct (selected_ids as)"
  by (simp add: selected_ids_def)

lemma bfs_length_iff:
  assumes "start \<in> set sel" and "distinct sel"
  shows "length (bfs sel byID [start] [start]) = length sel \<longleftrightarrow>
     set sel \<subseteq> (link_rel sel byID)\<^sup>* `` {start}"
proof -
  have "length (bfs sel byID [start] [start]) = card (set (bfs sel byID [start] [start]))"
    using bfs_from_start(1) [OF assms(1)] by (metis distinct_card)
  moreover have "length sel = card (set sel)" using assms(2) by (metis distinct_card)
  ultimately have "length (bfs sel byID [start] [start]) = length sel \<longleftrightarrow>
      set (bfs sel byID [start] [start]) = set sel"
    using bfs_from_start(3) [OF assms(1)] by (metis List.finite_set card_subset_eq)
  then show ?thesis
    using bfs_from_start(2,3) [OF assms(1)] by auto
qed

lemma connected_iff_set:
  assumes "range_order rng" and "distinct (map fe_EndpointID eps)" and "reciprocal eps"
    and "[] \<notin> set (selected_ids as)"
  shows "connected rng as eps \<longleftrightarrow> connected_set eps (set (selected_ids as))"
proof (cases "selected_ids as = []")
  case True
  then show ?thesis by (simp add: connected_def connected_set_def)
next
  case False
  let ?sel = "selected_ids as" and ?byID = "index_by fe_EndpointID eps"
  let ?R = "(up_edges eps (set ?sel))\<^sup>*"
  have rng: "set (rng ?sel) = set ?sel" using assms(1) by (rule range_order_set)
  then have ne: "rng ?sel \<noteq> []" using False by auto
  then have start: "hd (rng ?sel) \<in> set ?sel" using rng hd_in_set by fastforce
  have ring: "same_ring ?byID (rng ?sel) ([], [], []) = Some start \<longleftrightarrow>
      start = hd (rng ?sel) \<and> set ?sel \<subseteq> fe_EndpointID ` set eps \<and> same_domain eps (set ?sel)"
    for start
    using same_ring_Some_iff [OF ne, of ?byID start] same_domain_iff [OF assms(2), of "set ?sel"]
      rng assms(4) False by simp
  have "connected rng as eps \<longleftrightarrow>
      set ?sel \<subseteq> fe_EndpointID ` set eps \<and> same_domain eps (set ?sel) \<and>
      set ?sel \<subseteq> ?R `` {hd (rng ?sel)}"
  proof (cases "same_ring ?byID (rng ?sel) ([], [], [])")
    case None
    with ring [of "hd (rng ?sel)"] show ?thesis by (auto simp: connected_def Let_def)
  next
    case (Some s)
    with ring [of s] bfs_length_iff [OF start distinct_selected_ids, of ?byID]
      link_rel_index [OF assms(2), of ?sel] False
    show ?thesis by (simp add: connected_def Let_def)
  qed
  also have "\<dots> \<longleftrightarrow> connected_set eps (set ?sel)"
    using all_connected_iff [OF assms(3,4) start] False by (auto simp: connected_set_def)
  finally show ?thesis .
qed

end
