(* ===== verification/Placement_Search.thy ===== *)
theory Placement_Search
  imports Placement_Connected
begin

text \<open>
  Soundness and completeness of the backtracking search, without reference to connectivity:
  the contract of a visitor that restores its state on failure is a locale, the facts about
  \<open>choose_from\<close> are proved from it once, and \<open>chooseRank\<close> is shown to satisfy it rank by rank.
\<close>

section \<open>The contract of a backtracking visitor\<close>

text \<open>
  \<open>at\<close> holds before a visit and again after a failed one; \<open>post\<close> holds after a successful
  one.  \<open>U\<close> are the items combinations are drawn from.  What a search returns is described by
  \<open>search_outcome\<close>: a success has visited a combination of the right size, a failure is back
  at \<open>at\<close>.
\<close>

definition search_outcome ::
    "(solve_state \<Rightarrow> bool) \<Rightarrow> ('a list \<Rightarrow> solve_state \<Rightarrow> bool) \<Rightarrow> nat \<Rightarrow> 'a list \<Rightarrow> 'a list
     \<Rightarrow> bool \<Rightarrow> solve_state \<Rightarrow> bool" where
  "search_outcome at post cnt picked items b s \<longleftrightarrow>
     (if b then \<exists>p. subseq p items \<and> length (picked @ p) = cnt \<and> post (picked @ p) s else at s)"

locale backtracking =
  fixes visit :: "'a list \<Rightarrow> solve_state \<Rightarrow> bool \<times> solve_state"
    and at :: "solve_state \<Rightarrow> bool"
    and post :: "'a list \<Rightarrow> solve_state \<Rightarrow> bool"
    and U :: "'a set"
  assumes at_poll: "at s \<Longrightarrow> poll s = (b, s') \<Longrightarrow> at s'"
    and visit_fail: "at s \<Longrightarrow> set p \<subseteq> U \<Longrightarrow> visit p s = (False, s') \<Longrightarrow> at s'"
    and visit_ok: "at s \<Longrightarrow> set p \<subseteq> U \<Longrightarrow> visit p s = (True, s') \<Longrightarrow> post p s'"
begin

lemma choose_from_contract:
  assumes loop: "\<And>s b s'. at s \<Longrightarrow> choose_loop visit cnt items picked s = (b, s') \<Longrightarrow>
      search_outcome at post cnt picked items b s'"
    and "set picked \<subseteq> U" and "at s" and "choose_from visit cnt items picked s = (b, s')"
  shows "search_outcome at post cnt picked items b s'"
proof -
  obtain e s1 where p: "poll s = (e, s1)" by fastforce
  then have at1: "at s1" using assms(3) at_poll by blast
  consider "e" | "\<not> e" "length picked = cnt" | "\<not> e" "length picked \<noteq> cnt" by blast
  then show ?thesis
  proof cases
    case 1
    with p at1 assms(4) show ?thesis by (simp add: search_outcome_def)
  next
    case 2
    with p assms(4) have "visit picked s1 = (b, s')" by simp
    with 2 at1 assms(2) visit_fail visit_ok show ?thesis
      by (cases b) (auto simp: search_outcome_def intro!: exI [of _ "[]"])
  next
    case 3
    with p assms(4) have "choose_loop visit cnt items picked s1 = (b, s')" by simp
    with at1 show ?thesis by (rule loop)
  qed
qed

lemma choose_loop_contract:
  assumes "set picked \<union> set items \<subseteq> U" and "at s" and "choose_loop visit cnt items picked s = (b, s')"
  shows "search_outcome at post cnt picked items b s'"
  using assms
proof (induction items arbitrary: picked s b s')
  case Nil
  then show ?case by (simp add: search_outcome_def)
next
  case (Cons x xs)
  have from_xs: "search_outcome at post cnt (picked @ [x]) xs b s'"
    if "at s" "choose_from visit cnt xs (picked @ [x]) s = (b, s')" for s b s'
    using that Cons.prems(1)
    by (intro choose_from_contract [OF Cons.IH]) auto
  obtain c s1 where c: "choose_from visit cnt xs (picked @ [x]) s = (c, s1)" by fastforce
  note out = from_xs [OF Cons.prems(2) c]
  show ?case
  proof (cases "cnt - length picked \<le> length (x # xs)")
    case False
    with Cons.prems show ?thesis by (simp add: search_outcome_def)
  next
    case True
    show ?thesis
    proof (cases c)
      case c: True
      with out obtain q where "subseq q xs" "length (picked @ x # q) = cnt" "post (picked @ x # q) s1"
        by (auto simp: search_outcome_def)
      moreover have "b" "s' = s1" using Cons.prems(3) True c \<open>choose_from _ _ _ _ _ = (c, s1)\<close> by auto
      ultimately show ?thesis
        by (auto simp: search_outcome_def intro!: exI [of _ "x # q"])
    next
      case c: False
      with out have "at s1" by (simp add: search_outcome_def)
      moreover have "choose_loop visit cnt xs picked s1 = (b, s')"
        using Cons.prems(3) True c \<open>choose_from _ _ _ _ _ = (c, s1)\<close> by simp
      ultimately have "search_outcome at post cnt picked xs b s'"
        using Cons.IH Cons.prems(1) by auto
      then show ?thesis by (auto simp: search_outcome_def split: if_splits intro: subseq_Cons')
    qed
  qed
qed

lemma chooseCombinations_contract:
  "set items \<subseteq> U \<Longrightarrow> at s \<Longrightarrow> chooseCombinations items cnt visit s = (b, s') \<Longrightarrow>
     search_outcome at post cnt [] items b s'"
  unfolding chooseCombinations_def
  by (rule choose_from_contract) (auto intro: choose_loop_contract)

end

text \<open>
  A visitor that is never cancelled and that succeeds on every combination in \<open>succeeds\<close>.
\<close>

locale complete_backtracking = backtracking +
  fixes succeeds :: "'a list \<Rightarrow> bool"
  assumes uncancelled: "at s \<Longrightarrow> \<not> fst (poll s)"
    and visit_complete: "at s \<Longrightarrow> set p \<subseteq> U \<Longrightarrow> succeeds p \<Longrightarrow> fst (visit p s)"
begin

lemma choose_from_complete:
  assumes loop: "\<And>s. at s \<Longrightarrow> p \<noteq> [] \<Longrightarrow> fst (choose_loop visit cnt items picked s)"
    and "set (picked @ p) \<subseteq> U" and "at s" and "length (picked @ p) = cnt" and "succeeds (picked @ p)"
  shows "fst (choose_from visit cnt items picked s)"
proof -
  obtain s1 where p: "poll s = (False, s1)" using uncancelled [OF assms(3)] by (cases "poll s") auto
  then have "at s1" using assms(3) at_poll by blast
  then show ?thesis using p assms visit_complete [of s1 picked] by (cases p) auto
qed

lemma choose_loop_complete:
  assumes "set picked \<union> set items \<subseteq> U" and "at s" and "subseq p items" and "p \<noteq> []"
    and "length (picked @ p) = cnt" and "succeeds (picked @ p)"
  shows "fst (choose_loop visit cnt items picked s)"
  using assms
proof (induction items arbitrary: picked p s)
  case Nil
  then show ?case by simp
next
  case (Cons x xs)
  have "length p \<le> length (x # xs)" using Cons.prems(3) by (rule list_emb_length)
  then have fits: "cnt - length picked \<le> length (x # xs)" using Cons.prems(5) by simp
  obtain c s1 where c: "choose_from visit cnt xs (picked @ [x]) s = (c, s1)" by fastforce
  have at1: "at s1" if "\<not> c"
    using that choose_from_contract [OF choose_loop_contract _ Cons.prems(2) c] Cons.prems(1)
    by (auto simp: search_outcome_def)
  show ?case
  proof (cases "\<exists>q. p = x # q \<and> subseq q xs")
    case True
    then obtain q where p: "p = x # q" and q: "subseq q xs" by blast
    then have "set q \<subseteq> set xs" by (blast dest: list_emb_set)
    have "fst (choose_from visit cnt xs (picked @ [x]) s)"
    proof (rule choose_from_complete [where p = q])
      show "fst (choose_loop visit cnt xs (picked @ [x]) s)" if "at s" "q \<noteq> []" for s
        using that q p Cons.prems by (intro Cons.IH [of _ _ q]) auto
    qed (use p Cons.prems \<open>set q \<subseteq> set xs\<close> in auto)
    then show ?thesis using fits c by simp
  next
    case False
    then have "subseq p xs" using Cons.prems(3,4) by (cases p) (auto split: if_splits)
    then have "fst (choose_loop visit cnt xs picked s1)" if "\<not> c"
      using Cons.prems at1 [OF that] by (intro Cons.IH) auto
    then show ?thesis using fits c by (cases c) auto
  qed
qed

lemma chooseCombinations_complete:
  assumes "set items \<subseteq> U" and "at s" and "subseq p items" and "length p = cnt" and "succeeds p"
  shows "fst (chooseCombinations items cnt visit s)"
  unfolding chooseCombinations_def
proof (rule choose_from_complete [where p = p])
  show "fst (choose_loop visit cnt items [] s)" if "at s" "p \<noteq> []" for s
    using that assms by (intro choose_loop_complete) auto
qed (use assms in \<open>auto dest: list_emb_set\<close>)

end

section \<open>Candidates of a node\<close>

definition node_choices ::
    "Workload \<Rightarrow> WorkloadRank \<Rightarrow> FabricEndpoint list \<Rightarrow> Reservations \<Rightarrow> Reservations \<Rightarrow> string
     \<Rightarrow> FabricEndpoint list" where
  "node_choices wl rank eps reserved selected n =
     filter (\<lambda>e. fe_NodeName e = n \<and> candidate_ok wl rank reserved selected e) eps"

lemma candidatesByNode_fold:
  "gm_get (fold (\<lambda>item m.
        if candidate_ok wl rank reserved selected item
        then gm_put (fe_NodeName item)
               ((case gm_get m (fe_NodeName item) of None \<Rightarrow> [] | Some xs \<Rightarrow> xs) @ [item]) m
        else m) eps m) n =
   (if node_choices wl rank eps reserved selected n = [] then gm_get m n
    else Some ((case gm_get m n of None \<Rightarrow> [] | Some xs \<Rightarrow> xs) @ node_choices wl rank eps reserved selected n))"
proof (induction eps arbitrary: m)
  case (Cons e eps)
  then show ?case by (cases "gm_get m (fe_NodeName e)") (auto simp: node_choices_def)
qed (simp add: node_choices_def)

lemma candidatesByNode_get:
  "gm_get (candidatesByNode wl rank eps reserved selected) n =
     (if node_choices wl rank eps reserved selected n = [] then None
      else Some (node_choices wl rank eps reserved selected n))"
  unfolding candidatesByNode_def candidatesByNode_fold by simp

lemma sortedNodeNames_set:
  "set (sortedNodeNames (candidatesByNode wl rank eps reserved selected)) =
     {n. node_choices wl rank eps reserved selected n \<noteq> []}"
  unfolding sortedNodeNames_def set_sort
  using gm.keys_get [of _ "candidatesByNode wl rank eps reserved selected"]
  by (auto simp: candidatesByNode_get)

section \<open>Plans\<close>

text \<open>
  A plan names a node and a list of endpoints for every rank.  \<open>plan_ok\<close> follows the search:
  the endpoints of a rank are a sublist of the node's candidates, of the requested length, and
  are unavailable to the later ranks.
\<close>

type_synonym plan = "(string \<times> FabricEndpoint list) list"

abbreviation device_ids :: "FabricEndpoint list \<Rightarrow> Reservations" where
  "device_ids ds \<equiv> device_id ` set ds"

fun plan_ok ::
    "Workload \<Rightarrow> FabricEndpoint list \<Rightarrow> Reservations \<Rightarrow> WorkloadRank list \<Rightarrow> Reservations \<Rightarrow> plan \<Rightarrow> bool" where
  "plan_ok wl eps reserved [] sel [] = True"
| "plan_ok wl eps reserved (r # rs) sel ((n, ds) # ps) =
     (subseq ds (node_choices wl r eps reserved sel n) \<and>
      int (length ds) = sint (wanted_count r) \<and>
      plan_ok wl eps reserved rs (sel \<union> device_ids ds) ps)"
| "plan_ok wl eps reserved _ sel _ = False"

fun plan_assignments :: "Workload \<Rightarrow> WorkloadRank list \<Rightarrow> plan \<Rightarrow> RankAssignment list" where
  "plan_assignments wl (r # rs) ((n, ds) # ps) =
     makeAssignment wl (wr_Name r) n ds # plan_assignments wl rs ps"
| "plan_assignments wl _ _ = []"

lemma wanted_count_pos: "0 < sint (wanted_count r)"
  by (simp add: wanted_count_def)

lemma res_Add_fold:
  "fold (\<lambda>item r. res_Add r (ad_Pool item) (ad_Name item)) xs r =
     r \<union> (\<lambda>item. \<lparr>id_Pool = ad_Pool item, id_Name = ad_Name item\<rparr>) ` set xs"
  by (induction xs arbitrary: r) (auto simp: res_Add_def)

lemma image_assigned_device:
  "(\<lambda>item. \<lparr>id_Pool = ad_Pool item, id_Name = ad_Name item\<rparr>) ` set (map assigned_device ds) = device_ids ds"
  by (auto simp: assigned_device_def device_id_def image_image)

lemma res_AddAssignment_make [simp]:
  "res_AddAssignment r (makeAssignment wl rn n ds) = r \<union> device_ids ds"
  unfolding res_AddAssignment_def res_Add_fold
  by (simp only: makeAssignment_def Let_def RankAssignment.simps image_assigned_device)

lemma ra_Devices_make [simp]: "ra_Devices (makeAssignment wl rn n ds) = map assigned_device ds"
  by (simp add: makeAssignment_def Let_def)

section \<open>The search over ranks\<close>

definition at_rank ::
    "bool \<Rightarrow> nat \<Rightarrow> RankAssignment list \<Rightarrow> Reservations \<Rightarrow> solve_state \<Rightarrow> bool" where
  "at_rank background n pre sel s \<longleftrightarrow>
     length (st_assignments s) = length pre + n \<and> take (length pre) (st_assignments s) = pre \<and>
     st_selected s = sel \<and> (background \<longrightarrow> st_ctx s = None)"

definition rank_post ::
    "(string list \<Rightarrow> string list) \<Rightarrow> Workload \<Rightarrow> FabricEndpoint list \<Rightarrow> Reservations \<Rightarrow> WorkloadRank list
     \<Rightarrow> RankAssignment list \<Rightarrow> Reservations \<Rightarrow> solve_state \<Rightarrow> bool" where
  "rank_post rng wl eps reserved ranks pre sel s \<longleftrightarrow>
     (\<exists>plan. plan_ok wl eps reserved ranks sel plan \<and>
        st_assignments s = pre @ plan_assignments wl ranks plan \<and>
        connected rng (st_assignments s) eps)"

definition rank_contract ::
    "(string list \<Rightarrow> string list) \<Rightarrow> Workload \<Rightarrow> FabricEndpoint list \<Rightarrow> Reservations \<Rightarrow> bool
     \<Rightarrow> WorkloadRank list \<Rightarrow> bool" where
  "rank_contract rng wl eps reserved bg ranks \<longleftrightarrow>
     (\<forall>pre sel s b s'. at_rank bg (length ranks) pre sel s \<longrightarrow>
        chooseRank rng wl eps reserved ranks (length pre) s = (b, s') \<longrightarrow>
        (if b then rank_post rng wl eps reserved ranks pre sel s'
         else at_rank bg (length ranks) pre sel s'))"

definition rank_complete ::
    "(string list \<Rightarrow> string list) \<Rightarrow> Workload \<Rightarrow> FabricEndpoint list \<Rightarrow> Reservations
     \<Rightarrow> WorkloadRank list \<Rightarrow> bool" where
  "rank_complete rng wl eps reserved ranks \<longleftrightarrow>
     (\<forall>pre sel s plan. at_rank True (length ranks) pre sel s \<longrightarrow>
        plan_ok wl eps reserved ranks sel plan \<longrightarrow>
        connected rng (pre @ plan_assignments wl ranks plan) eps \<longrightarrow>
        fst (chooseRank rng wl eps reserved ranks (length pre) s))"

lemma at_rank_poll: "at_rank bg n pre sel s \<Longrightarrow> poll s = (b, s') \<Longrightarrow> at_rank bg n pre sel s'"
  by (cases "st_ctx s") (auto simp: at_rank_def poll_def split: prod.splits)

lemma at_rank_uncancelled: "at_rank True n pre sel s \<Longrightarrow> \<not> fst (poll s)"
  by (simp add: at_rank_def poll_def)

text \<open>The visitor of a rank satisfies the contract once the search over the later ranks does.\<close>

definition visit_post ::
    "(string list \<Rightarrow> string list) \<Rightarrow> Workload \<Rightarrow> FabricEndpoint list \<Rightarrow> Reservations \<Rightarrow> WorkloadRank
     \<Rightarrow> WorkloadRank list \<Rightarrow> string \<Rightarrow> RankAssignment list \<Rightarrow> Reservations
     \<Rightarrow> FabricEndpoint list \<Rightarrow> solve_state \<Rightarrow> bool" where
  "visit_post rng wl eps reserved r rs n pre sel p s \<longleftrightarrow>
     rank_post rng wl eps reserved rs (pre @ [makeAssignment wl (wr_Name r) n p]) (sel \<union> device_ids p) s"

definition visit_succeeds ::
    "(string list \<Rightarrow> string list) \<Rightarrow> Workload \<Rightarrow> FabricEndpoint list \<Rightarrow> Reservations \<Rightarrow> WorkloadRank
     \<Rightarrow> WorkloadRank list \<Rightarrow> string \<Rightarrow> RankAssignment list \<Rightarrow> Reservations
     \<Rightarrow> FabricEndpoint list \<Rightarrow> bool" where
  "visit_succeeds rng wl eps reserved r rs n pre sel p \<longleftrightarrow>
     (\<exists>plan. plan_ok wl eps reserved rs (sel \<union> device_ids p) plan \<and>
        connected rng (pre @ makeAssignment wl (wr_Name r) n p # plan_assignments wl rs plan) eps)"

lemma at_rank_extend:
  assumes "at_rank bg (Suc n) pre sel s"
  shows "at_rank bg n (pre @ [a]) (sel \<union> D)
     (s\<lparr>st_assignments := (st_assignments s)[length pre := a], st_selected := sel \<union> D\<rparr>)"
proof -
  have "length pre < length (st_assignments s)" using assms by (simp add: at_rank_def)
  then show ?thesis
    using assms by (auto simp: at_rank_def take_Suc_conv_app_nth take_update_cancel)
qed

lemma at_rank_shrink:
  assumes "at_rank bg n (pre @ [a]) (sel \<union> D) s" and "D \<inter> sel = {}"
  shows "at_rank bg (Suc n) pre sel (s\<lparr>st_selected := st_selected s - D\<rparr>)"
proof -
  have "take (length pre) (take (length (pre @ [a])) (st_assignments s)) = pre"
    using assms(1) by (simp add: at_rank_def)
  then show ?thesis using assms by (auto simp: at_rank_def min_def)
qed

lemma visit_rank_eq:
  assumes "at_rank bg (Suc n) pre sel s"
  shows "visit_rank wl r nd (length pre) k p s =
    (let a = makeAssignment wl (wr_Name r) nd p
     in case k (s\<lparr>st_assignments := (st_assignments s)[length pre := a], st_selected := sel \<union> device_ids p\<rparr>) of
          (True, s) \<Rightarrow> (True, s)
        | (False, s) \<Rightarrow> (False, s\<lparr>st_selected := st_selected s - device_ids p\<rparr>))"
  using assms
  by (simp add: visit_rank_def Let_def at_rank_def image_assigned_device [simplified] split: prod.splits bool.splits)

lemma node_choices_disjoint: "set p \<subseteq> set (node_choices wl r eps reserved sel n) \<Longrightarrow> device_ids p \<inter> sel = {}"
  by (auto simp: node_choices_def candidate_ok_def)

lemma visit_rank_backtracking:
  assumes "rank_contract rng wl eps reserved bg rs"
  shows "backtracking
     (visit_rank wl r n (length pre) (\<lambda>st. chooseRank rng wl eps reserved rs (Suc (length pre)) st))
     (at_rank bg (Suc (length rs)) pre sel) (visit_post rng wl eps reserved r rs n pre sel)
     (set (node_choices wl r eps reserved sel n))" (is "backtracking ?v ?at ?post ?U")
proof
  fix s b s' assume "?at s" "poll s = (b, s')"
  then show "?at s'" by (rule at_rank_poll)
next
  fix s :: solve_state and p s'
  let ?a = "makeAssignment wl (wr_Name r) n p"
  let ?s1 = "s\<lparr>st_assignments := (st_assignments s)[length pre := ?a], st_selected := sel \<union> device_ids p\<rparr>"
  obtain b s2 where k: "chooseRank rng wl eps reserved rs (Suc (length pre)) ?s1 = (b, s2)" by fastforce
  {
    assume at: "?at s" and p: "set p \<subseteq> ?U"
    note visit = visit_rank_eq [OF at, of wl r n "\<lambda>st. chooseRank rng wl eps reserved rs (Suc (length pre)) st" p]
    have "at_rank bg (length rs) (pre @ [?a]) (sel \<union> device_ids p) ?s1"
      using at by (rule at_rank_extend)
    with k assms have out: "if b then ?post p s2 else at_rank bg (length rs) (pre @ [?a]) (sel \<union> device_ids p) s2"
      unfolding rank_contract_def visit_post_def by (metis length_append_singleton)
    note visit out node_choices_disjoint [OF p]
  } note facts = this
  show "?at s'" if "?at s" "set p \<subseteq> ?U" "?v p s = (False, s')"
    using facts [OF that(1,2)] that(3) k by (auto simp: Let_def split: bool.splits intro: at_rank_shrink)
  show "?post p s'" if "?at s" "set p \<subseteq> ?U" "?v p s = (True, s')"
    using facts [OF that(1,2)] that(3) k by (auto simp: Let_def split: bool.splits)
qed

lemma visit_rank_complete:
  assumes "rank_contract rng wl eps reserved True rs" and "rank_complete rng wl eps reserved rs"
  shows "complete_backtracking
     (visit_rank wl r n (length pre) (\<lambda>st. chooseRank rng wl eps reserved rs (Suc (length pre)) st))
     (at_rank True (Suc (length rs)) pre sel) (visit_post rng wl eps reserved r rs n pre sel)
     (set (node_choices wl r eps reserved sel n)) (visit_succeeds rng wl eps reserved r rs n pre sel)"
  (is "complete_backtracking ?v ?at ?post ?U ?ok")
proof (intro complete_backtracking.intro visit_rank_backtracking assms(1) complete_backtracking_axioms.intro)
  show "\<not> fst (poll s)" if "?at s" for s using that by (rule at_rank_uncancelled)
  fix s :: solve_state and p
  let ?a = "makeAssignment wl (wr_Name r) n p"
  let ?s1 = "s\<lparr>st_assignments := (st_assignments s)[length pre := ?a], st_selected := sel \<union> device_ids p\<rparr>"
  assume at: "?at s" and "?ok p"
  have "at_rank True (length rs) (pre @ [?a]) (sel \<union> device_ids p) ?s1"
    using at by (rule at_rank_extend)
  with \<open>?ok p\<close> assms(2) have "fst (chooseRank rng wl eps reserved rs (length (pre @ [?a])) ?s1)"
    unfolding rank_complete_def visit_succeeds_def by fastforce
  then show "fst (?v p s)"
    by (auto simp: visit_rank_eq [OF at] Let_def split: prod.splits bool.splits)
qed

text \<open>One turn of the loop over nodes, and the contract it has.\<close>

definition node_turn ::
    "(string list \<Rightarrow> string list) \<Rightarrow> Workload \<Rightarrow> FabricEndpoint list \<Rightarrow> Reservations \<Rightarrow> WorkloadRank
     \<Rightarrow> WorkloadRank list \<Rightarrow> nat \<Rightarrow> Reservations \<Rightarrow> string \<Rightarrow> solve_state \<Rightarrow> bool \<times> solve_state" where
  "node_turn rng wl eps reserved r rs i sel n st =
     (if int (length (node_choices wl r eps reserved sel n)) < sint (wanted_count r) then (False, st)
      else chooseCombinations (node_choices wl r eps reserved sel n) (nat (sint (wanted_count r)))
             (visit_rank wl r n i (\<lambda>st. chooseRank rng wl eps reserved rs (Suc i) st)) st)"

lemma chooseRank_Cons:
  "chooseRank rng wl eps reserved (r # rs) i s =
     (case poll s of (expired, s) \<Rightarrow>
        if expired then (False, s)
        else try_each (node_turn rng wl eps reserved r rs i (st_selected s))
               (sortedNodeNames (candidatesByNode wl r eps reserved (st_selected s))) s)"
proof -
  have choices: "(case gm_get (candidatesByNode wl r eps reserved sel) n of None \<Rightarrow> [] | Some xs \<Rightarrow> xs)
      = node_choices wl r eps reserved sel n" for sel n
    by (simp add: candidatesByNode_get)
  show ?thesis unfolding chooseRank.simps Let_def choices node_turn_def [abs_def] ..
qed

lemma node_turn_contract:
  assumes IH: "rank_contract rng wl eps reserved bg rs"
    and at: "at_rank bg (Suc (length rs)) pre sel s"
    and run: "node_turn rng wl eps reserved r rs (length pre) sel n s = (b, s')"
  shows "if b then rank_post rng wl eps reserved (r # rs) pre sel s' else at_rank bg (Suc (length rs)) pre sel s'"
proof (cases "int (length (node_choices wl r eps reserved sel n)) < sint (wanted_count r)")
  case True
  with at run show ?thesis by (simp add: node_turn_def)
next
  case False
  with run have "chooseCombinations (node_choices wl r eps reserved sel n) (nat (sint (wanted_count r)))
      (visit_rank wl r n (length pre) (\<lambda>st. chooseRank rng wl eps reserved rs (Suc (length pre)) st)) s = (b, s')"
    by (simp add: node_turn_def)
  from backtracking.chooseCombinations_contract [OF visit_rank_backtracking [OF IH] subset_refl at this]
  have out: "search_outcome (at_rank bg (Suc (length rs)) pre sel) (visit_post rng wl eps reserved r rs n pre sel)
      (nat (sint (wanted_count r))) [] (node_choices wl r eps reserved sel n) b s'" .
  show ?thesis
  proof (cases b)
    case True
    with out obtain ds where ds: "subseq ds (node_choices wl r eps reserved sel n)"
      "length ds = nat (sint (wanted_count r))" "visit_post rng wl eps reserved r rs n pre sel ds s'"
      by (auto simp: search_outcome_def)
    then obtain plan where "plan_ok wl eps reserved rs (sel \<union> device_ids ds) plan"
      "st_assignments s' = (pre @ [makeAssignment wl (wr_Name r) n ds]) @ plan_assignments wl rs plan"
      "connected rng (st_assignments s') eps"
      unfolding visit_post_def rank_post_def by blast
    with ds True wanted_count_pos [of r] show ?thesis
      by (auto simp: rank_post_def intro!: exI [of _ "(n, ds) # plan"])
  next
    case False
    with out show ?thesis by (simp add: search_outcome_def)
  qed
qed

lemma rank_contract_step:
  assumes IH: "rank_contract rng wl eps reserved bg rs"
  shows "rank_contract rng wl eps reserved bg (r # rs)"
  unfolding rank_contract_def
proof (intro allI impI)
  fix pre sel s b s'
  let ?at = "at_rank bg (Suc (length rs)) pre sel"
    and ?turn = "node_turn rng wl eps reserved r rs (length pre) sel"
    and ?nodes = "sortedNodeNames (candidatesByNode wl r eps reserved sel)"
  assume at: "at_rank bg (length (r # rs)) pre sel s"
    and run: "chooseRank rng wl eps reserved (r # rs) (length pre) s = (b, s')"
  obtain e s1 where p: "poll s = (e, s1)" by fastforce
  have at1: "?at s1" using at p by (auto intro: at_rank_poll)
  then have sel: "st_selected s1 = sel" by (simp add: at_rank_def)
  note turn = node_turn_contract [OF IH]
  have keep: "?at s'" if "?at s" "?turn n s = (False, s')" for n s s' using turn [OF that] by simp
  show "if b then rank_post rng wl eps reserved (r # rs) pre sel s' else at_rank bg (length (r # rs)) pre sel s'"
  proof (cases e)
    case True
    with run p at1 show ?thesis by (simp add: chooseRank_Cons del: chooseRank.simps)
  next
    case False
    with run p sel have loop: "try_each ?turn ?nodes s1 = (b, s')"
      by (simp add: chooseRank_Cons del: chooseRank.simps)
    show ?thesis
    proof (cases b)
      case True
      with loop have "try_each ?turn ?nodes s1 = (True, s')" by simp
      from this at1 keep have "\<exists>n \<in> set ?nodes. \<exists>s0. ?at s0 \<and> ?turn n s0 = (True, s')"
        by (rule try_each_True)
      then obtain n s0 where "?at s0" "?turn n s0 = (True, s')" by blast
      from turn [OF this] True show ?thesis by simp
    next
      case False
      with loop have "try_each ?turn ?nodes s1 = (False, s')" by simp
      from this at1 keep have "?at s'" by (rule try_each_False)
      with False show ?thesis by simp
    qed
  qed
qed

lemma rank_contract_all: "rank_contract rng wl eps reserved bg ranks"
proof (induction ranks)
  case Nil
  show ?case
    by (auto simp: rank_contract_def rank_post_def at_rank_def poll_def intro!: exI [of _ "[]"]
        split: prod.splits if_splits)
qed (rule rank_contract_step)

lemma rank_complete_step:
  assumes "rank_complete rng wl eps reserved rs"
  shows "rank_complete rng wl eps reserved (r # rs)"
  unfolding rank_complete_def
proof (intro allI impI)
  fix pre sel s plan
  let ?at = "at_rank True (Suc (length rs)) pre sel"
    and ?turn = "node_turn rng wl eps reserved r rs (length pre) sel"
    and ?nodes = "sortedNodeNames (candidatesByNode wl r eps reserved sel)"
  assume at: "at_rank True (length (r # rs)) pre sel s" and plan: "plan_ok wl eps reserved (r # rs) sel plan"
    and conn: "connected rng (pre @ plan_assignments wl (r # rs) plan) eps"
  obtain n ds ps where pl: "plan = (n, ds) # ps" using plan by (cases plan) auto
  then have ds: "subseq ds (node_choices wl r eps reserved sel n)" "int (length ds) = sint (wanted_count r)"
    and ok: "visit_succeeds rng wl eps reserved r rs n pre sel ds"
    using plan conn by (auto simp: visit_succeeds_def)
  have len: "length ds \<le> length (node_choices wl r eps reserved sel n)" using ds(1) by (rule list_emb_length)
  have good: "fst (?turn n s)" if "?at s" for s
  proof -
    have "fst (chooseCombinations (node_choices wl r eps reserved sel n) (nat (sint (wanted_count r)))
      (visit_rank wl r n (length pre) (\<lambda>st. chooseRank rng wl eps reserved rs (Suc (length pre)) st)) s)"
      using complete_backtracking.chooseCombinations_complete
        [OF visit_rank_complete [OF rank_contract_all assms] subset_refl that ds(1) _ ok]
      unfolding ds(2) [symmetric] by simp
    then show ?thesis using ds(2) len by (simp add: node_turn_def)
  qed
  have keep: "?at s'" if "?at s" "?turn n s = (False, s')" for n s s'
    using node_turn_contract [OF rank_contract_all that] by simp
  obtain s1 where p: "poll s = (False, s1)" using at_rank_uncancelled [OF at] by (cases "poll s") auto
  have at1: "?at s1" using at p by (auto intro: at_rank_poll)
  have "0 < length ds" using ds(2) wanted_count_pos [of r] by linarith
  with len have "node_choices wl r eps reserved sel n \<noteq> []" by auto
  then have "n \<in> set ?nodes" by (simp add: sortedNodeNames_set)
  then have "fst (try_each ?turn ?nodes s1)"
    by (rule try_each_complete [where I = ?at]) (use at1 keep good in auto)
  then show "fst (chooseRank rng wl eps reserved (r # rs) (length pre) s)"
    using p at1 by (simp add: chooseRank_Cons at_rank_def del: chooseRank.simps)
qed

lemma rank_complete_all: "rank_complete rng wl eps reserved ranks"
proof (induction ranks)
  case Nil
  show ?case
    by (auto simp: rank_complete_def at_rank_def poll_def elim: plan_ok.elims)
qed (rule rank_complete_step)

text \<open>
  The visitor the search passes to \<open>chooseCombinations\<close> satisfies both contracts, for every
  rank, node and state of the search.
\<close>

interpretation rank_visit: backtracking
  "visit_rank wl r n (length pre) (\<lambda>st. chooseRank rng wl eps reserved rs (Suc (length pre)) st)"
  "at_rank bg (Suc (length rs)) pre sel" "visit_post rng wl eps reserved r rs n pre sel"
  "set (node_choices wl r eps reserved sel n)"
  for rng wl eps reserved bg r rs n pre sel
  by (rule visit_rank_backtracking [OF rank_contract_all])

interpretation rank_search: complete_backtracking
  "visit_rank wl r n (length pre) (\<lambda>st. chooseRank rng wl eps reserved rs (Suc (length pre)) st)"
  "at_rank True (Suc (length rs)) pre sel" "visit_post rng wl eps reserved r rs n pre sel"
  "set (node_choices wl r eps reserved sel n)" "visit_succeeds rng wl eps reserved r rs n pre sel"
  for rng wl eps reserved r rs n pre sel
  by (rule visit_rank_complete [OF rank_contract_all rank_complete_all])

end
