(* ===== verification/Placement_Correct.thy ===== *)
theory Placement_Correct
  imports Placement_Search
begin

text \<open>
  The correctness of placement, stated without the search: what an assignment must satisfy
  (\<open>valid_plan\<close>), when one exists (\<open>feasible\<close>), and that \<open>Solve\<close> returns one exactly then,
  the same one for every order of its inputs.  Also the shape of the child names.
\<close>

section \<open>Specification\<close>

definition rank_satisfied ::
    "Workload \<Rightarrow> FabricEndpoint list \<Rightarrow> Reservations \<Rightarrow> WorkloadRank \<Rightarrow> string \<times> FabricEndpoint list \<Rightarrow> bool" where
  "rank_satisfied wl eps reserved r p \<longleftrightarrow>
     int (length (snd p)) = sint (wanted_count r) \<and> set (snd p) \<subseteq> set eps \<and>
     (\<forall>d \<in> set (snd p). fe_NodeName d = fst p \<and> rank_matches r d \<and>
        matchesTopology (wl_Topology wl) d \<and> device_id d \<notin> reserved)"

text \<open>Every rank is satisfied on one node, and no device is used twice.\<close>

definition valid_plan :: "Workload \<Rightarrow> FabricEndpoint list \<Rightarrow> Reservations \<Rightarrow> plan \<Rightarrow> bool" where
  "valid_plan wl eps reserved plan \<longleftrightarrow>
     list_all2 (rank_satisfied wl eps reserved) (wl_Ranks wl) plan \<and>
     distinct (map device_id (concat (map snd plan)))"

definition plan_endpoints :: "plan \<Rightarrow> string set" where
  "plan_endpoints plan = fe_EndpointID ` set (concat (map snd plan))"

definition feasible :: "Workload \<Rightarrow> FabricEndpoint list \<Rightarrow> Reservations \<Rightarrow> bool" where
  "feasible wl eps reserved \<longleftrightarrow>
     (\<exists>plan. valid_plan wl eps reserved plan \<and> connected_set eps (plan_endpoints plan))"

text \<open>
  What a validated fabric gives the solver: endpoint identifiers are distinct and not empty,
  links are reciprocal, and a device has one endpoint.
\<close>

definition fabric_ok :: "FabricEndpoint list \<Rightarrow> bool" where
  "fabric_ok eps \<longleftrightarrow>
     distinct (map fe_EndpointID eps) \<and> [] \<notin> fe_EndpointID ` set eps \<and> reciprocal eps"

definition within_limits :: "Workload \<Rightarrow> FabricEndpoint list \<Rightarrow> Limits \<Rightarrow> bool" where
  "within_limits wl eps limits \<longleftrightarrow>
     int (length (wl_Ranks wl)) \<le> MaxRanks limits \<and> int (length eps) \<le> MaxEndpoints limits \<and>
     sint (total_count (wl_Ranks wl)) \<le> sint (MaxDevices limits)"

section \<open>Order of the endpoints\<close>

lemma connected_set_cong: "set eps = set eps' \<Longrightarrow> connected_set eps S = connected_set eps' S"
  by (simp add: connected_set_def same_domain_def up_edges_def)

lemma valid_plan_cong: "set eps = set eps' \<Longrightarrow> valid_plan wl eps r p = valid_plan wl eps' r p"
  by (simp add: valid_plan_def rank_satisfied_def [abs_def])

lemma fabric_ok_mset: "mset eps = mset eps' \<Longrightarrow> fabric_ok eps = fabric_ok eps'"
proof -
  assume m: "mset eps = mset eps'"
  then have "set eps = set eps'" by (metis set_mset_mset)
  moreover from m have "mset (map fe_EndpointID eps) = mset (map fe_EndpointID eps')" by simp
  then have "distinct (map fe_EndpointID eps) = distinct (map fe_EndpointID eps')"
    by (rule mset_eq_imp_distinct_iff)
  ultimately show ?thesis by (simp add: fabric_ok_def reciprocal_def)
qed

section \<open>Plans of the search and valid plans\<close>

lemma endpoint_id_assigned [simp]: "ad_EndpointID (assigned_device d) = fe_EndpointID d"
  by (simp add: assigned_device_def)

lemma set_plan_selected:
  "length ranks = length plan \<Longrightarrow> set (selected_ids (plan_assignments wl ranks plan)) = plan_endpoints plan"
  unfolding selected_ids_def plan_endpoints_def set_remdups
proof (induction ranks plan rule: list_induct2)
  case (Cons r rs p ps)
  then show ?case by (cases p) (simp add: image_Un)
qed simp

lemma plan_ok_length: "plan_ok wl eps reserved ranks sel plan \<Longrightarrow> length ranks = length plan"
  by (induction wl eps reserved ranks sel plan rule: plan_ok.induct) auto

lemma plan_ok_imp_valid:
  assumes "distinct (map device_id eps)" and "plan_ok wl eps reserved ranks sel plan"
  shows "list_all2 (rank_satisfied wl eps reserved) ranks plan \<and>
     distinct (map device_id (concat (map snd plan))) \<and> device_ids (concat (map snd plan)) \<inter> sel = {}"
  using assms(2)
proof (induction ranks arbitrary: sel plan)
  case Nil
  then show ?case by (cases plan) auto
next
  case (Cons r rs)
  then obtain n ds ps where plan: "plan = (n, ds) # ps" by (cases plan) auto
  have ds: "subseq ds (node_choices wl r eps reserved sel n)" "int (length ds) = sint (wanted_count r)"
    and ps: "plan_ok wl eps reserved rs (sel \<union> device_ids ds) ps"
    using Cons.prems plan by auto
  note IH = Cons.IH [OF ps]
  have sub: "set ds \<subseteq> set (node_choices wl r eps reserved sel n)"
    using ds(1) by (blast dest: list_emb_set)
  have "subseq (map device_id ds) (map device_id (node_choices wl r eps reserved sel n))"
    using ds(1) by (rule subseq_map)
  moreover have "distinct (map device_id (node_choices wl r eps reserved sel n))"
    unfolding node_choices_def using assms(1) by (rule distinct_map_filter)
  ultimately have "distinct (map device_id ds)" by (rule distinct_subseq)
  moreover have "rank_satisfied wl eps reserved r (n, ds)"
    using ds(2) sub by (auto simp: rank_satisfied_def node_choices_def candidate_ok_def)
  moreover have "device_ids ds \<inter> sel = {}" using sub by (rule node_choices_disjoint)
  moreover have "device_ids (concat (map snd ps)) \<inter> sel = {}"
    "device_ids (concat (map snd ps)) \<inter> device_ids ds = {}" using IH by blast+
  ultimately show ?case using IH by (simp add: plan Int_Un_distrib Int_Un_distrib2 Int_commute image_Un)
qed

text \<open>The order in which the search lists the devices of a rank.\<close>

definition canonical :: "FabricEndpoint list \<Rightarrow> plan \<Rightarrow> plan" where
  "canonical eps plan = map (\<lambda>(n, ds). (n, filter (\<lambda>e. e \<in> set ds) eps)) plan"

lemma canonical_rank:
  assumes "distinct eps" and "rank_satisfied wl eps reserved r (n, ds)" and "distinct ds"
    and "device_ids ds \<inter> sel = {}"
  shows "subseq (filter (\<lambda>e. e \<in> set ds) eps) (node_choices wl r eps reserved sel n) \<and>
     int (length (filter (\<lambda>e. e \<in> set ds) eps)) = sint (wanted_count r) \<and>
     set (filter (\<lambda>e. e \<in> set ds) eps) = set ds"
proof -
  let ?f = "filter (\<lambda>e. e \<in> set ds) eps"
  have sat: "fe_NodeName e = n \<and> candidate_ok wl r reserved sel e" if "e \<in> set ds" for e
    using that assms(2,4) by (auto simp: rank_satisfied_def candidate_ok_def)
  have "?f = filter (\<lambda>e. e \<in> set ds) (node_choices wl r eps reserved sel n)"
    unfolding node_choices_def filter_filter by (rule filter_cong) (auto dest: sat)
  then have "subseq ?f (node_choices wl r eps reserved sel n)" by (metis subseq_filter_left)
  moreover have set: "set ?f = set ds" using assms(2) by (auto simp: rank_satisfied_def)
  moreover have "length ?f = length ds"
    using set assms(1,3) by (metis distinct_card distinct_filter)
  ultimately show ?thesis using assms(2) by (simp add: rank_satisfied_def)
qed

lemma canonical_plan_ok:
  assumes "distinct eps" and "list_all2 (rank_satisfied wl eps reserved) ranks plan"
    and "distinct (map device_id (concat (map snd plan)))"
    and "device_ids (concat (map snd plan)) \<inter> sel = {}"
  shows "plan_ok wl eps reserved ranks sel (canonical eps plan)"
  using assms(2-4)
proof (induction ranks plan arbitrary: sel rule: list_all2_induct)
  case Nil
  then show ?case by (simp add: canonical_def)
next
  case (Cons r rs p ps)
  obtain n ds where p: "p = (n, ds)" by fastforce
  let ?f = "filter (\<lambda>e. e \<in> set ds) eps"
  have "distinct ds" using Cons.prems(1) p by (simp add: distinct_map)
  with canonical_rank [OF assms(1), of wl reserved r n ds sel] Cons.hyps(1) Cons.prems p
  have f: "subseq ?f (node_choices wl r eps reserved sel n)" "int (length ?f) = sint (wanted_count r)"
    "set ?f = set ds" by (auto simp: Int_Un_distrib2)
  have "plan_ok wl eps reserved rs (sel \<union> device_ids ds) (canonical eps ps)"
    using Cons.prems p by (intro Cons.IH) auto
  then show ?case unfolding canonical_def using f by (simp add: p)
qed

lemma canonical_endpoints:
  assumes "list_all2 (rank_satisfied wl eps reserved) ranks plan"
  shows "plan_endpoints (canonical eps plan) = plan_endpoints plan"
  using assms
proof (induction ranks plan rule: list_all2_induct)
  case (Cons r rs p ps)
  obtain n ds where p: "p = (n, ds)" by fastforce
  have "{e. e \<in> set ds \<and> e \<in> set eps} = set ds" using Cons.hyps(1) p by (auto simp: rank_satisfied_def)
  then have "set (filter (\<lambda>e. e \<in> set ds) eps) = set ds" by auto
  with Cons.IH show ?case by (simp add: plan_endpoints_def canonical_def p image_Un)
qed (simp add: canonical_def)

section \<open>The result of the solver\<close>

text \<open>
  What a call returns, in terms of the search plans over the sorted endpoints.
\<close>

definition initial_state :: "ctx \<Rightarrow> Workload \<Rightarrow> solve_state" where
  "initial_state ctx wl = \<lparr>st_ctx = ctx, st_selected = {},
     st_assignments = replicate (length (wl_Ranks wl)) zero_assignment\<rparr>"

lemma at_rank_initial:
  "(bg \<longrightarrow> ctx = None) \<Longrightarrow> at_rank bg (length (wl_Ranks wl)) [] {} (initial_state ctx wl)"
  by (simp add: at_rank_def initial_state_def)

lemma SolveContext_search:
  assumes "within_limits wl eps limits"
    and "chooseRank rng wl (sort_key endpoint_key eps) reserved (wl_Ranks wl) 0 (initial_state ctx wl) = (ok, st)"
  shows "SolveContext rng ctx (Some wl) eps reserved limits =
     (st_assignments st, ok, if fst (ctx_poll (st_ctx st)) then Some ContextExpired else None)"
  using assms by (auto simp: SolveContext_def within_limits_def initial_state_def Let_def split: prod.splits)

lemma SolveContext_refused:
  "\<not> within_limits wl eps limits \<Longrightarrow>
     SolveContext rng ctx (Some wl) eps reserved limits = ([], False, Some LimitsExceeded)"
  by (auto simp: SolveContext_def within_limits_def)

lemma SolveContext_plan:
  assumes "SolveContext rng ctx (Some wl) eps reserved limits = (as, True, err)"
  shows "within_limits wl eps limits \<and>
     (\<exists>plan. plan_ok wl (sort_key endpoint_key eps) reserved (wl_Ranks wl) {} plan \<and>
        as = plan_assignments wl (wl_Ranks wl) plan \<and>
        connected rng as (sort_key endpoint_key eps))"
proof -
  let ?eps = "sort_key endpoint_key eps"
  have lim: "within_limits wl eps limits"
    using assms SolveContext_refused [of wl eps limits rng ctx reserved] by auto
  obtain ok st where s: "chooseRank rng wl ?eps reserved (wl_Ranks wl) 0 (initial_state ctx wl) = (ok, st)"
    by fastforce
  from SolveContext_search [OF lim s] assms have as: "st_assignments st = as" and ok: "ok" by auto
  have "rank_post rng wl ?eps reserved (wl_Ranks wl) [] {} st"
    using rank_contract_all [of rng wl ?eps reserved False "wl_Ranks wl"]
      at_rank_initial [of False ctx wl] s ok
    unfolding rank_contract_def by fastforce
  then show ?thesis using lim as by (auto simp: rank_post_def)
qed

lemma SolveContext_plan_complete:
  assumes "within_limits wl eps limits"
    and "plan_ok wl (sort_key endpoint_key eps) reserved (wl_Ranks wl) {} plan"
    and "connected rng (plan_assignments wl (wl_Ranks wl) plan) (sort_key endpoint_key eps)"
  shows "fst (snd (SolveContext rng None (Some wl) eps reserved limits))"
proof -
  let ?eps = "sort_key endpoint_key eps"
  obtain ok st where s: "chooseRank rng wl ?eps reserved (wl_Ranks wl) 0 (initial_state None wl) = (ok, st)"
    by fastforce
  have "at_rank True (length (wl_Ranks wl)) [] {} (initial_state None wl)" by (simp add: at_rank_initial)
  then have ok
    using rank_complete_all [of rng wl ?eps reserved "wl_Ranks wl"] assms(2,3) s
    unfolding rank_complete_def by fastforce
  then show ?thesis using SolveContext_search [OF assms(1) s] by simp
qed

section \<open>Correctness of the solver\<close>

lemma mset_sort_key_eps [simp]: "mset (sort_key endpoint_key eps) = mset eps"
  by simp

lemma fabric_ok_sort [simp]: "fabric_ok (sort_key endpoint_key eps) = fabric_ok eps"
  by (rule fabric_ok_mset) simp

lemma distinct_devices_sort: "distinct (map device_id eps) \<Longrightarrow> distinct (map device_id (sort_key f eps))"
  by (metis mset_eq_imp_distinct_iff mset_map mset_sort)

lemma plan_device_ok:
  assumes "list_all2 (rank_satisfied wl eps reserved) ranks plan" and "d \<in> set (concat (map snd plan))"
  shows "d \<in> set eps \<and> matchesTopology (wl_Topology wl) d \<and> device_id d \<notin> reserved"
  using assms by (induction ranks plan rule: list_all2_induct) (auto simp: rank_satisfied_def)

text \<open>On a validated fabric the connectivity check decides connectivity, for plans over it.\<close>

lemma connected_plan_iff:
  assumes "range_order rng" and "fabric_ok eps" and "list_all2 (rank_satisfied wl eps reserved) ranks plan"
  shows "connected rng (plan_assignments wl ranks plan) eps \<longleftrightarrow> connected_set eps (plan_endpoints plan)"
proof -
  have "length ranks = length plan" using assms(3) by (rule list_all2_lengthD)
  then have sel: "set (selected_ids (plan_assignments wl ranks plan)) = plan_endpoints plan"
    by (rule set_plan_selected)
  have "set (concat (map snd plan)) \<subseteq> set eps"
    using plan_device_ok [OF assms(3)] by blast
  then have "[] \<notin> plan_endpoints plan" using assms(2) by (auto simp: plan_endpoints_def fabric_ok_def)
  then show ?thesis
    using connected_iff_set [OF assms(1)] assms(2) sel by (simp add: fabric_ok_def)
qed

text \<open>The search finds a plan whenever one exists, and finds only plans.\<close>

lemma SolveContext_feasible:
  assumes "within_limits wl eps limits" and "range_order rng" and "fabric_ok eps"
    and "distinct (map device_id eps)" and "feasible wl eps reserved"
  shows "fst (snd (SolveContext rng None (Some wl) eps reserved limits))"
proof -
  let ?eps = "sort_key endpoint_key eps"
  from assms(5) obtain plan where
    v: "valid_plan wl ?eps reserved plan" "connected_set ?eps (plan_endpoints plan)"
    unfolding feasible_def using valid_plan_cong [of ?eps eps] connected_set_cong [of ?eps eps] by auto
  have "distinct ?eps" using distinct_devices_sort [OF assms(4)] by (simp add: distinct_map)
  then have ok: "plan_ok wl ?eps reserved (wl_Ranks wl) {} (canonical ?eps plan)"
    using v(1) by (intro canonical_plan_ok) (auto simp: valid_plan_def)
  moreover have "plan_endpoints (canonical ?eps plan) = plan_endpoints plan"
    using v(1) canonical_endpoints by (auto simp: valid_plan_def)
  then have "connected rng (plan_assignments wl (wl_Ranks wl) (canonical ?eps plan)) ?eps"
    using connected_plan_iff [OF assms(2), of ?eps wl reserved "wl_Ranks wl" "canonical ?eps plan"]
      assms(3) v(2) plan_ok_imp_valid [OF distinct_devices_sort [OF assms(4)] ok] by simp
  ultimately show ?thesis by (rule SolveContext_plan_complete [OF assms(1)])
qed

lemma SolveContext_valid:
  assumes "SolveContext rng ctx (Some wl) eps reserved limits = (as, True, err)"
    and "range_order rng" and "fabric_ok eps" and "distinct (map device_id eps)"
  obtains plan where "valid_plan wl eps reserved plan" and "as = plan_assignments wl (wl_Ranks wl) plan"
    and "connected_set eps (plan_endpoints plan)" and "within_limits wl eps limits"
proof -
  let ?eps = "sort_key endpoint_key eps"
  from SolveContext_plan [OF assms(1)] obtain plan where lim: "within_limits wl eps limits" and
    p: "plan_ok wl ?eps reserved (wl_Ranks wl) {} plan" "as = plan_assignments wl (wl_Ranks wl) plan"
      "connected rng as ?eps" by blast
  note v = plan_ok_imp_valid [OF distinct_devices_sort [OF assms(4)] p(1)]
  then have "valid_plan wl ?eps reserved plan" by (simp add: valid_plan_def)
  moreover have "connected_set ?eps (plan_endpoints plan)"
    using connected_plan_iff [OF assms(2), of ?eps wl reserved "wl_Ranks wl" plan] assms(3) v p(2,3)
    by simp
  ultimately show ?thesis
    using that p(2) lim valid_plan_cong [of ?eps eps] connected_set_cong [of ?eps eps] by auto
qed

lemma SolveContext_decides:
  assumes "within_limits wl eps limits" and "range_order rng" and "fabric_ok eps"
    and "distinct (map device_id eps)"
  shows "fst (snd (SolveContext rng None (Some wl) eps reserved limits)) \<longleftrightarrow> feasible wl eps reserved"
proof
  assume "fst (snd (SolveContext rng None (Some wl) eps reserved limits))"
  then obtain as err where s: "SolveContext rng None (Some wl) eps reserved limits = (as, True, err)"
    by (metis prod.collapse)
  from SolveContext_valid [OF s assms(2-4)] show "feasible wl eps reserved"
    unfolding feasible_def by blast
qed (rule SolveContext_feasible [OF assms])

section \<open>A sample fabric\<close>

text \<open>
  Two linked endpoints of one ring on one node and a workload with one rank of two devices: the
  concrete input on which the hypotheses of the properties below are discharged.
\<close>

definition sample_link :: "string \<Rightarrow> TopologyLink" where
  "sample_link remote = \<lparr>tl_Name = ''0'', tl_State = ''up'', tl_SpeedGbps = 100, tl_RemoteEndpointID = remote\<rparr>"

definition sample_endpoint :: "string \<Rightarrow> string \<Rightarrow> string \<Rightarrow> FabricEndpoint" where
  "sample_endpoint dev eid remote = \<lparr>fe_NodeName = ''n1'', fe_Pool = ''n1'', fe_DeviceName = dev,
     fe_StableID = dev, fe_ChipSeries = ''wormhole'', fe_FabricID = ''f'', fe_RingID = ''r'',
     fe_EndpointID = eid, fe_Links = [sample_link remote]\<rparr>"

definition sample_fabric :: "FabricEndpoint list" where
  "sample_fabric = [sample_endpoint ''d0'' ''a'' ''b'', sample_endpoint ''d1'' ''b'' ''a'']"

definition sample_workload :: Workload where
  "sample_workload = \<lparr>wl_Name = ''job'', wl_UID = ''u'',
     wl_Topology = \<lparr>wt_FabricID = [], wt_RingID = ''r''\<rparr>,
     wl_Ranks = [\<lparr>wr_Name = ''w'', wr_DeviceClassName = ''tenstorrent'', wr_Count = 2, wr_ChipSeries = []\<rparr>]\<rparr>"

definition sample_limits :: Limits where
  "sample_limits = \<lparr>MaxRanks = 4, MaxEndpoints = 8, MaxDevices = 16\<rparr>"

lemmas sample_defs = sample_link_def sample_endpoint_def sample_fabric_def

lemma sample_fabric_ok:
  "fabric_ok sample_fabric" "distinct (map device_id sample_fabric)" "distinct (map endpoint_key sample_fabric)"
  by (simp_all add: fabric_ok_def reciprocal_def sample_defs device_id_def endpoint_key_def)

lemma range_order_ident: "range_order (\<lambda>xs. xs)" and range_order_rev: "range_order rev"
  by (simp_all add: range_order_def)

lemma sample_within_limits: "within_limits sample_workload sample_fabric sample_limits"
  by (simp add: within_limits_def sample_workload_def sample_fabric_def sample_limits_def total_count_def)

lemma sample_feasible: "feasible sample_workload sample_fabric {}"
  unfolding feasible_def
proof (intro exI conjI)
  let ?plan = "[(''n1'', sample_fabric)]"
  show "valid_plan sample_workload sample_fabric {} ?plan"
    by (simp add: valid_plan_def rank_satisfied_def sample_workload_def sample_defs wanted_count_def
        rank_matches_def matchesTopology_def MatchesDeviceClass_def class_names device_id_def)
  have "(''a'', ''b'') \<in> up_edges sample_fabric {''a'', ''b''}"
    "(''b'', ''a'') \<in> up_edges sample_fabric {''a'', ''b''}"
    by (simp_all add: up_edges_def sample_defs)
  then show "connected_set sample_fabric (plan_endpoints ?plan)"
    by (auto simp: connected_set_def plan_endpoints_def same_domain_def sample_defs)
qed

section \<open>Soundness and completeness\<close>

text \<open>
  C19: when the solver reports success on a validated fabric, the assignments it returns are those
  of a plan that gives every rank, on a single node, exactly as many devices as it asks for, each
  matching the rank's series and class and the workload's fabric and ring, none reserved and none
  used twice, and all selected endpoints lie in one fabric and ring and are joined by links that
  are up and stay inside the selection.
\<close>

theorem SolveContext_sound:
  assumes "SolveContext rng ctx (Some wl) eps reserved limits = (as, True, err)"
    and "range_order rng" and "fabric_ok eps" and "distinct (map device_id eps)"
  shows "\<exists>plan. valid_plan wl eps reserved plan \<and> as = plan_assignments wl (wl_Ranks wl) plan \<and>
     connected_set eps (plan_endpoints plan)"
  using SolveContext_valid [OF assms] by blast

lemma sample_solved:
  "fst (snd (SolveContext (\<lambda>xs. xs) None (Some sample_workload) sample_fabric {} sample_limits))"
  by (rule SolveContext_feasible [OF sample_within_limits range_order_ident sample_fabric_ok(1,2) sample_feasible])

theorem SolveContext_sound_witness:
  "\<exists>plan. valid_plan sample_workload sample_fabric {} plan \<and>
     fst (SolveContext (\<lambda>xs. xs) None (Some sample_workload) sample_fabric {} sample_limits) =
       plan_assignments sample_workload (wl_Ranks sample_workload) plan \<and>
     connected_set sample_fabric (plan_endpoints plan)"
  using SolveContext_sound [OF _ range_order_ident sample_fabric_ok(1,2)] sample_solved
  by (metis prod.collapse)

text \<open>
  C20: with a context that does not expire, and within the limits, the search is complete: it
  reports success exactly when some valid and connected plan exists.
\<close>

theorem SolveContext_complete:
  assumes "within_limits wl eps limits" and "range_order rng" and "fabric_ok eps"
    and "distinct (map device_id eps)"
  shows "fst (snd (SolveContext rng None (Some wl) eps reserved limits)) \<longleftrightarrow> feasible wl eps reserved"
  by (rule SolveContext_decides [OF assms])

theorem SolveContext_complete_witness:
  "fst (snd (SolveContext rev None (Some sample_workload) sample_fabric {} sample_limits))"
  using SolveContext_complete [OF sample_within_limits range_order_rev sample_fabric_ok(1,2), of "{}"]
    sample_feasible by blast

section \<open>Determinism\<close>

lemma same_ring_None: "eid \<in> set ids \<Longrightarrow> gm_get byID eid = None \<Longrightarrow> same_ring byID ids x = None"
  by (induction byID ids x rule: same_ring.induct) (auto split: option.splits simp: Let_def)

text \<open>The order in which the map of selected endpoints is visited does not matter.\<close>

lemma connected_any_order:
  assumes "range_order rng" and "range_order rng'" and "fabric_ok eps"
  shows "connected rng as eps = connected rng' as eps"
proof (cases "[] \<in> set (selected_ids as)")
  case True
  then have "[] \<in> set (rng (selected_ids as))" "[] \<in> set (rng' (selected_ids as))"
    using range_order_set assms(1,2) by simp_all
  moreover have "gm_get (index_by fe_EndpointID eps) [] = None"
    using assms(3) by (simp add: index_by_None_iff fabric_ok_def)
  ultimately show ?thesis by (simp add: connected_def Let_def same_ring_None)
next
  case False
  with assms show ?thesis by (simp add: connected_iff_set fabric_ok_def)
qed

lemma chooseRank_any_order:
  assumes "range_order rng" and "range_order rng'" and "fabric_ok eps"
  shows "chooseRank rng wl eps reserved ranks index = chooseRank rng' wl eps reserved ranks index"
proof (induction ranks arbitrary: index)
  case Nil
  have "connected rng (st_assignments s) eps = connected rng' (st_assignments s) eps" for s :: solve_state
    using assms by (rule connected_any_order)
  then show ?case by (auto split: prod.split)
next
  case (Cons r rs)
  show ?case by (rule ext) (simp only: chooseRank.simps Cons.IH [symmetric])
qed

text \<open>
  C21: the solver is deterministic: on a validated fabric its result does not depend on the order
  in which the endpoints are listed nor on the iteration order of Go maps.
\<close>

theorem SolveContext_deterministic:
  assumes "mset eps = mset eps'" and "distinct (map endpoint_key eps)" and "fabric_ok eps"
    and "range_order rng" and "range_order rng'"
  shows "SolveContext rng ctx workload eps reserved limits = SolveContext rng' ctx workload eps' reserved limits"
proof -
  have "sort_key endpoint_key eps = sort_key endpoint_key eps'"
    using assms(1,2) by (rule sort_key_perm_unique)
  moreover have "length eps = length eps'" using assms(1) by (rule mset_eq_length)
  moreover have "chooseRank rng wl (sort_key endpoint_key eps') reserved ranks n =
      chooseRank rng' wl (sort_key endpoint_key eps') reserved ranks n" for wl ranks n
    using assms(3) fabric_ok_mset [OF assms(1)]
    by (intro chooseRank_any_order [OF assms(4,5)]) simp
  then have "chooseRank rng wl (sort_key endpoint_key eps') reserved ranks n s =
      chooseRank rng' wl (sort_key endpoint_key eps') reserved ranks n s" for wl ranks n s
    by simp
  ultimately show ?thesis
    unfolding SolveContext_def Let_def by (auto split: option.split prod.split)
qed

theorem SolveContext_deterministic_witness:
  "SolveContext (\<lambda>xs. xs) (Some 3) (Some sample_workload) sample_fabric {} sample_limits =
     SolveContext rev (Some 3) (Some sample_workload) (rev sample_fabric) {} sample_limits"
  using SolveContext_deterministic [OF _ sample_fabric_ok(3,1) range_order_ident range_order_rev,
      of "rev sample_fabric"] by simp

section \<open>Deadlines\<close>

text \<open>
  \<open>unaffected f\<close>: a run of \<open>f\<close> after which the context has not expired is the run a context
  without a deadline would have made.
\<close>

definition unaffected :: "(solve_state \<Rightarrow> bool \<times> solve_state) \<Rightarrow> bool" where
  "unaffected f \<longleftrightarrow> (\<forall>s b s'. f s = (b, s') \<longrightarrow> st_ctx s' \<noteq> Some 0 \<longrightarrow>
     st_ctx s \<noteq> Some 0 \<and> f (s\<lparr>st_ctx := None\<rparr>) = (b, s'\<lparr>st_ctx := None\<rparr>))"

lemma unaffectedD:
  assumes "unaffected f" and "f s = (b, s')" and "st_ctx s' \<noteq> Some 0"
  shows "st_ctx s \<noteq> Some 0" and "f (s\<lparr>st_ctx := None\<rparr>) = (b, s'\<lparr>st_ctx := None\<rparr>)"
  using assms unfolding unaffected_def by blast+

lemma unaffected_if: "unaffected f \<Longrightarrow> unaffected g \<Longrightarrow> unaffected (\<lambda>s. if b then f s else g s)"
  by (cases b) simp_all

lemma unaffected_fail: "unaffected (\<lambda>s. (False, s))"
  by (simp add: unaffected_def)

lemma poll_unaffected:
  assumes "poll s = (e, s')" and "st_ctx s' \<noteq> Some 0"
  shows "st_ctx s \<noteq> Some 0" and "\<not> e" and "poll (s\<lparr>st_ctx := None\<rparr>) = (False, s'\<lparr>st_ctx := None\<rparr>)"
  using assms by (auto simp: poll_def split: prod.splits elim!: ctx_poll.elims)

lemma poll_then:
  assumes "unaffected f"
  shows "unaffected (\<lambda>s. case poll s of (e, s) \<Rightarrow> if e then (False, s) else f s)"
  unfolding unaffected_def
proof (intro allI impI)
  fix s b s'
  assume run: "(case poll s of (e, s) \<Rightarrow> if e then (False, s) else f s) = (b, s')"
    and live: "st_ctx s' \<noteq> Some 0"
  obtain e s1 where p: "poll s = (e, s1)" by fastforce
  have "st_ctx s1 \<noteq> Some 0"
    using run p live unaffectedD(1) [OF assms, of s1 b s'] by (cases e) auto
  note ps = poll_unaffected [OF p this]
  with run p have "f s1 = (b, s')" by simp
  then show "st_ctx s \<noteq> Some 0 \<and>
      (case poll (s\<lparr>st_ctx := None\<rparr>) of (e, s) \<Rightarrow> if e then (False, s) else f s) = (b, s'\<lparr>st_ctx := None\<rparr>)"
    using ps unaffectedD(2) [OF assms _ live] by simp
qed

lemma try_each_unaffected:
  assumes "\<And>x. unaffected (f x)"
  shows "unaffected (try_each f xs)"
proof (induction xs)
  case Nil
  show ?case by (simp add: unaffected_def)
next
  case (Cons x xs)
  show ?case
    unfolding unaffected_def
  proof (intro allI impI)
    fix s b s'
    assume run: "try_each f (x # xs) s = (b, s')" and live: "st_ctx s' \<noteq> Some 0"
    obtain c s1 where c: "f x s = (c, s1)" by fastforce
    show "st_ctx s \<noteq> Some 0 \<and> try_each f (x # xs) (s\<lparr>st_ctx := None\<rparr>) = (b, s'\<lparr>st_ctx := None\<rparr>)"
    proof (cases c)
      case True
      with run c live show ?thesis using unaffectedD [OF assms c] by simp
    next
      case False
      with run c have "try_each f xs s1 = (b, s')" by simp
      from unaffectedD [OF Cons.IH this live] unaffectedD [OF assms c] False
      show ?thesis by simp
    qed
  qed
qed

lemma choose_unaffected:
  fixes visit :: "'a list \<Rightarrow> solve_state \<Rightarrow> bool \<times> solve_state"
  assumes "\<And>p. unaffected (visit p)"
  shows "unaffected (choose_from visit cnt items picked)" and "unaffected (choose_loop visit cnt items picked)"
proof (induction items arbitrary: picked)
  case Nil
  have loop: "unaffected (choose_loop visit cnt [] picked)" for picked by (simp add: unaffected_def)
  { case 1
    from poll_then [OF unaffected_if [OF assms loop]] show ?case by (simp only: choose_from.simps)
  next
    case 2
    show ?case by (rule loop) }
next
  case (Cons x xs)
  have loop: "unaffected (choose_loop visit cnt (x # xs) picked)" for picked
    unfolding unaffected_def
  proof (intro allI impI)
    fix s b s'
    assume run: "choose_loop visit cnt (x # xs) picked s = (b, s')" and live: "st_ctx s' \<noteq> Some 0"
    obtain c s1 where c: "choose_from visit cnt xs (picked @ [x]) s = (c, s1)" by fastforce
    show "st_ctx s \<noteq> Some 0 \<and>
        choose_loop visit cnt (x # xs) picked (s\<lparr>st_ctx := None\<rparr>) = (b, s'\<lparr>st_ctx := None\<rparr>)"
    proof (cases "cnt - length picked \<le> length (x # xs) \<and> \<not> c")
      case True
      with run c have "choose_loop visit cnt xs picked s1 = (b, s')" by simp
      from unaffectedD [OF Cons.IH(2) this live] unaffectedD [OF Cons.IH(1) c] True
      show ?thesis by simp
    next
      case False
      with run c live show ?thesis
        using unaffectedD [OF Cons.IH(1) c] by (cases c) (auto split: if_splits)
    qed
  qed
  { case 1
    from poll_then [OF unaffected_if [OF assms loop]] show ?case by (simp only: choose_from.simps)
  next
    case 2
    show ?case by (rule loop) }
qed

lemma visit_rank_unaffected:
  assumes "unaffected next_rank"
  shows "unaffected (visit_rank wl r n index next_rank p)"
  unfolding unaffected_def
proof (intro allI impI)
  fix s b s'
  assume run: "visit_rank wl r n index next_rank p s = (b, s')" and live: "st_ctx s' \<noteq> Some 0"
  define s0 where "s0 = s\<lparr>st_assignments := (st_assignments s)[index := makeAssignment wl (wr_Name r) n p],
     st_selected := res_AddAssignment (st_selected s) (makeAssignment wl (wr_Name r) n p)\<rparr>"
  obtain c s1 where c: "next_rank s0 = (c, s1)" by fastforce
  have "st_ctx s1 \<noteq> Some 0" using run live c
    by (cases c) (auto simp: visit_rank_def Let_def s0_def simp del: res_AddAssignment_make)
  from unaffectedD [OF assms c this] run c
  show "st_ctx s \<noteq> Some 0 \<and> visit_rank wl r n index next_rank p (s\<lparr>st_ctx := None\<rparr>) = (b, s'\<lparr>st_ctx := None\<rparr>)"
    by (cases s; cases s1; cases c) (auto simp: visit_rank_def Let_def s0_def simp del: res_AddAssignment_make)
qed

lemma chooseRank_unaffected: "unaffected (chooseRank rng wl eps reserved ranks index)"
proof (induction ranks arbitrary: index)
  case Nil
  have "unaffected (\<lambda>s. (connected rng (st_assignments s) eps, s))" by (simp add: unaffected_def)
  from poll_then [OF this] show ?case by simp
next
  case (Cons r rs)
  have node: "unaffected (\<lambda>s. let choices = (case gm_get byNode n of None \<Rightarrow> [] | Some xs \<Rightarrow> xs)
      in if int (length choices) < sint count then (False, s)
         else chooseCombinations choices (nat (sint count)) (visit_rank wl r n index
           (\<lambda>st. chooseRank rng wl eps reserved rs (Suc index) st)) s)" for byNode n and count :: int64
    unfolding Let_def chooseCombinations_def
    by (intro unaffected_if unaffected_fail choose_unaffected(1) visit_rank_unaffected Cons.IH)
  have "unaffected (\<lambda>s. f (st_selected s) s)" if "\<And>sel. unaffected (f sel)" for f
    using that unfolding unaffected_def by (metis solve_state.select_convs(2) solve_state.surjective solve_state.update_convs(1))
  from poll_then [OF this, OF try_each_unaffected [OF node]]
  show ?case by (simp only: chooseRank.simps Let_def)
qed

lemma SolveContext_in_time:
  assumes "SolveContext rng ctx workload eps reserved limits = (as, ok, None)"
  shows "SolveContext rng None workload eps reserved limits = (as, ok, None)"
proof -
  from assms obtain wl where wl: "workload = Some wl" by (cases workload) (auto simp: SolveContext_def)
  have lim: "within_limits wl eps limits"
    using assms SolveContext_refused [of wl eps limits rng ctx reserved] wl by auto
  let ?run = "chooseRank rng wl (sort_key endpoint_key eps) reserved (wl_Ranks wl) 0"
  obtain b s where run: "?run (initial_state ctx wl) = (b, s)" by fastforce
  from SolveContext_search [OF lim run] assms wl
  have s: "st_assignments s = as" "b = ok" "\<not> fst (ctx_poll (st_ctx s))" by (auto split: if_splits)
  then have "st_ctx s \<noteq> Some 0" by auto
  from unaffectedD(2) [OF chooseRank_unaffected run this]
  have "?run (initial_state None wl) = (b, s\<lparr>st_ctx := None\<rparr>)" by (simp add: initial_state_def)
  from SolveContext_search [OF lim this] s wl show ?thesis by simp
qed

text \<open>
  A deadline that has not expired by the end of the call has not influenced it: a result
  returned without an error is the result of the same call with no deadline at all.  In
  particular a failure without an error is definitive.
\<close>

theorem SolveContext_deadline:
  assumes "SolveContext rng ctx workload eps reserved limits = (as, ok, None)"
  shows "SolveContext rng None workload eps reserved limits = (as, ok, None)"
  by (rule SolveContext_in_time [OF assms])

lemma sample_reserved:
  "SolveContext rng (Some 9) (Some sample_workload) sample_fabric UNIV sample_limits =
     ([zero_assignment], False, None)"
  by (simp add: SolveContext_def sample_limits_def sample_workload_def sample_defs total_count_def poll_def
      candidatesByNode_def candidate_ok_def sortedNodeNames_def gm_keys_def Let_def numeral_eq_Suc
      endpoint_key_def)

theorem SolveContext_deadline_witness:
  "SolveContext rev None (Some sample_workload) sample_fabric UNIV sample_limits =
     ([zero_assignment], False, None)"
  using SolveContext_deadline [OF sample_reserved] .

end
