(* ===== verification/Placement_Bounds.thy ===== *)
theory Placement_Bounds
  imports Placement_Correct
begin

text \<open>
  The numeric and lexical bounds of placement: the names of child objects are DNS labels, the
  64-bit total of the requested counts is the real total for counts the API schema admits, and
  what the total does beyond them.
\<close>

section \<open>Names of child objects\<close>

text \<open>
  C40: whatever the names of the workload and the rank, the name of a child Pod or claim is a DNS
  label: 1 to 63 characters, each a lower-case letter, a digit or a dash, none at the ends.
\<close>

theorem ChildName_dns_label: "dns_label (ChildName workloadName workloadUID rankName)"
  unfolding ChildName_def Let_def
  by (rule label_prefix_digest, rule label_prefix_cut [OF label_prefix_sanitized [where n = 2]]) (simp_all add: label_prefix_def label_char_def)

section \<open>The total of the counts\<close>

text \<open>Counts the schema of the API admits: from 1 to 128.\<close>

definition schema_counts :: "WorkloadRank list \<Rightarrow> bool" where
  "schema_counts ranks \<longleftrightarrow> length ranks \<le> 64 \<and> (\<forall>r \<in> set ranks. 1 \<le> sint (wr_Count r) \<and> sint (wr_Count r) \<le> 128)"

definition true_total :: "WorkloadRank list \<Rightarrow> int" where
  "true_total ranks = (\<Sum>r\<leftarrow>ranks. sint (wr_Count r))"

lemma sint_plus64:
  fixes a b :: int64
  assumes "- (2 ^ 63) \<le> sint a + sint b" and "sint a + sint b < 2 ^ 63"
  shows "sint (a + b) = sint a + sint b"
  using assms by (subst sint_word_ariths) (simp add: signed_take_bit_int_eq_self)

lemma total_count_foldl:
  assumes "\<forall>r \<in> set ranks. 1 \<le> sint (wr_Count r) \<and> sint (wr_Count r) \<le> 128"
    and "0 \<le> sint acc" and "sint acc + 128 * int (length ranks) < 2 ^ 63"
  shows "sint (foldl (\<lambda>total rank. total + wr_Count rank) acc ranks) = sint acc + true_total ranks"
  using assms
proof (induction ranks arbitrary: acc)
  case (Cons r ranks)
  have r: "1 \<le> sint (wr_Count r)" "sint (wr_Count r) \<le> 128" using Cons.prems(1) by auto
  have "sint (acc + wr_Count r) = sint acc + sint (wr_Count r)"
    using r Cons.prems(2,3) by (intro sint_plus64) auto
  with Cons.IH [of "acc + wr_Count r"] Cons.prems r show ?case
    by (simp add: true_total_def)
qed (simp add: true_total_def)

lemma total_count_exact: "schema_counts ranks \<Longrightarrow> sint (total_count ranks) = true_total ranks"
  unfolding total_count_def schema_counts_def by (subst total_count_foldl) auto

lemma length_plan_devices:
  assumes "list_all2 (rank_satisfied wl eps reserved) ranks plan" and "schema_counts ranks"
  shows "int (length (concat (map snd plan))) = true_total ranks"
  using assms
proof (induction ranks plan rule: list_all2_induct)
  case (Cons r rs p ps)
  have "wanted_count r = wr_Count r" using Cons.prems by (simp add: schema_counts_def wanted_count_def)
  moreover have "schema_counts rs" using Cons.prems by (simp add: schema_counts_def)
  ultimately show ?case using Cons by (simp add: rank_satisfied_def true_total_def)
qed (simp add: true_total_def)

lemma plan_assignments_devices:
  "length ranks = length plan \<Longrightarrow>
     length (concat (map ra_Devices (plan_assignments wl ranks plan))) = length (concat (map snd plan))"
  by (induction ranks plan rule: list_induct2) auto

text \<open>
  C31: with counts the schema admits, a successful call assigns exactly the requested number of
  devices in total, and never more than the limit on devices.
\<close>

theorem SolveContext_device_bound:
  assumes "SolveContext rng ctx (Some wl) eps reserved limits = (as, True, err)"
    and "range_order rng" and "fabric_ok eps" and "distinct (map device_id eps)"
    and "schema_counts (wl_Ranks wl)"
  shows "int (length (concat (map ra_Devices as))) = true_total (wl_Ranks wl) \<and>
     int (length (concat (map ra_Devices as))) \<le> sint (MaxDevices limits)"
proof -
  obtain plan where v: "valid_plan wl eps reserved plan" "as = plan_assignments wl (wl_Ranks wl) plan"
      "within_limits wl eps limits"
    by (rule SolveContext_valid [OF assms(1-4)])
  have r: "list_all2 (rank_satisfied wl eps reserved) (wl_Ranks wl) plan" using v(1) by (simp add: valid_plan_def)
  have "int (length (concat (map ra_Devices as))) = true_total (wl_Ranks wl)"
    using length_plan_devices [OF r assms(5)] plan_assignments_devices [OF list_all2_lengthD [OF r]] v(2)
    by simp
  with v(3) total_count_exact [OF assms(5)] show ?thesis by (simp add: within_limits_def)
qed

theorem SolveContext_device_bound_witness:
  "int (length (concat (map ra_Devices
     (fst (SolveContext (\<lambda>xs. xs) None (Some sample_workload) sample_fabric {} sample_limits))))) = 2"
proof -
  have "schema_counts (wl_Ranks sample_workload)" "true_total (wl_Ranks sample_workload) = 2"
    by (simp_all add: schema_counts_def sample_workload_def true_total_def)
  moreover obtain as err where
    "SolveContext (\<lambda>xs. xs) None (Some sample_workload) sample_fabric {} sample_limits = (as, True, err)"
    using sample_solved by (metis prod.collapse)
  ultimately show ?thesis
    using SolveContext_device_bound [OF _ range_order_ident sample_fabric_ok(1,2)] by simp
qed

text \<open>
  Beyond the schema the 64-bit total wraps: four ranks of \<open>2 ^ 62\<close> devices each have the total
  0 and pass the limit on devices.
\<close>

theorem total_count_wraps:
  "within_limits (sample_workload\<lparr>wl_Ranks := replicate 4 (hd (wl_Ranks sample_workload)\<lparr>wr_Count := 2 ^ 62\<rparr>)\<rparr>)
     sample_fabric DefaultLimits \<and>
   true_total (replicate 4 (hd (wl_Ranks sample_workload)\<lparr>wr_Count := 2 ^ 62\<rparr>)) = 2 ^ 64"
  by (simp add: within_limits_def DefaultLimits_def sample_workload_def sample_fabric_def total_count_def
      true_total_def numeral_eq_Suc)

end
