(* ===== verification/Topology_Correct.thy ===== *)
theory Topology_Correct
  imports Topology Placement_Bounds
begin

text \<open>
  What \<open>BuildFabric\<close> validates: the exact condition under which a graph is valid, that the order
  of the observations does not matter, and that a valid graph is one on which placement is
  sound and complete.
\<close>

section \<open>Specification\<close>

definition node_endpoints :: "NodeTopologySpec \<Rightarrow> FabricEndpoint list" where
  "node_endpoints n =
     map (fabric_endpoint (nt_NodeName n)) (filter (\<lambda>d. td_EndpointID d \<noteq> []) (nt_Devices n))"

definition observed_endpoints :: "NodeTopologySpec list \<Rightarrow> FabricEndpoint list" where
  "observed_endpoints nodes = concat (map node_endpoints nodes)"

definition clean :: "FabricEndpoint list \<Rightarrow> bool" where
  "clean es \<longleftrightarrow> (\<forall>e \<in> set es. fe_FabricID e \<noteq> [] \<and> fe_RingID e \<noteq> []) \<and>
     distinct (map fe_EndpointID es) \<and> length es \<le> Topology_MaxEndpoints"

definition link_ok :: "FabricEndpoint list \<Rightarrow> FabricEndpoint \<Rightarrow> TopologyLink \<Rightarrow> bool" where
  "link_ok eps e l \<longleftrightarrow>
     (tl_State l = ''up'' \<and> tl_RemoteEndpointID l \<noteq> [] \<longrightarrow>
       (\<exists>p \<in> set eps. fe_EndpointID p = tl_RemoteEndpointID l \<and>
          fe_FabricID p = fe_FabricID e \<and> fe_RingID p = fe_RingID e \<and> links_back p e))"

text \<open>
  A set of observations is valid: not too many nodes, endpoints and fabrics, no stale node,
  complete and distinct identities, and every link that is up leads to an endpoint of the same
  ring that has a link back.
\<close>

definition valid_observations :: "NodeTopologySpec list \<Rightarrow> duration \<Rightarrow> go_time \<Rightarrow> bool" where
  "valid_observations nodes ttl now \<longleftrightarrow>
     length nodes \<le> MaxNodes \<and> (\<forall>n \<in> set nodes. \<not> stale ttl now n) \<and>
     clean (observed_endpoints nodes) \<and>
     card (fe_FabricID ` set (observed_endpoints nodes)) \<le> MaxFabrics \<and>
     (\<forall>e \<in> set (observed_endpoints nodes). \<forall>l \<in> set (fe_Links e). link_ok (observed_endpoints nodes) e l)"

section \<open>The loop over the nodes\<close>

text \<open>
  The invariant: \<open>es\<close> are the endpoints visited so far and \<open>b\<close> says that no node was refused.
  There is no error exactly when the visited endpoints are clean, and then they are the result.
\<close>

definition fabric_inv :: "bool \<Rightarrow> FabricEndpoint list \<Rightarrow> fabric_acc \<Rightarrow> bool" where
  "fabric_inv b es acc \<longleftrightarrow>
     fa_seen acc = fe_EndpointID ` set (fa_Endpoints acc) \<and>
     fa_fabrics acc = fe_FabricID ` set (fa_Endpoints acc) \<and>
     distinct (map fe_EndpointID (fa_Endpoints acc)) \<and> [] \<notin> fe_EndpointID ` set (fa_Endpoints acc) \<and>
     length (fa_Endpoints acc) \<le> Topology_MaxEndpoints \<and>
     (fa_overflow acc \<longrightarrow> fa_Errors acc \<noteq> []) \<and>
     (fa_Errors acc = [] \<longleftrightarrow> b \<and> clean es) \<and>
     (b \<and> clean es \<longrightarrow> fa_Endpoints acc = es)"

lemma fabric_endpoint_sel [simp]:
  "fe_EndpointID (fabric_endpoint n d) = td_EndpointID d"
  "fe_FabricID (fabric_endpoint n d) = td_FabricID d"
  "fe_RingID (fabric_endpoint n d) = td_RingID d"
  "fe_NodeName (fabric_endpoint n d) = n"
  by (simp_all add: fabric_endpoint_def)

lemma clean_snoc:
  "clean (es @ [e]) \<longleftrightarrow> clean es \<and> fe_FabricID e \<noteq> [] \<and> fe_RingID e \<noteq> [] \<and>
     fe_EndpointID e \<notin> fe_EndpointID ` set es \<and> length es < Topology_MaxEndpoints"
  by (auto simp: clean_def)

lemma add_device_inv:
  assumes "fabric_inv b es acc" and "td_EndpointID d \<noteq> []"
  shows "fabric_inv b (es @ [fabric_endpoint n d]) (add_device n d acc)"
proof (cases "b \<and> clean es")
  case True
  then have "fa_Errors acc = []" "fa_Endpoints acc = es" using assms(1) by (auto simp: fabric_inv_def)
  with assms True show ?thesis
    by (auto simp: fabric_inv_def add_device_def add_error_def Let_def clean_snoc)
next
  case False
  then have "fa_Errors acc \<noteq> []" "\<not> (b \<and> clean (es @ [fabric_endpoint n d]))"
    using assms(1) by (auto simp: fabric_inv_def clean_snoc)
  with assms False show ?thesis
    by (auto simp: fabric_inv_def add_device_def add_error_def Let_def)
qed

lemma add_devices_inv:
  "fabric_inv b es acc \<Longrightarrow>
     fabric_inv b (es @ map (fabric_endpoint n) (filter (\<lambda>d. td_EndpointID d \<noteq> []) ds))
       (fold (add_device n) ds acc)"
proof (induction ds arbitrary: es acc)
  case (Cons d ds)
  show ?case
  proof (cases "td_EndpointID d = []")
    case True
    with Cons show ?thesis by (simp add: add_device_def)
  next
    case False
    from Cons.IH [OF add_device_inv [OF Cons.prems False]] False show ?thesis by simp
  qed
qed simp

lemma add_error_inv: "fabric_inv b es acc \<Longrightarrow> fabric_inv False es (add_error m acc)"
  by (simp add: fabric_inv_def add_error_def)

lemma fabric_inv_False: "fabric_inv b es acc \<Longrightarrow> \<not> b \<Longrightarrow> fabric_inv False es' acc"
  by (simp add: fabric_inv_def)

lemma add_nodes_inv:
  "fabric_inv b es acc \<Longrightarrow>
     fabric_inv (b \<and> (\<forall>n \<in> set nodes. \<not> stale ttl now n)) (es @ observed_endpoints nodes)
       (fold (add_node ttl now) nodes acc)"
proof (induction nodes arbitrary: b es acc)
  case (Cons n nodes)
  show ?case
  proof (cases "stale ttl now n")
    case True
    then have "fabric_inv False (es @ node_endpoints n) (add_node ttl now n acc)"
      using fabric_inv_False [OF add_error_inv [OF Cons.prems]] by (simp add: add_node_def)
    from Cons.IH [OF this] True show ?thesis by (simp add: observed_endpoints_def)
  next
    case False
    then have "fabric_inv b (es @ node_endpoints n) (add_node ttl now n acc)"
      using add_devices_inv [OF Cons.prems] by (simp add: add_node_def node_endpoints_def)
    from Cons.IH [OF this] False show ?thesis by (simp add: observed_endpoints_def)
  qed
qed (simp add: observed_endpoints_def)

text \<open>The loop as \<open>BuildFabric\<close> runs it.\<close>

definition node_loop :: "NodeTopologySpec list \<Rightarrow> duration \<Rightarrow> go_time \<Rightarrow> fabric_acc" where
  "node_loop nodes ttl now =
     (let acc = \<lparr>fa_seen = {}, fa_fabrics = {}, fa_overflow = False, fa_Endpoints = [], fa_Errors = []\<rparr>;
          acc = (if length nodes > MaxNodes
                 then add_error (''node count '' @ show_nat (length nodes) @ '' exceeds maximum '' @ show_nat MaxNodes) acc
                 else acc)
      in fold (add_node ttl now) (if length nodes > MaxNodes then take MaxNodes nodes else nodes) acc)"

lemma node_loop_inv:
  "fabric_inv (length nodes \<le> MaxNodes \<and> (\<forall>n \<in> set nodes. \<not> stale ttl now n))
     (observed_endpoints nodes) (node_loop nodes ttl now)"
proof -
  let ?init = "\<lparr>fa_seen = {}, fa_fabrics = {}, fa_overflow = False, fa_Endpoints = [], fa_Errors = []\<rparr>"
  have init: "fabric_inv True [] ?init" by (simp add: fabric_inv_def clean_def)
  show ?thesis
  proof (cases "length nodes > MaxNodes")
    case True
    from add_nodes_inv [OF add_error_inv [OF init], of "take MaxNodes nodes"] True
    show ?thesis unfolding node_loop_def by (auto simp: Let_def intro: fabric_inv_False)
  next
    case False
    from add_nodes_inv [OF init, of nodes] False show ?thesis by (simp add: node_loop_def)
  qed
qed

section \<open>The checks on links\<close>

lemma link_errors_Nil_iff:
  assumes "distinct (map fe_EndpointID eps)"
  shows "link_errors (index_by fe_EndpointID eps) e l = [] \<longleftrightarrow> link_ok eps e l"
proof (cases "gm_get (index_by fe_EndpointID eps) (tl_RemoteEndpointID l)")
  case None
  then have "fe_EndpointID p \<noteq> tl_RemoteEndpointID l" if "p \<in> set eps" for p
    using that imageI [OF that, of fe_EndpointID] unfolding index_by_None_iff by metis
  then show ?thesis using None by (auto simp: link_errors_def link_ok_def)
next
  case (Some p)
  note p = index_by_SomeD [OF this]
  have "q = p" if "q \<in> set eps" "fe_EndpointID q = tl_RemoteEndpointID l" for q
    using that p assms by (auto simp: distinct_map inj_on_def)
  then show ?thesis using Some p by (auto simp: link_errors_def link_ok_def)
qed

lemma link_ok_cong: "set eps = set eps' \<Longrightarrow> link_ok eps e l = link_ok eps' e l"
  by (simp add: link_ok_def)

lemma links_ok_reciprocal:
  "(\<forall>e \<in> set eps. \<forall>l \<in> set (fe_Links e). link_ok eps e l) \<Longrightarrow> reciprocal eps"
  unfolding reciprocal_def link_ok_def links_back_def list_ex_iff by blast

text \<open>The parts of the result in terms of the loop.\<close>

lemma BuildFabric_parts:
  fixes nodes ttl now
  defines "acc \<equiv> node_loop nodes ttl now" and "eps \<equiv> fs_Endpoints (BuildFabric nodes ttl now)"
  shows "eps = sort_key fe_EndpointID (fa_Endpoints acc)"
    and "fs_Valid (BuildFabric nodes ttl now) \<longleftrightarrow>
       fa_Errors acc = [] \<and> card (fa_fabrics acc) \<le> MaxFabrics \<and>
       (\<forall>e \<in> set eps. \<forall>l \<in> set (fe_Links e). link_errors (index_by fe_EndpointID eps) e l = [])"
proof -
  have "fold (add_node ttl now) (if length nodes > MaxNodes then take MaxNodes nodes else nodes)
     (if length nodes > MaxNodes
      then add_error (''node count '' @ show_nat (length nodes) @ '' exceeds maximum '' @ show_nat MaxNodes)
        \<lparr>fa_seen = {}, fa_fabrics = {}, fa_overflow = False, fa_Endpoints = [], fa_Errors = []\<rparr>
      else \<lparr>fa_seen = {}, fa_fabrics = {}, fa_overflow = False, fa_Endpoints = [], fa_Errors = []\<rparr>) = acc"
    by (simp only: acc_def node_loop_def Let_def)
  note fold = this
  show eps: "eps = sort_key fe_EndpointID (fa_Endpoints acc)"
    unfolding eps_def BuildFabric_def Let_def fold by (simp add: add_error_def)
  show "fs_Valid (BuildFabric nodes ttl now) \<longleftrightarrow>
       fa_Errors acc = [] \<and> card (fa_fabrics acc) \<le> MaxFabrics \<and>
       (\<forall>e \<in> set eps. \<forall>l \<in> set (fe_Links e). link_errors (index_by fe_EndpointID eps) e l = [])"
    unfolding eps unfolding BuildFabric_def Let_def fold by (auto simp: add_error_def)
qed

lemma mset_sort_distinct: "distinct (map f xs) \<Longrightarrow> distinct (map f (sort_key f xs))"
  by (metis mset_eq_imp_distinct_iff mset_map mset_sort)

lemma BuildFabric_distinct: "distinct (map fe_EndpointID (fs_Endpoints (BuildFabric nodes ttl now)))"
  unfolding BuildFabric_parts(1) using node_loop_inv [of nodes ttl now]
  by (intro mset_sort_distinct) (simp add: fabric_inv_def)

lemma BuildFabric_valid_char:
  "fs_Valid (BuildFabric nodes ttl now) \<longleftrightarrow> valid_observations nodes ttl now"
  "valid_observations nodes ttl now \<Longrightarrow>
     fs_Endpoints (BuildFabric nodes ttl now) = sort_key fe_EndpointID (observed_endpoints nodes)"
proof -
  let ?eps = "fs_Endpoints (BuildFabric nodes ttl now)" and ?acc = "node_loop nodes ttl now"
  let ?b = "length nodes \<le> MaxNodes \<and> (\<forall>n \<in> set nodes. \<not> stale ttl now n)"
  note inv = node_loop_inv [of nodes ttl now, unfolded fabric_inv_def]
  have eps: "set ?eps = set (observed_endpoints nodes)" if "?b \<and> clean (observed_endpoints nodes)"
    using that inv by (simp add: BuildFabric_parts(1))
  have links: "link_errors (index_by fe_EndpointID ?eps) e l = [] \<longleftrightarrow> link_ok ?eps e l" for e l
    by (rule link_errors_Nil_iff [OF BuildFabric_distinct])
  show "fs_Valid (BuildFabric nodes ttl now) \<longleftrightarrow> valid_observations nodes ttl now"
  proof (cases "?b \<and> clean (observed_endpoints nodes)")
    case True
    then show ?thesis
      unfolding BuildFabric_parts(2) links valid_observations_def
      using inv eps [OF True] link_ok_cong [OF eps [OF True]] by auto
  next
    case False
    then have "fa_Errors ?acc \<noteq> []" using inv by blast
    then show ?thesis using False unfolding BuildFabric_parts(2) valid_observations_def by blast
  qed
  show "?eps = sort_key fe_EndpointID (observed_endpoints nodes)" if "valid_observations nodes ttl now"
    using that inv by (simp add: BuildFabric_parts(1) valid_observations_def)
qed

lemma BuildFabric_valid_eq:
  assumes "valid_observations nodes ttl now"
  defines "eps \<equiv> sort_key fe_EndpointID (observed_endpoints nodes)"
  shows "BuildFabric nodes ttl now =
     \<lparr>fs_Generation = endpoints_digest eps, fs_ObservedAt = now, fs_Valid = True, fs_Endpoints = eps,
      fs_Errors = [], fs_Conditions =
        [\<lparr>cd_Type = ''Ready'', cd_Status = True, cd_Reason = ''Valid'', cd_Message = ''fabric graph is valid'',
          cd_ObservedGeneration = 0, cd_LastTransitionTime = now\<rparr>]\<rparr>"
proof -
  have v: "fs_Valid (BuildFabric nodes ttl now)" and e: "fs_Endpoints (BuildFabric nodes ttl now) = eps"
    using BuildFabric_valid_char assms by auto
  from v have "fs_Errors (BuildFabric nodes ttl now) = []" by (simp add: BuildFabric_def Let_def)
  with v e show ?thesis by (simp add: BuildFabric_def Let_def)
qed

lemma observed_endpoints_ids: "[] \<notin> fe_EndpointID ` set (observed_endpoints nodes)"
  by (auto simp: observed_endpoints_def node_endpoints_def)

lemma valid_fabric_ok:
  assumes "valid_observations nodes ttl now"
  shows "fabric_ok (fs_Endpoints (BuildFabric nodes ttl now))"
proof -
  let ?eps = "fs_Endpoints (BuildFabric nodes ttl now)"
  have eps: "set ?eps = set (observed_endpoints nodes)" using BuildFabric_valid_char(2) [OF assms] by simp
  have "\<forall>e \<in> set (observed_endpoints nodes). \<forall>l \<in> set (fe_Links e). link_ok (observed_endpoints nodes) e l"
    using assms by (simp add: valid_observations_def)
  then have "\<forall>e \<in> set ?eps. \<forall>l \<in> set (fe_Links e). link_ok ?eps e l"
    unfolding link_ok_cong [OF eps] eps .
  then have "reciprocal ?eps" by (rule links_ok_reciprocal)
  with eps show ?thesis
    using BuildFabric_distinct observed_endpoints_ids by (simp add: fabric_ok_def)
qed

lemma mset_observed: "mset nodes = mset nodes' \<Longrightarrow> mset (observed_endpoints nodes) = mset (observed_endpoints nodes')"
proof -
  assume m: "mset nodes = mset nodes'"
  have "mset (observed_endpoints ns) = (\<Sum>n \<in># mset ns. mset (node_endpoints n))" for ns
    by (induction ns) (simp_all add: observed_endpoints_def)
  with m show ?thesis by simp
qed

lemma valid_observations_mset:
  assumes "mset nodes = mset nodes'"
  shows "valid_observations nodes ttl now = valid_observations nodes' ttl now"
proof -
  note o = mset_observed [OF assms]
  have s: "set nodes = set nodes'" "set (observed_endpoints nodes) = set (observed_endpoints nodes')"
    using mset_eq_setD [OF assms] mset_eq_setD [OF o] .
  moreover have "length nodes = length nodes'" "length (observed_endpoints nodes) = length (observed_endpoints nodes')"
    using mset_eq_length [OF assms] mset_eq_length [OF o] .
  moreover have "mset (map fe_EndpointID (observed_endpoints nodes)) = mset (map fe_EndpointID (observed_endpoints nodes'))"
    using o by simp
  then have "distinct (map fe_EndpointID (observed_endpoints nodes)) = distinct (map fe_EndpointID (observed_endpoints nodes'))"
    by (rule mset_eq_imp_distinct_iff)
  ultimately show ?thesis
    unfolding valid_observations_def clean_def using link_ok_cong [OF s(2)] by simp
qed

section \<open>Properties\<close>

text \<open>
  C22: a fabric graph is reported valid exactly when its observations satisfy the whole
  specification: at most 256 nodes, none stale, at most 2048 endpoints with complete and distinct
  identities in at most 256 fabrics, and every link that is up leads to an endpoint of the same
  fabric and ring that has a link back that is up.
\<close>

theorem BuildFabric_valid_iff: "fs_Valid (BuildFabric nodes ttl now) = valid_observations nodes ttl now"
  by (rule BuildFabric_valid_char)

text \<open>
  C23: the graph is deterministic: the order in which the API server lists the node observations
  changes neither the verdict nor, for a valid graph, any part of the status.
\<close>

theorem BuildFabric_order:
  assumes "mset nodes = mset nodes'"
  shows "fs_Valid (BuildFabric nodes ttl now) = fs_Valid (BuildFabric nodes' ttl now) \<and>
     (fs_Valid (BuildFabric nodes ttl now) \<longrightarrow> BuildFabric nodes ttl now = BuildFabric nodes' ttl now)"
proof (cases "valid_observations nodes ttl now")
  case True
  then have "distinct (map fe_EndpointID (observed_endpoints nodes))"
    by (simp add: valid_observations_def clean_def)
  with mset_observed [OF assms] have
    "sort_key fe_EndpointID (observed_endpoints nodes) = sort_key fe_EndpointID (observed_endpoints nodes')"
    by (rule sort_key_perm_unique)
  with True valid_observations_mset [OF assms, of ttl now] show ?thesis by (simp add: BuildFabric_valid_eq)
qed (use valid_observations_mset [OF assms] BuildFabric_valid_char(1) in simp)

definition sample_node :: "string \<Rightarrow> string \<Rightarrow> string \<Rightarrow> NodeTopologySpec" where
  "sample_node n eid remote = \<lparr>nt_NodeName = n, nt_ObservedAt = 10, nt_Devices =
     [\<lparr>td_Pool = n, td_Name = ''d'', td_StableID = ''s'', td_ChipSeries = ''wormhole'', td_FabricID = ''f'',
       td_RingID = ''r'', td_EndpointID = eid, td_Links = [sample_link remote]\<rparr>]\<rparr>"

definition sample_nodes :: "NodeTopologySpec list" where
  "sample_nodes = [sample_node ''n2'' ''b'' ''a'', sample_node ''n1'' ''a'' ''b'']"

lemma sample_nodes_valid: "valid_observations sample_nodes 100 20"
  by (simp add: valid_observations_def sample_nodes_def sample_node_def stale_def time_sub_def clean_def
      observed_endpoints_def node_endpoints_def fabric_endpoint_def link_ok_def links_back_def sample_link_def
      MaxNodes_def MaxFabrics_def Topology_MaxEndpoints_def)

theorem BuildFabric_order_witness:
  "fs_Valid (BuildFabric sample_nodes 100 20) \<and>
   BuildFabric sample_nodes 100 20 = BuildFabric (rev sample_nodes) 100 20"
  using BuildFabric_order [of sample_nodes "rev sample_nodes" 100 20] sample_nodes_valid
    BuildFabric_valid_char(1) [of sample_nodes 100 20] by simp

text \<open>
  Valid or not, the graph is bounded and canonical: at most 2048 endpoints, strictly sorted by
  identifier, and no empty identifier.
\<close>

theorem BuildFabric_bounds:
  "length (fs_Endpoints (BuildFabric nodes ttl now)) \<le> 2048 \<and>
   sorted_wrt (<) (map fe_EndpointID (fs_Endpoints (BuildFabric nodes ttl now))) \<and>
   [] \<notin> fe_EndpointID ` set (fs_Endpoints (BuildFabric nodes ttl now))"
proof -
  have "sorted (map fe_EndpointID (fs_Endpoints (BuildFabric nodes ttl now)))"
    by (simp add: BuildFabric_parts(1))
  then have "sorted_wrt (<) (map fe_EndpointID (fs_Endpoints (BuildFabric nodes ttl now)))"
    using BuildFabric_distinct strict_sorted_iff by blast
  then show ?thesis
    using node_loop_inv [of nodes ttl now]
    by (simp add: BuildFabric_parts(1) fabric_inv_def Topology_MaxEndpoints_def)
qed

text \<open>
  On a graph that \<open>BuildFabric\<close> reports valid and in which devices have one endpoint each, \<open>Solve\<close> succeeds
  exactly when a valid connected placement exists, for any workload of at most 64 ranks whose counts
  sum to at most 128.
\<close>

theorem Solve_on_valid_fabric:
  assumes "fs_Valid (BuildFabric nodes ttl now)"
    and "distinct (map device_id (fs_Endpoints (BuildFabric nodes ttl now)))"
    and "range_order rng" and "length (wl_Ranks wl) \<le> 64" and "sint (total_count (wl_Ranks wl)) \<le> 128"
  shows "snd (Solve rng (Some wl) (fs_Endpoints (BuildFabric nodes ttl now)) reserved) \<longleftrightarrow>
     feasible wl (fs_Endpoints (BuildFabric nodes ttl now)) reserved"
proof -
  let ?eps = "fs_Endpoints (BuildFabric nodes ttl now)"
  have "length ?eps \<le> 2048"
    using node_loop_inv [of nodes ttl now] by (simp add: BuildFabric_parts(1) fabric_inv_def Topology_MaxEndpoints_def)
  then have lim: "within_limits wl ?eps DefaultLimits"
    using assms(4,5) by (simp add: within_limits_def DefaultLimits_def)
  have ok: "fabric_ok ?eps" using assms(1) BuildFabric_valid_char(1) valid_fabric_ok by blast
  have "snd (Solve rng (Some wl) ?eps reserved) =
      fst (snd (SolveContext rng None (Some wl) ?eps reserved DefaultLimits))"
    by (simp add: Solve_def split: prod.split)
  also have "\<dots> \<longleftrightarrow> feasible wl ?eps reserved"
    by (rule SolveContext_decides [OF lim assms(3) ok assms(2)])
  finally show ?thesis .
qed

lemma sample_nodes_endpoints:
  "fs_Endpoints (BuildFabric sample_nodes 100 20) = observed_endpoints (rev sample_nodes)"
  unfolding BuildFabric_valid_char(2) [OF sample_nodes_valid]
  by (simp add: observed_endpoints_def node_endpoints_def sample_nodes_def sample_node_def fabric_endpoint_def)

theorem Solve_on_valid_fabric_witness:
  "snd (Solve rev (Some sample_workload) (fs_Endpoints (BuildFabric sample_nodes 100 20)) {}) \<longleftrightarrow>
     feasible sample_workload (fs_Endpoints (BuildFabric sample_nodes 100 20)) {}"
proof (rule Solve_on_valid_fabric)
  show "fs_Valid (BuildFabric sample_nodes 100 20)" using sample_nodes_valid BuildFabric_valid_char(1) by blast
  show "distinct (map device_id (fs_Endpoints (BuildFabric sample_nodes 100 20)))"
    unfolding sample_nodes_endpoints
    by (simp add: observed_endpoints_def node_endpoints_def sample_nodes_def sample_node_def
        fabric_endpoint_def device_id_def)
qed (simp_all add: range_order_rev sample_workload_def total_count_def)

section \<open>Generations\<close>

lemma selected_ids_Union: "set (selected_ids as) = (\<Union>a \<in> set as. ad_EndpointID ` set (ra_Devices a))"
  by (auto simp: selected_ids_def)

text \<open>
  A connected assignment lies in one domain, so the first selected endpoint found names the
  domain of all of them.
\<close>

lemma generation_domain_connected:
  assumes "connected_set (fs_Endpoints status) (set (selected_ids as))"
    and "wt_FabricID requested = []" "wt_RingID requested = []"
    and "e \<in> set (fs_Endpoints status)" and "fe_EndpointID e \<in> set (selected_ids as)"
  shows "generation_domain status requested as = (fe_FabricID e, fe_RingID e)"
proof -
  let ?S = "set (selected_ids as)"
  obtain f r where dom: "\<And>e. e \<in> set (fs_Endpoints status) \<Longrightarrow> fe_EndpointID e \<in> ?S \<Longrightarrow>
      fe_FabricID e = f \<and> fe_RingID e = r"
    using assms(1) unfolding connected_set_def same_domain_def by blast
  have "find (\<lambda>e. fe_EndpointID e \<in> ?S) (fs_Endpoints status) \<noteq> None"
    using assms(4,5) by (auto simp: find_None_iff)
  then obtain x where x: "find (\<lambda>e. fe_EndpointID e \<in> ?S) (fs_Endpoints status) = Some x" by blast
  have "fe_FabricID x = f \<and> fe_RingID x = r" using find_SomeD [OF x] dom by blast
  moreover have "fe_FabricID e = f \<and> fe_RingID e = r" using dom assms(4,5) by blast
  moreover have "?S \<noteq> {}" using assms(5) by (metis empty_iff)
  ultimately show ?thesis
    using x assms(2,3) unfolding generation_domain_def selected_ids_Union [symmetric] by (simp add: Let_def)
qed

text \<open>The domain of a solved assignment, however the workload asks for it.\<close>

lemma solved_domain:
  assumes "valid_plan wl (fs_Endpoints status) reserved plan"
    and "connected_set (fs_Endpoints status) (set (selected_ids as))"
    and "as = plan_assignments wl (wl_Ranks wl) plan"
    and "wt_FabricID (wl_Topology wl) = [] \<longleftrightarrow> wt_RingID (wl_Topology wl) = []"
    and "e \<in> set (fs_Endpoints status)" and "fe_EndpointID e \<in> set (selected_ids as)"
  shows "generation_domain status (wl_Topology wl) as = (fe_FabricID e, fe_RingID e)"
proof (cases "wt_FabricID (wl_Topology wl) = []")
  case True
  then show ?thesis using generation_domain_connected [OF assms(2) _ _ assms(5,6)] assms(4) by blast
next
  case False
  have r: "list_all2 (rank_satisfied wl (fs_Endpoints status) reserved) (wl_Ranks wl) plan"
    using assms(1) by (simp add: valid_plan_def)
  have m: "\<forall>d \<in> set (concat (map snd plan)). d \<in> set (fs_Endpoints status) \<and> matchesTopology (wl_Topology wl) d"
    using plan_device_ok [OF r] by blast
  have "set (selected_ids as) = plan_endpoints plan"
    unfolding assms(3) by (rule set_plan_selected [OF list_all2_lengthD [OF r]])
  with assms(6) obtain d where d: "d \<in> set (concat (map snd plan))" "fe_EndpointID d = fe_EndpointID e"
    unfolding plan_endpoints_def by (metis imageE)
  have "fe_FabricID d = fe_FabricID e \<and> fe_RingID d = fe_RingID e"
    using assms(2,5,6) d m unfolding connected_set_def same_domain_def by metis
  moreover have "fe_FabricID d = wt_FabricID (wl_Topology wl)" "fe_RingID d = wt_RingID (wl_Topology wl)"
    using m d(1) False assms(4) by (auto simp: matchesTopology_def)
  ultimately show ?thesis using False by (simp add: generation_domain_def Let_def)
qed

definition same_ring_part :: "string \<Rightarrow> string \<Rightarrow> FabricEndpoint list \<Rightarrow> FabricEndpoint list" where
  "same_ring_part f r eps = filter (\<lambda>e. fe_FabricID e = f \<and> fe_RingID e = r) eps"

lemma relevant_exact:
  "f \<noteq> [] \<Longrightarrow> r \<noteq> [] \<Longrightarrow> filter (relevant (f, r)) eps = same_ring_part f r eps"
  by (simp add: same_ring_part_def relevant_def [abs_def])

lemma valid_identity:
  assumes "valid_observations nodes ttl now" and "e \<in> set (fs_Endpoints (BuildFabric nodes ttl now))"
  shows "fe_FabricID e \<noteq> []" and "fe_RingID e \<noteq> []"
  using assms BuildFabric_valid_char(2) [OF assms(1)] by (auto simp: valid_observations_def clean_def)

text \<open>The first selected endpoint of another graph that agrees on the ring.\<close>

lemma generation_domain_transfer:
  assumes "connected_set eps (set (selected_ids as))" and "distinct (map fe_EndpointID (fs_Endpoints status'))"
    and "\<And>x. x \<in> set eps \<Longrightarrow> fe_EndpointID x \<in> set (selected_ids as) \<Longrightarrow> fe_FabricID x = f \<and> fe_RingID x = r"
    and "same_ring_part f r (fs_Endpoints status') = same_ring_part f r eps"
    and "wt_FabricID t = []" and "wt_RingID t = []"
  shows "generation_domain status' t as = (f, r)"
proof -
  let ?S = "set (selected_ids as)" and ?eps' = "fs_Endpoints status'"
  have part: "\<And>x. x \<in> set ?eps' \<and> fe_FabricID x = f \<and> fe_RingID x = r \<longleftrightarrow> x \<in> set eps \<and> fe_FabricID x = f \<and> fe_RingID x = r"
    using arg_cong [OF assms(4), of set] by (auto simp: same_ring_part_def)
  have ne: "?S \<noteq> {}" "?S \<subseteq> fe_EndpointID ` set eps" using assms(1) by (auto simp: connected_set_def)
  have all: "fe_FabricID x = f \<and> fe_RingID x = r" if x: "x \<in> set ?eps'" "fe_EndpointID x \<in> ?S" for x
  proof -
    obtain y where y: "y \<in> set eps" "fe_EndpointID y = fe_EndpointID x" using ne(2) x(2) by (metis imageE subsetD)
    then have "y \<in> set ?eps'" "fe_FabricID y = f" "fe_RingID y = r" using assms(3) part x(2) by metis+
    with assms(2) x(1) y(2) have "y = x" by (metis distinct_map inj_onD)
    then show ?thesis using \<open>fe_FabricID y = f\<close> \<open>fe_RingID y = r\<close> by simp
  qed
  obtain y where y: "y \<in> set eps" "fe_EndpointID y \<in> ?S" using ne by (metis all_not_in_conv imageE subsetD)
  then have "y \<in> set ?eps'" using assms(3) part by blast
  with y(2) have "find (\<lambda>e. fe_EndpointID e \<in> ?S) ?eps' \<noteq> None" unfolding find_None_iff by blast
  then obtain x where x: "find (\<lambda>e. fe_EndpointID e \<in> ?S) ?eps' = Some x" by blast
  then have "fe_FabricID x = f \<and> fe_RingID x = r" using all find_SomeD [OF x] by blast
  then show ?thesis
    using x ne(1) assms(5,6) unfolding generation_domain_def selected_ids_Union [symmetric] by (simp add: Let_def)
qed

text \<open>
  C24: the generation of a placed workload changes only with its own ring, if the workload names both its fabric
  and its ring or neither.  If such a workload was placed on a valid graph whose endpoints belong to different devices, and a
  later graph is valid and has the same endpoints in the fabric and ring of the placement, whatever happened
  elsewhere in the cluster, the generation is the same.  (For a workload that names only one of the two the generation
  covers other rings as well.)
\<close>

theorem WorkloadGeneration_local:
  assumes "fs_Valid S" "S = BuildFabric nodes ttl now" and "fs_Valid S'" "S' = BuildFabric nodes' ttl' now'"
    and "SolveContext rng ctx (Some wl) (fs_Endpoints S) reserved limits = (as, True, err)"
    and "range_order rng" and "distinct (map device_id (fs_Endpoints S))"
    and "wt_FabricID (wl_Topology wl) = [] \<longleftrightarrow> wt_RingID (wl_Topology wl) = []"
    and "\<And>e. e \<in> set (fs_Endpoints S) \<Longrightarrow> fe_EndpointID e \<in> set (selected_ids as) \<Longrightarrow>
       same_ring_part (fe_FabricID e) (fe_RingID e) (fs_Endpoints S') =
       same_ring_part (fe_FabricID e) (fe_RingID e) (fs_Endpoints S)"
  shows "WorkloadGeneration S' (wl_Topology wl) as = WorkloadGeneration S (wl_Topology wl) as"
proof -
  have v: "valid_observations nodes ttl now" using assms(1,2) BuildFabric_valid_char(1) by blast
  have ok: "fabric_ok (fs_Endpoints S)" using valid_fabric_ok [OF v] assms(2) by simp
  obtain plan where p: "valid_plan wl (fs_Endpoints S) reserved plan"
      "as = plan_assignments wl (wl_Ranks wl) plan" "connected_set (fs_Endpoints S) (plan_endpoints plan)"
    by (rule SolveContext_valid [OF assms(5,6) ok assms(7)])
  have "length (wl_Ranks wl) = length plan" using p(1) list_all2_lengthD by (auto simp: valid_plan_def)
  then have conn: "connected_set (fs_Endpoints S) (set (selected_ids as))"
    using p(2,3) set_plan_selected by simp
  then obtain e where e: "e \<in> set (fs_Endpoints S)" "fe_EndpointID e \<in> set (selected_ids as)"
    unfolding connected_set_def by (metis all_not_in_conv imageE subsetD)
  note dom = solved_domain [OF p(1) conn p(2) assms(8)]
  have all: "fe_FabricID x = fe_FabricID e \<and> fe_RingID x = fe_RingID e"
    if "x \<in> set (fs_Endpoints S)" "fe_EndpointID x \<in> set (selected_ids as)" for x
    using dom [OF that] dom [OF e] by simp
  have "distinct (map fe_EndpointID (fs_Endpoints S'))" using assms(4) BuildFabric_distinct by simp
  note tr = generation_domain_transfer [OF conn this all assms(9) [OF e]]
  have "generation_domain S' (wl_Topology wl) as = generation_domain S (wl_Topology wl) as"
  proof (cases "wt_FabricID (wl_Topology wl) = []")
    case True
    then show ?thesis using tr assms(8) dom [OF e] by simp
  next
    case False
    then show ?thesis by (simp add: generation_domain_def Let_def)
  qed
  moreover have "fe_FabricID e \<noteq> []" "fe_RingID e \<noteq> []" using valid_identity [OF v] e(1) assms(2) by auto
  ultimately show ?thesis
    using dom [OF e] assms(9) [OF e] by (simp add: WorkloadGeneration_def relevant_exact)
qed

definition sample_grown :: "NodeTopologySpec list" where
  "sample_grown = sample_nodes @ [\<lparr>nt_NodeName = ''n3'', nt_ObservedAt = 30, nt_Devices =
     [\<lparr>td_Pool = ''n3'', td_Name = ''d'', td_StableID = ''s'', td_ChipSeries = ''blackhole'', td_FabricID = ''g'',
       td_RingID = ''q'', td_EndpointID = ''c'', td_Links = []\<rparr>]\<rparr>]"

definition sample_single :: Workload where
  "sample_single = sample_workload\<lparr>wl_Ranks := [(hd (wl_Ranks sample_workload))\<lparr>wr_Count := 1\<rparr>],
     wl_Topology := \<lparr>wt_FabricID = [], wt_RingID = []\<rparr>\<rparr>"

lemmas sample_node_defs = sample_nodes_def sample_node_def sample_grown_def fabric_endpoint_def
  observed_endpoints_def node_endpoints_def

lemma sample_grown_valid: "valid_observations sample_grown 100 40"
  by (simp add: valid_observations_def sample_node_defs stale_def time_sub_def clean_def link_ok_def
      links_back_def sample_link_def MaxNodes_def MaxFabrics_def Topology_MaxEndpoints_def)

lemma sample_grown_endpoints:
  "same_ring_part ''f'' ''r'' (fs_Endpoints (BuildFabric sample_grown 100 40)) =
   same_ring_part ''f'' ''r'' (fs_Endpoints (BuildFabric sample_nodes 100 20))"
  unfolding BuildFabric_valid_char(2) [OF sample_grown_valid] sample_nodes_endpoints same_ring_part_def
  by (simp add: sample_node_defs)

lemma sample_nodes_single_ring:
  "e \<in> set (fs_Endpoints (BuildFabric sample_nodes 100 20)) \<Longrightarrow> fe_FabricID e = ''f'' \<and> fe_RingID e = ''r''"
  unfolding sample_nodes_endpoints by (auto simp: sample_node_defs)

lemma sample_single_feasible: "feasible sample_single (fs_Endpoints (BuildFabric sample_nodes 100 20)) {}"
  unfolding feasible_def
proof (intro exI conjI)
  let ?eps = "fs_Endpoints (BuildFabric sample_nodes 100 20)"
  let ?plan = "[(''n1'', node_endpoints (sample_node ''n1'' ''a'' ''b''))]"
  show "valid_plan sample_single ?eps {} ?plan"
    unfolding sample_nodes_endpoints
    by (simp add: valid_plan_def rank_satisfied_def sample_single_def sample_workload_def sample_node_defs
        wanted_count_def rank_matches_def matchesTopology_def MatchesDeviceClass_def class_names)
  have "plan_endpoints ?plan = {''a''}" by (simp add: plan_endpoints_def sample_node_defs)
  moreover have "''a'' \<in> fe_EndpointID ` set ?eps"
    unfolding sample_nodes_endpoints by (simp add: sample_node_defs)
  moreover have "same_domain ?eps S" for S
    unfolding same_domain_def using sample_nodes_single_ring by blast
  ultimately show "connected_set ?eps (plan_endpoints ?plan)" by (simp add: connected_set_def)
qed

theorem WorkloadGeneration_local_witness:
  "\<exists>as err. SolveContext rev None (Some sample_single) (fs_Endpoints (BuildFabric sample_nodes 100 20)) {}
       sample_limits = (as, True, err) \<and>
     WorkloadGeneration (BuildFabric sample_grown 100 40) (wl_Topology sample_single) as =
     WorkloadGeneration (BuildFabric sample_nodes 100 20) (wl_Topology sample_single) as"
proof -
  let ?S = "BuildFabric sample_nodes 100 20"
  have dist: "distinct (map device_id (fs_Endpoints ?S))"
    unfolding sample_nodes_endpoints by (simp add: sample_node_defs device_id_def)
  have "within_limits sample_single (fs_Endpoints ?S) sample_limits"
    unfolding sample_nodes_endpoints
    by (simp add: within_limits_def sample_single_def sample_workload_def sample_node_defs sample_limits_def total_count_def)
  from SolveContext_feasible [OF this range_order_rev valid_fabric_ok [OF sample_nodes_valid] dist sample_single_feasible]
  obtain as err where run: "SolveContext rev None (Some sample_single) (fs_Endpoints ?S) {} sample_limits = (as, True, err)"
    by (metis prod.collapse)
  have "WorkloadGeneration (BuildFabric sample_grown 100 40) (wl_Topology sample_single) as =
     WorkloadGeneration ?S (wl_Topology sample_single) as"
  proof (rule WorkloadGeneration_local [OF _ refl _ refl run range_order_rev dist])
    show "fs_Valid ?S" "fs_Valid (BuildFabric sample_grown 100 40)"
      using BuildFabric_valid_char(1) sample_nodes_valid sample_grown_valid by blast+
  qed (use sample_nodes_single_ring sample_grown_endpoints in \<open>auto simp: sample_single_def\<close>)
  with run show ?thesis by blast
qed

end
