(* ===== verification/Sha256_Vector.thy ===== *)
theory Sha256_Vector
  imports Sha256
begin

text \<open>
  The FIPS 180-4 test vector for the message \<open>abc\<close>, evaluated in the kernel.  It stands in a
  theory of its own because the evaluation takes longer than any proof of the development.
\<close>

lemma sum256_abc: "hex_string (take 4 (sum256 ''abc'')) = ''ba7816bf''"
  by code_simp

end
