(* ===== verification/Paths.thy ===== *)
theory Paths
  imports Go_Strings
begin

text \<open>
  The lexical path functions of Go's \<open>path/filepath\<close> on Linux that the provider uses: \<open>Clean\<close>, \<open>Join\<close>,
  \<open>Base\<close>, \<open>IsAbs\<close> and \<open>Rel\<close>, and what they say of a path as a list of names.
\<close>

definition is_abs :: "string \<Rightarrow> bool" where
  "is_abs p \<longleftrightarrow> has_prefix p ''/''"

text \<open>The names of a path, and their reduction: the stack holds the names so far, the last one first.\<close>

definition path_names :: "string \<Rightarrow> string list" where
  "path_names p = filter (\<lambda>e. e \<noteq> []) (split_char CHR ''/'' p)"

fun clean_names :: "bool \<Rightarrow> string list \<Rightarrow> string list \<Rightarrow> string list" where
  "clean_names rooted acc [] = rev acc"
| "clean_names rooted acc (e # es) =
     (if e = ''.'' then clean_names rooted acc es
      else if e = ''..''
      then (case acc of
              [] \<Rightarrow> clean_names rooted (if rooted then [] else [e]) es
            | d # ds \<Rightarrow> clean_names rooted (if d = ''..'' then e # acc else ds) es)
      else clean_names rooted (e # acc) es)"

definition path_clean :: "string \<Rightarrow> string" where
  "path_clean p =
     (let names = clean_names (is_abs p) [] (path_names p)
      in if is_abs p then CHR ''/'' # join_with ''/'' names
         else if names = [] then ''.'' else join_with ''/'' names)"

definition path_join :: "string list \<Rightarrow> string" where
  "path_join es = (case dropWhile (\<lambda>e. e = []) es of [] \<Rightarrow> [] | es \<Rightarrow> path_clean (join_with ''/'' es))"

definition path_base :: "string \<Rightarrow> string" where
  "path_base p = (if p = [] then ''.'' else case rev (path_names p) of [] \<Rightarrow> ''/'' | e # _ \<Rightarrow> e)"

text \<open>\<open>Rel\<close> strips what the two paths have in common and goes up from the base.\<close>

fun strip_common :: "string list \<Rightarrow> string list \<Rightarrow> string list \<times> string list" where
  "strip_common (b # bs) (t # ts) = (if b = t then strip_common bs ts else (b # bs, t # ts))"
| "strip_common bs ts = (bs, ts)"

definition path_rel :: "string \<Rightarrow> string \<Rightarrow> string option" where
  "path_rel basepath targpath =
     (let base = path_clean basepath; targ = path_clean targpath
      in if targ = base then Some ''.''
         else if is_abs base \<noteq> is_abs targ then None
         else let (bs, ts) = strip_common (if base = ''.'' then [] else path_names base) (path_names targ)
              in if bs \<noteq> [] \<and> ts \<noteq> [] \<and> hd bs = ''..'' then None
                 else Some (join_with ''/'' (replicate (length bs) ''..'' @ ts)))"

section \<open>Names\<close>

definition path_name :: "string \<Rightarrow> bool" where
  "path_name e \<longleftrightarrow> e \<noteq> [] \<and> CHR ''/'' \<notin> set e"

lemma split_names: "e \<in> set (split_char CHR ''/'' p) \<Longrightarrow> CHR ''/'' \<notin> set e"
  by (induction p arbitrary: e) (auto split: list.splits if_splits)

lemma path_names_ok: "list_all path_name (path_names p)"
  by (auto simp: path_names_def list_all_iff path_name_def dest: split_names)

lemma split_append: "CHR ''/'' \<notin> set e \<Longrightarrow> split_char CHR ''/'' (e @ CHR ''/'' # p) = e # split_char CHR ''/'' p"
  by (induction e) auto

lemma split_single: "CHR ''/'' \<notin> set e \<Longrightarrow> split_char CHR ''/'' e = [e]"
  by (induction e) auto

lemma names_join: "list_all path_name es \<Longrightarrow> path_names (join_with ''/'' es) = es"
proof (induction "''/''" es rule: join_with.induct)
  case (3 s t ss)
  then show ?case by (simp add: path_names_def path_name_def split_append)
qed (simp_all add: path_names_def path_name_def split_single)

lemma names_slash [simp]: "path_names (CHR ''/'' # p) = path_names p"
  by (simp add: path_names_def)

text \<open>A clean absolute path has no \<open>..\<close> in it.\<close>

lemma clean_names_plain:
  "(\<And>e. e \<in> set acc \<Longrightarrow> e \<noteq> ''..'') \<Longrightarrow> e \<in> set (clean_names True acc es) \<Longrightarrow> e \<noteq> ''..''"
proof (induction True acc es rule: clean_names.induct)
  case (2 acc d es)
  then show ?case by (auto split: if_splits list.splits)
qed simp

lemma clean_names_sub: "set (clean_names rooted acc es) \<subseteq> set acc \<union> set es"
proof (induction rooted acc es rule: clean_names.induct)
  case (2 rooted acc e es)
  then show ?case by (auto split: if_splits list.splits)
qed simp

lemma clean_names_ok: "list_all path_name (clean_names rooted [] (path_names p))"
  using clean_names_sub [of rooted "[]" "path_names p"] path_names_ok [of p] by (auto simp: list_all_iff)

lemma names_clean_abs: "is_abs p \<Longrightarrow> path_names (path_clean p) = clean_names True [] (path_names p)"
  using clean_names_ok [of True p] by (simp add: path_clean_def names_join)

lemma clean_abs [simp]: "is_abs p \<Longrightarrow> is_abs (path_clean p)"
  by (simp add: path_clean_def is_abs_def has_prefix_def)

lemma clean_no_up: "is_abs p \<Longrightarrow> ''..'' \<notin> set (path_names (path_clean p))"
  using clean_names_plain [of "[]" "''..''" "path_names p"] by (auto simp: names_clean_abs)

section \<open>Relative paths\<close>

lemma strip_prefix: "strip_common bs ts = ([], us) \<Longrightarrow> prefix bs ts"
  by (induction bs ts rule: strip_common.induct) (auto split: if_splits)

lemma strip_of_prefix: "prefix bs ts \<Longrightarrow> fst (strip_common bs ts) = []"
  by (induction bs ts rule: strip_common.induct) auto

lemma strip_sub: "strip_common bs ts = (cs, us) \<Longrightarrow> set us \<subseteq> set ts \<and> set cs \<subseteq> set bs"
  by (induction bs ts rule: strip_common.induct) (auto split: if_splits)

lemma join_Cons: "join_with ''/'' (e # es) = (if es = [] then e else e @ CHR ''/'' # join_with ''/'' es)"
  by (cases es) auto

text \<open>A relative path that leaves its base: \<open>..\<close> itself, or below it.\<close>

definition goes_up :: "string \<Rightarrow> bool" where
  "goes_up rel \<longleftrightarrow> rel = ''..'' \<or> has_prefix rel ''../''"

lemma name_not_up:
  assumes "path_name e" and "e \<noteq> ''..''"
  shows "\<not> goes_up (e @ CHR ''/'' # p)" and "\<not> goes_up e"
proof -
  obtain c cs where e: "e = c # cs" "c \<noteq> CHR ''/''" "CHR ''/'' \<notin> set cs" using assms(1) by (cases e) (auto simp: path_name_def)
  show "\<not> goes_up (e @ CHR ''/'' # p)" and "\<not> goes_up e"
    using e assms(2) by (cases cs; auto simp: goes_up_def has_prefix_def Cons_eq_append_conv numeral_3_eq_3 split: list.splits; cases "tl cs"; auto)+
qed

text \<open>
  For clean absolute paths, \<open>Rel\<close> stays inside exactly when the names of the base are a prefix of those of the target.
\<close>

lemma rel_inside:
  assumes "is_abs base" and "is_abs targ"
  shows "(case path_rel base targ of None \<Rightarrow> False | Some rel \<Rightarrow> \<not> goes_up rel) \<longleftrightarrow>
    prefix (path_names (path_clean base)) (path_names (path_clean targ))"
proof (cases "path_clean targ = path_clean base")
  case True
  then show ?thesis by (simp add: path_rel_def goes_up_def has_prefix_def)
next
  case False
  let ?b = "path_names (path_clean base)" and ?t = "path_names (path_clean targ)"
  obtain bs ts where st: "strip_common ?b ?t = (bs, ts)" by fastforce
  have abs: "is_abs (path_clean base)" "is_abs (path_clean targ)" using assms by simp_all
  have nodot: "path_clean base \<noteq> ''.''" using abs(1) by (auto simp: is_abs_def has_prefix_def)
  have up: "''..'' \<notin> set bs" "''..'' \<notin> set ts" using strip_sub [OF st] clean_no_up assms by blast+
  have rel: "path_rel base targ = Some (join_with ''/'' (replicate (length bs) ''..'' @ ts))"
    using False abs nodot st up(1) by (cases bs) (auto simp: path_rel_def Let_def)
  show ?thesis
  proof (cases bs)
    case (Cons b bs')
    then have "goes_up (join_with ''/'' (replicate (length bs) ''..'' @ ts))"
      by (simp add: join_Cons goes_up_def has_prefix_def)
    moreover have "\<not> prefix ?b ?t" using Cons st strip_of_prefix by fastforce
    ultimately show ?thesis using rel by simp
  next
    case Nil
    have "list_all path_name ts" using strip_sub [OF st] path_names_ok by (auto simp: list_all_iff)
    then have "\<not> goes_up (join_with ''/'' ts)"
      using up(2) name_not_up by (cases ts) (auto simp: join_Cons goes_up_def has_prefix_def)
    then show ?thesis using rel Nil st strip_prefix by simp
  qed
qed

end
