(* ===== verification/Inventory.thy ===== *)
theory Inventory
  imports Paths Dns_Labels
begin

text \<open>
  The device inventory: the data model of \<open>src/internal/device/model.go\<close>, the decoding of device
  numbers of \<open>discovery.go\<close>, and \<open>normalize.go\<close>, which turns the raw values a provider reads into
  inventory devices and decides which of them may be offered.
\<close>

section \<open>Data\<close>

record Roots =
  rt_DeviceRoot :: string
  rt_TenstorrentSysfsRoot :: string
  rt_PCISysfsRoot :: string
  rt_StateDir :: string

definition DefaultRoots :: Roots where
  "DefaultRoots = \<lparr>rt_DeviceRoot = ''/dev/tenstorrent'', rt_TenstorrentSysfsRoot = ''/sys/class/tenstorrent'',
     rt_PCISysfsRoot = ''/sys/bus/pci/devices'', rt_StateDir = ''/var/lib/tenstorrent-dra''\<rparr>"

text \<open>
  The loop of \<open>validate\<close> ranges over a map, so which of several bad roots is reported depends on
  the iteration order; \<open>rng\<close> is that order.
\<close>

definition root_error :: "string \<times> string \<Rightarrow> go_error" where
  "root_error p =
     (if trim_space (snd p) = [] then Some (fst p @ '' must not be empty'')
      else if \<not> is_abs (snd p) then Some (fst p @ '' must be absolute: '' @ go_quote (snd p))
      else None)"

definition roots_validate :: "((string \<times> string) list \<Rightarrow> (string \<times> string) list) \<Rightarrow> Roots \<Rightarrow> go_error" where
  "roots_validate rng r = first_error root_error (rng
     [(''device root'', rt_DeviceRoot r), (''Tenstorrent sysfs root'', rt_TenstorrentSysfsRoot r),
      (''PCI sysfs root'', rt_PCISysfsRoot r), (''state directory'', rt_StateDir r)])"

record Provenance =
  pv_Source :: string
  pv_Path :: string
  pv_ObservedAt :: go_time

datatype HealthState = HealthHealthy | HealthUnhealthy | HealthUnknown

fun health_string :: "HealthState \<Rightarrow> string" where
  "health_string HealthHealthy = ''Healthy''"
| "health_string HealthUnhealthy = ''Unhealthy''"
| "health_string HealthUnknown = ''Unknown''"

record PCIIdentity =
  pci_BDF :: string
  pci_Vendor :: string
  pci_Device :: string
  pci_SubsystemVendor :: string
  pci_SubsystemDevice :: string
  pci_Revision :: string
  pci_NUMANode :: int
  pci_IOMMUGroup :: int
  pci_IOMMUGroupSize :: int
  pci_LinkState :: string
  pci_LinkSpeed :: string
  pci_LinkWidth :: int

record MemoryInfo =
  mi_TotalBytes :: uint64
  mi_AvailableBytes :: uint64

record ComputeInfo =
  ci_TensixCores :: uint64

record FaultInfo =
  ft_Code :: string
  ft_Message :: string

record FabricLink =
  fl_Name :: string
  fl_State :: string
  fl_SpeedGbps :: uint64
  fl_RemoteBDF :: string
  fl_RemoteEndpointID :: string

record FabricInfo =
  fi_FabricID :: string
  fi_RingID :: string
  fi_EndpointID :: string
  fi_Links :: "FabricLink list"

record Node =
  nd_ID :: string
  nd_Path :: string
  nd_Major :: uint64
  nd_Minor :: uint64
  nd_Mode :: string
  nd_ChipSeries :: string

record InventoryDevice =
  dv_StableID :: string
  dv_HardwareUUID :: string
  dv_Node :: Node
  dv_CharacterDevicePresent :: bool
  dv_PCI :: PCIIdentity
  dv_ChipSeries :: string
  dv_FirmwareVersion :: string
  dv_KMDVersion :: string
  dv_DriverABIVersion :: int
  dv_KernelVersion :: string
  dv_Memory :: MemoryInfo
  dv_Compute :: ComputeInfo
  dv_Health :: HealthState
  dv_Fault :: FaultInfo
  dv_Fabric :: FabricInfo
  dv_Provenance :: "(string, Provenance) gomap"
  dv_ObservedAt :: go_time
  dv_Eligible :: bool
  dv_RejectionReason :: string

record InventorySnapshot =
  sn_Devices :: "InventoryDevice list"
  sn_ObservedAt :: go_time

type_synonym raw_values = "(string, string) gomap"

record RawDevice =
  rw_ID :: string
  rw_Node :: Node
  rw_CharacterDevicePresent :: bool
  rw_SysfsPath :: string
  rw_PCIPath :: string
  rw_Values :: raw_values
  rw_FabricLinks :: "FabricLink list"
  rw_DiscoveryError :: go_error

text \<open>A missing key of a string map reads as the empty string.\<close>

definition raw_value :: "raw_values \<Rightarrow> string \<Rightarrow> string" where
  "raw_value m k = (case gm_get m k of None \<Rightarrow> [] | Some v \<Rightarrow> v)"

section \<open>Device numbers\<close>

unbundle bit_operations_syntax

definition majorMinor :: "uint64 \<Rightarrow> uint64 \<times> uint64" where
  "majorMinor dev =
     (let major = drop_bit 8 dev AND 0xfff;
          major = major OR (drop_bit 32 dev AND NOT 0xfff);
          minor = dev AND 0xff;
          minor = minor OR (drop_bit 12 dev AND NOT 0xff)
      in (major, minor))"

section \<open>Parsing\<close>

definition hex_prefixed :: "string \<Rightarrow> nat \<times> string" where
  "hex_prefixed value = (if has_prefix value ''0x'' then (16, trim_prefix value ''0x'') else (10, value))"

definition parseUint :: "string \<Rightarrow> uint64" where
  "parseUint value = (let (base, value) = hex_prefixed (trim_space value) in fst (parse_uint64 base value))"

definition parseInt :: "string \<Rightarrow> int" where
  "parseInt value = fst (atoi (trim_space value))"

definition parseOptionalInt :: "string \<Rightarrow> int" where
  "parseOptionalInt value = (if trim_space value = [] then - 1 else parseInt value)"

definition parseDeviceNumbers :: "string \<Rightarrow> uint64 \<times> uint64" where
  "parseDeviceNumbers value =
     (case splitn_char 2 CHR '':'' (trim_space value) of
        [a, b] \<Rightarrow> (fst (parse_uint64 10 a), fst (parse_uint64 10 b))
      | _ \<Rightarrow> (0, 0))"

fun firstValue :: "raw_values \<Rightarrow> string list \<Rightarrow> string" where
  "firstValue values [] = []"
| "firstValue values (key # keys) =
     (let value = trim_space (raw_value values key) in if value \<noteq> [] then value else firstValue values keys)"

definition normalizeHex :: "string \<Rightarrow> string" where
  "normalizeHex value =
     (let value = trim_space (to_lower value)
      in if value = [] \<or> has_prefix value ''0x'' then value
         else case parse_uint64 16 value of
           (parsed, None) \<Rightarrow> ''0x'' @ show_base 16 (unat parsed)
         | (_, Some _) \<Rightarrow> value)"

definition normalizeChip :: "string \<Rightarrow> string" where
  "normalizeChip value =
     (let normalized = to_lower (trim_space value)
      in if normalized = ''wormhole'' \<or> normalized = ''wh'' then ''wormhole''
         else if normalized = ''blackhole'' \<or> normalized = ''bh'' then ''blackhole''
         else normalized)"

definition normalizeHealth :: "string \<Rightarrow> HealthState" where
  "normalizeHealth value =
     (let v = to_lower (trim_space value)
      in if v \<in> {''healthy'', ''ok'', ''ready'', ''available''} then HealthHealthy
         else if v \<in> {''unhealthy'', ''failed'', ''fault'', ''offline''} then HealthUnhealthy
         else HealthUnknown)"

definition tenstorrentPCIVendor :: string where "tenstorrentPCIVendor = ''0x1e52''"
definition wormholePCIDevice :: string where "wormholePCIDevice = ''0x401e''"
definition blackholePCIDevice :: string where "blackholePCIDevice = ''0xb140''"
definition supportedDriverABI :: int where "supportedDriverABI = 2"

definition chipSeriesFromPCI :: "PCIIdentity \<Rightarrow> string" where
  "chipSeriesFromPCI pci =
     (if pci_Vendor pci \<noteq> tenstorrentPCIVendor then []
      else if pci_Device pci = wormholePCIDevice then ''wormhole''
      else if pci_Device pci = blackholePCIDevice then ''blackhole''
      else [])"

definition pciIdentity :: "RawDevice \<Rightarrow> PCIIdentity" where
  "pciIdentity raw =
     (let v = rw_Values raw
      in \<lparr>pci_BDF = firstValue v [''pci.uevent.PCI_SLOT_NAME'', ''pci.PCI_SLOT_NAME'', ''pci.bdf''],
          pci_Vendor = normalizeHex (raw_value v ''pci.vendor''),
          pci_Device = normalizeHex (raw_value v ''pci.device''),
          pci_SubsystemVendor = normalizeHex (raw_value v ''pci.subsystem_vendor''),
          pci_SubsystemDevice = normalizeHex (raw_value v ''pci.subsystem_device''),
          pci_Revision = normalizeHex (raw_value v ''pci.revision''),
          pci_NUMANode = parseOptionalInt (raw_value v ''pci.numa_node''),
          pci_IOMMUGroup = parseOptionalInt (raw_value v ''pci.iommu_group''),
          pci_IOMMUGroupSize = parseOptionalInt (raw_value v ''pci.iommu_group_size''),
          pci_LinkState = firstValue v [''pci.current_link_state'', ''pci.link_state''],
          pci_LinkSpeed = raw_value v ''pci.current_link_speed'',
          pci_LinkWidth = parseInt (raw_value v ''pci.current_link_width'')\<rparr>)"

section \<open>Compatibility policy\<close>

definition alphanumeric :: "char \<Rightarrow> bool" where
  "alphanumeric c \<longleftrightarrow> (CHR ''a'' \<le> c \<and> c \<le> CHR ''z'') \<or> (CHR ''A'' \<le> c \<and> c \<le> CHR ''Z'') \<or>
     (CHR ''0'' \<le> c \<and> c \<le> CHR ''9'')"

text \<open>The loop of \<open>validHardwareID\<close> with its flag \<open>hasAlphanumeric\<close>.\<close>

fun hardware_id_loop :: "bool \<Rightarrow> string \<Rightarrow> bool" where
  "hardware_id_loop hasAlphanumeric [] = hasAlphanumeric"
| "hardware_id_loop hasAlphanumeric (c # cs) =
     (if alphanumeric c then hardware_id_loop True cs
      else if c \<in> set ''-_.:'' then hardware_id_loop hasAlphanumeric cs
      else False)"

definition validHardwareID :: "string \<Rightarrow> bool" where
  "validHardwareID value = (if value = [] \<or> length value > 128 then False else hardware_id_loop False value)"

definition supportedKMD :: "string \<Rightarrow> bool" where
  "supportedKMD value =
     (case split_char CHR ''.'' (trim_space value) of
        [a, b, c] \<Rightarrow>
          (let (major, majorErr) = atoi a; (minor, minorErr) = atoi b; (_, patchErr) = atoi c
           in majorErr = None \<and> minorErr = None \<and> patchErr = None \<and> major = 2 \<and> minor \<ge> 5 \<and> minor \<le> 10)
      | _ \<Rightarrow> False)"

definition versionMajorMinor :: "string \<Rightarrow> int \<times> int \<times> bool" where
  "versionMajorMinor value =
     (case splitn_char 3 CHR ''.'' (trim_space value) of
        a # b # _ \<Rightarrow>
          (let (major, majorErr) = atoi a; (minor, minorErr) = atoi b
           in (major, minor, majorErr = None \<and> minorErr = None))
      | _ \<Rightarrow> (0, 0, False))"

definition supportedFirmware :: "string \<Rightarrow> bool" where
  "supportedFirmware value = (let (major, minor, ok) = versionMajorMinor value in ok \<and> major = 19 \<and> minor = 2)"

definition supportedKernel :: "string \<Rightarrow> bool" where
  "supportedKernel value =
     (let (major, minor, ok) = versionMajorMinor value
      in ok \<and> ((major = 5 \<and> minor \<ge> 4) \<or> (major = 6 \<and> minor \<le> 18)))"

definition malformedObservedNumber :: "InventoryDevice \<Rightarrow> bool" where
  "malformedObservedNumber d \<longleftrightarrow>
     mi_AvailableBytes (dv_Memory d) > mi_TotalBytes (dv_Memory d) \<and> mi_TotalBytes (dv_Memory d) > 0"

definition raw_number_error :: "raw_values \<Rightarrow> string \<Rightarrow> go_error" where
  "raw_number_error values key =
     (let value = trim_space (raw_value values key)
      in if value = [] then None
         else let (base, value) = hex_prefixed value
              in if snd (parse_uint64 base value) \<noteq> None then Some (key @ '' is malformed'') else None)"

definition validateRawValues :: "raw_values \<Rightarrow> go_error" where
  "validateRawValues values =
     (case first_error (raw_number_error values)
             [''memory_capacity_bytes'', ''memory_available_bytes'', ''tensix_cores_total'',
              ''pci.current_link_width'', ''pci.iommu_group'', ''pci.iommu_group_size''] of
        Some e \<Rightarrow> Some e
      | None \<Rightarrow>
          let value = trim_space (raw_value values ''driver_abi_version'')
          in if value \<noteq> [] \<and> snd (atoi value) \<noteq> None then Some ''driver_abi_version is malformed'' else None)"

definition eligibility :: "InventoryDevice \<Rightarrow> go_error \<Rightarrow> bool \<times> string" where
  "eligibility d discoveryErr =
     (case discoveryErr of
        Some e \<Rightarrow> (False, ''discovery: '' @ e)
      | None \<Rightarrow>
          if \<not> dv_CharacterDevicePresent d then (False, ''character device is missing'')
          else if dv_Health d \<noteq> HealthHealthy then (False, ''device health is '' @ health_string (dv_Health d))
          else if pci_Vendor (dv_PCI d) \<noteq> [] \<and> pci_Vendor (dv_PCI d) \<noteq> tenstorrentPCIVendor
          then (False, ''PCI vendor is not Tenstorrent'')
          else if pci_BDF (dv_PCI d) = [] \<or> pci_Vendor (dv_PCI d) = [] then (False, ''PCI identity is incomplete'')
          else if \<not> validHardwareID (dv_HardwareUUID d) then (False, ''stable hardware UUID is missing or malformed'')
          else if dv_ChipSeries d \<noteq> ''wormhole'' \<and> dv_ChipSeries d \<noteq> ''blackhole''
          then (False, ''chip identity is not Wormhole or Blackhole'')
          else if \<not> supportedKMD (dv_KMDVersion d) then (False, ''unsupported tt-kmd version '' @ dv_KMDVersion d)
          else if \<not> supportedFirmware (dv_FirmwareVersion d)
          then (False, ''unsupported firmware version '' @ dv_FirmwareVersion d)
          else if dv_DriverABIVersion d \<noteq> supportedDriverABI
          then (False, ''unsupported device ABI '' @ show_int (dv_DriverABIVersion d))
          else if \<not> supportedKernel (dv_KernelVersion d)
          then (False, ''unsupported kernel version '' @ dv_KernelVersion d)
          else if malformedObservedNumber d then (False, ''critical numeric sysfs value is malformed'')
          else (True, []))"

section \<open>Normalization\<close>

definition populateProvenance :: "RawDevice \<Rightarrow> go_time \<Rightarrow> InventoryDevice \<Rightarrow> InventoryDevice" where
  "populateProvenance raw observedAt d =
     (let add = (\<lambda>field source path m. gm_put field \<lparr>pv_Source = source, pv_Path = path, pv_ObservedAt = observedAt\<rparr> m);
          m = dv_Provenance d;
          m = add ''stableID'' ''pci-sysfs'' (rw_PCIPath raw) m;
          m = add ''characterDevice'' ''device-sysfs'' (rw_SysfsPath raw) m;
          m = add ''pci'' ''pci-sysfs'' (rw_PCIPath raw) m;
          m = fold (\<lambda>field. add field ''tenstorrent-sysfs'' (rw_SysfsPath raw))
                [''hardwareUUID'', ''chipSeries'', ''firmwareVersion'', ''kmdVersion'', ''driverABIVersion'',
                 ''memory'', ''compute'', ''health'', ''fault'', ''fabric''] m;
          m = add ''kernelVersion'' ''procfs'' ''/proc/sys/kernel/osrelease'' m;
          m = (if trim_space (raw_value (rw_Values raw) ''architecture'') = [] \<and> dv_ChipSeries d \<noteq> []
               then add ''chipSeries'' ''pci-sysfs'' (rw_PCIPath raw) m else m);
          m = add ''node'' ''device-sysfs'' (rw_SysfsPath raw) m;
          m = add ''observedAt'' ''observer'' (rw_SysfsPath raw) m
      in d\<lparr>dv_Provenance := m\<rparr>)"

text \<open>The device as \<open>normalize\<close> first builds it, before the identity, fault and eligibility steps.\<close>

definition observed_device :: "RawDevice \<Rightarrow> go_time \<Rightarrow> InventoryDevice" where
  "observed_device raw observedAt =
     (let v = rw_Values raw; pci = pciIdentity raw;
          chipSeries = normalizeChip (raw_value v ''architecture'');
          chipSeries = (if chipSeries = [] then chipSeriesFromPCI pci else chipSeries)
      in \<lparr>dv_StableID = rw_ID raw,
          dv_HardwareUUID = firstValue v [''device_uuid'', ''serial_number''],
          dv_Node = rw_Node raw,
          dv_CharacterDevicePresent = rw_CharacterDevicePresent raw,
          dv_PCI = pci,
          dv_ChipSeries = chipSeries,
          dv_FirmwareVersion = firstValue v [''tt_fw_bundle_ver'', ''firmware_version''],
          dv_KMDVersion = firstValue v [''kmd_version'', ''driver_version''],
          dv_DriverABIVersion = parseInt (raw_value v ''driver_abi_version''),
          dv_KernelVersion = trim_space (raw_value v ''kernel_version''),
          dv_Memory = \<lparr>mi_TotalBytes = parseUint (raw_value v ''memory_capacity_bytes''),
                       mi_AvailableBytes = parseUint (raw_value v ''memory_available_bytes'')\<rparr>,
          dv_Compute = \<lparr>ci_TensixCores = parseUint (raw_value v ''tensix_cores_total'')\<rparr>,
          dv_Health = normalizeHealth (raw_value v ''health''),
          dv_Fault = \<lparr>ft_Code = raw_value v ''fault_code'', ft_Message = []\<rparr>,
          dv_Fabric = \<lparr>fi_FabricID = firstValue v [''fabric_id'', ''fabric_domain''],
                       fi_RingID = firstValue v [''ring_id'', ''fabric_ring''],
                       fi_EndpointID = firstValue v [''fabric_endpoint'', ''fabric_endpoint_id''],
                       fi_Links = rw_FabricLinks raw\<rparr>,
          dv_Provenance = [], dv_ObservedAt = observedAt, dv_Eligible = False, dv_RejectionReason = []\<rparr>)"

text \<open>A hardware UUID takes the place of the class-entry name as the stable identity.\<close>

definition apply_identity :: "InventoryDevice \<Rightarrow> InventoryDevice" where
  "apply_identity d =
     (if dv_HardwareUUID d \<noteq> [] then d\<lparr>dv_StableID := ''uuid-'' @ to_lower (dv_HardwareUUID d)\<rparr> else d)"

text \<open>A fault code other than 0 makes a healthy device unhealthy.\<close>

definition faulty :: "InventoryDevice \<Rightarrow> bool" where
  "faulty d \<longleftrightarrow> ft_Code (dv_Fault d) \<noteq> [] \<and> ft_Code (dv_Fault d) \<noteq> ''0''"

definition apply_fault :: "InventoryDevice \<Rightarrow> InventoryDevice" where
  "apply_fault d =
     (if faulty d
      then d\<lparr>dv_Fault := (dv_Fault d)\<lparr>ft_Message := ''non-zero hardware fault code''\<rparr>,
             dv_Health := (if dv_Health d = HealthHealthy then HealthUnhealthy else dv_Health d)\<rparr>
      else d)"

definition normalize_device :: "RawDevice \<Rightarrow> go_time \<Rightarrow> InventoryDevice" where
  "normalize_device raw observedAt =
     (let d = apply_fault (apply_identity (observed_device raw observedAt));
          (ok, reason) = eligibility d (errors_join (rw_DiscoveryError raw) (validateRawValues (rw_Values raw)));
          d = d\<lparr>dv_Eligible := ok, dv_RejectionReason := reason,
                dv_Node := (dv_Node d)\<lparr>nd_ChipSeries := dv_ChipSeries d\<rparr>\<rparr>
      in populateProvenance raw observedAt d)"

definition reject_duplicate :: "InventoryDevice \<Rightarrow> InventoryDevice" where
  "reject_duplicate d = d\<lparr>dv_Eligible := False, dv_RejectionReason := ''duplicate stable identity''\<rparr>"

fun markDuplicateIdentities :: "InventoryDevice list \<Rightarrow> InventoryDevice list" where
  "markDuplicateIdentities (a # b # ds) =
     (if dv_StableID b \<noteq> dv_StableID a then a # markDuplicateIdentities (b # ds)
      else reject_duplicate a # markDuplicateIdentities (reject_duplicate b # ds))"
| "markDuplicateIdentities ds = ds"

text \<open>
  \<open>BuildSnapshot\<close>: the provider's answer (\<open>None\<close> for a nil provider) and the time of the
  observation are arguments.
\<close>

definition BuildSnapshot :: "(string + RawDevice list) option \<Rightarrow> go_time \<Rightarrow> string + InventorySnapshot" where
  "BuildSnapshot provider observedAt =
     (case provider of
        None \<Rightarrow> Inl ''inventory provider is nil''
      | Some (Inl e) \<Rightarrow> Inl e
      | Some (Inr observations) \<Rightarrow>
          Inr \<lparr>sn_Devices = markDuplicateIdentities
                 (sort_key dv_StableID (map (\<lambda>obs. normalize_device obs observedAt) observations)),
               sn_ObservedAt = observedAt\<rparr>)"

section \<open>Names of devices\<close>

definition DRAName :: "InventoryDevice \<Rightarrow> string" where
  "DRAName item =
     (if dv_StableID item = [] \<and> nd_ChipSeries (dv_Node item) \<noteq> []
      then ''tt-'' @ nd_ChipSeries (dv_Node item) @ ''-'' @ nd_ID (dv_Node item)
      else
        let value = to_lower (dv_StableID item);
            value = (if value = [] then nd_ID (dv_Node item) else value);
            result = trim_char CHR ''-'' (map sanitize_char value);
            result =
              (if result \<noteq> value \<or> length result > 59
               then let result = (if result = [] then ''device'' else result);
                        result = (if length result > 46 then trim_right_char CHR ''-'' (take 46 result) else result)
                    in result @ ''-'' @ hex_string (take 6 (sum256 value))
               else result)
        in ''tt-'' @ result)"

end
