(* ===== verification/Inventory_Correct.thy ===== *)
theory Inventory_Correct
  imports Inventory
begin

text \<open>
  What the inventory guarantees to its consumers: a device is eligible exactly when it passed
  every check and its identity is unique in the snapshot; device names are DNS labels; device
  numbers are decoded as Linux packs them.  Also the two places where the parsers accept more than
  their comments say.
\<close>

section \<open>Eligibility\<close>

text \<open>The certificate of an eligible device, check by check.\<close>

definition certified :: "InventoryDevice \<Rightarrow> bool" where
  "certified d \<longleftrightarrow>
     dv_CharacterDevicePresent d \<and> dv_Health d = HealthHealthy \<and>
     pci_Vendor (dv_PCI d) = tenstorrentPCIVendor \<and> pci_BDF (dv_PCI d) \<noteq> [] \<and>
     validHardwareID (dv_HardwareUUID d) \<and> (dv_ChipSeries d = ''wormhole'' \<or> dv_ChipSeries d = ''blackhole'') \<and>
     supportedKMD (dv_KMDVersion d) \<and> supportedFirmware (dv_FirmwareVersion d) \<and>
     dv_DriverABIVersion d = supportedDriverABI \<and> supportedKernel (dv_KernelVersion d) \<and>
     \<not> malformedObservedNumber d"

lemma eligibility_iff: "fst (eligibility d e) \<longleftrightarrow> e = None \<and> certified d"
proof (cases e)
  case None
  have "tenstorrentPCIVendor \<noteq> []" by (simp add: tenstorrentPCIVendor_def)
  then show ?thesis
    unfolding None eligibility_def certified_def option.case if_distrib [of fst] fst_conv
    by (auto simp only: if_bool_eq_conj simp_thms)
qed (simp add: eligibility_def)

lemma populateProvenance_only: "\<exists>m. populateProvenance raw t d = d\<lparr>dv_Provenance := m\<rparr>"
  unfolding populateProvenance_def Let_def by blast

lemma certified_cong:
  "dv_CharacterDevicePresent d' = dv_CharacterDevicePresent d \<Longrightarrow> dv_Health d' = dv_Health d \<Longrightarrow>
   dv_PCI d' = dv_PCI d \<Longrightarrow> dv_HardwareUUID d' = dv_HardwareUUID d \<Longrightarrow> dv_ChipSeries d' = dv_ChipSeries d \<Longrightarrow>
   dv_KMDVersion d' = dv_KMDVersion d \<Longrightarrow> dv_FirmwareVersion d' = dv_FirmwareVersion d \<Longrightarrow>
   dv_DriverABIVersion d' = dv_DriverABIVersion d \<Longrightarrow> dv_KernelVersion d' = dv_KernelVersion d \<Longrightarrow>
   dv_Memory d' = dv_Memory d \<Longrightarrow> certified d' = certified d"
  by (simp only: certified_def malformedObservedNumber_def)

text \<open>\<open>normalize\<close> decides eligibility on the device it returns.\<close>

lemma normalize_shape:
  fixes raw t
  defines "d \<equiv> apply_fault (apply_identity (observed_device raw t))"
    and "e \<equiv> errors_join (rw_DiscoveryError raw) (validateRawValues (rw_Values raw))"
  obtains m where "normalize_device raw t = d\<lparr>dv_Eligible := fst (eligibility d e),
      dv_RejectionReason := snd (eligibility d e), dv_Node := (dv_Node d)\<lparr>nd_ChipSeries := dv_ChipSeries d\<rparr>,
      dv_Provenance := m\<rparr>"
proof -
  obtain ok reason where el: "eligibility d e = (ok, reason)" by fastforce
  then have "normalize_device raw t = populateProvenance raw t (d\<lparr>dv_Eligible := ok, dv_RejectionReason := reason,
      dv_Node := (dv_Node d)\<lparr>nd_ChipSeries := dv_ChipSeries d\<rparr>\<rparr>)"
    unfolding normalize_device_def d_def e_def by (simp only: Let_def prod.case)
  with populateProvenance_only [of raw t] el show ?thesis using that by (metis fst_conv snd_conv)
qed

lemma normalize_eligible_raw:
  "dv_Eligible (normalize_device raw t) = fst (eligibility (apply_fault (apply_identity (observed_device raw t)))
     (errors_join (rw_DiscoveryError raw) (validateRawValues (rw_Values raw))))"
  by (rule normalize_shape [of raw t]) simp

lemma normalize_eligible:
  "dv_Eligible (normalize_device raw t) \<longleftrightarrow>
     rw_DiscoveryError raw = None \<and> validateRawValues (rw_Values raw) = None \<and> certified (normalize_device raw t)"
proof -
  let ?d = "apply_fault (apply_identity (observed_device raw t))"
  let ?e = "errors_join (rw_DiscoveryError raw) (validateRawValues (rw_Values raw))"
  obtain m where n: "normalize_device raw t = ?d\<lparr>dv_Eligible := fst (eligibility ?d ?e),
      dv_RejectionReason := snd (eligibility ?d ?e), dv_Node := (dv_Node ?d)\<lparr>nd_ChipSeries := dv_ChipSeries ?d\<rparr>,
      dv_Provenance := m\<rparr>" by (rule normalize_shape)
  have "certified (normalize_device raw t) = certified ?d"
    unfolding n by (rule certified_cong) simp_all
  then show ?thesis by (simp add: normalize_eligible_raw eligibility_iff)
qed

text \<open>The identity and health of a normalized device.\<close>

lemma normalize_identity:
  "dv_StableID (normalize_device raw t) =
     (if dv_HardwareUUID (normalize_device raw t) = [] then rw_ID raw
      else ''uuid-'' @ to_lower (dv_HardwareUUID (normalize_device raw t)))"
proof -
  obtain m where n: "normalize_device raw t = (apply_fault (apply_identity (observed_device raw t)))
     \<lparr>dv_Eligible := fst (eligibility (apply_fault (apply_identity (observed_device raw t)))
        (errors_join (rw_DiscoveryError raw) (validateRawValues (rw_Values raw)))),
      dv_RejectionReason := snd (eligibility (apply_fault (apply_identity (observed_device raw t)))
        (errors_join (rw_DiscoveryError raw) (validateRawValues (rw_Values raw)))),
      dv_Node := (dv_Node (apply_fault (apply_identity (observed_device raw t))))
        \<lparr>nd_ChipSeries := dv_ChipSeries (apply_fault (apply_identity (observed_device raw t)))\<rparr>,
      dv_Provenance := m\<rparr>" by (rule normalize_shape)
  have "dv_StableID (observed_device raw t) = rw_ID raw" by (simp only: observed_device_def Let_def InventoryDevice.simps)
  then show ?thesis unfolding n by (simp add: apply_fault_def apply_identity_def)
qed

lemma normalize_fault_healthy: "dv_Health (normalize_device raw t) = HealthHealthy \<Longrightarrow> \<not> faulty (normalize_device raw t)"
proof -
  assume h: "dv_Health (normalize_device raw t) = HealthHealthy"
  obtain m where n: "normalize_device raw t = (apply_fault (apply_identity (observed_device raw t)))
     \<lparr>dv_Eligible := fst (eligibility (apply_fault (apply_identity (observed_device raw t)))
        (errors_join (rw_DiscoveryError raw) (validateRawValues (rw_Values raw)))),
      dv_RejectionReason := snd (eligibility (apply_fault (apply_identity (observed_device raw t)))
        (errors_join (rw_DiscoveryError raw) (validateRawValues (rw_Values raw)))),
      dv_Node := (dv_Node (apply_fault (apply_identity (observed_device raw t))))
        \<lparr>nd_ChipSeries := dv_ChipSeries (apply_fault (apply_identity (observed_device raw t)))\<rparr>,
      dv_Provenance := m\<rparr>" by (rule normalize_shape)
  from h show ?thesis unfolding n by (auto simp: apply_fault_def faulty_def split: if_splits)
qed

section \<open>Duplicates\<close>

lemma reject_duplicate_sel [simp]:
  "dv_StableID (reject_duplicate d) = dv_StableID d" "\<not> dv_Eligible (reject_duplicate d)"
  by (simp_all add: reject_duplicate_def)

lemma mark_length [simp]: "length (markDuplicateIdentities ds) = length ds"
  by (induction ds rule: markDuplicateIdentities.induct) auto

lemma mark_ids [simp]: "map dv_StableID (markDuplicateIdentities ds) = map dv_StableID ds"
  by (induction ds rule: markDuplicateIdentities.induct) auto

lemma reject_duplicate_idem [simp]: "reject_duplicate (reject_duplicate d) = reject_duplicate d"
  by (simp add: reject_duplicate_def)

text \<open>A device is rejected exactly when a neighbour has its identity.\<close>

definition has_twin :: "string list \<Rightarrow> nat \<Rightarrow> bool" where
  "has_twin ids i \<longleftrightarrow> (0 < i \<and> ids ! (i - 1) = ids ! i) \<or> (Suc i < length ids \<and> ids ! Suc i = ids ! i)"

lemma mark_nth:
  "i < length ds \<Longrightarrow> markDuplicateIdentities ds ! i =
     (if has_twin (map dv_StableID ds) i then reject_duplicate (ds ! i) else ds ! i)"
proof (induction ds arbitrary: i rule: markDuplicateIdentities.induct)
  case (1 a b ds)
  show ?case
  proof (cases i)
    case 0
    then show ?thesis by (simp add: has_twin_def)
  next
    case (Suc j)
    have twin: "has_twin (map dv_StableID (a # b # ds)) (Suc j) \<longleftrightarrow>
        (j = 0 \<and> dv_StableID b = dv_StableID a) \<or> has_twin (map dv_StableID (b # ds)) j"
      by (cases j) (auto simp: has_twin_def)
    have "has_twin (map dv_StableID (reject_duplicate b # ds)) j = has_twin (map dv_StableID (b # ds)) j"
      by simp
    then show ?thesis
      using 1 Suc twin by (cases j) auto
  qed
qed (auto simp: has_twin_def)

lemma has_twin_count:
  assumes "sorted ids" and "i < length ids"
  shows "has_twin ids i \<longleftrightarrow> count (mset ids) (ids ! i) \<noteq> 1"
proof -
  have c: "count (mset ids) (ids ! i) = card {j. j < length ids \<and> ids ! j = ids ! i}"
    by (simp add: count_mset count_list_eq_length_filter length_filter_conv_card eq_commute)
  show ?thesis
  proof
    assume "has_twin ids i"
    then consider "0 < i" "ids ! (i - 1) = ids ! i" | "Suc i < length ids" "ids ! Suc i = ids ! i"
      by (auto simp: has_twin_def)
    then obtain j where j: "j < length ids" "j \<noteq> i" "ids ! j = ids ! i"
    proof cases
      case 1
      then show ?thesis using that [of "i - 1"] assms(2) by simp
    next
      case 2
      then show ?thesis using that [of "Suc i"] by simp
    qed
    then have "{i, j} \<subseteq> {j. j < length ids \<and> ids ! j = ids ! i}" using assms(2) by auto
    then have "card {i, j} \<le> card {j. j < length ids \<and> ids ! j = ids ! i}" by (intro card_mono) auto
    then show "count (mset ids) (ids ! i) \<noteq> 1" using c j(2) by auto
  next
    assume n: "count (mset ids) (ids ! i) \<noteq> 1"
    show "has_twin ids i"
    proof (rule ccontr)
      assume no: "\<not> has_twin ids i"
      have "j = i" if j: "j < length ids" "ids ! j = ids ! i" for j
      proof (rule ccontr)
        assume "j \<noteq> i"
        then consider "j < i" | "i < j" by linarith
        then show False
        proof cases
          case 1
          then have "ids ! j \<le> ids ! (i - 1)" "ids ! (i - 1) \<le> ids ! i"
            using assms by (auto intro!: sorted_nth_mono)
          then show False using no 1 j(2) by (simp add: has_twin_def)
        next
          case 2
          then have "ids ! i \<le> ids ! Suc i" "ids ! Suc i \<le> ids ! j"
            using assms j(1) by (auto intro!: sorted_nth_mono)
          then show False using no 2 j by (simp add: has_twin_def)
        qed
      qed
      then have "{j. j < length ids \<and> ids ! j = ids ! i} = {i}" using assms(2) by auto
      then show False using n c by simp
    qed
  qed
qed

lemma mark_sorted_eligible:
  assumes "sorted (map dv_StableID ds)"
  shows "d \<in> set (markDuplicateIdentities ds) \<and> dv_Eligible d \<longleftrightarrow>
     d \<in> set ds \<and> dv_Eligible d \<and> count (mset (map dv_StableID ds)) (dv_StableID d) = 1"
proof -
  have nth: "markDuplicateIdentities ds ! i =
      (if count (mset (map dv_StableID ds)) (dv_StableID (ds ! i)) \<noteq> 1 then reject_duplicate (ds ! i) else ds ! i)"
    if "i < length ds" for i
    using mark_nth [OF that] has_twin_count [OF assms, of i] that by simp
  show ?thesis
  proof
    assume d: "d \<in> set (markDuplicateIdentities ds) \<and> dv_Eligible d"
    then obtain i where "i < length ds" "markDuplicateIdentities ds ! i = d" by (auto simp: in_set_conv_nth)
    with nth [of i] d show "d \<in> set ds \<and> dv_Eligible d \<and> count (mset (map dv_StableID ds)) (dv_StableID d) = 1"
      by (auto split: if_splits)
  next
    assume d: "d \<in> set ds \<and> dv_Eligible d \<and> count (mset (map dv_StableID ds)) (dv_StableID d) = 1"
    then obtain i where i: "i < length ds" "ds ! i = d" by (auto simp: in_set_conv_nth)
    with nth [of i] d have "markDuplicateIdentities ds ! i = d" by simp
    with i d show "d \<in> set (markDuplicateIdentities ds) \<and> dv_Eligible d" by (auto simp: in_set_conv_nth)
  qed
qed

text \<open>
  C32: the eligible devices of a snapshot are exactly the observations without a discovery error or
  malformed value that pass every check of the compatibility policy, and whose stable identity no
  other observation has; each is reported as it was normalized.
\<close>

theorem BuildSnapshot_eligible:
  "\<exists>s. BuildSnapshot (Some (Inr obs)) t = Inr s \<and>
     {d \<in> set (sn_Devices s). dv_Eligible d} =
     (\<lambda>raw. normalize_device raw t) ` {raw \<in> set obs. rw_DiscoveryError raw = None \<and>
        validateRawValues (rw_Values raw) = None \<and> certified (normalize_device raw t) \<and>
        count (mset (map (\<lambda>r. dv_StableID (normalize_device r t)) obs)) (dv_StableID (normalize_device raw t)) = 1}"
proof -
  let ?ns = "map (\<lambda>obs. normalize_device obs t) obs"
  let ?ds = "sort_key dv_StableID ?ns"
  have "mset (map dv_StableID ?ds) = mset (map dv_StableID ?ns)" by (simp only: mset_map mset_sort)
  then have count: "count (mset (map dv_StableID ?ds)) x = count (mset (map (\<lambda>r. dv_StableID (normalize_device r t)) obs)) x" for x
    by (simp add: comp_def)
  have "sorted (map dv_StableID ?ds)" by simp
  then have "d \<in> set (markDuplicateIdentities ?ds) \<and> dv_Eligible d \<longleftrightarrow>
      d \<in> (\<lambda>raw. normalize_device raw t) ` set obs \<and> dv_Eligible d \<and>
      count (mset (map (\<lambda>r. dv_StableID (normalize_device r t)) obs)) (dv_StableID d) = 1" for d
    unfolding count [symmetric] using mark_sorted_eligible [of ?ds d] by simp
  then have "{d \<in> set (markDuplicateIdentities ?ds). dv_Eligible d} =
      (\<lambda>raw. normalize_device raw t) ` {raw \<in> set obs. dv_Eligible (normalize_device raw t) \<and>
        count (mset (map (\<lambda>r. dv_StableID (normalize_device r t)) obs)) (dv_StableID (normalize_device raw t)) = 1}"
    by (rule collect_image_eq)
  then show ?thesis unfolding BuildSnapshot_def normalize_eligible by (simp add: conj_assoc)
qed

text \<open>
  An eligible device is named by its hardware: its stable identity is the lower-cased UUID, it is
  healthy, and it reports no fault code.
\<close>

theorem normalize_eligible_identity:
  assumes "dv_Eligible (normalize_device raw t)"
  shows "dv_HardwareUUID (normalize_device raw t) \<noteq> [] \<and>
     dv_StableID (normalize_device raw t) = ''uuid-'' @ to_lower (dv_HardwareUUID (normalize_device raw t)) \<and>
     dv_Health (normalize_device raw t) = HealthHealthy \<and> \<not> faulty (normalize_device raw t)"
proof -
  have c: "certified (normalize_device raw t)" using assms normalize_eligible by blast
  then have uuid: "dv_HardwareUUID (normalize_device raw t) \<noteq> []" by (auto simp: certified_def validHardwareID_def)
  moreover have "dv_StableID (normalize_device raw t) = ''uuid-'' @ to_lower (dv_HardwareUUID (normalize_device raw t))"
    using normalize_identity [of raw t] uuid by (simp only: if_False)
  moreover have "dv_Health (normalize_device raw t) = HealthHealthy" using c unfolding certified_def by blast
  ultimately show ?thesis using normalize_fault_healthy by blast
qed

lemmas scan_defs = trim_space_def trim_left_func_def trim_right_func_def is_space_def digit_val_def less_eq_char_def

section \<open>A sample device\<close>

definition sample_raw :: RawDevice where
  "sample_raw = \<lparr>rw_ID = ''0'', rw_Node = \<lparr>nd_ID = ''0'', nd_Path = ''/dev/tenstorrent/0'', nd_Major = 241, nd_Minor = 0,
     nd_Mode = [], nd_ChipSeries = []\<rparr>, rw_CharacterDevicePresent = True, rw_SysfsPath = ''/s/0'', rw_PCIPath = ''/p/0'',
     rw_Values = [(''device_uuid'', ''A1''), (''health'', ''ok''), (''architecture'', ''wh''), (''pci.bdf'', ''0:1''),
       (''pci.vendor'', ''1e52''), (''kmd_version'', ''2.6.0''), (''firmware_version'', ''19.2.1''),
       (''driver_abi_version'', ''2''), (''kernel_version'', ''6.8.0'')],
     rw_FabricLinks = [], rw_DiscoveryError = None\<rparr>"

lemma sample_trims:
  "trim_space [] = []" "trim_space ''A1'' = ''A1''" "trim_space ''ok'' = ''ok''" "trim_space ''wh'' = ''wh''" "trim_space ''0:1'' = ''0:1''"
  "trim_space ''1e52'' = ''1e52''" "trim_space ''2.6.0'' = ''2.6.0''" "trim_space ''19.2.1'' = ''19.2.1''" "trim_space ''2'' = ''2''"
  "trim_space ''6.8.0'' = ''6.8.0''"
  by (simp_all add: scan_defs)

lemma sample_values_ok: "validateRawValues (rw_Values sample_raw) = None"
  by (simp add: validateRawValues_def sample_raw_def raw_number_error_def raw_value_def gm_get_def sample_trims atoi_def digit_val_def less_eq_char_def)

lemma sample_uuid: "validHardwareID ''A1''" by (simp add: validHardwareID_def alphanumeric_def less_eq_char_def)

lemma sample_kmd: "supportedKMD ''2.6.0''" by (simp add: supportedKMD_def sample_trims atoi_def digit_val_def less_eq_char_def)

lemma sample_firmware: "supportedFirmware ''19.2.1''" by (simp add: supportedFirmware_def versionMajorMinor_def sample_trims atoi_def digit_val_def less_eq_char_def numeral_3_eq_3)

lemma sample_kernel: "supportedKernel ''6.8.0''" by (simp add: supportedKernel_def versionMajorMinor_def sample_trims atoi_def digit_val_def less_eq_char_def numeral_3_eq_3)

lemma sample_digits: "digit_char (Suc 0) = CHR ''1''" "digit_char 14 = CHR ''e''" "digit_char 5 = CHR ''5''" "digit_char 2 = CHR ''2''"
  by code_simp+

lemma sample_vendor: "normalizeHex ''1e52'' = tenstorrentPCIVendor"
  by (simp add: normalizeHex_def to_lower_def lower_char_def sample_trims parse_uint64_def digit_val_def
      less_eq_char_def has_prefix_def tenstorrentPCIVendor_def show_base.simps sample_digits)

lemma sample_values: 
  "raw_value (rw_Values sample_raw) ''device_uuid'' = ''A1''"
  "raw_value (rw_Values sample_raw) ''health'' = ''ok''"
  "raw_value (rw_Values sample_raw) ''architecture'' = ''wh''"
  "raw_value (rw_Values sample_raw) ''pci.bdf'' = ''0:1''"
  "raw_value (rw_Values sample_raw) ''pci.uevent.PCI_SLOT_NAME'' = []"
  "raw_value (rw_Values sample_raw) ''pci.PCI_SLOT_NAME'' = []"
  "raw_value (rw_Values sample_raw) ''pci.vendor'' = ''1e52''"
  "raw_value (rw_Values sample_raw) ''kmd_version'' = ''2.6.0''"
  "raw_value (rw_Values sample_raw) ''tt_fw_bundle_ver'' = []"
  "raw_value (rw_Values sample_raw) ''firmware_version'' = ''19.2.1''"
  "raw_value (rw_Values sample_raw) ''driver_abi_version'' = ''2''"
  "raw_value (rw_Values sample_raw) ''kernel_version'' = ''6.8.0''"
  "raw_value (rw_Values sample_raw) ''fault_code'' = []"
  "raw_value (rw_Values sample_raw) ''memory_capacity_bytes'' = []"
  "raw_value (rw_Values sample_raw) ''memory_available_bytes'' = []"
  by (simp_all add: sample_raw_def raw_value_def gm_get_def)

lemma eligible_values:
  assumes raw: "rw_DiscoveryError raw = None" "rw_CharacterDevicePresent raw" "validateRawValues (rw_Values raw) = None"
    and v: "raw_value (rw_Values raw) ''device_uuid'' = ''A1''"
    "raw_value (rw_Values raw) ''health'' = ''ok''"
    "raw_value (rw_Values raw) ''architecture'' = ''wh''"
    "raw_value (rw_Values raw) ''kmd_version'' = ''2.6.0''"
    "raw_value (rw_Values raw) ''tt_fw_bundle_ver'' = []"
    "raw_value (rw_Values raw) ''firmware_version'' = ''19.2.1''"
    "raw_value (rw_Values raw) ''driver_abi_version'' = ''2''"
    "raw_value (rw_Values raw) ''kernel_version'' = ''6.8.0''"
    "raw_value (rw_Values raw) ''fault_code'' = []"
    "raw_value (rw_Values raw) ''memory_capacity_bytes'' = []"
    "raw_value (rw_Values raw) ''memory_available_bytes'' = []"
    and pci: "pci_BDF (pciIdentity raw) \<noteq> []" "pci_Vendor (pciIdentity raw) = tenstorrentPCIVendor"
  shows "dv_Eligible (normalize_device raw t)"
proof -
  have "parseInt ''2'' = 2" by (simp add: parseInt_def sample_trims atoi_def digit_val_def less_eq_char_def)
  moreover have "parseUint [] = 0" by (simp add: parseUint_def sample_trims hex_prefixed_def has_prefix_def parse_uint64_def)
  moreover have "normalizeHealth ''ok'' = HealthHealthy" "normalizeChip ''wh'' = ''wormhole''"
    by (simp_all add: normalizeHealth_def normalizeChip_def sample_trims to_lower_def lower_char_def less_eq_char_def)
  ultimately have c: "certified (observed_device raw t)"
    using sample_uuid sample_kmd sample_firmware sample_kernel unfolding certified_def observed_device_def Let_def malformedObservedNumber_def
    by (simp add: v sample_trims supportedDriverABI_def raw pci)
  have "ft_Code (dv_Fault (observed_device raw t)) = []" by (simp add: observed_device_def Let_def v)
  then have "\<not> faulty (apply_identity (observed_device raw t))" by (simp add: faulty_def apply_identity_def)
  then have "apply_fault (apply_identity (observed_device raw t)) = apply_identity (observed_device raw t)"
    by (simp add: apply_fault_def)
  moreover have "certified (apply_identity (observed_device raw t))"
    by (subst certified_cong [where d = "observed_device raw t"]) (simp_all add: apply_identity_def c)
  ultimately show ?thesis using raw by (simp add: normalize_eligible_raw eligibility_iff)
qed

lemma sample_eligible: "dv_Eligible (normalize_device sample_raw t)"
  by (rule eligible_values)
    (simp_all add: sample_values sample_values_ok pciIdentity_def Let_def sample_trims sample_vendor,
      simp_all add: sample_raw_def)

theorem normalize_eligible_identity_witness:
  "dv_Health (normalize_device sample_raw 1) = HealthHealthy \<and> \<not> faulty (normalize_device sample_raw 1)"
  using normalize_eligible_identity [OF sample_eligible, of 1] by blast

section \<open>Names\<close>

text \<open>Both branches of \<open>DRAName\<close> after the prefix \<open>tt-\<close>.\<close>

lemma dns_label_tt:
  assumes "r \<noteq> []" and "length r \<le> 60" and "list_all label_char r" and "last r \<noteq> CHR ''-''"
  shows "dns_label (''tt-'' @ r)"
  using assms by (simp add: dns_label_def label_char_def)

lemma trimmed_label:
  fixes v :: string
  assumes "trim_char CHR ''-'' (map sanitize_char v) = v" and "v \<noteq> []" and "length v \<le> 59"
  shows "dns_label (''tt-'' @ v)"
proof (rule dns_label_tt)
  have "set v \<subseteq> sanitize_char ` set v"
    using set_trim_char [of "CHR ''-''" "map sanitize_char v"] assms(1) by simp
  then show "list_all label_char v" using sanitize_label by (auto simp: list_all_iff)
  show "last v \<noteq> CHR ''-''" using last_trim_char [of "CHR ''-''" "map sanitize_char v"] assms(1,2) by simp
qed (use assms in auto)

lemma hashed_label:
  assumes "label_prefix 46 p"
  shows "dns_label (''tt-'' @ p @ ''-'' @ hex_string (take 6 (sum256 v)))"
proof -
  have d: "dns_label (p @ ''-'' @ hex_string (take 6 (sum256 v)))"
    using assms by (intro label_prefix_digest) (auto simp: label_prefix_def)
  have "length (hex_string (take 6 (sum256 v))) = 12" using length_hex_digest [of 6 v] by simp
  moreover have "length p \<le> 46" using assms by (simp add: label_prefix_def)
  ultimately show ?thesis using d by (intro dns_label_tt) (auto simp: dns_label_def)
qed

text \<open>
  The DRA name of a device with a stable identity is a DNS label of at most 63 characters,
  whatever the identity contains.
\<close>

theorem DRAName_dns_label:
  assumes "dv_StableID item \<noteq> []"
  shows "dns_label (DRAName item)"
proof -
  define v where "v = to_lower (dv_StableID item)"
  define r where "r = trim_char CHR ''-'' (map sanitize_char v)"
  have ne: "v \<noteq> []" using assms by (simp add: v_def to_lower_def)
  have pre: "label_prefix 46 (if length (if r = [] then ''device'' else r) > 46
      then trim_right_char CHR ''-'' (take 46 (if r = [] then ''device'' else r)) else (if r = [] then ''device'' else r))"
    unfolding r_def
    by (rule label_prefix_cut [OF label_prefix_sanitized [of 6]]) (simp_all add: label_prefix_def label_char_def)
  have c: "(dv_StableID item = [] \<and> nd_ChipSeries (dv_Node item) \<noteq> []) = False"
    "(if v = [] then nd_ID (dv_Node item) else v) = v" using assms ne by simp_all
  have name: "DRAName item = ''tt-'' @ (if r \<noteq> v \<or> length r > 59
      then (if length (if r = [] then ''device'' else r) > 46
        then trim_right_char CHR ''-'' (take 46 (if r = [] then ''device'' else r)) else (if r = [] then ''device'' else r))
        @ ''-'' @ hex_string (take 6 (sum256 v))
      else r)"
    unfolding DRAName_def Let_def v_def [symmetric] c if_False r_def [symmetric] by (rule refl)
  show ?thesis
  proof (cases "r \<noteq> v \<or> length r > 59")
    case True
    then show ?thesis unfolding name using hashed_label [OF pre] by presburger
  next
    case False
    then have "dns_label (''tt-'' @ v)" using trimmed_label [of v] ne unfolding r_def by simp
    then show ?thesis unfolding name using False by presburger
  qed
qed

theorem DRAName_dns_label_witness:
  "dns_label (DRAName (observed_device
     \<lparr>rw_ID = ''Tenstorrent!0'', rw_Node = \<lparr>nd_ID = ''0'', nd_Path = ''/dev/tenstorrent/0'', nd_Major = 1, nd_Minor = 0,
        nd_Mode = [], nd_ChipSeries = []\<rparr>, rw_CharacterDevicePresent = True, rw_SysfsPath = [], rw_PCIPath = [],
      rw_Values = [], rw_FabricLinks = [], rw_DiscoveryError = None\<rparr> 1))"
  by (rule DRAName_dns_label) (simp add: observed_device_def Let_def)

section \<open>Device numbers\<close>

text \<open>How Linux packs a major and a minor number into a \<open>dev_t\<close> (glibc's \<open>makedev\<close>).\<close>

definition makedev :: "uint64 \<Rightarrow> uint64 \<Rightarrow> uint64" where
  "makedev major minor =
     (minor AND 0xff) OR push_bit 8 (major AND 0xfff) OR push_bit 12 (minor AND NOT 0xff)
       OR push_bit 32 (major AND NOT 0xfff)"

lemma bit_small:
  fixes w :: uint64
  assumes "unat w < 2 ^ k" and "bit w n"
  shows "n < k"
proof -
  have "take_bit k (unat w) = unat w" using assms(1) by (rule take_bit_nat_eq_self)
  moreover have "bit (unat w) n" using assms(2) by (simp add: bit_unsigned_iff)
  ultimately show ?thesis by (metis bit_take_bit_iff)
qed

lemma device_masks: "(0xff :: uint64) = mask 8" "(0xfff :: uint64) = mask 12"
  by (simp_all add: mask_eq_exp_minus_1)

lemma bit_makedev:
  "bit (makedev major minor) k \<longleftrightarrow> k < 64 \<and>
     ((k < 8 \<and> bit minor k) \<or> (8 \<le> k \<and> k < 20 \<and> bit major (k - 8)) \<or> (20 \<le> k \<and> bit minor (k - 12)) \<or>
      (44 \<le> k \<and> bit major (k - 32)))"
  unfolding makedev_def device_masks
  by (cases "k < 8"; cases "k < 20"; cases "k < 44"; simp add: bit_simps; auto)

text \<open>
  C33: the device numbers read from the file system are the ones the kernel packed, for every major
  number of 12 bits (all that Linux assigns) and minor number of 32 bits.
\<close>

theorem majorMinor_makedev:
  assumes "unat major < 2 ^ 12" and "unat minor < 2 ^ 32"
  shows "majorMinor (makedev major minor) = (major, minor)"
proof -
  note small = bit_small [OF assms(1)] bit_small [OF assms(2)]
  have "fst (majorMinor (makedev major minor)) = major"
    unfolding majorMinor_def Let_def fst_conv device_masks
  proof (rule bit_word_eqI)
    fix n :: nat
    assume "n < LENGTH(64)"
    then show "bit (drop_bit 8 (makedev major minor) AND mask 12 OR drop_bit 32 (makedev major minor) AND NOT (mask 12)) n =
        bit major n"
      using small(1) [of n] small(2) [of "20 + n"] by (auto simp: bit_simps bit_makedev)
  qed
  moreover have "snd (majorMinor (makedev major minor)) = minor"
    unfolding majorMinor_def Let_def snd_conv device_masks
  proof (rule bit_word_eqI)
    fix n :: nat
    assume "n < LENGTH(64)"
    then show "bit (makedev major minor AND mask 8 OR drop_bit 12 (makedev major minor) AND NOT (mask 8)) n = bit minor n"
      using small(1) [of "n - 20"] small(2) [of n] by (auto simp: bit_simps bit_makedev)
  qed
  ultimately show ?thesis by (metis prod.collapse)
qed

theorem majorMinor_makedev_witness: "majorMinor (makedev 241 300) = (241, 300)"
  by (rule majorMinor_makedev) simp_all

text \<open>
  For a major number of more than 12 bits, which the packing format allows, the decoded minor
  number is wrong: the high bits of the major number leak into it.
\<close>

theorem majorMinor_wide_major: "majorMinor (makedev 0x1000 0) = (0x1000, 0x100000000)"
  by (simp add: majorMinor_def makedev_def)

section \<open>Parsers that accept too much\<close>

text \<open>
  The parser of unsigned values does not return zero on every failure, as its comment says: a
  value beyond 64 bits gives the largest one.
\<close>

theorem parseUint_overflow: "parseUint ''18446744073709551616'' = - 1"
  by (simp add: parseUint_def hex_prefixed_def has_prefix_def parse_uint64_def scan_defs)

text \<open>
  The kernel policy 5.4 to 6.18 accepts a version with a negative minor number.
\<close>

theorem supportedKernel_negative: "supportedKernel ''6.-1''"
proof -
  have "splitn_char 3 CHR ''.'' ''6.-1'' = [''6'', ''-1'']" by (simp add: numeral_3_eq_3)
  moreover have "trim_space ''6.-1'' = ''6.-1''" by (simp add: scan_defs)
  moreover have "atoi ''6'' = (6, None)" "atoi ''-1'' = (- 1, None)"
    by (simp_all add: atoi_def scan_defs)
  ultimately show ?thesis by (simp add: supportedKernel_def versionMajorMinor_def)
qed

end
