(* ===== verification/Operations.thy ===== *)
theory Operations
  imports Go_Strings "HOL-Library.State_Monad"
begin

text \<open>
  Stateful code as values of the state monad, and the program logic for it: \<open>hoare\<close> for pre- and
  postconditions, \<open>keeps\<close> for invariants, \<open>returns\<close> for results.  The node agent and the controller use it, each
  with its own state.
\<close>

section \<open>Primitives and loops\<close>

abbreviation ret :: "'a \<Rightarrow> ('s, 'a) state" where
  "ret \<equiv> State_Monad.return"

definition gets :: "('s \<Rightarrow> 'a) \<Rightarrow> ('s, 'a) state" where
  "gets f = State (\<lambda>s. (f s, s))"

definition modify :: "('s \<Rightarrow> 's) \<Rightarrow> ('s, unit) state" where
  "modify f = State (\<lambda>s. ((), f s))"

lemma run_gets [simp]: "run_state (gets f) s = (f s, s)"
  by (simp add: gets_def)

lemma run_modify [simp]: "run_state (modify f) s = ((), f s)"
  by (simp add: modify_def)

text \<open>
  Loops: \<open>for_join\<close> runs the body on every element and joins the errors, \<open>until_error\<close> returns at
  the first error.
\<close>

fun for_join :: "('a \<Rightarrow> ('s, go_error) state) \<Rightarrow> 'a list \<Rightarrow> ('s, go_error) state" where
  "for_join f [] = ret None"
| "for_join f (x # xs) = do { e \<leftarrow> f x; e' \<leftarrow> for_join f xs; ret (errors_join e e') }"

fun until_error :: "('a \<Rightarrow> ('s, go_error) state) \<Rightarrow> 'a list \<Rightarrow> ('s, go_error) state" where
  "until_error f [] = ret None"
| "until_error f (x # xs) = do {
     e \<leftarrow> f x;
     case e of None \<Rightarrow> until_error f xs | Some m \<Rightarrow> ret (Some m) }"

section \<open>Program logic\<close>

named_theorems keeps_intro \<open>rules for showing that an operation keeps an invariant\<close>

definition hoare :: "('s \<Rightarrow> bool) \<Rightarrow> ('s, 'a) state \<Rightarrow> ('a \<Rightarrow> 's \<Rightarrow> bool) \<Rightarrow> bool" where
  "hoare P m Q \<longleftrightarrow> (\<forall>s. P s \<longrightarrow> (case run_state m s of (x, s') \<Rightarrow> Q x s'))"

definition keeps :: "('s \<Rightarrow> bool) \<Rightarrow> ('s, 'a) state \<Rightarrow> bool" where
  "keeps I m \<longleftrightarrow> hoare I m (\<lambda>_. I)"

lemma hoareI: "(\<And>s x s'. P s \<Longrightarrow> run_state m s = (x, s') \<Longrightarrow> Q x s') \<Longrightarrow> hoare P m Q"
  by (auto simp: hoare_def)

lemma hoareD: "hoare P m Q \<Longrightarrow> P s \<Longrightarrow> run_state m s = (x, s') \<Longrightarrow> Q x s'"
  by (auto simp: hoare_def)

lemma keepsI: "(\<And>s x s'. I s \<Longrightarrow> run_state m s = (x, s') \<Longrightarrow> I s') \<Longrightarrow> keeps I m"
  unfolding keeps_def by (rule hoareI)

lemma keepsD: "keeps I m \<Longrightarrow> I s \<Longrightarrow> run_state m s = (x, s') \<Longrightarrow> I s'"
  unfolding keeps_def by (rule hoareD)

lemma keeps_snd: "keeps I m \<Longrightarrow> I s \<Longrightarrow> I (snd (run_state m s))"
  by (metis keepsD prod.collapse)

lemma hoare_weaken: "hoare P m Q \<Longrightarrow> (\<And>s. P' s \<Longrightarrow> P s) \<Longrightarrow> (\<And>x s. Q x s \<Longrightarrow> Q' x s) \<Longrightarrow> hoare P' m Q'"
  by (fastforce simp: hoare_def)

lemma hoare_bind:
  "hoare P m R \<Longrightarrow> (\<And>x. hoare (R x) (f x) Q) \<Longrightarrow> hoare P (do { x \<leftarrow> m; f x }) Q"
  by (fastforce simp: hoare_def split: prod.splits)

lemma hoare_ret: "(\<And>s. P s \<Longrightarrow> Q x s) \<Longrightarrow> hoare P (ret x) Q"
  by (simp add: hoare_def)

lemma hoare_gets: "(\<And>s. P s \<Longrightarrow> Q (f s) s) \<Longrightarrow> hoare P (gets f) Q"
  by (simp add: hoare_def)

lemma hoare_modify: "(\<And>s. P s \<Longrightarrow> Q () (f s)) \<Longrightarrow> hoare P (modify f) Q"
  by (simp add: hoare_def)

lemma hoare_option:
  "(x = None \<Longrightarrow> hoare P m Q) \<Longrightarrow> (\<And>y. x = Some y \<Longrightarrow> hoare P (f y) Q) \<Longrightarrow> hoare P (case x of None \<Rightarrow> m | Some y \<Rightarrow> f y) Q"
  by (cases x) auto

lemma hoare_if: "(b \<Longrightarrow> hoare P m Q) \<Longrightarrow> (\<not> b \<Longrightarrow> hoare P n Q) \<Longrightarrow> hoare P (if b then m else n) Q"
  by simp

lemma hoare_let: "(\<And>x. x = e \<Longrightarrow> hoare P (f x) Q) \<Longrightarrow> hoare P (let x = e in f x) Q"
  by simp

lemma hoare_prod: "(\<And>a b. x = (a, b) \<Longrightarrow> hoare P (f a b) Q) \<Longrightarrow> hoare P (case x of (a, b) \<Rightarrow> f a b) Q"
  by (cases x) auto

lemma keeps_bind [keeps_intro]: "keeps I m \<Longrightarrow> (\<And>x. keeps I (f x)) \<Longrightarrow> keeps I (do { x \<leftarrow> m; f x })"
  unfolding keeps_def by (rule hoare_bind)

lemma keeps_ret [keeps_intro]: "keeps I (ret x)"
  by (simp add: keeps_def hoare_ret)

lemma keeps_gets [keeps_intro]: "keeps I (gets f)"
  by (simp add: keeps_def hoare_gets)

lemma keeps_if [keeps_intro]: "(b \<Longrightarrow> keeps I m) \<Longrightarrow> (\<not> b \<Longrightarrow> keeps I n) \<Longrightarrow> keeps I (if b then m else n)"
  by simp

lemma keeps_option [keeps_intro]:
  "(x = None \<Longrightarrow> keeps I m) \<Longrightarrow> (\<And>y. x = Some y \<Longrightarrow> keeps I (f y)) \<Longrightarrow>
     keeps I (case x of None \<Rightarrow> m | Some y \<Rightarrow> f y)"
  by (cases x) auto

lemma keeps_sum [keeps_intro]:
  "(\<And>a. x = Inl a \<Longrightarrow> keeps I (f a)) \<Longrightarrow> (\<And>b. x = Inr b \<Longrightarrow> keeps I (g b)) \<Longrightarrow>
     keeps I (case x of Inl a \<Rightarrow> f a | Inr b \<Rightarrow> g b)"
  by (cases x) auto

lemma keeps_prod [keeps_intro]: "(\<And>a b. x = (a, b) \<Longrightarrow> keeps I (f a b)) \<Longrightarrow> keeps I (case x of (a, b) \<Rightarrow> f a b)"
  by (cases x) auto

lemma keeps_let [keeps_intro]: "(\<And>x. x = e \<Longrightarrow> keeps I (f x)) \<Longrightarrow> keeps I (let x = e in f x)"
  by simp

lemma keeps_modify: "(\<And>s. I s \<Longrightarrow> I (f s)) \<Longrightarrow> keeps I (modify f)"
  by (simp add: keeps_def hoare_modify)

lemma keeps_for_join [keeps_intro]: "(\<And>x. x \<in> set xs \<Longrightarrow> keeps I (f x)) \<Longrightarrow> keeps I (for_join f xs)"
  by (induction xs) (auto intro!: keeps_intro)

lemma keeps_until_error [keeps_intro]: "(\<And>x. x \<in> set xs \<Longrightarrow> keeps I (f x)) \<Longrightarrow> keeps I (until_error f xs)"
  by (induction xs) (auto intro!: keeps_intro)

text \<open>What an operation returns, in any state.\<close>

named_theorems returns_intro \<open>rules for showing what an operation returns\<close>

definition returns :: "('a \<Rightarrow> bool) \<Rightarrow> ('s, 'a) state \<Rightarrow> bool" where
  "returns \<Phi> m \<longleftrightarrow> (\<forall>s. \<Phi> (fst (run_state m s)))"

lemma returnsD: "returns \<Phi> m \<Longrightarrow> run_state m s = (x, s') \<Longrightarrow> \<Phi> x"
  by (metis fst_conv returns_def)

lemma returns_bind [returns_intro]: "(\<And>x. returns \<Phi> (f x)) \<Longrightarrow> returns \<Phi> (do { x \<leftarrow> m; f x })"
  by (simp add: returns_def split: prod.split)

lemma returns_ret [returns_intro]: "\<Phi> x \<Longrightarrow> returns \<Phi> (ret x)"
  by (simp add: returns_def)

lemma returns_if [returns_intro]: "(b \<Longrightarrow> returns \<Phi> m) \<Longrightarrow> (\<not> b \<Longrightarrow> returns \<Phi> n) \<Longrightarrow> returns \<Phi> (if b then m else n)"
  by simp

lemma returns_option [returns_intro]:
  "returns \<Phi> m \<Longrightarrow> (\<And>y. returns \<Phi> (f y)) \<Longrightarrow> returns \<Phi> (case x of None \<Rightarrow> m | Some y \<Rightarrow> f y)"
  by (cases x) auto

end
