(* ===== verification/Lifecycle_State.thy ===== *)
theory Lifecycle_State
  imports Inventory Operations
begin

text \<open>
  The state and the effects of the node agent's lifecycle manager (\<open>src/internal/lifecycle\<close>): the
  records of \<open>state.go\<close>, \<open>manager.go\<close>, \<open>cdi.go\<close> and \<open>janitor.go\<close>, and the operations that touch the
  outside world.

  An operation is a value of the state monad over \<open>sys\<close>, which holds the manager's memory
  (\<open>sy_state\<close>, \<open>sy_last\<close>), the durable files (\<open>sy_disk\<close> for \<open>claims.json\<close>, \<open>sy_cdi\<close> for the CDI
  directory, \<open>sy_audit\<close> for the audit log) and the list \<open>sy_trace\<close> of effects in the order they
  happened.  Everything the code asks the outside world for (the clock, the inventory callback, the
  reset ioctl, the outcome of a file operation, the iteration order of a map) is read from the
  environment \<open>env\<close> at the position \<open>sy_step\<close>, which every question advances.  A theorem about
  every \<open>env\<close> is a theorem about every behaviour of the world, every pattern of I/O errors included.

  A write may fail before it takes effect (\<open>IoFail\<close>) or after (\<open>IoApplied\<close>: the rename succeeded
  and the directory sync did not).  One outcome stands for a whole \<open>MkdirAll\<close>-write-sync-rename
  sequence, which is atomic by construction of \<open>atomicJSON\<close>.
\<close>

section \<open>Data\<close>

record QuarantineRecord =
  qr_Reason :: string
  qr_Since :: go_time
  qr_AwaitingHealth :: bool

record KnownDevice =
  kd_Path :: string
  kd_LastSeen :: go_time

datatype ClaimPhase = ClaimPreparing | ClaimPrepared | ClaimReleasing | ClaimRecovered

fun phase_string :: "ClaimPhase \<Rightarrow> string" where
  "phase_string ClaimPreparing = ''Preparing''"
| "phase_string ClaimPrepared = ''Prepared''"
| "phase_string ClaimReleasing = ''Releasing''"
| "phase_string ClaimRecovered = ''Recovered''"

record ClaimDevice =
  cl_Requests :: "string list"
  cl_Pool :: string
  cl_Device :: string
  cl_StableID :: string
  cl_Path :: string
  cl_Major :: uint64
  cl_Minor :: uint64
  cl_CDIID :: string

record PreparedClaim =
  pc_UID :: string
  pc_Namespace :: string
  pc_Name :: string
  pc_Phase :: ClaimPhase
  pc_Devices :: "ClaimDevice list"

record persistedState =
  ps_Version :: int
  ps_Claims :: "(string, PreparedClaim) gomap"
  ps_Quarantined :: "(string, QuarantineRecord) gomap"
  ps_Known :: "(string, KnownDevice) gomap"

text \<open>
  The state file as the JSON decoder sees it: a field is absent, null or has a value.  \<open>CorruptFile\<close> is
  a file the decoder rejects; it carries what the decoder stores before it reports the error (nothing
  for text that is not JSON, the other fields for a field of the wrong type).
\<close>

datatype 'a json_field = FieldAbsent | FieldNull | FieldValue 'a

record stored_state =
  ss_Version :: "int option"
  ss_Claims :: "(string, PreparedClaim) gomap json_field"
  ss_Quarantined :: "(string, QuarantineRecord) gomap json_field"
  ss_Known :: "(string, KnownDevice) gomap json_field"

datatype disk_file = NoFile | CorruptFile string stored_state | StateFile stored_state

record AuditEvent =
  au_Time :: go_time
  au_Action :: string
  au_Outcome :: string
  au_Device :: string
  au_Path :: string
  au_ClaimUID :: string
  au_Namespace :: string
  au_ClaimName :: string
  au_Reason :: string

record cdiNode =
  cn_Path :: string
  cn_Type :: string
  cn_Major :: int
  cn_Minor :: int
  cn_FileMode :: nat

record cdiDevice =
  ce_Name :: string
  ce_DeviceNodes :: "cdiNode list"

record cdiSpec =
  cs_CDIVersion :: string
  cs_Kind :: string
  cs_Devices :: "cdiDevice list"

record Config =
  cf_NodeName :: string
  cf_Driver :: string
  cf_RequireIOMMU :: bool
  cf_MaxInventoryAge :: duration

section \<open>The system and its environment\<close>

datatype effect =
    EffReset string string string go_error
  | EffPersist persistedState
  | EffCDIWrite string cdiSpec
  | EffCDIRemove string
  | EffAudit AuditEvent

record sys =
  sy_state :: persistedState
  sy_last :: InventorySnapshot
  sy_step :: nat
  sy_disk :: disk_file
  sy_cdi :: "(string, cdiSpec) gomap"
  sy_audit :: "AuditEvent list"
  sy_trace :: "effect list"

datatype io = IoOk | IoFail string | IoApplied string

record env =
  ev_now :: "nat \<Rightarrow> go_time"
  ev_io :: "nat \<Rightarrow> io"
  ev_reset :: "nat \<Rightarrow> string \<Rightarrow> go_error"
  ev_inventory :: "nat \<Rightarrow> string + InventorySnapshot"
  ev_order :: "nat \<Rightarrow> string list \<Rightarrow> string list"

text \<open>The iteration order of a map is some permutation of its keys.\<close>

definition env_ok :: "env \<Rightarrow> bool" where
  "env_ok ev \<longleftrightarrow> (\<forall>n ks. set (ev_order ev n ks) = set ks)"

type_synonym 'a op = "(sys, 'a) state"

definition next_step :: "nat op" where
  "next_step = State (\<lambda>s. (sy_step s, s\<lparr>sy_step := Suc (sy_step s)\<rparr>))"

definition now :: "env \<Rightarrow> go_time op" where
  "now ev = do { n \<leftarrow> next_step; ret (ev_now ev n) }"

definition io_result :: "env \<Rightarrow> io op" where
  "io_result ev = do { n \<leftarrow> next_step; ret (ev_io ev n) }"

definition inventory :: "env \<Rightarrow> (string + InventorySnapshot) op" where
  "inventory ev = do { n \<leftarrow> next_step; ret (ev_inventory ev n) }"

definition range_keys :: "env \<Rightarrow> (string, 'v) gomap \<Rightarrow> string list op" where
  "range_keys ev m = do { n \<leftarrow> next_step; ret (ev_order ev n (gm_keys m)) }"

text \<open>A file operation with the effect \<open>f\<close>.\<close>

definition attempt :: "env \<Rightarrow> (sys \<Rightarrow> sys) \<Rightarrow> go_error op" where
  "attempt ev f = do {
     r \<leftarrow> io_result ev;
     case r of
       IoOk \<Rightarrow> do { modify f; ret None }
     | IoFail e \<Rightarrow> ret (Some e)
     | IoApplied e \<Rightarrow> do { modify f; ret (Some e) } }"

section \<open>Memory\<close>

definition modify_state :: "(persistedState \<Rightarrow> persistedState) \<Rightarrow> unit op" where
  "modify_state f = modify (\<lambda>s. s\<lparr>sy_state := f (sy_state s)\<rparr>)"

abbreviation st_claims :: "sys \<Rightarrow> (string, PreparedClaim) gomap" where
  "st_claims s \<equiv> ps_Claims (sy_state s)"

abbreviation st_quarantined :: "sys \<Rightarrow> (string, QuarantineRecord) gomap" where
  "st_quarantined s \<equiv> ps_Quarantined (sy_state s)"

abbreviation st_known :: "sys \<Rightarrow> (string, KnownDevice) gomap" where
  "st_known s \<equiv> ps_Known (sy_state s)"

definition put_claim :: "string \<Rightarrow> PreparedClaim \<Rightarrow> unit op" where
  "put_claim uid c = modify_state (\<lambda>p. p\<lparr>ps_Claims := gm_put uid c (ps_Claims p)\<rparr>)"

definition del_claim :: "string \<Rightarrow> unit op" where
  "del_claim uid = modify_state (\<lambda>p. p\<lparr>ps_Claims := gm_del uid (ps_Claims p)\<rparr>)"

definition put_quarantine :: "string \<Rightarrow> QuarantineRecord \<Rightarrow> unit op" where
  "put_quarantine name r = modify_state (\<lambda>p. p\<lparr>ps_Quarantined := gm_put name r (ps_Quarantined p)\<rparr>)"

definition del_quarantine :: "string \<Rightarrow> unit op" where
  "del_quarantine name = modify_state (\<lambda>p. p\<lparr>ps_Quarantined := gm_del name (ps_Quarantined p)\<rparr>)"

definition put_known :: "string \<Rightarrow> KnownDevice \<Rightarrow> unit op" where
  "put_known name k = modify_state (\<lambda>p. p\<lparr>ps_Known := gm_put name k (ps_Known p)\<rparr>)"

section \<open>state.go\<close>

definition stateVersion :: int where "stateVersion = 4"

text \<open>
  \<open>json.Unmarshal\<close> into a map field reuses the map that is there: keys of the file are stored into
  it and keys the file does not have stay.  An absent field leaves the map alone, a null one makes it
  nil, which is read like an empty map.
\<close>

definition unmarshal_map :: "('k, 'v) gomap \<Rightarrow> ('k, 'v) gomap json_field \<Rightarrow> ('k, 'v) gomap" where
  "unmarshal_map mem field =
     (case field of
        FieldAbsent \<Rightarrow> mem
      | FieldNull \<Rightarrow> []
      | FieldValue m \<Rightarrow> fold (\<lambda>(k, v). gm_put k v) m mem)"

definition unmarshal_state :: "stored_state \<Rightarrow> persistedState \<Rightarrow> persistedState" where
  "unmarshal_state f st =
     \<lparr>ps_Version = (case ss_Version f of None \<Rightarrow> ps_Version st | Some v \<Rightarrow> v),
      ps_Claims = unmarshal_map (ps_Claims st) (ss_Claims f),
      ps_Quarantined = unmarshal_map (ps_Quarantined st) (ss_Quarantined f),
      ps_Known = unmarshal_map (ps_Known st) (ss_Known f)\<rparr>"

definition mark_prepared :: "(string, PreparedClaim) gomap \<Rightarrow> (string, PreparedClaim) gomap" where
  "mark_prepared m = map (\<lambda>(uid, c). (uid, c\<lparr>pc_Phase := ClaimPrepared\<rparr>)) m"

text \<open>Files of versions 1 to 3 have no phases; their claims were prepared.\<close>

definition migrate_state :: "persistedState \<Rightarrow> persistedState" where
  "migrate_state st =
     (if 1 \<le> ps_Version st \<and> ps_Version st < stateVersion
      then st\<lparr>ps_Version := stateVersion, ps_Claims := mark_prepared (ps_Claims st)\<rparr> else st)"

text \<open>The error of \<open>load\<close> and the state it leaves, which is changed also when an error is returned.\<close>

definition load :: "disk_file \<Rightarrow> persistedState \<Rightarrow> go_error \<times> persistedState" where
  "load disk st =
     (case disk of
        NoFile \<Rightarrow> (None, st)
      | CorruptFile e f \<Rightarrow> (Some (''decode claim state: '' @ e), unmarshal_state f st)
      | StateFile f \<Rightarrow>
          (let st' = migrate_state (unmarshal_state f st)
           in (if ps_Version st' \<noteq> stateVersion \<or> ss_Claims f = FieldNull
               then Some (''unsupported claim state version '' @ show_int (ps_Version st')) else None, st')))"

definition to_stored :: "persistedState \<Rightarrow> stored_state" where
  "to_stored st = \<lparr>ss_Version = Some (ps_Version st), ss_Claims = FieldValue (ps_Claims st),
     ss_Quarantined = FieldValue (ps_Quarantined st), ss_Known = FieldValue (ps_Known st)\<rparr>"

definition store_state :: "sys \<Rightarrow> sys" where
  "store_state s = s\<lparr>sy_disk := StateFile (to_stored (sy_state s)), sy_trace := sy_trace s @ [EffPersist (sy_state s)]\<rparr>"

definition persist :: "env \<Rightarrow> go_error op" where
  "persist ev = attempt ev store_state"

text \<open>Reading the file may fail too, and then the state stays as it is.\<close>

definition reload :: "env \<Rightarrow> go_error op" where
  "reload ev = do {
     r \<leftarrow> io_result ev;
     case r of
       IoFail e \<Rightarrow> ret (Some e)
     | IoApplied e \<Rightarrow> ret (Some e)
     | IoOk \<Rightarrow> do {
         (err, st) \<leftarrow> gets (\<lambda>s. load (sy_disk s) (sy_state s));
         modify (\<lambda>s. s\<lparr>sy_state := st\<rparr>);
         ret err } }"

definition lockAndReload :: "env \<Rightarrow> go_error op" where
  "lockAndReload ev = do {
     r \<leftarrow> io_result ev;
     case r of
       IoFail e \<Rightarrow> ret (Some (''lock lifecycle state: '' @ e))
     | IoApplied e \<Rightarrow> ret (Some (''lock lifecycle state: '' @ e))
     | IoOk \<Rightarrow> reload ev }"

section \<open>cdi.go\<close>

definition cdiVersion :: string where "cdiVersion = ''0.6.0''"
definition cdiKind :: string where "cdiKind = ''tenstorrent.com/accelerator''"
definition cdiVendor :: string where "cdiVendor = ''tenstorrent.com''"
definition cdiClass :: string where "cdiClass = ''accelerator''"

definition cdiID :: "string \<Rightarrow> string \<Rightarrow> string" where
  "cdiID uid dev = cdiVendor @ ''/'' @ cdiClass @ ''='' @ uid @ ''-'' @ replace_char CHR ''/'' CHR ''-'' dev"

definition cdiName :: "string \<Rightarrow> string" where
  "cdiName cid = trim_prefix cid (cdiKind @ ''='')"

definition cdiFilename :: "string \<Rightarrow> string" where
  "cdiFilename uid = ''claim-'' @ replace_char CHR ''/'' CHR ''-'' uid @ ''.json''"

text \<open>The conversion of a device number to \<open>int64\<close> keeps its bits.\<close>

definition cdi_spec :: "PreparedClaim \<Rightarrow> cdiSpec" where
  "cdi_spec claim = \<lparr>cs_CDIVersion = cdiVersion, cs_Kind = cdiKind, cs_Devices =
     map (\<lambda>item. \<lparr>ce_Name = cdiName (cl_CDIID item), ce_DeviceNodes =
       [\<lparr>cn_Path = cl_Path item, cn_Type = ''c'', cn_Major = sint (cl_Major item), cn_Minor = sint (cl_Minor item),
         cn_FileMode = 384\<rparr>]\<rparr>) (pc_Devices claim)\<rparr>"

definition store_cdi :: "PreparedClaim \<Rightarrow> sys \<Rightarrow> sys" where
  "store_cdi claim s = s\<lparr>sy_cdi := gm_put (cdiFilename (pc_UID claim)) (cdi_spec claim) (sy_cdi s),
     sy_trace := sy_trace s @ [EffCDIWrite (cdiFilename (pc_UID claim)) (cdi_spec claim)]\<rparr>"

definition writeCDI :: "env \<Rightarrow> PreparedClaim \<Rightarrow> go_error op" where
  "writeCDI ev claim = attempt ev (store_cdi claim)"

text \<open>\<open>os.Remove\<close> of a CDI file: \<open>None\<close> also when the file does not exist.\<close>

definition drop_cdi :: "string \<Rightarrow> sys \<Rightarrow> sys" where
  "drop_cdi file s = s\<lparr>sy_cdi := gm_del file (sy_cdi s), sy_trace := sy_trace s @ [EffCDIRemove file]\<rparr>"

definition removeCDI :: "env \<Rightarrow> string \<Rightarrow> go_error op" where
  "removeCDI ev file = do {
     present \<leftarrow> gets (\<lambda>s. gm_get (sy_cdi s) file \<noteq> None);
     if present then attempt ev (drop_cdi file) else ret None }"

record kubelet_device =
  kp_Requests :: "string list"
  kp_PoolName :: string
  kp_DeviceName :: string
  kp_CDIDeviceIDs :: "string list"

definition cdiResults :: "PreparedClaim \<Rightarrow> kubelet_device list" where
  "cdiResults claim = map (\<lambda>item. \<lparr>kp_Requests = cl_Requests item, kp_PoolName = cl_Pool item,
     kp_DeviceName = cl_Device item, kp_CDIDeviceIDs = [cl_CDIID item]\<rparr>) (pc_Devices claim)"

section \<open>The audit log\<close>

definition audit_event :: "string \<Rightarrow> string \<Rightarrow> AuditEvent" where
  "audit_event action outcome = \<lparr>au_Time = 0, au_Action = action, au_Outcome = outcome, au_Device = [],
     au_Path = [], au_ClaimUID = [], au_Namespace = [], au_ClaimName = [], au_Reason = []\<rparr>"

definition with_claim :: "PreparedClaim option \<Rightarrow> AuditEvent \<Rightarrow> AuditEvent" where
  "with_claim claim e = (case claim of None \<Rightarrow> e | Some c \<Rightarrow>
     e\<lparr>au_ClaimUID := pc_UID c, au_Namespace := pc_Namespace c, au_ClaimName := pc_Name c\<rparr>)"

definition append_audit :: "AuditEvent \<Rightarrow> sys \<Rightarrow> sys" where
  "append_audit e s = s\<lparr>sy_audit := sy_audit s @ [e], sy_trace := sy_trace s @ [EffAudit e]\<rparr>"

definition auditLocked :: "env \<Rightarrow> AuditEvent \<Rightarrow> PreparedClaim option \<Rightarrow> go_error op" where
  "auditLocked ev event claim = do {
     t \<leftarrow> (if au_Time event = 0 then now ev else ret (au_Time event));
     attempt ev (append_audit (with_claim claim (event\<lparr>au_Time := t\<rparr>))) }"

end
