(* ===== verification/Janitor.thy ===== *)
theory Janitor
  imports Lifecycle_State
begin

text \<open>
  \<open>src/internal/lifecycle/janitor.go\<close> and the health report of \<open>health.go\<close>: freshness of
  observations, quarantine, sanitization, the reconciliation of an observation with the known
  devices, the monitoring cycle and the summary that decides whether the node is fenced.
\<close>

section \<open>Freshness\<close>

definition show_duration_seconds :: "nat \<Rightarrow> string" where
  "show_duration_seconds n =
     (let h = n div 3600; m = n div 60 mod 60; s = n mod 60
      in if h > 0 then show_nat h @ ''h'' @ show_nat m @ ''m'' @ show_nat s @ ''s''
         else if m > 0 then show_nat m @ ''m'' @ show_nat s @ ''s''
         else show_nat s @ ''s'')"

text \<open>\<open>Duration.Round(time.Second)\<close> of a non-negative duration, in seconds.\<close>

definition round_seconds :: "duration \<Rightarrow> nat" where
  "round_seconds d = nat ((d + second div 2) div second)"

definition freshness_error :: "Config \<Rightarrow> go_time \<Rightarrow> InventorySnapshot \<Rightarrow> go_error" where
  "freshness_error cfg t snapshot =
     (if sn_ObservedAt snapshot = 0 then Some ''inventory observation time is missing''
      else let age = time_sub t (sn_ObservedAt snapshot)
           in if age < - 5 * second then Some ''inventory observation time is in the future''
              else if age > cf_MaxInventoryAge cfg
              then Some (''inventory observation is stale by '' @ show_duration_seconds (round_seconds age))
              else None)"

definition inventoryFresh :: "env \<Rightarrow> Config \<Rightarrow> InventorySnapshot \<Rightarrow> go_error op" where
  "inventoryFresh ev cfg snapshot =
     (if sn_ObservedAt snapshot = 0 then ret (freshness_error cfg 0 snapshot)
      else do { t \<leftarrow> now ev; ret (freshness_error cfg t snapshot) })"

section \<open>Unsafe devices\<close>

fun link_unsafe_reason :: "FabricLink list \<Rightarrow> string" where
  "link_unsafe_reason [] = []"
| "link_unsafe_reason (l # ls) =
     (let state = to_lower (trim_space (fl_State l))
      in if state \<noteq> [] \<and> state \<noteq> ''up'' then ''fabric link '' @ fl_Name l @ '' is '' @ fl_State l
         else link_unsafe_reason ls)"

definition deviceUnsafeReason :: "Config \<Rightarrow> InventoryDevice \<Rightarrow> string" where
  "deviceUnsafeReason cfg item =
     (if \<not> dv_CharacterDevicePresent item then ''character device is unavailable''
      else if \<not> dv_Eligible item \<and> dv_RejectionReason item \<noteq> [] then dv_RejectionReason item
      else if \<not> dv_Eligible item then ''device is ineligible''
      else if dv_Health item \<noteq> HealthHealthy then ''device health is '' @ health_string (dv_Health item)
      else if ft_Code (dv_Fault item) \<noteq> [] \<and> ft_Code (dv_Fault item) \<noteq> ''0''
      then ''hardware fault '' @ ft_Code (dv_Fault item)
      else if cf_RequireIOMMU cfg \<and> pci_IOMMUGroup (dv_PCI item) < 0 then ''device has no IOMMU group''
      else if cf_RequireIOMMU cfg \<and> pci_IOMMUGroupSize (dv_PCI item) \<noteq> 1
      then ''IOMMU group '' @ show_int (pci_IOMMUGroup (dv_PCI item)) @ '' contains ''
             @ show_int (pci_IOMMUGroupSize (dv_PCI item)) @ '' devices''
      else link_unsafe_reason (fi_Links (dv_Fabric item)))"

section \<open>Owners\<close>

type_synonym owners = "(string, string) gomap"

text \<open>\<open>deviceOwners\<close> visits the claims in some order; a later claim overwrites an earlier one.\<close>

definition owners_of :: "string list \<Rightarrow> (string, PreparedClaim) gomap \<Rightarrow> owners" where
  "owners_of uids claims =
     fold (\<lambda>uid m. case gm_get claims uid of
              None \<Rightarrow> m
            | Some c \<Rightarrow> fold (\<lambda>item. gm_put (cl_Device item) uid) (pc_Devices c) m) uids []"

definition deviceOwners :: "env \<Rightarrow> owners op" where
  "deviceOwners ev = do {
     claims \<leftarrow> gets st_claims;
     uids \<leftarrow> range_keys ev claims;
     ret (owners_of uids claims) }"

definition owner_of :: "owners \<Rightarrow> string \<Rightarrow> string" where
  "owner_of os name = (case gm_get os name of None \<Rightarrow> [] | Some uid \<Rightarrow> uid)"

definition healthAction :: "string \<Rightarrow> string" where
  "healthAction owner = (if owner \<noteq> [] then ''active-health'' else ''idle-health'')"

definition claimForOwner :: "string \<Rightarrow> PreparedClaim option op" where
  "claimForOwner uid = (if uid = [] then ret None else gets (\<lambda>s. gm_get (st_claims s) uid))"

section \<open>Quarantine and sanitization\<close>

definition quarantineLocked ::
    "env \<Rightarrow> string \<Rightarrow> string \<Rightarrow> string \<Rightarrow> PreparedClaim option \<Rightarrow> string \<Rightarrow> go_error op" where
  "quarantineLocked ev name path reason claim action = do {
     current \<leftarrow> gets (\<lambda>s. gm_get (st_quarantined s) name);
     if (case current of None \<Rightarrow> False | Some r \<Rightarrow> qr_Reason r = reason) then ret None
     else do {
       t \<leftarrow> now ev;
       put_quarantine name \<lparr>qr_Reason = reason,
         qr_Since = (case current of None \<Rightarrow> t | Some r \<Rightarrow> qr_Since r), qr_AwaitingHealth = False\<rparr>;
       t' \<leftarrow> now ev;
       auditLocked ev ((audit_event action ''quarantined'')\<lparr>au_Time := t', au_Device := name, au_Path := path,
         au_Reason := reason\<rparr>) claim } }"

definition device_reset :: "env \<Rightarrow> string \<Rightarrow> string \<Rightarrow> string \<Rightarrow> go_error op" where
  "device_reset ev action name path = do {
     n \<leftarrow> next_step;
     modify (\<lambda>s. s\<lparr>sy_trace := sy_trace s @ [EffReset action name path (ev_reset ev n path)]\<rparr>);
     ret (ev_reset ev n path) }"

definition sanitizeLocked ::
    "env \<Rightarrow> string \<Rightarrow> string \<Rightarrow> string \<Rightarrow> PreparedClaim option \<Rightarrow> go_error op" where
  "sanitizeLocked ev action name path claim = do {
     err \<leftarrow> device_reset ev action name path;
     t \<leftarrow> now ev;
     auditErr \<leftarrow> auditLocked ev ((audit_event action (if err = None then ''success'' else ''failure''))
       \<lparr>au_Time := t, au_Device := name, au_Path := path, au_Reason := (case err of None \<Rightarrow> [] | Some e \<Rightarrow> e)\<rparr>) claim;
     if err = None \<and> auditErr = None then do { del_quarantine name; ret None }
     else do {
       current \<leftarrow> gets (\<lambda>s. gm_get (st_quarantined s) name);
       since \<leftarrow> (case current of None \<Rightarrow> now ev | Some r \<Rightarrow> ret (qr_Since r));
       put_quarantine name \<lparr>
         qr_Reason = ''sanitization failed'' @ (case err of
           Some e \<Rightarrow> '': '' @ e
         | None \<Rightarrow> '': audit record failed: '' @ (case auditErr of None \<Rightarrow> [] | Some e \<Rightarrow> e)),
         qr_Since = since, qr_AwaitingHealth = (case current of None \<Rightarrow> False | Some r \<Rightarrow> qr_AwaitingHealth r)\<rparr>;
       ret (errors_join err auditErr) } }"

section \<open>Observation\<close>

text \<open>The body of the first loop of \<open>observeLocked\<close>, for one device of the snapshot.\<close>

definition observe_device :: "env \<Rightarrow> Config \<Rightarrow> owners \<Rightarrow> bool \<Rightarrow> go_time \<Rightarrow> InventoryDevice \<Rightarrow> go_error op" where
  "observe_device ev cfg os recoverIdle observedAt item = do {
     known \<leftarrow> gets st_known;
     e1 \<leftarrow> (if gm_get known (DRAName item) = None \<and> recoverIdle
            then quarantineLocked ev (DRAName item) (nd_Path (dv_Node item)) ''new device requires sanitization'' None ''hotplug''
            else ret None);
     priors \<leftarrow> range_keys ev known;
     e2 \<leftarrow> for_join (\<lambda>priorName.
              if priorName \<noteq> DRAName item \<and> map_option kd_Path (gm_get known priorName) = Some (nd_Path (dv_Node item))
              then quarantineLocked ev (DRAName item) (nd_Path (dv_Node item))
                     ''hardware identity changed on device path'' None ''hotplug''
              else ret None) priors;
     put_known (DRAName item) \<lparr>kd_Path = nd_Path (dv_Node item), kd_LastSeen = observedAt\<rparr>;
     e3 \<leftarrow> (if deviceUnsafeReason cfg item \<noteq> []
            then do {
              claim \<leftarrow> claimForOwner (owner_of os (DRAName item));
              quarantineLocked ev (DRAName item) (nd_Path (dv_Node item)) (deviceUnsafeReason cfg item) claim
                (healthAction (owner_of os (DRAName item))) }
            else ret None);
     ret (errors_join e1 (errors_join e2 e3)) }"

text \<open>The body of the second loop: known devices that were not observed.\<close>

definition observe_missing ::
    "env \<Rightarrow> owners \<Rightarrow> (string, InventoryDevice) gomap \<Rightarrow> string \<Rightarrow> go_error op" where
  "observe_missing ev os observed name = do {
     known \<leftarrow> gets (\<lambda>s. gm_get (st_known s) name);
     case known of
       None \<Rightarrow> ret None
     | Some k \<Rightarrow>
         if gm_get observed name = None
         then do {
           claim \<leftarrow> claimForOwner (owner_of os name);
           quarantineLocked ev name (kd_Path k) ''device is no longer observed'' claim
             (healthAction (owner_of os name)) }
         else ret None }"

text \<open>The body of the third loop: the recovery of an idle device.\<close>

definition recover_device ::
    "env \<Rightarrow> Config \<Rightarrow> owners \<Rightarrow> (string, InventoryDevice) gomap \<Rightarrow> string \<Rightarrow> go_error op" where
  "recover_device ev cfg os observed name = do {
     record \<leftarrow> gets (\<lambda>s. gm_get (st_quarantined s) name);
     case (gm_get observed name, record) of
       (Some item, Some r) \<Rightarrow>
         if owner_of os name \<noteq> [] \<or> \<not> dv_CharacterDevicePresent item then ret None
         else if qr_AwaitingHealth r \<and> deviceUnsafeReason cfg item = []
         then do {
           t \<leftarrow> now ev;
           err \<leftarrow> auditLocked ev ((audit_event ''recovery-health'' ''success'')\<lparr>au_Time := t, au_Device := name,
             au_Path := nd_Path (dv_Node item)\<rparr>) None;
           if err = None then do { del_quarantine name; ret None } else ret err }
         else do {
           err \<leftarrow> sanitizeLocked ev ''recovery-sanitize'' name (nd_Path (dv_Node item)) None;
           if err \<noteq> None then ret err
           else if deviceUnsafeReason cfg item \<noteq> []
           then do {
             put_quarantine name \<lparr>qr_Reason = ''awaiting healthy observation after sanitization'',
               qr_Since = qr_Since r, qr_AwaitingHealth = True\<rparr>;
             ret None }
           else ret None }
     | _ \<Rightarrow> ret None }"

section \<open>Filtering and safety\<close>

record Safety =
  sf_Unsafe :: bool
  sf_Healthy :: nat
  sf_Total :: nat
  sf_Reason :: string
  sf_Message :: string

definition filter_device :: "(string, QuarantineRecord) gomap \<Rightarrow> InventoryDevice \<Rightarrow> InventoryDevice" where
  "filter_device quarantined item =
     (case gm_get quarantined (DRAName item) of
        None \<Rightarrow> item
      | Some r \<Rightarrow> item\<lparr>dv_Eligible := False, dv_RejectionReason := ''quarantined: '' @ qr_Reason r\<rparr>)"

definition filterLocked :: "(string, QuarantineRecord) gomap \<Rightarrow> InventorySnapshot \<Rightarrow> InventorySnapshot" where
  "filterLocked quarantined snapshot = snapshot\<lparr>sn_Devices := map (filter_device quarantined) (sn_Devices snapshot)\<rparr>"

definition counts_healthy :: "(string, QuarantineRecord) gomap \<Rightarrow> InventoryDevice \<Rightarrow> bool" where
  "counts_healthy quarantined item \<longleftrightarrow>
     gm_get quarantined (DRAName item) = None \<and> dv_Eligible item \<and> dv_Health item = HealthHealthy"

definition safetyFor ::
    "InventorySnapshot \<Rightarrow> (string, KnownDevice) gomap \<Rightarrow> (string, QuarantineRecord) gomap \<Rightarrow> Safety" where
  "safetyFor snapshot known quarantined =
     (let healthy = length (filter (counts_healthy quarantined) (sn_Devices snapshot)); total = length known
      in if healthy = 0
         then \<lparr>sf_Unsafe = True, sf_Healthy = healthy, sf_Total = total, sf_Reason = ''NoHealthyDevices'',
               sf_Message = ''0 of '' @ show_nat total @ '' Tenstorrent devices are healthy and available''\<rparr>
         else \<lparr>sf_Unsafe = False, sf_Healthy = healthy, sf_Total = total, sf_Reason = ''DevicesHealthy'',
               sf_Message = show_nat healthy @ '' of '' @ show_nat total @ '' Tenstorrent devices are healthy and available''\<rparr>)"

text \<open>The body of \<open>observeLocked\<close> after the map of owners is built.\<close>

definition observe_with ::
    "env \<Rightarrow> Config \<Rightarrow> owners \<Rightarrow> InventorySnapshot \<Rightarrow> bool \<Rightarrow> (InventorySnapshot \<times> Safety \<times> go_error) op" where
  "observe_with ev cfg os snapshot recoverIdle = do {
     e1 \<leftarrow> for_join (observe_device ev cfg os recoverIdle (sn_ObservedAt snapshot)) (sn_Devices snapshot);
     known \<leftarrow> gets st_known;
     names \<leftarrow> range_keys ev known;
     e2 \<leftarrow> for_join (observe_missing ev os (index_by DRAName (sn_Devices snapshot))) names;
     e3 \<leftarrow> (if recoverIdle then do {
              observed \<leftarrow> range_keys ev (index_by DRAName (sn_Devices snapshot));
              for_join (recover_device ev cfg os (index_by DRAName (sn_Devices snapshot))) observed }
            else ret None);
     quarantined \<leftarrow> gets st_quarantined;
     known' \<leftarrow> gets st_known;
     ret (filterLocked quarantined snapshot,
          safetyFor (filterLocked quarantined snapshot) known' quarantined,
          errors_join e1 (errors_join e2 e3)) }"

definition observeLocked ::
    "env \<Rightarrow> Config \<Rightarrow> InventorySnapshot \<Rightarrow> bool \<Rightarrow> (InventorySnapshot \<times> Safety \<times> go_error) op" where
  "observeLocked ev cfg snapshot recoverIdle = do {
     os \<leftarrow> deviceOwners ev;
     observe_with ev cfg os snapshot recoverIdle }"

section \<open>The monitoring cycle\<close>

definition zero_snapshot :: InventorySnapshot where
  "zero_snapshot = \<lparr>sn_Devices = [], sn_ObservedAt = 0\<rparr>"

definition zero_safety :: Safety where
  "zero_safety = \<lparr>sf_Unsafe = False, sf_Healthy = 0, sf_Total = 0, sf_Reason = [], sf_Message = []\<rparr>"

definition fence_known :: "env \<Rightarrow> string \<Rightarrow> string \<Rightarrow> go_error op" where
  "fence_known ev reason name = do {
     known \<leftarrow> gets (\<lambda>s. gm_get (st_known s) name);
     case known of
       None \<Rightarrow> ret None
     | Some k \<Rightarrow> quarantineLocked ev name (kd_Path k) reason None ''inventory'' }"

definition inventoryFailedLocked ::
    "env \<Rightarrow> Config \<Rightarrow> go_error \<Rightarrow> (InventorySnapshot \<times> Safety \<times> go_error) op" where
  "inventoryFailedLocked ev cfg err = do {
     let reason = ''inventory unavailable'' @ (case err of None \<Rightarrow> [] | Some e \<Rightarrow> '': '' @ e);
     snapshot \<leftarrow> gets sy_last;
     stale \<leftarrow> inventoryFresh ev cfg snapshot;
     if stale = None
     then do {
       quarantined \<leftarrow> gets st_quarantined;
       known \<leftarrow> gets st_known;
       auditErr \<leftarrow> auditLocked ev ((audit_event ''inventory'' ''degraded'')\<lparr>au_Reason := reason\<rparr>) None;
       ret (filterLocked quarantined snapshot,
            (safetyFor (filterLocked quarantined snapshot) known quarantined)
              \<lparr>sf_Reason := ''InventoryDegraded'', sf_Message := reason @ ''; using last fresh observation''\<rparr>,
            auditErr) }
     else do {
       known \<leftarrow> gets st_known;
       names \<leftarrow> range_keys ev known;
       auditErr \<leftarrow> for_join (fence_known ev reason) names;
       t \<leftarrow> now ev;
       known' \<leftarrow> gets st_known;
       quarantined \<leftarrow> gets st_quarantined;
       persistErr \<leftarrow> persist ev;
       ret (\<lparr>sn_Devices = [], sn_ObservedAt = t\<rparr>,
            safetyFor \<lparr>sn_Devices = [], sn_ObservedAt = t\<rparr> known' quarantined,
            errors_join auditErr persistErr) } }"

definition InventoryFailed :: "env \<Rightarrow> Config \<Rightarrow> go_error \<Rightarrow> (InventorySnapshot \<times> Safety \<times> go_error) op" where
  "InventoryFailed ev cfg err = do {
     lockErr \<leftarrow> lockAndReload ev;
     case lockErr of
       Some e \<Rightarrow> ret (zero_snapshot, zero_safety, Some e)
     | None \<Rightarrow> inventoryFailedLocked ev cfg err }"

text \<open>The part of \<open>Monitor\<close> under the lock.\<close>

definition monitor_locked :: "env \<Rightarrow> Config \<Rightarrow> InventorySnapshot \<Rightarrow> (InventorySnapshot \<times> Safety \<times> go_error) op" where
  "monitor_locked ev cfg snapshot = do {
     stale \<leftarrow> inventoryFresh ev cfg snapshot;
     case stale of
       Some e \<Rightarrow> inventoryFailedLocked ev cfg (Some e)
     | None \<Rightarrow> do {
         (filtered, safety, monitorErr) \<leftarrow> observeLocked ev cfg snapshot True;
         modify (\<lambda>s. s\<lparr>sy_last := snapshot\<rparr>);
         persistErr \<leftarrow> persist ev;
         ret (filtered, safety, errors_join monitorErr persistErr) } }"

definition Monitor :: "env \<Rightarrow> Config \<Rightarrow> InventorySnapshot \<Rightarrow> (InventorySnapshot \<times> Safety \<times> go_error) op" where
  "Monitor ev cfg snapshot = do {
     lockErr \<leftarrow> lockAndReload ev;
     case lockErr of
       Some e \<Rightarrow> ret (zero_snapshot, zero_safety, Some e)
     | None \<Rightarrow> monitor_locked ev cfg snapshot }"

section \<open>Health reports\<close>

datatype HealthStatus = StatusUnknown | StatusHealthy | StatusUnhealthy

record DeviceHealth =
  dh_PoolName :: string
  dh_DeviceName :: string
  dh_Health :: HealthStatus
  dh_LastUpdatedTime :: int

text \<open>\<open>time.Time.Unix\<close>: seconds since 1970, from nanoseconds since Go's zero time.\<close>

definition unix_seconds :: "go_time \<Rightarrow> int" where
  "unix_seconds t = t div second - 62135596800"

definition device_health ::
    "Config \<Rightarrow> bool \<Rightarrow> (string, InventoryDevice) gomap \<Rightarrow> (string, QuarantineRecord) gomap \<Rightarrow> string \<Rightarrow> HealthStatus" where
  "device_health cfg fresh observed quarantined name =
     (case gm_get observed name of
        None \<Rightarrow> StatusUnknown
      | Some item \<Rightarrow>
          if \<not> fresh then StatusUnknown
          else if dv_Health item = HealthUnknown then StatusUnknown
          else if deviceUnsafeReason cfg item \<noteq> [] then StatusUnhealthy
          else if (case gm_get quarantined name of None \<Rightarrow> False | Some r \<Rightarrow> qr_Reason r \<noteq> []) then StatusUnhealthy
          else StatusHealthy)"

definition last_updated :: "go_time \<Rightarrow> KnownDevice \<Rightarrow> int" where
  "last_updated t k = (if unix_seconds (kd_LastSeen k) \<le> 0 \<or> kd_LastSeen k > t then unix_seconds t
     else unix_seconds (kd_LastSeen k))"

definition deviceHealthSnapshotLocked :: "env \<Rightarrow> Config \<Rightarrow> go_time \<Rightarrow> DeviceHealth list op" where
  "deviceHealthSnapshotLocked ev cfg t = do {
     snapshot \<leftarrow> gets sy_last;
     stale \<leftarrow> inventoryFresh ev cfg snapshot;
     known \<leftarrow> gets st_known;
     quarantined \<leftarrow> gets st_quarantined;
     names \<leftarrow> range_keys ev known;
     ret (concat (map (\<lambda>name. case gm_get known name of
            None \<Rightarrow> []
          | Some k \<Rightarrow> [\<lparr>dh_PoolName = cf_NodeName cfg, dh_DeviceName = name,
              dh_Health = device_health cfg (stale = None) (index_by DRAName (sn_Devices snapshot)) quarantined name,
              dh_LastUpdatedTime = last_updated t k\<rparr>]) names)) }"

definition DeviceHealthSnapshot :: "env \<Rightarrow> Config \<Rightarrow> DeviceHealth list op" where
  "DeviceHealthSnapshot ev cfg = do {
     _ \<leftarrow> lockAndReload ev;
     t \<leftarrow> now ev;
     deviceHealthSnapshotLocked ev cfg t }"

end
