(* ===== verification/Publication.thy ===== *)
theory Publication
  imports Janitor Api_Types
begin

text \<open>
  What a node publishes: the projection of an inventory snapshot into ResourceSlices
  (\<open>src/internal/dra/resourceslice.go\<close>), the check that the API server stores exactly the desired pool
  (\<open>publication.go\<close>), and the node's topology object (\<open>PublishNode\<close> of \<open>src/internal/topology/topology.go\<close>).
  The answers of the API server and the comparison \<open>Semantic.DeepEqual\<close> are arguments.
\<close>

section \<open>Attribute names\<close>

definition DefaultDriverName :: string where "DefaultDriverName = ''dra.tenstorrent.com''"
definition AttributeDomain :: string where "AttributeDomain = ''tenstorrent.com''"
definition AttributeDeviceID :: string where "AttributeDeviceID = AttributeDomain @ ''/deviceID''"
definition AttributeNodeName :: string where "AttributeNodeName = AttributeDomain @ ''/nodeName''"
definition AttributeChipSeries :: string where "AttributeChipSeries = AttributeDomain @ ''/chipSeries''"
definition AttributeHealth :: string where "AttributeHealth = AttributeDomain @ ''/health''"
definition AttributePCIBDF :: string where "AttributePCIBDF = AttributeDomain @ ''/pciBDF''"
definition AttributeNUMANode :: string where "AttributeNUMANode = AttributeDomain @ ''/numaNode''"
definition AttributeFabricID :: string where "AttributeFabricID = AttributeDomain @ ''/fabricID''"
definition AttributeRingID :: string where "AttributeRingID = AttributeDomain @ ''/ringID''"
definition AttributeEndpointID :: string where "AttributeEndpointID = AttributeDomain @ ''/endpointID''"
definition AttributeTensixCoreCount :: string where "AttributeTensixCoreCount = AttributeDomain @ ''/tensixCoreCount''"
definition DeviceCapacityMemoryBytes :: string where "DeviceCapacityMemoryBytes = AttributeDomain @ ''/memoryBytes''"

lemmas attribute_names = AttributeDomain_def AttributeDeviceID_def AttributeNodeName_def AttributeChipSeries_def
  AttributeHealth_def AttributePCIBDF_def AttributeNUMANode_def AttributeFabricID_def AttributeRingID_def
  AttributeEndpointID_def AttributeTensixCoreCount_def

section \<open>Devices of a slice\<close>

datatype DeviceAttribute = StringValue string | IntValue int

text \<open>A device of the API: nil and empty maps are told apart (\<open>None\<close> is nil).\<close>

record ResourceDevice =
  rd_Name :: string
  rd_Attributes :: "(string, DeviceAttribute) gomap option"
  rd_Capacity :: "(string, int) gomap option"

definition setString :: "string \<Rightarrow> string \<Rightarrow> (string, DeviceAttribute) gomap \<Rightarrow> (string, DeviceAttribute) gomap" where
  "setString name value attrs = (if value \<noteq> [] then gm_put name (StringValue value) attrs else attrs)"

text \<open>Integers of the inventory are converted to \<open>int64\<close>, which keeps their bits.\<close>

definition resourceDevice :: "string \<Rightarrow> InventoryDevice \<Rightarrow> ResourceDevice" where
  "resourceDevice nodeName item =
     (let attrs = [(AttributeDeviceID, StringValue (dv_StableID item)), (AttributeNodeName, StringValue nodeName),
            (AttributeChipSeries, StringValue (dv_ChipSeries item)),
            (AttributeHealth, StringValue (health_string (dv_Health item)))];
          attrs = setString AttributePCIBDF (pci_BDF (dv_PCI item)) attrs;
          attrs = setString AttributeFabricID (fi_FabricID (dv_Fabric item)) attrs;
          attrs = setString AttributeRingID (fi_RingID (dv_Fabric item)) attrs;
          attrs = setString AttributeEndpointID (fi_EndpointID (dv_Fabric item)) attrs;
          attrs = (if pci_NUMANode (dv_PCI item) \<ge> 0
                   then gm_put AttributeNUMANode (IntValue (pci_NUMANode (dv_PCI item))) attrs else attrs);
          attrs = (if ci_TensixCores (dv_Compute item) > 0
                   then gm_put AttributeTensixCoreCount (IntValue (sint (ci_TensixCores (dv_Compute item)))) attrs else attrs);
          capacities = (if mi_TotalBytes (dv_Memory item) > 0
                   then [(DeviceCapacityMemoryBytes, sint (mi_TotalBytes (dv_Memory item)))] else [])
      in \<lparr>rd_Name = DRAName item, rd_Attributes = Some attrs, rd_Capacity = Some capacities\<rparr>)"

section \<open>Slices\<close>

definition maxDevicesPerSlice :: nat where "maxDevicesPerSlice = 128"

definition defaultMaxInventoryAge :: duration where "defaultMaxInventoryAge = 120 * second"

definition publishable :: "InventoryDevice \<Rightarrow> bool" where
  "publishable item \<longleftrightarrow> dv_Eligible item \<and> dv_CharacterDevicePresent item \<and> dv_Health item = HealthHealthy"

definition fresh_at :: "InventorySnapshot \<Rightarrow> duration \<Rightarrow> go_time \<Rightarrow> bool" where
  "fresh_at snapshot maxAge t \<longleftrightarrow>
     sn_ObservedAt snapshot \<noteq> 0 \<and> \<not> sn_ObservedAt snapshot > t + 5 * second \<and> time_sub t (sn_ObservedAt snapshot) \<le> maxAge"

text \<open>The loop that cuts the list of devices into slices.\<close>

function cut_slices :: "'a list \<Rightarrow> 'a list list" where
  "cut_slices devices =
     (if devices = [] then []
      else let n = min (length devices) maxDevicesPerSlice in take n devices # cut_slices (drop n devices))"
  by pat_completeness auto
termination
  by (relation "measure length") (auto simp: maxDevicesPerSlice_def)

declare cut_slices.simps [simp del]

text \<open>The pools of the driver: a map with one pool, a list of slices, named after the node.\<close>

type_synonym DriverResources_type = "(string, ResourceDevice list list) gomap"

definition DriverResourcesAt :: "string \<Rightarrow> InventorySnapshot \<Rightarrow> duration \<Rightarrow> go_time \<Rightarrow> DriverResources_type" where
  "DriverResourcesAt nodeName snapshot maxAge t =
     (let devices = (if fresh_at snapshot maxAge t
                     then map (resourceDevice nodeName) (filter publishable (sn_Devices snapshot)) else []);
          slices = cut_slices devices
      in [(nodeName, if slices = [] then [[]] else slices)])"

definition DriverResources :: "string \<Rightarrow> InventorySnapshot \<Rightarrow> go_time \<Rightarrow> DriverResources_type" where
  "DriverResources nodeName snapshot t = DriverResourcesAt nodeName snapshot defaultMaxInventoryAge t"

section \<open>Confirmation\<close>

record ResourceSlice =
  rs_Name :: string
  rs_Driver :: string
  rs_NodeName :: "string option"
  rs_PoolName :: string
  rs_Generation :: int
  rs_ResourceSliceCount :: int
  rs_Devices :: "ResourceDevice list"

definition nil_if_empty :: "('k, 'v) gomap option \<Rightarrow> ('k, 'v) gomap option" where
  "nil_if_empty m = (if m = Some [] then None else m)"

definition normalizeDeviceCollections :: "ResourceDevice list \<Rightarrow> ResourceDevice list" where
  "normalizeDeviceCollections = map (\<lambda>d. d\<lparr>rd_Attributes := nil_if_empty (rd_Attributes d),
     rd_Capacity := nil_if_empty (rd_Capacity d)\<rparr>)"

text \<open>The loop over the published slices: the generation of the first one is the reference.\<close>

definition slice_error :: "string \<Rightarrow> nat \<Rightarrow> int \<Rightarrow> ResourceSlice \<Rightarrow> go_error" where
  "slice_error nodeName n generation item =
     (if rs_PoolName item \<noteq> nodeName
      then Some (''ResourceSlice '' @ go_quote (rs_Name item) @ '' uses pool '' @ go_quote (rs_PoolName item)
             @ '', want '' @ go_quote nodeName)
      else if rs_ResourceSliceCount item \<noteq> int n
      then Some (''ResourceSlice '' @ go_quote (rs_Name item) @ '' reports pool size '' @ show_int (rs_ResourceSliceCount item)
             @ '', want '' @ show_nat n)
      else if rs_Generation item \<noteq> generation
      then Some (''ResourceSlice '' @ go_quote (rs_Name item) @ '' has incomplete pool generation ''
             @ show_int (rs_Generation item) @ '', want '' @ show_int generation)
      else None)"

definition published_here :: "string \<Rightarrow> string \<Rightarrow> ResourceSlice \<Rightarrow> bool" where
  "published_here nodeName driver item \<longleftrightarrow> rs_Driver item = driver \<and> rs_NodeName item = Some nodeName"

text \<open>
  \<open>sort.Slice\<close> leaves the order of equal names open; device names are distinct in the desired pool, and then the
  comparison does not depend on that order.
\<close>

definition same_devices ::
    "(ResourceDevice list \<Rightarrow> ResourceDevice list \<Rightarrow> bool) \<Rightarrow> ResourceDevice list \<Rightarrow> ResourceDevice list \<Rightarrow> bool" where
  "same_devices deepEqual actual expected =
     deepEqual (normalizeDeviceCollections (sort_key rd_Name actual))
       (normalizeDeviceCollections (sort_key rd_Name expected))"

definition ConfirmResourcePublication ::
    "(ResourceDevice list \<Rightarrow> ResourceDevice list \<Rightarrow> bool) \<Rightarrow> string \<Rightarrow> string \<Rightarrow> DriverResources_type \<Rightarrow> string + ResourceSlice list \<Rightarrow> go_error" where
  "ConfirmResourcePublication deepEqual nodeName driver desired listed =
     (case gm_get desired nodeName of
        None \<Rightarrow> Some (''desired resources do not contain node pool '' @ go_quote nodeName)
      | Some slices \<Rightarrow>
          (case listed of
             Inl e \<Rightarrow> Some (''list published ResourceSlices: '' @ e)
           | Inr items \<Rightarrow>
               let actual = filter (published_here nodeName driver) items
               in if length actual \<noteq> length slices
                  then Some (''published ResourceSlice count is '' @ show_nat (length actual) @ '', want ''
                         @ show_nat (length slices))
                  else case first_error (slice_error nodeName (length slices)
                             (case actual of [] \<Rightarrow> 0 | s # _ \<Rightarrow> rs_Generation s)) actual of
                    Some e \<Rightarrow> Some e
                  | None \<Rightarrow>
                      if same_devices deepEqual (concat (map rs_Devices actual)) (concat slices) then None
                      else Some ''published ResourceSlice devices do not match desired inventory''))"

section \<open>The topology object of a node\<close>

definition topology_link :: "FabricLink \<Rightarrow> TopologyLink" where
  "topology_link l = \<lparr>tl_Name = fl_Name l, tl_State = fl_State l, tl_SpeedGbps = fl_SpeedGbps l,
     tl_RemoteEndpointID = fl_RemoteEndpointID l\<rparr>"

definition topology_device :: "string \<Rightarrow> InventoryDevice \<Rightarrow> TopologyDevice" where
  "topology_device nodeName item = \<lparr>td_Pool = nodeName, td_Name = DRAName item, td_StableID = dv_StableID item,
     td_ChipSeries = dv_ChipSeries item, td_FabricID = fi_FabricID (dv_Fabric item), td_RingID = fi_RingID (dv_Fabric item),
     td_EndpointID = fi_EndpointID (dv_Fabric item), td_Links = map topology_link (fi_Links (dv_Fabric item))\<rparr>"

definition node_topology :: "string \<Rightarrow> InventorySnapshot \<Rightarrow> NodeTopologySpec" where
  "node_topology nodeName snapshot = \<lparr>nt_NodeName = nodeName, nt_ObservedAt = sn_ObservedAt snapshot,
     nt_Devices = map (topology_device nodeName) (filter dv_Eligible (sn_Devices snapshot))\<rparr>"

text \<open>The call \<open>PublishNode\<close> makes, by what the API server has: an update carries the version that was read.\<close>

datatype api_object = ApiFound string | ApiNotFound | ApiError string

datatype publish_call = UpdateNode NodeTopologySpec string | CreateNode NodeTopologySpec

definition PublishNode :: "string \<Rightarrow> InventorySnapshot \<Rightarrow> api_object \<Rightarrow> string + publish_call" where
  "PublishNode nodeName snapshot current =
     (case current of
        ApiFound resourceVersion \<Rightarrow> Inr (UpdateNode (node_topology nodeName snapshot) resourceVersion)
      | ApiNotFound \<Rightarrow> Inr (CreateNode (node_topology nodeName snapshot))
      | ApiError e \<Rightarrow> Inl e)"

end
