(* ===== verification/Claims.thy ===== *)
theory Claims
  imports Janitor
begin

text \<open>
  \<open>src/internal/lifecycle/manager.go\<close>: the two calls of the kubelet.  Preparing a claim records the
  intent durably, sanitizes and verifies the devices and only then exposes them; unpreparing records
  the release, sanitizes, and only then forgets the claim.
\<close>

section \<open>Claims of the API\<close>

record AllocationResult =
  al_Request :: string
  al_Driver :: string
  al_Pool :: string
  al_Device :: string
  al_AdminAccess :: "bool option"

text \<open>A configuration entry: its source and the driver of its opaque parameters, if it has any.\<close>

record AllocationConfig =
  ac_Source :: string
  ac_OpaqueDriver :: "string option"

record Allocation =
  an_Config :: "AllocationConfig list"
  an_Results :: "AllocationResult list"

record ResourceClaim =
  rc_UID :: string
  rc_Namespace :: string
  rc_Name :: string
  rc_Allocation :: "Allocation option"

section \<open>Validation of an allocation\<close>

definition config_error :: "Config \<Rightarrow> AllocationConfig \<Rightarrow> go_error" where
  "config_error cfg c =
     (if ac_OpaqueDriver c = Some (cf_Driver cfg)
      then Some (''driver configuration from '' @ go_quote (ac_Source c) @ '' is not supported'') else None)"

definition claim_device :: "string \<Rightarrow> AllocationResult \<Rightarrow> InventoryDevice \<Rightarrow> ClaimDevice" where
  "claim_device uid a item =
     \<lparr>cl_Requests = [al_Request a], cl_Pool = al_Pool a, cl_Device = al_Device a, cl_StableID = dv_StableID item,
      cl_Path = nd_Path (dv_Node item), cl_Major = nd_Major (dv_Node item), cl_Minor = nd_Minor (dv_Node item),
      cl_CDIID = cdiID uid (al_Device a)\<rparr>"

text \<open>The checks on one result of the allocation, in the order of the code; \<open>seen\<close> are the earlier devices.\<close>

definition allocation_device ::
    "Config \<Rightarrow> string \<Rightarrow> (string, InventoryDevice) gomap \<Rightarrow> owners \<Rightarrow> string list \<Rightarrow> AllocationResult
     \<Rightarrow> string + ClaimDevice" where
  "allocation_device cfg uid byName os seen a =
     (if al_AdminAccess a = Some True then Inl ''administrative device access is not supported''
      else if trim_space (al_Request a) = [] then Inl ''allocation request name is empty''
      else if al_Pool a \<noteq> cf_NodeName cfg
      then Inl (''allocation pool '' @ go_quote (al_Pool a) @ '' is not local node '' @ go_quote (cf_NodeName cfg))
      else case gm_get byName (al_Device a) of
        None \<Rightarrow> Inl (''allocated device '' @ go_quote (al_Device a) @ '' is not healthy locally'')
      | Some item \<Rightarrow>
          if \<not> dv_Eligible item \<or> deviceUnsafeReason cfg item \<noteq> []
          then Inl (''allocated device '' @ go_quote (al_Device a) @ '' is not healthy locally'')
          else if cf_RequireIOMMU cfg \<and> (pci_IOMMUGroup (dv_PCI item) < 0 \<or> pci_IOMMUGroupSize (dv_PCI item) \<noteq> 1)
          then Inl (''allocated device '' @ go_quote (al_Device a) @ '' has no dedicated IOMMU group'')
          else if al_Device a \<in> set seen
          then Inl (''device '' @ go_quote (al_Device a) @ '' is allocated more than once'')
          else case gm_get os (al_Device a) of
            Some ownerUID \<Rightarrow>
              if ownerUID \<noteq> uid
              then Inl (''device '' @ go_quote (al_Device a) @ '' is already prepared for claim '' @ ownerUID)
              else Inr (claim_device uid a item)
          | None \<Rightarrow> Inr (claim_device uid a item))"

fun allocation_devices ::
    "Config \<Rightarrow> string \<Rightarrow> (string, InventoryDevice) gomap \<Rightarrow> owners \<Rightarrow> string list \<Rightarrow> AllocationResult list
     \<Rightarrow> string + ClaimDevice list" where
  "allocation_devices cfg uid byName os seen [] = Inr []"
| "allocation_devices cfg uid byName os seen (a # as) =
     (if al_Driver a \<noteq> cf_Driver cfg then allocation_devices cfg uid byName os seen as
      else case allocation_device cfg uid byName os seen a of
        Inl e \<Rightarrow> Inl e
      | Inr d \<Rightarrow>
          (case allocation_devices cfg uid byName os (seen @ [al_Device a]) as of
             Inl e \<Rightarrow> Inl e
           | Inr ds \<Rightarrow> Inr (d # ds)))"

definition claimFromAllocation ::
    "Config \<Rightarrow> ResourceClaim \<Rightarrow> Allocation \<Rightarrow> (string, InventoryDevice) gomap \<Rightarrow> owners \<Rightarrow> string + PreparedClaim" where
  "claimFromAllocation cfg claim allocation byName os =
     (case first_error (config_error cfg) (an_Config allocation) of
        Some e \<Rightarrow> Inl e
      | None \<Rightarrow>
          (case allocation_devices cfg (rc_UID claim) byName os [] (an_Results allocation) of
             Inl e \<Rightarrow> Inl e
           | Inr ds \<Rightarrow>
               if ds = [] then Inl (''claim allocation has no devices for driver '' @ go_quote (cf_Driver cfg))
               else Inr \<lparr>pc_UID = rc_UID claim, pc_Namespace = rc_Namespace claim, pc_Name = rc_Name claim,
                         pc_Phase = ClaimPreparing, pc_Devices = ds\<rparr>))"

definition sameClaim :: "PreparedClaim \<Rightarrow> PreparedClaim \<Rightarrow> bool" where
  "sameClaim left right \<longleftrightarrow> pc_UID left = pc_UID right \<and> pc_Namespace left = pc_Namespace right \<and>
     pc_Name left = pc_Name right \<and> pc_Devices left = pc_Devices right"

section \<open>Preparing one claim\<close>

type_synonym prepare_outcome = "string + kubelet_device list"

definition sanitize_claimed :: "env \<Rightarrow> PreparedClaim \<Rightarrow> ClaimDevice \<Rightarrow> go_error op" where
  "sanitize_claimed ev prepared d = do {
     err \<leftarrow> sanitizeLocked ev ''preflight-sanitize'' (cl_Device d) (cl_Path d) (Some prepared);
     ret (map_option (\<lambda>e. ''sanitize device '' @ go_quote (cl_Device d) @ '': '' @ e) err) }"

definition verify_claimed ::
    "env \<Rightarrow> (string, InventoryDevice) gomap \<Rightarrow> PreparedClaim \<Rightarrow> ClaimDevice \<Rightarrow> go_error op" where
  "verify_claimed ev verified prepared d =
     (if (case gm_get verified (cl_Device d) of
            None \<Rightarrow> False
          | Some item \<Rightarrow> dv_Eligible item \<and> dv_Health item = HealthHealthy \<and> dv_StableID item = cl_StableID d)
      then ret None
      else do {
        _ \<leftarrow> quarantineLocked ev (cl_Device d) (cl_Path d) ''device did not return with the same healthy identity''
              (Some prepared) ''preflight-verify'';
        ret (Some (''sanitized device '' @ go_quote (cl_Device d) @ '' device did not return with the same healthy identity'')) })"

definition verify_error :: "string \<Rightarrow> string" where
  "verify_error e = ''verify sanitized inventory: '' @ e"

text \<open>The observation after sanitization, and the check that every device came back.\<close>

definition verify_inventory :: "env \<Rightarrow> Config \<Rightarrow> PreparedClaim \<Rightarrow> go_error op" where
  "verify_inventory ev cfg prepared = do {
     refreshed \<leftarrow> inventory ev;
     case refreshed of
       Inl e \<Rightarrow> ret (Some (verify_error e))
     | Inr snapshot \<Rightarrow> do {
         stale \<leftarrow> inventoryFresh ev cfg snapshot;
         case stale of
           Some e \<Rightarrow> ret (Some (verify_error e))
         | None \<Rightarrow> do {
             (filtered, _, err) \<leftarrow> observeLocked ev cfg snapshot False;
             case err of
               Some e \<Rightarrow> ret (Some (verify_error e))
             | None \<Rightarrow> until_error (verify_claimed ev (index_by DRAName (sn_Devices filtered)) prepared) (pc_Devices prepared) } } }"

definition quarantine_claimed :: "env \<Rightarrow> string \<Rightarrow> ClaimDevice \<Rightarrow> go_error op" where
  "quarantine_claimed ev reason d = do {
     t \<leftarrow> now ev;
     put_quarantine (cl_Device d) \<lparr>qr_Reason = reason, qr_Since = t, qr_AwaitingHealth = False\<rparr>;
     ret None }"

text \<open>
  The part of \<open>prepareOne\<close> after the CDI file is written: approve and commit.  The owners map is updated
  only on success.
\<close>

definition approve_prepare :: "env \<Rightarrow> string \<Rightarrow> PreparedClaim \<Rightarrow> owners \<Rightarrow> (prepare_outcome \<times> owners) op" where
  "approve_prepare ev uid prepared os = do {
     auditErr \<leftarrow> auditLocked ev (audit_event ''claim-prepare'' ''approved'') (Some prepared);
     case auditErr of
       Some e \<Rightarrow> do {
         _ \<leftarrow> removeCDI ev (cdiFilename (pc_UID prepared));
         _ \<leftarrow> for_join (quarantine_claimed ev (''claim preparation audit failed: '' @ e)) (pc_Devices prepared);
         ret (Inl e, os) }
     | None \<Rightarrow> do {
         put_claim uid (prepared\<lparr>pc_Phase := ClaimPrepared\<rparr>);
         persistErr \<leftarrow> persist ev;
         case persistErr of
           Some e \<Rightarrow> do {
             put_claim uid (prepared\<lparr>pc_Phase := ClaimPreparing\<rparr>);
             _ \<leftarrow> removeCDI ev (cdiFilename (pc_UID prepared));
             ret (Inl (''commit prepared claim: '' @ e), os) }
         | None \<Rightarrow>
             ret (Inr (cdiResults (prepared\<lparr>pc_Phase := ClaimPrepared\<rparr>)),
                  fold (\<lambda>item. gm_put (cl_Device item) uid) (pc_Devices prepared) os) } }"

text \<open>The part of \<open>prepareOne\<close> after the sanitized devices are verified.\<close>

definition commit_prepare :: "env \<Rightarrow> string \<Rightarrow> PreparedClaim \<Rightarrow> owners \<Rightarrow> (prepare_outcome \<times> owners) op" where
  "commit_prepare ev uid prepared os = do {
     writeErr \<leftarrow> writeCDI ev prepared;
     case writeErr of
       Some e \<Rightarrow> ret (Inl e, os)
     | None \<Rightarrow> approve_prepare ev uid prepared os }"

definition finish_prepare :: "env \<Rightarrow> Config \<Rightarrow> string \<Rightarrow> PreparedClaim \<Rightarrow> owners \<Rightarrow> (prepare_outcome \<times> owners) op" where
  "finish_prepare ev cfg uid prepared os = do {
     sanitizeErr \<leftarrow> until_error (sanitize_claimed ev prepared) (pc_Devices prepared);
     case sanitizeErr of
       Some e \<Rightarrow> ret (Inl e, os)
     | None \<Rightarrow> do {
         verifyErr \<leftarrow> verify_inventory ev cfg prepared;
         case verifyErr of
           Some e \<Rightarrow> ret (Inl e, os)
         | None \<Rightarrow> commit_prepare ev uid prepared os } }"

text \<open>A claim that is already prepared: refuse if a device is quarantined, else repair the CDI file.\<close>

definition repair_prepared :: "env \<Rightarrow> PreparedClaim \<Rightarrow> owners \<Rightarrow> (prepare_outcome \<times> owners) op" where
  "repair_prepared ev existing os = do {
     quarantined \<leftarrow> gets st_quarantined;
     case find (\<lambda>d. gm_get quarantined (cl_Device d) \<noteq> None) (pc_Devices existing) of
       Some d \<Rightarrow> ret (Inl (''prepared device '' @ go_quote (cl_Device d) @ '' is quarantined: ''
         @ (case gm_get quarantined (cl_Device d) of None \<Rightarrow> [] | Some r \<Rightarrow> qr_Reason r)), os)
     | None \<Rightarrow> do {
         writeErr \<leftarrow> writeCDI ev existing;
         case writeErr of
           Some e \<Rightarrow> ret (Inl (''repair CDI: '' @ e), os)
         | None \<Rightarrow> ret (Inr (cdiResults existing), os) } }"

text \<open>A claim that is not there yet: record the intent before anything is touched.\<close>

definition prepare_new :: "env \<Rightarrow> Config \<Rightarrow> string \<Rightarrow> PreparedClaim \<Rightarrow> owners \<Rightarrow> (prepare_outcome \<times> owners) op" where
  "prepare_new ev cfg uid prepared os = do {
     put_claim uid prepared;
     persistErr \<leftarrow> persist ev;
     case persistErr of
       Some e \<Rightarrow> do { del_claim uid; ret (Inl (''persist prepare intent: '' @ e), os) }
     | None \<Rightarrow> do {
         auditErr \<leftarrow> auditLocked ev (audit_event ''claim-prepare-intent'' ''recorded'') (Some prepared);
         case auditErr of
           Some e \<Rightarrow> ret (Inl e, os)
         | None \<Rightarrow> finish_prepare ev cfg uid prepared os } }"

text \<open>A claim that is there already, by its phase.\<close>

definition prepare_existing ::
    "env \<Rightarrow> Config \<Rightarrow> string \<Rightarrow> PreparedClaim \<Rightarrow> PreparedClaim \<Rightarrow> owners \<Rightarrow> (prepare_outcome \<times> owners) op" where
  "prepare_existing ev cfg uid existing prepared os =
     (if \<not> sameClaim existing prepared
      then ret (Inl ''repeated prepare does not match persisted allocation'', os)
      else if pc_Phase existing = ClaimReleasing \<or> pc_Phase existing = ClaimRecovered
      then ret (Inl (''claim is in '' @ phase_string (pc_Phase existing) @ '' recovery''), os)
      else if pc_Phase existing = ClaimPrepared then repair_prepared ev existing os
      else finish_prepare ev cfg uid existing os)"

definition prepare_admitted ::
    "env \<Rightarrow> Config \<Rightarrow> string \<Rightarrow> PreparedClaim \<Rightarrow> owners \<Rightarrow> (prepare_outcome \<times> owners) op" where
  "prepare_admitted ev cfg uid prepared os = do {
     found \<leftarrow> gets (\<lambda>s. gm_get (st_claims s) uid);
     case found of
       Some existing \<Rightarrow> prepare_existing ev cfg uid existing prepared os
     | None \<Rightarrow> prepare_new ev cfg uid (prepared\<lparr>pc_Phase := ClaimPreparing\<rparr>) os }"

definition prepareOne ::
    "env \<Rightarrow> Config \<Rightarrow> ResourceClaim option \<Rightarrow> (string, InventoryDevice) gomap \<Rightarrow> owners
     \<Rightarrow> (prepare_outcome \<times> owners) op" where
  "prepareOne ev cfg claim byName os =
     (case claim of
        None \<Rightarrow> ret (Inl ''claim has no allocation'', os)
      | Some c \<Rightarrow>
          (case rc_Allocation c of
             None \<Rightarrow> ret (Inl ''claim has no allocation'', os)
           | Some allocation \<Rightarrow>
               (case claimFromAllocation cfg c allocation byName os of
                  Inl e \<Rightarrow> ret (Inl e, os)
                | Inr prepared \<Rightarrow> prepare_admitted ev cfg (rc_UID c) prepared os)))"

section \<open>The calls\<close>

record PrepareResult =
  pr_Devices :: "kubelet_device list"
  pr_Err :: go_error

definition prepare_result :: "prepare_outcome \<Rightarrow> PrepareResult" where
  "prepare_result r = (case r of Inl e \<Rightarrow> \<lparr>pr_Devices = [], pr_Err = Some e\<rparr> | Inr ds \<Rightarrow> \<lparr>pr_Devices = ds, pr_Err = None\<rparr>)"

definition claim_uid :: "ResourceClaim option \<Rightarrow> string" where
  "claim_uid claim = (case claim of None \<Rightarrow> [] | Some c \<Rightarrow> rc_UID c)"

fun prepare_each ::
    "env \<Rightarrow> Config \<Rightarrow> (string, InventoryDevice) gomap \<Rightarrow> ResourceClaim option list \<Rightarrow> owners
     \<Rightarrow> (string, PrepareResult) gomap \<Rightarrow> (string, PrepareResult) gomap op" where
  "prepare_each ev cfg byName [] os result = ret result"
| "prepare_each ev cfg byName (c # cs) os result = do {
     (r, os') \<leftarrow> prepareOne ev cfg c byName os;
     prepare_each ev cfg byName cs os' (gm_put (claim_uid c) (prepare_result r) result) }"

text \<open>
  The opening shared by both calls: lock and reload, refresh the inventory, check its freshness and
  reconcile it with the state.  The result is the snapshot, unfiltered.
\<close>

definition refresh_inventory :: "env \<Rightarrow> Config \<Rightarrow> (string + InventorySnapshot) op" where
  "refresh_inventory ev cfg = do {
     r \<leftarrow> inventory ev;
     case r of
       Inl e \<Rightarrow> ret (Inl (''refresh inventory: '' @ e))
     | Inr snapshot \<Rightarrow> do {
         stale \<leftarrow> inventoryFresh ev cfg snapshot;
         case stale of
           Some e \<Rightarrow> ret (Inl e)
         | None \<Rightarrow> do {
             (_, _, err) \<leftarrow> observeLocked ev cfg snapshot False;
             case err of
               Some e \<Rightarrow> ret (Inl (''monitor inventory: '' @ e))
             | None \<Rightarrow> ret (Inr snapshot) } } }"

definition refresh :: "env \<Rightarrow> Config \<Rightarrow> (string + InventorySnapshot) op" where
  "refresh ev cfg = do {
     lockErr \<leftarrow> lockAndReload ev;
     case lockErr of
       Some e \<Rightarrow> ret (Inl e)
     | None \<Rightarrow> refresh_inventory ev cfg }"

definition PrepareResourceClaims ::
    "env \<Rightarrow> Config \<Rightarrow> ResourceClaim option list \<Rightarrow> (string + (string, PrepareResult) gomap) op" where
  "PrepareResourceClaims ev cfg claims = do {
     r \<leftarrow> refresh ev cfg;
     case r of
       Inl e \<Rightarrow> ret (Inl e)
     | Inr snapshot \<Rightarrow> do {
         os \<leftarrow> deviceOwners ev;
         result \<leftarrow> prepare_each ev cfg (index_by DRAName (sn_Devices snapshot)) claims os [];
         persistErr \<leftarrow> persist ev;
         case persistErr of
           Some e \<Rightarrow> ret (Inl e)
         | None \<Rightarrow> ret (Inr result) } }"

section \<open>Unpreparing\<close>

definition release_unavailable :: "env \<Rightarrow> PreparedClaim \<Rightarrow> ClaimDevice \<Rightarrow> go_error op" where
  "release_unavailable ev prepared d = do {
     err \<leftarrow> quarantineLocked ev (cl_Device d) (cl_Path d)
       ''allocated device is unavailable during post-use sanitization'' (Some prepared) ''postflight-sanitize'';
     ret (errors_join (Some (''device '' @ go_quote (cl_Device d)
       @ '': allocated device is unavailable during post-use sanitization'')) err) }"

definition release_device ::
    "env \<Rightarrow> (string, InventoryDevice) gomap \<Rightarrow> PreparedClaim \<Rightarrow> ClaimDevice \<Rightarrow> go_error op" where
  "release_device ev byName prepared d =
     (case gm_get byName (cl_Device d) of
        None \<Rightarrow> release_unavailable ev prepared d
      | Some item \<Rightarrow>
          if \<not> dv_CharacterDevicePresent item then release_unavailable ev prepared d
          else sanitizeLocked ev ''postflight-sanitize'' (cl_Device d) (nd_Path (dv_Node item)) (Some prepared))"

text \<open>The part of the loop body after the release intent is recorded.\<close>

definition finish_release ::
    "env \<Rightarrow> (string, InventoryDevice) gomap \<Rightarrow> string \<Rightarrow> PreparedClaim \<Rightarrow> go_error op" where
  "finish_release ev byName uid prepared = do {
     sanitizeErr \<leftarrow> for_join (release_device ev byName prepared) (pc_Devices prepared);
     case sanitizeErr of
       Some e \<Rightarrow> do { _ \<leftarrow> persist ev; ret (Some e) }
     | None \<Rightarrow> do {
         auditErr \<leftarrow> auditLocked ev (audit_event ''claim-release'' ''approved'') (Some prepared);
         case auditErr of
           Some e \<Rightarrow> do {
             _ \<leftarrow> for_join (quarantine_claimed ev (''claim release audit failed: '' @ e)) (pc_Devices prepared);
             ret (Some e) }
         | None \<Rightarrow> do {
             removeErr \<leftarrow> removeCDI ev (cdiFilename (pc_UID prepared));
             case removeErr of
               Some e \<Rightarrow> ret (Some e)
             | None \<Rightarrow> do {
                 del_claim uid;
                 persistErr \<leftarrow> persist ev;
                 case persistErr of
                   Some e \<Rightarrow> do { put_claim uid prepared; ret (Some (''commit released claim: '' @ e)) }
                 | None \<Rightarrow> ret None } } } }"

text \<open>The loop body for a claim that is there: record the release unless it is recorded, then finish it.\<close>

definition release_claim :: "env \<Rightarrow> (string, InventoryDevice) gomap \<Rightarrow> string \<Rightarrow> PreparedClaim \<Rightarrow> go_error op" where
  "release_claim ev byName uid prepared =
     (if pc_Phase prepared = ClaimReleasing then finish_release ev byName uid prepared
      else do {
        put_claim uid (prepared\<lparr>pc_Phase := ClaimReleasing\<rparr>);
        persistErr \<leftarrow> persist ev;
        case persistErr of
          Some e \<Rightarrow> ret (Some (''persist release intent: '' @ e))
        | None \<Rightarrow> do {
            auditErr \<leftarrow> auditLocked ev (audit_event ''claim-release-intent'' ''recorded'')
              (Some (prepared\<lparr>pc_Phase := ClaimReleasing\<rparr>));
            case auditErr of
              Some e \<Rightarrow> ret (Some e)
            | None \<Rightarrow> finish_release ev byName uid (prepared\<lparr>pc_Phase := ClaimReleasing\<rparr>) } })"

definition unprepareOne :: "env \<Rightarrow> (string, InventoryDevice) gomap \<Rightarrow> string \<Rightarrow> go_error op" where
  "unprepareOne ev byName uid = do {
     found \<leftarrow> gets (\<lambda>s. gm_get (st_claims s) uid);
     case found of
       None \<Rightarrow> ret None
     | Some prepared \<Rightarrow> release_claim ev byName uid prepared }"

fun unprepare_each ::
    "env \<Rightarrow> (string, InventoryDevice) gomap \<Rightarrow> string list \<Rightarrow> (string, go_error) gomap
     \<Rightarrow> (string, go_error) gomap op" where
  "unprepare_each ev byName [] result = ret result"
| "unprepare_each ev byName (uid # uids) result = do {
     err \<leftarrow> unprepareOne ev byName uid;
     unprepare_each ev byName uids (gm_put uid err result) }"

definition UnprepareResourceClaims ::
    "env \<Rightarrow> Config \<Rightarrow> string list \<Rightarrow> (string + (string, go_error) gomap) op" where
  "UnprepareResourceClaims ev cfg uids = do {
     r \<leftarrow> refresh ev cfg;
     case r of
       Inl e \<Rightarrow> ret (Inl e)
     | Inr snapshot \<Rightarrow> do {
         result \<leftarrow> unprepare_each ev (index_by DRAName (sn_Devices snapshot)) uids [];
         persistErr \<leftarrow> persist ev;
         case persistErr of
           Some e \<Rightarrow> ret (Inl e)
         | None \<Rightarrow> ret (Inr result) } }"

section \<open>Statistics\<close>

record Stats =
  sx_Allocated :: nat
  sx_Quarantined :: nat

definition SnapshotStats :: "env \<Rightarrow> Stats op" where
  "SnapshotStats ev = do {
     _ \<leftarrow> lockAndReload ev;
     st \<leftarrow> gets sy_state;
     ret \<lparr>sx_Allocated = sum_list (map (\<lambda>(_, c). length (pc_Devices c)) (ps_Claims st)),
          sx_Quarantined = length (ps_Quarantined st)\<rparr> }"

end
