(* ===== verification/Recovery.thy ===== *)
theory Recovery
  imports Claims
begin

text \<open>
  \<open>src/internal/lifecycle/recovery.go\<close> and the constructor of \<open>manager.go\<close>: what a starting agent
  does with the state it finds.  The allocations the API server lists are an argument,
  \<open>None\<close> when the configuration has no callback for them; the API call may fail.
\<close>

section \<open>Live allocations\<close>

type_synonym allocations = "(string + ResourceClaim option list) option"

definition local_device ::
    "(string, InventoryDevice) gomap \<Rightarrow> string \<Rightarrow> AllocationResult \<Rightarrow> ClaimDevice" where
  "local_device byName uid a =
     (let d = \<lparr>cl_Requests = [al_Request a], cl_Pool = al_Pool a, cl_Device = al_Device a, cl_StableID = [],
               cl_Path = [], cl_Major = 0, cl_Minor = 0, cl_CDIID = cdiID uid (al_Device a)\<rparr>
      in case gm_get byName (al_Device a) of
           None \<Rightarrow> d
         | Some item \<Rightarrow> d\<lparr>cl_StableID := dv_StableID item, cl_Path := nd_Path (dv_Node item),
                          cl_Major := nd_Major (dv_Node item), cl_Minor := nd_Minor (dv_Node item)\<rparr>)"

definition local_claim :: "Config \<Rightarrow> (string, InventoryDevice) gomap \<Rightarrow> ResourceClaim option \<Rightarrow> PreparedClaim option" where
  "local_claim cfg byName claim =
     (case claim of
        None \<Rightarrow> None
      | Some c \<Rightarrow>
          (case rc_Allocation c of
             None \<Rightarrow> None
           | Some allocation \<Rightarrow>
               let ds = map (local_device byName (rc_UID c))
                     (filter (\<lambda>a. al_Driver a = cf_Driver cfg \<and> al_Pool a = cf_NodeName cfg) (an_Results allocation))
               in if ds = [] then None
                  else Some \<lparr>pc_UID = rc_UID c, pc_Namespace = rc_Namespace c, pc_Name = rc_Name c,
                             pc_Phase = ClaimRecovered, pc_Devices = ds\<rparr>))"

definition localAllocations ::
    "Config \<Rightarrow> allocations \<Rightarrow> (string, InventoryDevice) gomap \<Rightarrow> string + (string, PreparedClaim) gomap" where
  "localAllocations cfg allocs byName =
     (case allocs of
        None \<Rightarrow> Inr []
      | Some (Inl e) \<Rightarrow> Inl (''list startup allocations: '' @ e)
      | Some (Inr claims) \<Rightarrow>
          Inr (fold (\<lambda>claim m. case local_claim cfg byName claim of None \<Rightarrow> m | Some c \<Rightarrow> gm_put (pc_UID c) c m) claims []))"

section \<open>Reconciliation\<close>

text \<open>Request names missing from a persisted claim are taken from the live allocation.\<close>

definition restore_requests :: "PreparedClaim option \<Rightarrow> PreparedClaim \<Rightarrow> PreparedClaim" where
  "restore_requests live claim =
     (case live of
        None \<Rightarrow> claim
      | Some l \<Rightarrow>
          let requests = index_by cl_Device (pc_Devices l)
          in claim\<lparr>pc_Devices := map (\<lambda>d. if cl_Requests d = []
                 then d\<lparr>cl_Requests := (case gm_get requests (cl_Device d) of None \<Rightarrow> [] | Some x \<Rightarrow> cl_Requests x)\<rparr>
                 else d) (pc_Devices claim)\<rparr>)"

definition identity_reason :: "Config \<Rightarrow> (string, InventoryDevice) gomap \<Rightarrow> ClaimDevice \<Rightarrow> string" where
  "identity_reason cfg byName d =
     (case gm_get byName (cl_Device d) of
        None \<Rightarrow> ''persisted device is not present''
      | Some item \<Rightarrow>
          if cl_StableID d \<noteq> [] \<and> cl_StableID d \<noteq> dv_StableID item then ''persisted hardware identity changed''
          else if cl_Path d \<noteq> nd_Path (dv_Node item) \<or> cl_Major d \<noteq> nd_Major (dv_Node item)
                  \<or> cl_Minor d \<noteq> nd_Minor (dv_Node item)
          then ''persisted device node identity changed''
          else deviceUnsafeReason cfg item)"

definition adopt_identity :: "(string, InventoryDevice) gomap \<Rightarrow> ClaimDevice \<Rightarrow> ClaimDevice" where
  "adopt_identity byName d =
     (case gm_get byName (cl_Device d) of
        None \<Rightarrow> d
      | Some item \<Rightarrow> if cl_StableID d = [] then d\<lparr>cl_StableID := dv_StableID item\<rparr> else d)"

text \<open>
  The reason to quarantine one device of a claim, and the phase of the claim afterwards: a claim
  that is not \<open>Prepared\<close> was interrupted, and a device without a request makes the claim \<open>Recovered\<close>.
\<close>

definition reconcile_reason ::
    "Config \<Rightarrow> (string, InventoryDevice) gomap \<Rightarrow> ClaimPhase \<Rightarrow> ClaimDevice \<Rightarrow> string \<times> ClaimPhase" where
  "reconcile_reason cfg byName phase d =
     (let reason = identity_reason cfg byName d;
          reason = (if phase \<noteq> ClaimPrepared \<and> reason = []
                    then ''interrupted '' @ to_lower (phase_string phase) @ '' transition'' else reason)
      in if cl_Requests d = [] \<and> reason = [] then (''persisted request association is unavailable'', ClaimRecovered)
         else (reason, phase))"

text \<open>The loop over the devices of a claim; \<open>pre\<close> are the devices already visited.\<close>

fun reconcile_devices ::
    "env \<Rightarrow> Config \<Rightarrow> (string, InventoryDevice) gomap \<Rightarrow> PreparedClaim \<Rightarrow> ClaimDevice list \<Rightarrow> ClaimDevice list
     \<Rightarrow> (PreparedClaim \<times> go_error) op" where
  "reconcile_devices ev cfg byName claim pre [] = ret (claim\<lparr>pc_Devices := pre\<rparr>, None)"
| "reconcile_devices ev cfg byName claim pre (d # ds) = do {
     let (reason, phase) = reconcile_reason cfg byName (pc_Phase claim) d;
     let claim' = claim\<lparr>pc_Phase := phase, pc_Devices := pre @ [adopt_identity byName d] @ ds\<rparr>;
     e \<leftarrow> (if reason \<noteq> []
           then quarantineLocked ev (cl_Device d) (cl_Path d) reason (Some claim') ''startup-recovery''
           else ret None);
     (claim'', e') \<leftarrow> reconcile_devices ev cfg byName claim' (pre @ [adopt_identity byName d]) ds;
     ret (claim'', errors_join e e') }"

definition complete_claim :: "PreparedClaim \<Rightarrow> bool" where
  "complete_claim claim \<longleftrightarrow> pc_Devices claim \<noteq> [] \<and> (\<forall>d \<in> set (pc_Devices claim). cl_Path d \<noteq> [])"

definition repair_failed :: "env \<Rightarrow> string \<Rightarrow> PreparedClaim \<Rightarrow> ClaimDevice \<Rightarrow> go_error op" where
  "repair_failed ev e claim d =
     quarantineLocked ev (cl_Device d) (cl_Path d) (''CDI repair failed: '' @ e) (Some claim) ''startup-recovery''"

text \<open>The reconciled claim is stored and, if its device nodes are known, its CDI file is written.\<close>

definition store_reconciled :: "env \<Rightarrow> string \<Rightarrow> PreparedClaim \<Rightarrow> go_error op" where
  "store_reconciled ev uid claim = do {
     put_claim uid claim;
     if complete_claim claim
     then do {
       writeErr \<leftarrow> writeCDI ev claim;
       case writeErr of
         None \<Rightarrow> ret None
       | Some e \<Rightarrow> for_join (repair_failed ev e claim) (pc_Devices claim) }
     else ret None }"

text \<open>The claim before its devices are checked: requests restored, and released if no allocation is left.\<close>

definition live_claim :: "bool \<Rightarrow> PreparedClaim option \<Rightarrow> PreparedClaim \<Rightarrow> PreparedClaim" where
  "live_claim hasAllocations live claim =
     (let claim1 = restore_requests live claim
      in if hasAllocations \<and> live = None then claim1\<lparr>pc_Phase := ClaimReleasing\<rparr> else claim1)"

definition reconcile_found ::
    "env \<Rightarrow> Config \<Rightarrow> (string, InventoryDevice) gomap \<Rightarrow> string \<Rightarrow> PreparedClaim \<Rightarrow> go_error op" where
  "reconcile_found ev cfg byName uid claim = do {
     (claim', e1) \<leftarrow> reconcile_devices ev cfg byName claim [] (pc_Devices claim);
     e2 \<leftarrow> store_reconciled ev uid claim';
     ret (errors_join e1 e2) }"

definition reconcile_claim ::
    "env \<Rightarrow> Config \<Rightarrow> bool \<Rightarrow> (string, InventoryDevice) gomap \<Rightarrow> (string, PreparedClaim) gomap \<Rightarrow> string \<Rightarrow> go_error op" where
  "reconcile_claim ev cfg hasAllocations byName allocated uid = do {
     found \<leftarrow> gets (\<lambda>s. gm_get (st_claims s) uid);
     case found of
       None \<Rightarrow> ret None
     | Some claim \<Rightarrow> reconcile_found ev cfg byName uid (live_claim hasAllocations (gm_get allocated uid) claim) }"

section \<open>Orphaned CDI files\<close>

definition orphan_cdi :: "(string, PreparedClaim) gomap \<Rightarrow> string \<Rightarrow> bool" where
  "orphan_cdi claims file \<longleftrightarrow> has_prefix file ''claim-'' \<and> has_suffix file ''.json'' \<and>
     file \<notin> (\<lambda>(_, c). cdiFilename (pc_UID c)) ` set claims"

text \<open>\<open>os.Remove\<close> here reports a missing file too, but the files come from the directory listing.\<close>

definition remove_orphan :: "env \<Rightarrow> (string, PreparedClaim) gomap \<Rightarrow> string \<Rightarrow> go_error op" where
  "remove_orphan ev claims file = (if orphan_cdi claims file then attempt ev (drop_cdi file) else ret None)"

definition removeOrphanCDI :: "env \<Rightarrow> go_error op" where
  "removeOrphanCDI ev = do {
     r \<leftarrow> io_result ev;
     case r of
       IoFail e \<Rightarrow> ret (Some e)
     | IoApplied e \<Rightarrow> ret (Some e)
     | IoOk \<Rightarrow> do {
         claims \<leftarrow> gets st_claims;
         files \<leftarrow> gets (\<lambda>s. sort (gm_keys (sy_cdi s)));
         until_error (remove_orphan ev claims) files } }"

definition add_recovered :: "(string, PreparedClaim) gomap \<Rightarrow> string \<Rightarrow> go_error op" where
  "add_recovered allocated uid = do {
     known \<leftarrow> gets (\<lambda>s. gm_get (st_claims s) uid \<noteq> None);
     case gm_get allocated uid of
       None \<Rightarrow> ret None
     | Some c \<Rightarrow> if known then ret None else do { put_claim uid (c\<lparr>pc_Phase := ClaimRecovered\<rparr>); ret None } }"

definition reconcileStartup :: "env \<Rightarrow> Config \<Rightarrow> allocations \<Rightarrow> go_error op" where
  "reconcileStartup ev cfg allocs = do {
     r \<leftarrow> inventory ev;
     case r of
       Inl e \<Rightarrow> ret (Some (''startup inventory: '' @ e))
     | Inr snapshot \<Rightarrow> do {
         stale \<leftarrow> inventoryFresh ev cfg snapshot;
         case stale of
           Some e \<Rightarrow> ret (Some e)
         | None \<Rightarrow>
             (case localAllocations cfg allocs (index_by DRAName (sn_Devices snapshot)) of
                Inl e \<Rightarrow> ret (Some e)
              | Inr allocated \<Rightarrow> do {
                  live \<leftarrow> range_keys ev allocated;
                  _ \<leftarrow> for_join (add_recovered allocated) live;
                  claims \<leftarrow> gets st_claims;
                  uids \<leftarrow> range_keys ev claims;
                  reconcileErr \<leftarrow> for_join (reconcile_claim ev cfg (allocs \<noteq> None) (index_by DRAName (sn_Devices snapshot)) allocated) uids;
                  orphanErr \<leftarrow> removeOrphanCDI ev;
                  case orphanErr of
                    Some e \<Rightarrow> ret (Some e)
                  | None \<Rightarrow> do {
                      modify (\<lambda>s. s\<lparr>sy_last := snapshot\<rparr>);
                      persistErr \<leftarrow> persist ev;
                      ret (errors_join reconcileErr persistErr) } }) } }"

section \<open>Starting an agent\<close>

definition empty_state :: persistedState where
  "empty_state = \<lparr>ps_Version = stateVersion, ps_Claims = [], ps_Quarantined = [], ps_Known = []\<rparr>"

definition fence_visible :: "env \<Rightarrow> go_time \<Rightarrow> InventoryDevice \<Rightarrow> go_error op" where
  "fence_visible ev observedAt item = do {
     put_known (DRAName item) \<lparr>kd_Path = nd_Path (dv_Node item), kd_LastSeen = observedAt\<rparr>;
     t \<leftarrow> now ev;
     put_quarantine (DRAName item) \<lparr>qr_Reason = ''lifecycle state was corrupt'', qr_Since = t, qr_AwaitingHealth = False\<rparr>;
     ret None }"

text \<open>\<open>recoverCorruptState\<close>: move the bad file away and quarantine everything that is visible.\<close>

definition move_corrupt :: "sys \<Rightarrow> sys" where
  "move_corrupt s = s\<lparr>sy_disk := NoFile\<rparr>"

definition recoverCorruptState :: "env \<Rightarrow> string \<Rightarrow> go_error op" where
  "recoverCorruptState ev loadErr = do {
     _ \<leftarrow> now ev;
     renameErr \<leftarrow> attempt ev move_corrupt;
     case renameErr of
       Some e \<Rightarrow> ret (errors_join (Some loadErr) (Some (''preserve corrupt state: '' @ e)))
     | None \<Rightarrow> do {
         modify (\<lambda>s. s\<lparr>sy_state := empty_state\<rparr>);
         r \<leftarrow> inventory ev;
         case r of
           Inl e \<Rightarrow> ret (errors_join (Some loadErr) (Some (''inventory for state recovery: '' @ e)))
         | Inr snapshot \<Rightarrow> do {
             _ \<leftarrow> for_join (fence_visible ev (sn_ObservedAt snapshot)) (sn_Devices snapshot);
             auditErr \<leftarrow> auditLocked ev ((audit_event ''state-recovery'' ''quarantined'')\<lparr>au_Reason := loadErr\<rparr>) None;
             persistErr \<leftarrow> persist ev;
             ret (errors_join auditErr persistErr) } } }"

text \<open>
  \<open>NewManager\<close> after the checks of the configuration: a manager with an empty memory locks the state,
  loads it (or recovers from a file that does not load), and reconciles if there is anything to
  reconcile.  The result \<open>None\<close> means that the agent runs.
\<close>

definition config_problem :: "Config \<Rightarrow> string \<Rightarrow> string \<Rightarrow> go_error" where
  "config_problem cfg stateDir cdiDir =
     (if trim_space (cf_NodeName cfg) = [] \<or> trim_space (cf_Driver cfg) = [] then Some ''node name and driver are required''
      else if \<not> is_abs stateDir \<or> \<not> is_abs cdiDir then Some ''state and CDI directories must be absolute''
      else if cf_MaxInventoryAge cfg < 0 then Some ''maximum inventory age must not be negative''
      else None)"

definition default_config :: "Config \<Rightarrow> Config" where
  "default_config cfg = (if cf_MaxInventoryAge cfg = 0 then cfg\<lparr>cf_MaxInventoryAge := 120 * second\<rparr> else cfg)"

text \<open>The part under the lock of the state file.\<close>

definition open_state :: "env \<Rightarrow> Config \<Rightarrow> allocations \<Rightarrow> go_error op" where
  "open_state ev cfg allocs = do {
     loadErr \<leftarrow> reload ev;
     recoverErr \<leftarrow> (case loadErr of None \<Rightarrow> ret None | Some e \<Rightarrow> recoverCorruptState ev e);
     case recoverErr of
       Some e \<Rightarrow> ret (Some e)
     | None \<Rightarrow> do {
         claims \<leftarrow> gets st_claims;
         if allocs \<noteq> None \<or> claims \<noteq> [] then reconcileStartup ev cfg allocs else ret None } }"

definition NewManager :: "env \<Rightarrow> Config \<Rightarrow> string \<Rightarrow> string \<Rightarrow> allocations \<Rightarrow> go_error op" where
  "NewManager ev cfg stateDir cdiDir allocs =
     (case config_problem cfg stateDir cdiDir of
        Some e \<Rightarrow> ret (Some e)
      | None \<Rightarrow> do {
          modify (\<lambda>s. s\<lparr>sy_state := empty_state, sy_last := zero_snapshot\<rparr>);
          lock \<leftarrow> io_result ev;
          case lock of
            IoFail e \<Rightarrow> ret (Some e)
          | IoApplied e \<Rightarrow> ret (Some e)
          | IoOk \<Rightarrow> open_state ev (default_config cfg) allocs })"

end
