(* ===== verification/Lifecycle_Logic.thy ===== *)
theory Lifecycle_Logic
  imports Recovery
begin

text \<open>
  The interface through which the invariants of the lifecycle manager are proved: a predicate on the system that the primitive effects respect is
  respected by every operation built from them.
\<close>

lemma keeps_io [keeps_intro]:
  "keeps I a \<Longrightarrow> (\<And>e. keeps I (b e)) \<Longrightarrow> (\<And>e. keeps I (c e)) \<Longrightarrow>
     keeps I (case x of IoOk \<Rightarrow> a | IoFail e \<Rightarrow> b e | IoApplied e \<Rightarrow> c e)"
  by (cases x) auto

section \<open>The interface of an invariant\<close>

text \<open>
  \<open>frame_invariant\<close>: \<open>I\<close> ignores the step counter, the last snapshot and the audit log, so asking the
  environment and writing the audit log keep it.
\<close>

locale frame_invariant =
  fixes I :: "sys \<Rightarrow> bool"
  assumes inv_step: "I s \<Longrightarrow> I (s\<lparr>sy_step := n\<rparr>)"
    and inv_last: "I s \<Longrightarrow> I (s\<lparr>sy_last := l\<rparr>)"
    and inv_audit: "I s \<Longrightarrow> I (append_audit e s)"
begin

lemma k_next_step [keeps_intro]: "keeps I next_step"
  by (rule keepsI) (auto simp: next_step_def inv_step)

lemma k_now [keeps_intro]: "keeps I (now ev)"
  unfolding now_def by (intro keeps_intro)

lemma k_io_result [keeps_intro]: "keeps I (io_result ev)"
  unfolding io_result_def by (intro keeps_intro)

lemma k_inventory [keeps_intro]: "keeps I (inventory ev)"
  unfolding inventory_def by (intro keeps_intro)

lemma k_range_keys [keeps_intro]: "keeps I (range_keys ev m)"
  unfolding range_keys_def by (intro keeps_intro)

lemma k_attempt: "(\<And>s. I s \<Longrightarrow> I (f s)) \<Longrightarrow> keeps I (attempt ev f)"
  unfolding attempt_def by (intro keeps_intro keeps_modify)

lemma k_auditLocked [keeps_intro]: "keeps I (auditLocked ev e c)"
  unfolding auditLocked_def by (intro keeps_intro k_attempt inv_audit)

lemma k_set_last [keeps_intro]: "keeps I (modify (\<lambda>s. s\<lparr>sy_last := l\<rparr>))"
  by (intro keeps_modify inv_last)

lemma k_claimForOwner [keeps_intro]: "keeps I (claimForOwner u)"
  unfolding claimForOwner_def by (intro keeps_intro)

lemma k_deviceOwners [keeps_intro]: "keeps I (deviceOwners ev)"
  unfolding deviceOwners_def by (intro keeps_intro)

lemma k_inventoryFresh [keeps_intro]: "keeps I (inventoryFresh ev cfg sn)"
  unfolding inventoryFresh_def by (intro keeps_intro)

end

text \<open>
  \<open>op_invariant\<close>: \<open>I\<close> does not depend on quarantine and known devices either; a reset of a device keeps
  it when \<open>R\<close> allows the reset.
\<close>

locale op_invariant = frame_invariant +
  fixes R :: "string \<Rightarrow> string \<Rightarrow> string \<Rightarrow> bool"
  assumes inv_quarantine: "I s \<Longrightarrow> I (s\<lparr>sy_state := (sy_state s)\<lparr>ps_Quarantined := q\<rparr>\<rparr>)"
    and inv_known: "I s \<Longrightarrow> I (s\<lparr>sy_state := (sy_state s)\<lparr>ps_Known := k\<rparr>\<rparr>)"
    and inv_reset: "I s \<Longrightarrow> R action name path \<Longrightarrow> I (s\<lparr>sy_trace := sy_trace s @ [EffReset action name path err]\<rparr>)"
begin

lemma k_put_quarantine [keeps_intro]: "keeps I (put_quarantine n r)"
  unfolding put_quarantine_def modify_state_def by (intro keeps_modify inv_quarantine)

lemma k_del_quarantine [keeps_intro]: "keeps I (del_quarantine n)"
  unfolding del_quarantine_def modify_state_def by (intro keeps_modify inv_quarantine)

lemma k_put_known [keeps_intro]: "keeps I (put_known n k)"
  unfolding put_known_def modify_state_def by (intro keeps_modify inv_known)

lemma k_quarantineLocked [keeps_intro]: "keeps I (quarantineLocked ev n p r c a)"
  unfolding quarantineLocked_def by (intro keeps_intro)

lemma k_device_reset: "R a n p \<Longrightarrow> keeps I (device_reset ev a n p)"
  unfolding device_reset_def by (intro keeps_intro keeps_modify inv_reset)

lemma k_sanitizeLocked: "R a n p \<Longrightarrow> keeps I (sanitizeLocked ev a n p c)"
  unfolding sanitizeLocked_def by (intro keeps_intro k_device_reset)

lemma k_observe_device [keeps_intro]: "keeps I (observe_device ev cfg os b t item)"
  unfolding observe_device_def by (intro keeps_intro)

lemma k_observe_missing [keeps_intro]: "keeps I (observe_missing ev os ob n)"
  unfolding observe_missing_def by (intro keeps_intro)

lemma k_recover_device:
  assumes "owner_of os name = [] \<Longrightarrow> \<forall>path. R ''recovery-sanitize'' name path"
  shows "keeps I (recover_device ev cfg os ob name)"
  unfolding recover_device_def using assms
  by (intro keeps_intro k_sanitizeLocked) auto

text \<open>Without recovery, an observation resets nothing.\<close>

lemma k_observe_with:
  assumes "\<And>name path. b \<Longrightarrow> owner_of os name = [] \<Longrightarrow> R ''recovery-sanitize'' name path"
  shows "keeps I (observe_with ev cfg os sn b)"
  unfolding observe_with_def using assms
  by (intro keeps_intro k_recover_device) auto

lemma k_observe_idle [keeps_intro]: "keeps I (observeLocked ev cfg sn False)"
  unfolding observeLocked_def by (intro keeps_intro k_observe_with) simp

lemma k_refresh_inventory [keeps_intro]: "keeps I (refresh_inventory ev cfg)"
  unfolding refresh_inventory_def by (intro keeps_intro)

lemma k_verify_claimed [keeps_intro]: "keeps I (verify_claimed ev v c d)"
  unfolding verify_claimed_def by (intro keeps_intro)

lemma k_verify_inventory [keeps_intro]: "keeps I (verify_inventory ev cfg c)"
  unfolding verify_inventory_def by (intro keeps_intro)

lemma k_quarantine_claimed [keeps_intro]: "keeps I (quarantine_claimed ev r d)"
  unfolding quarantine_claimed_def by (intro keeps_intro)

end

text \<open>
  \<open>storage_invariant\<close>: \<open>I\<close> also survives writing the state file and reloading it, and no reset breaks
  it.  Then the monitoring calls keep it.
\<close>

locale storage_invariant = op_invariant +
  assumes any_reset: "R action name path"
    and inv_store: "I s \<Longrightarrow> I (store_state s)"
    and inv_reload: "I s \<Longrightarrow> I (s\<lparr>sy_state := snd (load (sy_disk s) (sy_state s))\<rparr>)"
begin

lemma k_persist [keeps_intro]: "keeps I (persist ev)"
  unfolding persist_def by (intro k_attempt inv_store)

lemma k_load: "keeps I (do { (err, st) \<leftarrow> gets (\<lambda>s. load (sy_disk s) (sy_state s)); modify (\<lambda>s. s\<lparr>sy_state := st\<rparr>); ret err })"
  by (rule keepsI) (auto split: prod.splits dest: inv_reload)

lemma k_reload [keeps_intro]: "keeps I (reload ev)"
  unfolding reload_def by (intro keeps_intro k_load)

lemma k_lockAndReload [keeps_intro]: "keeps I (lockAndReload ev)"
  unfolding lockAndReload_def by (intro keeps_intro)

lemma k_observe [keeps_intro]: "keeps I (observeLocked ev cfg sn b)"
  unfolding observeLocked_def by (intro keeps_intro k_observe_with any_reset)

lemma k_sanitize [keeps_intro]: "keeps I (sanitizeLocked ev a n p c)"
  by (rule k_sanitizeLocked [OF any_reset])

lemma k_fence_known [keeps_intro]: "keeps I (fence_known ev r n)"
  unfolding fence_known_def by (intro keeps_intro)

lemma k_inventoryFailedLocked [keeps_intro]: "keeps I (inventoryFailedLocked ev cfg e)"
  unfolding inventoryFailedLocked_def by (intro keeps_intro)

lemma k_InventoryFailed [keeps_intro]: "keeps I (InventoryFailed ev cfg e)"
  unfolding InventoryFailed_def by (intro keeps_intro)

lemma k_monitor_locked [keeps_intro]: "keeps I (monitor_locked ev cfg sn)"
  unfolding monitor_locked_def by (intro keeps_intro)

lemma k_Monitor [keeps_intro]: "keeps I (Monitor ev cfg sn)"
  unfolding Monitor_def by (intro keeps_intro)

lemma k_DeviceHealthSnapshot [keeps_intro]: "keeps I (DeviceHealthSnapshot ev cfg)"
  unfolding DeviceHealthSnapshot_def deviceHealthSnapshotLocked_def by (intro keeps_intro)

lemma k_SnapshotStats [keeps_intro]: "keeps I (SnapshotStats ev)"
  unfolding SnapshotStats_def by (intro keeps_intro)

lemma k_refresh [keeps_intro]: "keeps I (refresh ev cfg)"
  unfolding refresh_def by (intro keeps_intro)

lemma k_release_device [keeps_intro]: "keeps I (release_device ev byName c d)"
  unfolding release_device_def release_unavailable_def by (intro keeps_intro)

lemma k_sanitize_claimed [keeps_intro]: "keeps I (sanitize_claimed ev c d)"
  unfolding sanitize_claimed_def by (intro keeps_intro)

lemma k_fence_visible [keeps_intro]: "keeps I (fence_visible ev t d)"
  unfolding fence_visible_def by (intro keeps_intro)

lemma k_reconcile_devices [keeps_intro]: "keeps I (reconcile_devices ev cfg byName c pre ds)"
proof (induction ds arbitrary: c pre)
  case (Cons d ds)
  show ?case unfolding reconcile_devices.simps by (intro keeps_intro Cons.IH)
qed (auto intro: keeps_intro)

end

end
