(* ===== verification/Ownership.thy ===== *)
theory Ownership
  imports Lifecycle_Logic
begin

text \<open>
  Exclusive ownership: no device belongs to two claims, in the agent's memory and in the state file
  taken together.  The invariant holds over every sequence of calls of one agent and restarts,
  whatever errors the environment produces, as long as a prepare batch does not ask for one
  device under two claims and the API server has not allocated a device twice.
\<close>

section \<open>Owned devices\<close>

definition pairs :: "(string, PreparedClaim) gomap \<Rightarrow> (string \<times> string) set" where
  "pairs m = {(cl_Device d, uid) | d uid c. gm_get m uid = Some c \<and> d \<in> set (pc_Devices c)}"

definition disk_claims :: "disk_file \<Rightarrow> (string, PreparedClaim) gomap" where
  "disk_claims disk = (case disk of NoFile \<Rightarrow> [] | CorruptFile _ f \<Rightarrow> unmarshal_map [] (ss_Claims f)
     | StateFile f \<Rightarrow> unmarshal_map [] (ss_Claims f))"

definition owned :: "sys \<Rightarrow> (string \<times> string) set" where
  "owned s = pairs (st_claims s) \<union> pairs (disk_claims (sy_disk s))"

text \<open>
  The invariant, with a set of pairs \<open>E\<close> that may still be added and a bound \<open>B\<close> on the pairs.
\<close>

definition own_inv :: "(string \<times> string) set \<Rightarrow> (string \<times> string) set \<Rightarrow> sys \<Rightarrow> bool" where
  "own_inv E B s \<longleftrightarrow> gm_wf (st_claims s) \<and> gm_wf (disk_claims (sy_disk s)) \<and>
     single_valued (owned s \<union> E) \<and> owned s \<subseteq> B"

abbreviation exclusive :: "sys \<Rightarrow> bool" where
  "exclusive \<equiv> own_inv {} UNIV"

abbreviation claim_pairs :: "string \<Rightarrow> PreparedClaim \<Rightarrow> (string \<times> string) set" where
  "claim_pairs uid c \<equiv> (\<lambda>d. (cl_Device d, uid)) ` set (pc_Devices c)"

lemma pairs_put: "pairs (gm_put uid c m) \<subseteq> pairs m \<union> claim_pairs uid c"
  by (auto simp: pairs_def split: if_splits)

lemma pairs_del: "pairs (gm_del uid m) \<subseteq> pairs m"
  by (auto simp: pairs_def split: if_splits)

lemma pairs_get: "gm_get m uid = Some c \<Longrightarrow> claim_pairs uid c \<subseteq> pairs m"
  by (auto simp: pairs_def)

lemma single_valued_mono: "single_valued B \<Longrightarrow> A \<subseteq> B \<Longrightarrow> single_valued A"
  by (rule single_valued_subset)

section \<open>Reloading\<close>

lemma gm_get_fold_put:
  assumes "gm_wf m"
  shows "gm_get (fold (\<lambda>(k, v). gm_put k v) m mem) k = (case gm_get m k of None \<Rightarrow> gm_get mem k | Some v \<Rightarrow> Some v)"
  using assms
proof (induction m arbitrary: mem)
  case (Cons p m)
  obtain a b where p: "p = (a, b)" by fastforce
  with Cons.prems have "gm_get m a = None" "gm_wf m" by (simp_all add: gm_wf_Cons)
  with Cons.IH p show ?case by (auto simp: gm_get_Cons split: option.split)
qed simp

lemma gm_wf_fold_put: "gm_wf mem \<Longrightarrow> gm_wf (fold (\<lambda>(k, v). gm_put k v) m mem)"
  by (induction m arbitrary: mem) auto

lemma mark_prepared_get:
  "gm_get (mark_prepared m) uid = map_option (\<lambda>c. c\<lparr>pc_Phase := ClaimPrepared\<rparr>) (gm_get m uid)"
  by (induction m) (auto simp: mark_prepared_def gm_get_def)

lemma mark_prepared_wf: "gm_wf (mark_prepared m) = gm_wf m"
  by (simp add: mark_prepared_def gm_wf_def comp_def case_prod_beta)

lemma mark_prepared_pairs: "pairs (mark_prepared m) = pairs m"
  by (force simp: pairs_def mark_prepared_get)

lemma fold_put_get:
  "gm_get (fold (\<lambda>(k, v). gm_put k v) m acc) k =
     (case gm_get (fold (\<lambda>(k, v). gm_put k v) m []) k of None \<Rightarrow> gm_get acc k | Some v \<Rightarrow> Some v)"
proof (induction m rule: rev_induct)
  case (snoc p m)
  then show ?case by (cases p) auto
qed simp

lemma unmarshal_file: "gm_get (unmarshal_map [] f) k = Some v \<Longrightarrow> gm_get (unmarshal_map mem f) k = Some v"
  by (cases f) (simp_all add: unmarshal_map_def fold_put_get [of _ mem])

lemma unmarshal_origin:
  "gm_get (unmarshal_map mem f) k = Some v \<Longrightarrow> gm_get mem k = Some v \<or> gm_get (unmarshal_map [] f) k = Some v"
  by (cases f) (auto simp: unmarshal_map_def fold_put_get [of _ mem] split: option.splits)

lemma unmarshal_wf: "gm_wf mem \<Longrightarrow> gm_wf (unmarshal_map mem f)"
  by (cases f) (simp_all add: unmarshal_map_def gm_wf_fold_put)

lemma unmarshal_pairs: "pairs (unmarshal_map mem f) \<subseteq> pairs mem \<union> pairs (unmarshal_map [] f)"
  unfolding pairs_def using unmarshal_origin [of mem f] by blast

lemma unmarshal_covers: "pairs (unmarshal_map [] f) \<subseteq> pairs (unmarshal_map mem f)"
  unfolding pairs_def using unmarshal_file [of f _ _ mem] by blast

text \<open>What a reload makes of the claims: those of the file, and those in memory the file does not replace.\<close>

lemma load_claims_cases:
  "ps_Claims (snd (load disk st)) \<in> (case disk of
     NoFile \<Rightarrow> {ps_Claims st}
   | CorruptFile e f \<Rightarrow> {unmarshal_map (ps_Claims st) (ss_Claims f)}
   | StateFile f \<Rightarrow> {unmarshal_map (ps_Claims st) (ss_Claims f), mark_prepared (unmarshal_map (ps_Claims st) (ss_Claims f))})"
  by (simp add: load_def unmarshal_state_def migrate_state_def Let_def split: disk_file.split)

lemma load_claims:
  assumes "gm_wf (ps_Claims st)"
  shows "gm_wf (ps_Claims (snd (load disk st)))"
    and "pairs (ps_Claims (snd (load disk st))) \<subseteq> pairs (ps_Claims st) \<union> pairs (disk_claims disk)"
  using load_claims_cases [of disk st] assms
  by (auto simp: disk_claims_def mark_prepared_wf mark_prepared_pairs unmarshal_wf split: disk_file.splits
      dest: unmarshal_pairs [THEN subsetD])

lemma load_covers: "pairs (disk_claims disk) \<subseteq> pairs (ps_Claims (snd (load disk st)))"
  using load_claims_cases [of disk st]
  by (auto simp: disk_claims_def mark_prepared_pairs pairs_def [of "[]"] split: disk_file.splits
      intro: unmarshal_covers [THEN subsetD])

section \<open>The invariant under the primitive effects\<close>

interpretation own: storage_invariant "own_inv E B" "\<lambda>_ _ _. True" for E B
proof
  fix s
  assume I: "own_inv E B s"
  show "own_inv E B (store_state s)"
  proof -
    have "gm_wf (disk_claims (StateFile (to_stored (sy_state s))))"
      by (simp add: disk_claims_def to_stored_def unmarshal_wf)
    moreover have "pairs (disk_claims (StateFile (to_stored (sy_state s)))) = pairs (st_claims s)"
    proof -
      have "gm_get (fold (\<lambda>(k, v). gm_put k v) (st_claims s) []) = gm_get (st_claims s)"
        using I by (intro ext) (simp add: own_inv_def gm_get_fold_put split: option.split)
      then show ?thesis by (simp add: disk_claims_def to_stored_def unmarshal_map_def pairs_def)
    qed
    ultimately show ?thesis
      using I unfolding own_inv_def owned_def store_state_def by (auto elim: single_valued_mono)
  qed
  show "own_inv E B (s\<lparr>sy_state := snd (load (sy_disk s) (sy_state s))\<rparr>)"
    using load_claims [of "sy_state s" "sy_disk s"] I unfolding own_inv_def owned_def by (auto elim!: single_valued_mono)
qed (simp_all add: own_inv_def owned_def append_audit_def)

lemma own_shrink:
  assumes "own_inv E B s" and "gm_wf (st_claims s')" and "sy_disk s' = sy_disk s"
    and "pairs (st_claims s') \<subseteq> pairs (st_claims s) \<union> (E \<inter> B)"
  shows "own_inv E B s'"
proof -
  have "owned s' \<union> E \<subseteq> owned s \<union> E" "owned s' \<subseteq> owned s \<union> B" using assms(3,4) by (auto simp: owned_def)
  with assms(1-3) show ?thesis unfolding own_inv_def by (metis Un_absorb1 single_valued_mono)
qed

lemma own_put_claim: "claim_pairs uid c \<subseteq> E \<inter> B \<Longrightarrow> keeps (own_inv E B) (put_claim uid c)"
  unfolding put_claim_def modify_state_def
proof (rule keeps_modify)
  fix s
  assume E: "claim_pairs uid c \<subseteq> E \<inter> B" and I: "own_inv E B s"
  have "pairs (gm_put uid c (st_claims s)) \<subseteq> pairs (st_claims s) \<union> (E \<inter> B)"
    using pairs_put [of uid c "st_claims s"] E by (rule order_trans [OF _ Un_mono, OF _ order_refl])
  with I show "own_inv E B (s\<lparr>sy_state := (sy_state s)\<lparr>ps_Claims := gm_put uid c (st_claims s)\<rparr>\<rparr>)"
    by (intro own_shrink [OF I]) (auto simp: own_inv_def)
qed

lemma own_del_claim [keeps_intro]: "keeps (own_inv E B) (del_claim uid)"
  unfolding del_claim_def modify_state_def
proof (rule keeps_modify)
  fix s
  assume I: "own_inv E B s"
  have "pairs (gm_del uid (st_claims s)) \<subseteq> pairs (st_claims s) \<union> (E \<inter> B)"
    using pairs_del [of uid "st_claims s"] by (rule le_supI1)
  with I show "own_inv E B (s\<lparr>sy_state := (sy_state s)\<lparr>ps_Claims := gm_del uid (st_claims s)\<rparr>\<rparr>)"
    by (intro own_shrink [OF I]) (auto simp: own_inv_def)
qed

lemma own_attempt_cdi [keeps_intro]:
  "keeps (own_inv E B) (writeCDI ev c)" "keeps (own_inv E B) (removeCDI ev f)" "keeps (own_inv E B) (attempt ev (drop_cdi f))"
  unfolding writeCDI_def removeCDI_def
  by (intro keeps_intro own.k_attempt; simp add: own_inv_def owned_def store_cdi_def drop_cdi_def)+

lemma own_weaken: "own_inv E B s \<Longrightarrow> own_inv {} B s"
  by (auto simp: own_inv_def elim: single_valued_mono)

lemma own_extend: "own_inv {} B s \<Longrightarrow> gm_get (st_claims s) uid = Some c \<Longrightarrow> own_inv (claim_pairs uid c) B s"
  using pairs_get [of "st_claims s" uid c] by (auto simp: own_inv_def owned_def elim!: single_valued_mono)

section \<open>Unpreparing\<close>

lemmas own_intro = keeps_intro own.k_auditLocked own.k_persist own.k_release_device own.k_quarantine_claimed
  own.k_refresh own.k_deviceOwners

lemma own_finish_release:
  "claim_pairs uid c \<subseteq> E \<inter> B \<Longrightarrow> keeps (own_inv E B) (finish_release ev byName uid c)"
  unfolding finish_release_def by (intro own_intro own_put_claim)

lemma own_release_claim:
  "claim_pairs uid c \<subseteq> E \<inter> B \<Longrightarrow> keeps (own_inv E B) (release_claim ev byName uid c)"
  unfolding release_claim_def by (intro own_intro own_put_claim own_finish_release) simp_all

lemma own_unprepareOne: "keeps exclusive (unprepareOne ev byName uid)"
proof (rule keepsI)
  fix s x s'
  assume I: "exclusive s" and r: "run_state (unprepareOne ev byName uid) s = (x, s')"
  show "exclusive s'"
  proof (cases "gm_get (st_claims s) uid")
    case None
    with I r show ?thesis by (simp add: unprepareOne_def)
  next
    case (Some c)
    then have "run_state (release_claim ev byName uid c) s = (x, s')" using r by (simp add: unprepareOne_def)
    with own_release_claim [of uid c "claim_pairs uid c" UNIV] own_extend [OF I Some] have "own_inv (claim_pairs uid c) UNIV s'"
      by (meson keepsD order_refl Int_greatest subset_UNIV)
    then show ?thesis by (rule own_weaken)
  qed
qed

lemma own_unprepare_each: "keeps exclusive (unprepare_each ev byName uids result)"
proof (induction uids arbitrary: result)
  case Nil
  show ?case by (simp add: keeps_ret)
next
  case (Cons uid uids)
  show ?case unfolding unprepare_each.simps by (rule keeps_bind [OF own_unprepareOne Cons.IH])
qed

lemma own_Unprepare: "keeps exclusive (UnprepareResourceClaims ev cfg uids)"
  unfolding UnprepareResourceClaims_def by (intro own_intro own_unprepare_each)

section \<open>Preparing\<close>

text \<open>The devices of this driver a claim asks for; a batch that asks for no device under two claims.\<close>

definition wants :: "Config \<Rightarrow> ResourceClaim \<Rightarrow> string set" where
  "wants cfg c = (case rc_Allocation c of
     None \<Rightarrow> {} | Some a \<Rightarrow> al_Device ` {r \<in> set (an_Results a). al_Driver r = cf_Driver cfg})"

definition batch_disjoint :: "Config \<Rightarrow> ResourceClaim option list \<Rightarrow> bool" where
  "batch_disjoint cfg cs \<longleftrightarrow> (\<forall>c c'. Some c \<in> set cs \<longrightarrow> Some c' \<in> set cs \<longrightarrow> rc_UID c \<noteq> rc_UID c' \<longrightarrow>
     wants cfg c \<inter> wants cfg c' = {})"

text \<open>What may be owned during a batch: what the owners map records and what the batch asks for.\<close>

definition batch_bound :: "Config \<Rightarrow> ResourceClaim option list \<Rightarrow> owners \<Rightarrow> (string \<times> string) set" where
  "batch_bound cfg cs os =
     {(d, u). gm_get os d = Some u \<or> (\<exists>c. Some c \<in> set cs \<and> rc_UID c = u \<and> d \<in> wants cfg c)}"

lemma allocation_device_free:
  "allocation_device cfg uid byName os seen a = Inr d \<Longrightarrow>
     cl_Device d = al_Device a \<and> (\<forall>u. gm_get os (al_Device a) = Some u \<longrightarrow> u = uid)"
  by (auto simp: allocation_device_def claim_device_def split: if_splits option.splits)

lemma allocation_devices_free:
  "allocation_devices cfg uid byName os seen as = Inr ds \<Longrightarrow> d \<in> set ds \<Longrightarrow>
     cl_Device d \<in> al_Device ` {r \<in> set as. al_Driver r = cf_Driver cfg} \<and>
     (\<forall>u. gm_get os (cl_Device d) = Some u \<longrightarrow> u = uid)"
proof (induction as arbitrary: seen ds)
  case (Cons a as)
  show ?case
  proof (cases "al_Driver a = cf_Driver cfg")
    case True
    with Cons.prems(1) obtain x xs where x: "allocation_device cfg uid byName os seen a = Inr x"
        "allocation_devices cfg uid byName os (seen @ [al_Device a]) as = Inr xs" "ds = x # xs"
      by (auto split: sum.splits)
    note free = allocation_device_free [OF x(1)] Cons.IH [OF x(2)]
    from Cons.prems(2) x(3) consider "d = x" | "d \<in> set xs" by auto
    then show ?thesis
    proof cases
      case 1
      then show ?thesis using free(1) True by auto
    next
      case 2
      then show ?thesis using free(2) by auto
    qed
  next
    case False
    with Cons.prems have "allocation_devices cfg uid byName os seen as = Inr ds" by simp
    from Cons.IH [OF this Cons.prems(2)] show ?thesis by auto
  qed
qed simp

lemma claimFromAllocation_free:
  assumes "claimFromAllocation cfg c a byName os = Inr p" and "rc_Allocation c = Some a"
  shows "pc_UID p = rc_UID c" and "d \<in> set (pc_Devices p) \<Longrightarrow>
     cl_Device d \<in> wants cfg c \<and> (\<forall>u. gm_get os (cl_Device d) = Some u \<longrightarrow> u = rc_UID c)"
  using assms allocation_devices_free [of cfg "rc_UID c" byName os "[]" "an_Results a"]
  by (auto simp: claimFromAllocation_def wants_def split: option.splits sum.splits if_splits)

text \<open>A claim that passes the checks may be added: no other claim owns its devices.\<close>

lemma own_admit:
  assumes I: "own_inv {} (batch_bound cfg cs os) s" and "batch_disjoint cfg cs" and "Some c \<in> set cs"
    and free: "\<And>d. d \<in> set (pc_Devices p) \<Longrightarrow>
      cl_Device d \<in> wants cfg c \<and> (\<forall>u. gm_get os (cl_Device d) = Some u \<longrightarrow> u = rc_UID c)"
  shows "own_inv (claim_pairs (rc_UID c) p) (batch_bound cfg cs os) s"
    and "claim_pairs (rc_UID c) p \<subseteq> batch_bound cfg cs os"
proof -
  have same: "u = rc_UID c" if d: "d \<in> set (pc_Devices p)" "(cl_Device d, u) \<in> owned s" for d u
  proof -
    have "(cl_Device d, u) \<in> batch_bound cfg cs os" using I d(2) by (auto simp: own_inv_def)
    then consider "gm_get os (cl_Device d) = Some u"
      | c' where "Some c' \<in> set cs" "rc_UID c' = u" "cl_Device d \<in> wants cfg c'" by (auto simp: batch_bound_def)
    then show ?thesis
    proof cases
      case 1
      then show ?thesis using free [OF d(1)] by blast
    next
      case 2
      then show ?thesis using free [OF d(1)] assms(2,3) unfolding batch_disjoint_def by blast
    qed
  qed
  have "single_valued (owned s)" using I by (simp add: own_inv_def)
  then have "single_valued (owned s \<union> claim_pairs (rc_UID c) p)"
    using same unfolding single_valued_def by blast
  then show "own_inv (claim_pairs (rc_UID c) p) (batch_bound cfg cs os) s" using I by (simp add: own_inv_def)
  show "claim_pairs (rc_UID c) p \<subseteq> batch_bound cfg cs os"
    using free assms(3) by (auto simp: batch_bound_def)
qed

text \<open>The owners map after the claim was prepared bounds the same pairs.\<close>

lemma gm_get_fold_uid:
  "gm_get (fold (\<lambda>item. gm_put (cl_Device item) uid) ds os) d =
     (if d \<in> cl_Device ` set ds then Some uid else gm_get os d)"
  by (induction ds arbitrary: os) auto

lemma own_advance:
  assumes "own_inv (claim_pairs uid p) (batch_bound cfg cs os) s"
    and "os' = os \<or> os' = fold (\<lambda>item. gm_put (cl_Device item) uid) (pc_Devices p) os"
  shows "own_inv {} (batch_bound cfg cs os') s"
proof -
  have "(d, u) \<in> batch_bound cfg cs os'" if du: "(d, u) \<in> owned s" for d u
  proof (cases "os' \<noteq> os \<and> d \<in> cl_Device ` set (pc_Devices p)")
    case True
    then have "(d, uid) \<in> claim_pairs uid p" by auto
    then have "u = uid" using assms(1) du unfolding own_inv_def single_valued_def by blast
    then show ?thesis using True assms(2) by (auto simp: batch_bound_def gm_get_fold_uid)
  next
    case False
    have "(d, u) \<in> batch_bound cfg cs os" using assms(1) du by (auto simp: own_inv_def)
    then show ?thesis using False assms(2) by (auto simp: batch_bound_def gm_get_fold_uid)
  qed
  moreover have "single_valued (owned s)"
    using assms(1) unfolding own_inv_def by (auto elim: single_valued_mono)
  ultimately show ?thesis using assms(1) unfolding own_inv_def by auto
qed

lemmas prep_intro = own_intro own.k_sanitize_claimed own.k_verify_inventory

lemma own_commit_prepare:
  "claim_pairs uid p \<subseteq> E \<inter> B \<Longrightarrow> keeps (own_inv E B) (commit_prepare ev uid p os)"
  unfolding commit_prepare_def approve_prepare_def by (intro prep_intro own_put_claim) simp_all

lemma own_finish_prepare:
  "claim_pairs uid p \<subseteq> E \<inter> B \<Longrightarrow> keeps (own_inv E B) (finish_prepare ev cfg uid p os)"
  unfolding finish_prepare_def by (intro prep_intro own_commit_prepare)

definition next_owners :: "string \<Rightarrow> PreparedClaim \<Rightarrow> owners \<Rightarrow> owners \<Rightarrow> bool" where
  "next_owners uid p os os' \<longleftrightarrow> os' = os \<or> os' = fold (\<lambda>item. gm_put (cl_Device item) uid) (pc_Devices p) os"

lemma finish_prepare_owners: "returns (\<lambda>(r, os'). next_owners uid p os os') (finish_prepare ev cfg uid p os)"
  unfolding finish_prepare_def commit_prepare_def approve_prepare_def
  by (intro returns_intro) (simp_all add: next_owners_def)

lemma own_prepare_new:
  "claim_pairs uid p \<subseteq> E \<inter> B \<Longrightarrow> keeps (own_inv E B) (prepare_new ev cfg uid p os)"
  unfolding prepare_new_def by (intro prep_intro own_put_claim own_finish_prepare)

lemma own_prepare_existing:
  "claim_pairs uid p \<subseteq> E \<inter> B \<Longrightarrow> keeps (own_inv E B) (prepare_existing ev cfg uid c p os)"
  unfolding prepare_existing_def repair_prepared_def
  by (intro prep_intro own_finish_prepare) (simp add: sameClaim_def)

lemma own_prepare_admitted:
  "claim_pairs uid p \<subseteq> E \<inter> B \<Longrightarrow> keeps (own_inv E B) (prepare_admitted ev cfg uid p os)"
  unfolding prepare_admitted_def by (intro keeps_intro own_prepare_existing own_prepare_new) simp_all

lemma prepare_admitted_owners: "returns (\<lambda>(r, os'). next_owners uid p os os') (prepare_admitted ev cfg uid p os)"
proof -
  have "returns (\<lambda>(r, os'). next_owners uid p os os') (finish_prepare ev cfg uid c os)"
    if "pc_Devices c = pc_Devices p" for c
    using finish_prepare_owners [of uid c os ev cfg] that by (simp add: next_owners_def)
  then show ?thesis
    unfolding prepare_admitted_def prepare_existing_def repair_prepared_def prepare_new_def
    by (intro returns_intro; simp add: next_owners_def sameClaim_def)
qed

lemma own_prepareOne:
  assumes "batch_disjoint cfg cs" and "claim \<in> set cs"
    and "own_inv {} (batch_bound cfg cs os) s"
    and "run_state (prepareOne ev cfg claim byName os) s = ((r, os'), s')"
  shows "own_inv {} (batch_bound cfg cs os') s'"
proof (cases "\<exists>c a p. claim = Some c \<and> rc_Allocation c = Some a \<and> claimFromAllocation cfg c a byName os = Inr p")
  case False
  then have "s' = s \<and> os' = os"
    using assms(4) by (auto simp: prepareOne_def split: option.splits sum.splits)
  then show ?thesis using assms(3) by simp
next
  case True
  then obtain c a p where c: "claim = Some c" "rc_Allocation c = Some a" "claimFromAllocation cfg c a byName os = Inr p"
    by blast
  let ?E = "claim_pairs (rc_UID c) p" and ?B = "batch_bound cfg cs os"
  have run: "run_state (prepare_admitted ev cfg (rc_UID c) p os) s = ((r, os'), s')"
    using assms(4) c by (simp add: prepareOne_def)
  have cs: "Some c \<in> set cs" using assms(2) c(1) by simp
  note admit = own_admit [OF assms(3,1) cs claimFromAllocation_free(2) [OF c(3,2)]]
  have "own_inv ?E ?B s'"
    by (rule keepsD [OF own_prepare_admitted admit(1) run]) (use admit(2) in auto)
  moreover have "next_owners (rc_UID c) p os os'"
    using returnsD [OF prepare_admitted_owners run] by simp
  ultimately show ?thesis unfolding next_owners_def by (rule own_advance)
qed

lemma own_prepare_each:
  assumes "batch_disjoint cfg cs" and "set cs' \<subseteq> set cs" and "own_inv {} (batch_bound cfg cs os) s"
    and "run_state (prepare_each ev cfg byName cs' os result) s = (x, s')"
  shows "exclusive s'"
  using assms(2-4)
proof (induction cs' arbitrary: os result s)
  case Nil
  then show ?case by (simp add: own_inv_def)
next
  case (Cons c cs')
  obtain r os1 s1 where one: "run_state (prepareOne ev cfg c byName os) s = ((r, os1), s1)"
    by (metis prod.collapse)
  have "own_inv {} (batch_bound cfg cs os1) s1"
    using own_prepareOne [OF assms(1) _ Cons.prems(2) one] Cons.prems(1) by simp
  moreover have "run_state (prepare_each ev cfg byName cs' os1 (gm_put (claim_uid c) (prepare_result r) result)) s1 = (x, s')"
    using Cons.prems(3) one by simp
  ultimately show ?case using Cons.IH Cons.prems(1) by auto
qed

text \<open>The owners map of an exclusive state names the owner of every device.\<close>

lemma owners_of_complete:
  assumes "single_valued (pairs m)" and "(d, u) \<in> pairs m" and "set (gm_keys m) \<subseteq> set uids"
  shows "gm_get (owners_of uids m) d = Some u"
proof -
  define f where "f = (\<lambda>uid acc. case gm_get m uid of None \<Rightarrow> acc
      | Some c \<Rightarrow> fold (\<lambda>item. gm_put (cl_Device item) uid) (pc_Devices c) acc)"
  have step: "gm_get (f uid acc) d = (if (d, uid) \<in> pairs m then Some uid else gm_get acc d)" for uid acc
    by (cases "gm_get m uid") (auto simp: f_def gm_get_fold_uid pairs_def)
  have same: "uid = u" if "(d, uid) \<in> pairs m" for uid
    using that assms(1,2) by (auto dest: single_valuedD)
  have "gm_get (fold f uids acc) d = (if u \<in> set uids then Some u else gm_get acc d)" for acc
  proof (induction uids arbitrary: acc)
    case (Cons uid uids)
    have "(d, uid) \<in> pairs m \<longleftrightarrow> uid = u" using same assms(2) by blast
    then show ?case using step [of uid acc] Cons.IH [of "f uid acc"] by auto
  qed simp
  moreover have "u \<in> set (gm_keys m)" using assms(2) gm.keys_get [of u m] by (auto simp: pairs_def)
  ultimately show ?thesis using assms(3) unfolding owners_of_def f_def [symmetric] by auto
qed

text \<open>After a reload the memory knows every claim of the file.\<close>

definition covered :: "sys \<Rightarrow> bool" where
  "covered s \<longleftrightarrow> exclusive s \<and> pairs (disk_claims (sy_disk s)) \<subseteq> pairs (st_claims s)"

interpretation cov: op_invariant covered "\<lambda>_ _ _. True"
  by unfold_locales (simp_all add: covered_def own_inv_def owned_def append_audit_def)

lemma reload_covers: "hoare exclusive (reload ev) (\<lambda>e s. exclusive s \<and> (e = None \<longrightarrow> covered s))"
proof (rule hoareI)
  fix s e s'
  assume I: "exclusive s" and r: "run_state (reload ev) s = (e, s')"
  have ex: "exclusive s'" using own.k_reload I r by (rule keepsD)
  have "e \<noteq> None \<or> (\<exists>n. s' = s\<lparr>sy_step := n, sy_state := snd (load (sy_disk s) (sy_state s))\<rparr>)"
    using r by (auto simp: reload_def io_result_def next_step_def split: io.splits prod.splits)
  then show "exclusive s' \<and> (e = None \<longrightarrow> covered s')"
    using ex load_covers [of "sy_disk s" "sy_state s"] by (auto simp: covered_def)
qed

lemma lock_covers: "hoare exclusive (lockAndReload ev) (\<lambda>e s. exclusive s \<and> (e = None \<longrightarrow> covered s))"
  unfolding lockAndReload_def
proof (rule hoare_bind)
  show "hoare exclusive (io_result ev) (\<lambda>_. exclusive)" using own.k_io_result by (simp add: keeps_def)
next
  fix r
  show "hoare exclusive (case r of IoOk \<Rightarrow> reload ev | IoFail e \<Rightarrow> ret (Some (''lock lifecycle state: '' @ e))
      | IoApplied e \<Rightarrow> ret (Some (''lock lifecycle state: '' @ e))) (\<lambda>e s. exclusive s \<and> (e = None \<longrightarrow> covered s))"
    by (cases r) (simp_all add: reload_covers hoare_ret)
qed

lemma refresh_covers:
  assumes "exclusive s" and "run_state (refresh ev cfg) s = (Inr sn, s')"
  shows "covered s'"
proof -
  obtain e s1 where lock: "run_state (lockAndReload ev) s = (e, s1)" by fastforce
  then have e: "e = None" using assms(2) by (cases e) (simp_all add: refresh_def)
  then have "covered s1" using hoareD [OF lock_covers assms(1) lock] by simp
  moreover have "run_state (refresh_inventory ev cfg) s1 = (Inr sn, s')"
    using assms(2) lock e by (simp add: refresh_def)
  ultimately show ?thesis by (rule keepsD [OF cov.k_refresh_inventory])
qed

lemma deviceOwners_bound:
  assumes "env_ok ev" and "covered s" and "run_state (deviceOwners ev) s = (os, s')"
  shows "own_inv {} (batch_bound cfg cs os) s'"
proof -
  have "covered s'" using cov.k_deviceOwners assms(2,3) by (rule keepsD)
  then have s': "exclusive s'" "owned s' = pairs (st_claims s')" by (auto simp: covered_def owned_def)
  obtain n where os: "os = owners_of (ev_order ev n (gm_keys (st_claims s'))) (st_claims s')"
    using assms(3) by (auto simp: deviceOwners_def range_keys_def next_step_def)
  have "gm_get os d = Some u" if "(d, u) \<in> owned s'" for d u
    unfolding os
  proof (rule owners_of_complete)
    show "single_valued (pairs (st_claims s'))" using s' by (simp add: own_inv_def)
    show "(d, u) \<in> pairs (st_claims s')" using that s'(2) by simp
    show "set (gm_keys (st_claims s')) \<subseteq> set (ev_order ev n (gm_keys (st_claims s')))"
      using assms(1) by (simp add: env_ok_def)
  qed
  then show ?thesis using s'(1) by (auto simp: own_inv_def batch_bound_def)
qed

lemma own_Prepare:
  assumes "env_ok ev" and "batch_disjoint cfg cs"
  shows "keeps exclusive (PrepareResourceClaims ev cfg cs)"
proof (rule keepsI)
  fix s x s'
  assume I: "exclusive s" and run: "run_state (PrepareResourceClaims ev cfg cs) s = (x, s')"
  obtain r s1 where r: "run_state (refresh ev cfg) s = (r, s1)" by fastforce
  show "exclusive s'"
  proof (cases r)
    case (Inl e)
    then show ?thesis using keepsD [OF own.k_refresh I r] run r by (simp add: PrepareResourceClaims_def)
  next
    case (Inr sn)
    obtain os s2 where os: "run_state (deviceOwners ev) s1 = (os, s2)" by fastforce
    obtain y s3 where each: "run_state (prepare_each ev cfg (index_by DRAName (sn_Devices sn)) cs os []) s2 = (y, s3)"
      by fastforce
    have "covered s1" using refresh_covers I r Inr by blast
    from own_prepare_each [OF assms(2) order_refl deviceOwners_bound [OF assms(1) this os] each]
    have "exclusive s3" .
    obtain z s4 where p: "run_state (persist ev) s3 = (z, s4)" by fastforce
    have "exclusive s4" by (rule keepsD [OF own.k_persist \<open>exclusive s3\<close> p])
    then show ?thesis using run r Inr os each p by (cases z) (simp_all add: PrepareResourceClaims_def)
  qed
qed

section \<open>Starting\<close>

text \<open>The local allocations of the API server.\<close>

definition alloc_pairs :: "Config \<Rightarrow> allocations \<Rightarrow> (string \<times> string) set" where
  "alloc_pairs cfg allocs = {(al_Device r, rc_UID c) | r c a claims. allocs = Some (Inr claims) \<and> Some c \<in> set claims \<and>
     rc_Allocation c = Some a \<and> r \<in> set (an_Results a) \<and> al_Driver r = cf_Driver cfg \<and> al_Pool r = cf_NodeName cfg}"

lemma local_device_name [simp]: "cl_Device (local_device byName uid a) = al_Device a"
  by (simp add: local_device_def Let_def split: option.split)

lemma local_claim_pairs:
  "local_claim cfg byName claim = Some c \<Longrightarrow> claim \<in> set claims \<Longrightarrow>
     claim_pairs (pc_UID c) c \<subseteq> alloc_pairs cfg (Some (Inr claims))"
  by (auto simp: local_claim_def alloc_pairs_def Let_def split: option.splits if_splits) blast

lemma localAllocations_pairs:
  assumes "localAllocations cfg allocs byName = Inr m"
  shows "pairs m \<subseteq> alloc_pairs cfg allocs"
proof (cases allocs)
  case None
  with assms show ?thesis by (auto simp: localAllocations_def pairs_def)
next
  case (Some r)
  with assms obtain claims where r: "r = Inr claims" by (cases r) (auto simp: localAllocations_def)
  have "pairs (fold (\<lambda>claim m. case local_claim cfg byName claim of None \<Rightarrow> m | Some c \<Rightarrow> gm_put (pc_UID c) c m) cs acc)
      \<subseteq> alloc_pairs cfg (Some (Inr claims))"
    if "set cs \<subseteq> set claims" "pairs acc \<subseteq> alloc_pairs cfg (Some (Inr claims))" for cs acc
    using that
  proof (induction cs arbitrary: acc)
    case (Cons x cs)
    show ?case
    proof (cases "local_claim cfg byName x")
      case None
      with Cons show ?thesis by simp
    next
      case (Some c)
      have "pairs (gm_put (pc_UID c) c acc) \<subseteq> alloc_pairs cfg (Some (Inr claims))"
        using local_claim_pairs [OF Some, of claims] Cons.prems
        by (intro order_trans [OF pairs_put] Un_least) auto
      with Cons Some show ?thesis by simp
    qed
  qed simp
  from this [of claims "[]"] show ?thesis
    using assms Some r by (simp add: localAllocations_def pairs_def)
qed

text \<open>Reconciliation keeps the devices of a claim.\<close>

lemma adopt_identity_name [simp]: "cl_Device (adopt_identity byName d) = cl_Device d"
  by (simp add: adopt_identity_def split: option.split)

lemma live_claim_names: "map cl_Device (pc_Devices (live_claim h live c)) = map cl_Device (pc_Devices c)"
  by (simp add: live_claim_def restore_requests_def Let_def split: option.split)

lemma reconcile_devices_names:
  "returns (\<lambda>(c', e). map cl_Device (pc_Devices c') = map cl_Device (pre @ ds)) (reconcile_devices ev cfg byName c pre ds)"
proof (induction ds arbitrary: c pre)
  case Nil
  show ?case by (simp add: returns_def)
next
  case (Cons d ds)
  let ?\<Phi> = "\<lambda>(c', e). map cl_Device (pc_Devices c') = map cl_Device (pre @ d # ds)"
  have "returns ?\<Phi> (do { (c'', e') \<leftarrow> reconcile_devices ev cfg byName c1 (pre @ [adopt_identity byName d]) ds;
            ret (c'', errors_join e e') })" for c1 :: PreparedClaim and e
    unfolding returns_def
  proof
    fix s
    obtain c'' e' s'' where r: "run_state (reconcile_devices ev cfg byName c1 (pre @ [adopt_identity byName d]) ds) s = ((c'', e'), s'')"
      by (metis prod.collapse)
    from returnsD [OF Cons.IH r] have "map cl_Device (pc_Devices c'') = map cl_Device (pre @ d # ds)" by simp
    with r show "?\<Phi> (fst (run_state (do { (c'', e') \<leftarrow> reconcile_devices ev cfg byName c1 (pre @ [adopt_identity byName d]) ds;
            ret (c'', errors_join e e') }) s))" by simp
  qed
  note rest = this
  obtain reason phase where rr: "reconcile_reason cfg byName (pc_Phase c) d = (reason, phase)" by fastforce
  show ?case unfolding reconcile_devices.simps rr Let_def prod.case by (rule returns_bind) (rule rest)
qed

lemma own_extend_more:
  "own_inv E UNIV s \<Longrightarrow> gm_get (st_claims s) uid = Some c \<Longrightarrow> own_inv (E \<union> claim_pairs uid c) UNIV s"
proof -
  assume I: "own_inv E UNIV s" and c: "gm_get (st_claims s) uid = Some c"
  have "owned s \<union> (E \<union> claim_pairs uid c) = owned s \<union> E" using pairs_get [OF c] by (auto simp: owned_def)
  with I show ?thesis by (simp add: own_inv_def)
qed

lemma own_less: "own_inv (E \<union> F) B s \<Longrightarrow> own_inv E B s"
  unfolding own_inv_def by (auto elim: single_valued_mono)

lemmas start_intro = own_intro own.k_inventory own.k_inventoryFresh own.k_range_keys own.k_io_result own.k_reload
  own.k_fence_visible own.k_now own.k_set_last own.k_quarantineLocked

text \<open>
  One claim at startup: its devices stay the same, so the invariant with the claim's own pairs
  added is kept, and those pairs were owned already.
\<close>

lemma own_store_reconciled: "claim_pairs uid c \<subseteq> E \<Longrightarrow> keeps (own_inv E UNIV) (store_reconciled ev uid c)"
  unfolding store_reconciled_def repair_failed_def by (intro start_intro own_put_claim) simp

lemma claim_pairs_names:
  assumes "map cl_Device (pc_Devices c') = map cl_Device (pc_Devices c)"
  shows "claim_pairs uid c' = claim_pairs uid c"
proof -
  have names: "claim_pairs uid x = (\<lambda>n. (n, uid)) ` set (map cl_Device (pc_Devices x))" for x
    by (simp add: image_image)
  show ?thesis by (simp only: names [of c'] names [of c] assms)
qed

lemma own_reconcile_found:
  assumes "claim_pairs uid c \<subseteq> E"
  shows "keeps (own_inv E UNIV) (reconcile_found ev cfg byName uid c)"
proof (rule keepsI)
  fix s x s'
  assume I: "own_inv E UNIV s" and run: "run_state (reconcile_found ev cfg byName uid c) s = (x, s')"
  obtain c' e s1 where d: "run_state (reconcile_devices ev cfg byName c [] (pc_Devices c)) s = ((c', e), s1)"
    by (metis prod.collapse)
  obtain e2 s2 where st: "run_state (store_reconciled ev uid c') s1 = (e2, s2)" by fastforce
  have "own_inv E UNIV s1" by (rule keepsD [OF own.k_reconcile_devices I d])
  moreover have "map cl_Device (pc_Devices c') = map cl_Device (pc_Devices c)"
    using returnsD [OF reconcile_devices_names d] by simp
  then have "claim_pairs uid c' \<subseteq> E" using claim_pairs_names assms by blast
  ultimately have "own_inv E UNIV s2" by (metis keepsD [OF own_store_reconciled _ st])
  then show "own_inv E UNIV s'" using run d st by (simp add: reconcile_found_def)
qed

lemma own_reconcile_claim: "keeps (own_inv E UNIV) (reconcile_claim ev cfg h byName allocated uid)"
proof (rule keepsI)
  fix s x s'
  assume I: "own_inv E UNIV s" and run: "run_state (reconcile_claim ev cfg h byName allocated uid) s = (x, s')"
  show "own_inv E UNIV s'"
  proof (cases "gm_get (st_claims s) uid")
    case None
    with I run show ?thesis by (simp add: reconcile_claim_def)
  next
    case (Some c)
    let ?c = "live_claim h (gm_get allocated uid) c" and ?E = "E \<union> claim_pairs uid c"
    have "run_state (reconcile_found ev cfg byName uid ?c) s = (x, s')" using run Some by (simp add: reconcile_claim_def)
    moreover have "claim_pairs uid ?c \<subseteq> ?E" using claim_pairs_names [OF live_claim_names] by blast
    ultimately have "own_inv ?E UNIV s'"
      by (metis keepsD [OF own_reconcile_found own_extend_more [OF I Some]])
    then show ?thesis by (rule own_less)
  qed
qed

lemma own_add_recovered:
  assumes "pairs allocated \<subseteq> E"
  shows "keeps (own_inv E UNIV) (add_recovered allocated uid)"
  unfolding add_recovered_def
proof (intro keeps_intro own_put_claim)
  fix c
  assume "gm_get allocated uid = Some c"
  from pairs_get [OF this] assms show "claim_pairs uid (c\<lparr>pc_Phase := ClaimRecovered\<rparr>) \<subseteq> E \<inter> UNIV" by simp
qed

lemma own_removeOrphanCDI: "keeps (own_inv E UNIV) (removeOrphanCDI ev)"
  unfolding removeOrphanCDI_def remove_orphan_def by (intro start_intro)

lemma own_reconcileStartup: "keeps (own_inv (alloc_pairs cfg allocs) UNIV) (reconcileStartup ev cfg allocs)"
  unfolding reconcileStartup_def
  by (intro start_intro own_add_recovered own_reconcile_claim own_removeOrphanCDI localAllocations_pairs)

end
