(* ===== verification/Samples.thy ===== *)
theory Samples
  imports Recovery
begin

text \<open>
  A node with one healthy device, two claims that ask for it and environments with chosen failures:
  the concrete inputs on which the theorems about the agent are applied.  The facts collected in
  \<open>sample_run\<close> evaluate an operation on a concrete state.
\<close>

named_theorems sample_run \<open>evaluation of operations on concrete states\<close>

section \<open>Evaluation\<close>

text \<open>Continuations and loop bodies are not simplified before they are reached.\<close>

lemma bind_weak_cong: "m = m' \<Longrightarrow> State_Monad.bind m f = State_Monad.bind m' f"
  by simp

lemma for_join_weak_cong: "xs = ys \<Longrightarrow> for_join f xs = for_join f ys"
  by simp

lemma until_error_weak_cong: "xs = ys \<Longrightarrow> until_error f xs = until_error f ys"
  by simp

lemmas weak_congs = bind_weak_cong for_join_weak_cong until_error_weak_cong

lemma run_now [sample_run]: "run_state (now ev) s = (ev_now ev (sy_step s), s\<lparr>sy_step := Suc (sy_step s)\<rparr>)"
  by (simp add: now_def next_step_def)

lemma run_io_result [sample_run]: "run_state (io_result ev) s = (ev_io ev (sy_step s), s\<lparr>sy_step := Suc (sy_step s)\<rparr>)"
  by (simp add: io_result_def next_step_def)

lemma run_inventory [sample_run]:
  "run_state (inventory ev) s = (ev_inventory ev (sy_step s), s\<lparr>sy_step := Suc (sy_step s)\<rparr>)"
  by (simp add: inventory_def next_step_def)

lemma run_range_keys [sample_run]:
  "run_state (range_keys ev m) s = (ev_order ev (sy_step s) (gm_keys m), s\<lparr>sy_step := Suc (sy_step s)\<rparr>)"
  by (simp add: range_keys_def next_step_def)

lemma append_audit_fields [sample_run]:
  "sy_state (append_audit e s) = sy_state s" "sy_last (append_audit e s) = sy_last s"
  "sy_step (append_audit e s) = sy_step s" "sy_disk (append_audit e s) = sy_disk s"
  "sy_cdi (append_audit e s) = sy_cdi s"
  by (simp_all add: append_audit_def)

lemma run_next_step [sample_run]: "run_state next_step s = (sy_step s, s\<lparr>sy_step := Suc (sy_step s)\<rparr>)"
  by (simp add: next_step_def)

lemma audit_event_time [sample_run]: "au_Time (audit_event action outcome) = 0"
  by (simp add: audit_event_def)

lemmas op_defs = refresh_inventory_def lockAndReload_def reload_def load_def inventoryFresh_def
  observeLocked_def observe_with_def deviceOwners_def observe_device_def observe_missing_def put_known_def put_claim_def del_claim_def
  put_quarantine_def del_quarantine_def modify_state_def attempt_def persist_def store_state_def quarantineLocked_def
  sanitizeLocked_def device_reset_def auditLocked_def claimForOwner_def writeCDI_def

lemmas pure_defs = owners_of_def owner_of_def index_by_def gm_put_def gm_get_def gm_del_def gm_keys_def filterLocked_def filter_device_def
  to_stored_def

section \<open>The node\<close>

definition sample_device :: InventoryDevice where
  "sample_device = \<lparr>dv_StableID = ''a0'', dv_HardwareUUID = ''a0'',
     dv_Node = \<lparr>nd_ID = ''0'', nd_Path = ''/dev/tt0'', nd_Major = 241, nd_Minor = 0, nd_Mode = [], nd_ChipSeries = ''wormhole''\<rparr>,
     dv_CharacterDevicePresent = True,
     dv_PCI = \<lparr>pci_BDF = ''0000:01:00.0'', pci_Vendor = ''0x1e52'', pci_Device = ''0x401e'', pci_SubsystemVendor = [],
       pci_SubsystemDevice = [], pci_Revision = [], pci_NUMANode = 0, pci_IOMMUGroup = 1, pci_IOMMUGroupSize = 1,
       pci_LinkState = [], pci_LinkSpeed = [], pci_LinkWidth = 0\<rparr>,
     dv_ChipSeries = ''wormhole'', dv_FirmwareVersion = ''19.2.0'', dv_KMDVersion = ''2.5.0'', dv_DriverABIVersion = 2,
     dv_KernelVersion = ''6.8.0'', dv_Memory = \<lparr>mi_TotalBytes = 0, mi_AvailableBytes = 0\<rparr>,
     dv_Compute = \<lparr>ci_TensixCores = 0\<rparr>, dv_Health = HealthHealthy, dv_Fault = \<lparr>ft_Code = [], ft_Message = []\<rparr>,
     dv_Fabric = \<lparr>fi_FabricID = [], fi_RingID = [], fi_EndpointID = [], fi_Links = []\<rparr>, dv_Provenance = [],
     dv_ObservedAt = 1, dv_Eligible = True, dv_RejectionReason = []\<rparr>"

definition sample_snapshot :: InventorySnapshot where
  "sample_snapshot = \<lparr>sn_Devices = [sample_device], sn_ObservedAt = 1\<rparr>"

text \<open>The environment: file operations at the steps \<open>bad\<close> fail without effect, every reset succeeds or fails.\<close>

definition sample_env :: "nat list \<Rightarrow> bool \<Rightarrow> env" where
  "sample_env bad works = \<lparr>ev_now = (\<lambda>_. 1), ev_io = (\<lambda>n. if n \<in> set bad then IoFail ''disk full'' else IoOk),
     ev_reset = (\<lambda>_ _. if works then None else Some ''timeout''), ev_inventory = (\<lambda>_. Inr sample_snapshot),
     ev_order = (\<lambda>_ ks. ks)\<rparr>"

definition sample_config :: Config where
  "sample_config = \<lparr>cf_NodeName = ''n1'', cf_Driver = ''tt'', cf_RequireIOMMU = False, cf_MaxInventoryAge = 1000\<rparr>"

definition sample_result :: AllocationResult where
  "sample_result = \<lparr>al_Request = ''r'', al_Driver = ''tt'', al_Pool = ''n1'', al_Device = ''tt-a0'', al_AdminAccess = None\<rparr>"

definition sample_allocation :: Allocation where
  "sample_allocation = \<lparr>an_Config = [], an_Results = [sample_result]\<rparr>"

definition sample_claim :: "string \<Rightarrow> ResourceClaim" where
  "sample_claim uid = \<lparr>rc_UID = uid, rc_Namespace = ''ns'', rc_Name = uid, rc_Allocation = Some sample_allocation\<rparr>"

definition sample_node :: sys where
  "sample_node = \<lparr>sy_state = empty_state, sy_last = zero_snapshot, sy_step = 0, sy_disk = NoFile, sy_cdi = [],
     sy_audit = [], sy_trace = []\<rparr>"

lemma sample_env_ok: "env_ok (sample_env bad works)"
  by (simp add: env_ok_def sample_env_def)

lemma sample_env_fields [sample_run]:
  "ev_now (sample_env bad works) n = 1"
  "ev_io (sample_env bad works) n = (if n \<in> set bad then IoFail ''disk full'' else IoOk)"
  "ev_reset (sample_env bad works) n p = (if works then None else Some ''timeout'')"
  "ev_inventory (sample_env bad works) n = Inr sample_snapshot"
  "ev_order (sample_env bad works) n ks = ks"
  by (simp_all add: sample_env_def)

lemma sample_device_fields [sample_run]:
  "nd_Path (dv_Node sample_device) = ''/dev/tt0''" "dv_Eligible sample_device" "dv_Health sample_device = HealthHealthy"
  "dv_StableID sample_device = ''a0''" "dv_CharacterDevicePresent sample_device"
  by (simp_all add: sample_device_def)

lemma sample_snapshot_fields [sample_run]: "sn_Devices sample_snapshot = [sample_device]" "sn_ObservedAt sample_snapshot = 1"
  by (simp_all add: sample_snapshot_def)

lemma sample_DRAName [sample_run]: "DRAName sample_device = ''tt-a0''"
  by code_simp

lemma sample_fresh [sample_run]: "freshness_error sample_config 1 sample_snapshot = None"
  by code_simp

lemma sample_safe [sample_run]: "deviceUnsafeReason sample_config sample_device = []"
  by code_simp

lemma sample_default [sample_run]: "default_config sample_config = sample_config"
  by (simp add: default_config_def sample_config_def)

lemma sample_config_valid [sample_run]: "config_problem sample_config ''/s'' ''/c'' = None"
  by code_simp

section \<open>A claim is prepared\<close>

definition sample_known :: "(string, KnownDevice) gomap" where
  "sample_known = [(''tt-a0'', \<lparr>kd_Path = ''/dev/tt0'', kd_LastSeen = 1\<rparr>)]"

definition sample_prepared :: "string \<Rightarrow> ClaimPhase \<Rightarrow> PreparedClaim" where
  "sample_prepared uid phase = \<lparr>pc_UID = uid, pc_Namespace = ''ns'', pc_Name = uid, pc_Phase = phase,
     pc_Devices = [claim_device uid sample_result sample_device]\<rparr>"

lemma sample_claim_fields [sample_run]:
  "rc_UID (sample_claim uid) = uid" "rc_Allocation (sample_claim uid) = Some sample_allocation"
  by (simp_all add: sample_claim_def)

lemma sample_prepared_fields [sample_run]:
  "pc_UID (sample_prepared uid p) = uid" "pc_Phase (sample_prepared uid p) = p"
  "(sample_prepared uid p)\<lparr>pc_Phase := q\<rparr> = sample_prepared uid q"
  "pc_Devices (sample_prepared uid p) = [claim_device uid sample_result sample_device]"
  "cl_Device (claim_device uid sample_result sample_device) = ''tt-a0''"
  "cl_Path (claim_device uid sample_result sample_device) = ''/dev/tt0''"
  "cl_StableID (claim_device uid sample_result sample_device) = ''a0''"
  by (simp_all add: sample_prepared_def claim_device_def sample_result_def sample_run)

lemma sample_trim: "trim_space ''r'' = ''r''"
  by code_simp

lemma sample_admitted [sample_run]:
  assumes "gm_get os ''tt-a0'' = None"
  shows "claimFromAllocation sample_config (sample_claim uid) sample_allocation [(''tt-a0'', sample_device)] os
    = Inr (sample_prepared uid ClaimPreparing)"
proof -
  have "allocation_device sample_config uid [(''tt-a0'', sample_device)] os [] sample_result
      = Inr (claim_device uid sample_result sample_device)"
    using assms
    by (simp add: allocation_device_def sample_result_def sample_trim sample_run gm_get_Cons)
      (simp add: sample_config_def)
  then show ?thesis
    by (simp add: claimFromAllocation_def sample_claim_def sample_allocation_def sample_prepared_def)
      (simp add: sample_config_def sample_result_def)
qed

section \<open>Runs\<close>

text \<open>The agent started on the node, and after it has observed the device at the beginning of a call.\<close>

definition sample_up :: sys where
  "sample_up = sample_node\<lparr>sy_step := 2\<rparr>"

definition sample_observed :: sys where
  "sample_observed = sample_node\<lparr>sy_step := 9, sy_state := empty_state\<lparr>ps_Known := sample_known\<rparr>\<rparr>"

lemmas sample_states = sample_node_def sample_up_def sample_observed_def empty_state_def sample_known_def

lemmas prepare_defs = prepareOne_def prepare_admitted_def prepare_new_def finish_prepare_def commit_prepare_def approve_prepare_def
  sanitize_claimed_def verify_inventory_def verify_claimed_def

lemma sample_start:
  "run_state (NewManager (sample_env [] True) sample_config ''/s'' ''/c'' None) sample_node = (None, sample_up)"
  by (simp add: NewManager_def open_state_def reload_def load_def sample_run sample_states)

lemma sample_refresh:
  assumes "2 \<notin> set bad" "3 \<notin> set bad"
  shows "run_state (refresh (sample_env bad works) sample_config) sample_up = (Inr sample_snapshot, sample_observed)"
  using assms
  by (simp add: refresh_def sample_run op_defs pure_defs sample_states cong: weak_congs)

lemma sample_prepare:
  assumes "2 \<notin> set bad" "3 \<notin> set bad"
  shows "run_state (PrepareResourceClaims (sample_env bad works) sample_config cs) sample_up =
    run_state (do {
       os \<leftarrow> deviceOwners (sample_env bad works);
       result \<leftarrow> prepare_each (sample_env bad works) sample_config [(''tt-a0'', sample_device)] cs os [];
       persistErr \<leftarrow> persist (sample_env bad works);
       case persistErr of
         Some e \<Rightarrow> ret (Inl e)
       | None \<Rightarrow> ret (Inr result) }) sample_observed"
  by (simp add: PrepareResourceClaims_def sample_refresh [OF assms] index_by_def sample_run gm_put_def)

text \<open>One claim whose audit record cannot be written: the intent stays recorded.\<close>

definition sample_intent :: sys where
  "sample_intent =
     snd (run_state (PrepareResourceClaims (sample_env [12] True) sample_config [Some (sample_claim ''u1'')]) sample_up)"

lemma sample_intent_claims: "st_claims sample_intent = [(''u1'', sample_prepared ''u1'' ClaimPreparing)]"
  unfolding sample_intent_def
  by (subst sample_prepare, simp, simp)
    (simp add: prepare_defs sample_run op_defs pure_defs sample_states cong: weak_congs)

text \<open>Two claims for the same device in one call, both interrupted like that.\<close>

definition sample_batch :: sys where
  "sample_batch =
     snd (run_state (PrepareResourceClaims (sample_env [12, 15] True) sample_config
       [Some (sample_claim ''u1''), Some (sample_claim ''u2'')]) sample_up)"

lemma sample_batch_claims:
  "st_claims sample_batch = [(''u1'', sample_prepared ''u1'' ClaimPreparing), (''u2'', sample_prepared ''u2'' ClaimPreparing)]"
  unfolding sample_batch_def
  by (subst sample_prepare, simp, simp)
    (simp add: prepare_defs sample_run op_defs pure_defs sample_states cong: weak_congs)

end
