(* ===== verification/Agent.thy ===== *)
theory Agent
  imports Ownership Samples
begin

text \<open>
  The node agent as a state machine: the calls of the kubelet, of the monitoring loop and of the health
  service, crashes and restarts.  The relation is a specification, not code: its steps carry what the agent assumes of the
  kubelet and of the API server (\<open>batch_disjoint\<close>, \<open>start_consistent\<close>).  A crash in the middle of a call is an environment in which every file
  operation fails from some point on, followed by the crash step, since only the files survive.
\<close>

section \<open>Starting\<close>

lemma own_recoverCorruptState: "keeps (own_inv E UNIV) (recoverCorruptState ev loadErr)"
proof -
  have moved: "own_inv E UNIV (move_corrupt s)" if "own_inv E UNIV s" for s
    using that by (auto simp: own_inv_def owned_def move_corrupt_def disk_claims_def pairs_def elim: single_valued_mono)
  have emptied: "own_inv E UNIV (s\<lparr>sy_state := empty_state\<rparr>)" if "own_inv E UNIV s" for s
    using that by (auto simp: own_inv_def owned_def empty_state_def pairs_def elim: single_valued_mono)
  show ?thesis
    unfolding recoverCorruptState_def
    by (intro start_intro own.k_attempt keeps_modify moved emptied)
qed

lemma default_config_driver [simp]: "cf_Driver (default_config cfg) = cf_Driver cfg"
  by (simp add: default_config_def)

lemma default_config_node [simp]: "cf_NodeName (default_config cfg) = cf_NodeName cfg"
  by (simp add: default_config_def)

lemma alloc_pairs_default [simp]: "alloc_pairs (default_config cfg) allocs = alloc_pairs cfg allocs"
  by (simp add: alloc_pairs_def)

text \<open>What the API server says must agree with the state file: no device under two claims.\<close>

definition start_consistent :: "Config \<Rightarrow> allocations \<Rightarrow> sys \<Rightarrow> bool" where
  "start_consistent cfg allocs s \<longleftrightarrow> single_valued (pairs (disk_claims (sy_disk s)) \<union> alloc_pairs cfg allocs)"

lemma own_open_state: "keeps (own_inv (alloc_pairs cfg allocs) UNIV) (open_state ev cfg allocs)"
  unfolding open_state_def by (intro start_intro own_recoverCorruptState own_reconcileStartup)

lemma own_NewManager:
  assumes "exclusive s" and "start_consistent cfg allocs s"
    and "run_state (NewManager ev cfg stateDir cdiDir allocs) s = (e, s')"
  shows "exclusive s'"
proof (cases "config_problem cfg stateDir cdiDir")
  case (Some p)
  with assms(1,3) show ?thesis by (simp add: NewManager_def)
next
  case None
  let ?E = "alloc_pairs cfg allocs" and ?s = "s\<lparr>sy_state := empty_state, sy_last := zero_snapshot\<rparr>"
  obtain lock s1 where lock: "run_state (io_result ev) ?s = (lock, s1)" by fastforce
  have "own_inv ?E UNIV ?s"
    using assms(1,2) by (simp add: own_inv_def owned_def empty_state_def start_consistent_def pairs_def)
  from keepsD [OF own.k_io_result this lock] have "own_inv ?E UNIV s1" .
  moreover have "s' = s1 \<or> run_state (open_state ev (default_config cfg) allocs) s1 = (e, s')"
    using assms(3) None lock by (cases lock) (simp_all add: NewManager_def)
  ultimately have "own_inv ?E UNIV s'"
    using keepsD [OF own_open_state [of "default_config cfg"]] by fastforce
  then show ?thesis by (rule own_weaken)
qed

section \<open>The steps of an agent\<close>

text \<open>The state of an agent: whether it runs, and the system.\<close>

type_synonym agent = "bool \<times> sys"

inductive agent_step :: "Config \<Rightarrow> agent \<Rightarrow> agent \<Rightarrow> bool" for cfg where
  step_prepare: "env_ok ev \<Longrightarrow> batch_disjoint cfg cs \<Longrightarrow>
     run_state (PrepareResourceClaims ev (default_config cfg) cs) s = (r, s') \<Longrightarrow> agent_step cfg (True, s) (True, s')"
| step_unprepare: "env_ok ev \<Longrightarrow>
     run_state (UnprepareResourceClaims ev (default_config cfg) uids) s = (r, s') \<Longrightarrow> agent_step cfg (True, s) (True, s')"
| step_monitor: "env_ok ev \<Longrightarrow>
     run_state (Monitor ev (default_config cfg) snapshot) s = (r, s') \<Longrightarrow> agent_step cfg (True, s) (True, s')"
| step_inventory_failed: "env_ok ev \<Longrightarrow>
     run_state (InventoryFailed ev (default_config cfg) err) s = (r, s') \<Longrightarrow> agent_step cfg (True, s) (True, s')"
| step_health: "env_ok ev \<Longrightarrow>
     run_state (DeviceHealthSnapshot ev (default_config cfg)) s = (h, s') \<Longrightarrow> agent_step cfg (True, s) (True, s')"
| step_stats: "env_ok ev \<Longrightarrow>
     run_state (SnapshotStats ev) s = (x, s') \<Longrightarrow> agent_step cfg (True, s) (True, s')"
| step_crash: "agent_step cfg (True, s) (False, s)"
| step_start: "env_ok ev \<Longrightarrow> start_consistent cfg allocs s \<Longrightarrow>
     run_state (NewManager ev cfg stateDir cdiDir allocs) s = (e, s') \<Longrightarrow> agent_step cfg (False, s) (e = None, s')"

inductive_cases agent_step_downE: "agent_step cfg (False, s) a"
inductive_cases agent_step_upE: "agent_step cfg (True, s) a"

text \<open>A node on which no agent has run yet.\<close>

definition fresh_node :: "sys \<Rightarrow> bool" where
  "fresh_node s \<longleftrightarrow> sy_disk s = NoFile \<and> sy_cdi s = [] \<and> sy_trace s = [] \<and> sy_state s = empty_state"

inductive agent_reachable :: "Config \<Rightarrow> agent \<Rightarrow> bool" for cfg where
  reach_fresh: "fresh_node s \<Longrightarrow> agent_reachable cfg (False, s)"
| reach_step: "agent_reachable cfg a \<Longrightarrow> agent_step cfg a b \<Longrightarrow> agent_reachable cfg b"

lemma batch_disjoint_default [simp]: "batch_disjoint (default_config cfg) = batch_disjoint cfg"
proof -
  have "wants (default_config cfg) = wants cfg" by (simp only: wants_def [abs_def] default_config_driver)
  then show ?thesis by (simp add: batch_disjoint_def fun_eq_iff)
qed

lemma agent_step_exclusive: "agent_step cfg a b \<Longrightarrow> exclusive (snd a) \<Longrightarrow> exclusive (snd b)"
proof (induction rule: agent_step.induct)
  case (step_prepare ev cs s r s')
  then show ?case using own_Prepare [of ev "default_config cfg" cs] by (auto dest: keepsD)
next
  case (step_start ev allocs s stateDir cdiDir e s')
  then show ?case by (auto dest: own_NewManager)
qed (auto dest: keepsD [OF own_Unprepare] keepsD [OF own.k_Monitor] keepsD [OF own.k_InventoryFailed]
  keepsD [OF own.k_DeviceHealthSnapshot] keepsD [OF own.k_SnapshotStats])

lemma agent_reachable_exclusive: "agent_reachable cfg a \<Longrightarrow> exclusive (snd a)"
proof (induction rule: agent_reachable.induct)
  case (reach_fresh s)
  then show ?case by (simp add: fresh_node_def own_inv_def owned_def disk_claims_def pairs_def empty_state_def single_valued_def)
qed (auto dest: agent_step_exclusive)

text \<open>
  C1: over every sequence of calls, crashes and restarts that starts on a fresh node, and whatever errors the
  files, the devices and the inventory produce, no device belongs to two claims, in the agent's memory and in its
  state file taken together, under two conditions that the code does not check: no batch of claims handed to
  \<open>PrepareResourceClaims\<close> asks for one device under two claims (\<open>batch_disjoint\<close>), and whenever the agent starts,
  the allocations of the API server and the claims of the state file together name no device under two claims
  (\<open>start_consistent\<close>).
\<close>

theorem exclusive_ownership:
  assumes "agent_reachable cfg (up, s)"
  shows "single_valued (owned s)"
  using agent_reachable_exclusive [OF assms] by (simp add: own_inv_def)

lemma sample_up_reachable: "agent_reachable sample_config (True, sample_up)"
proof (rule reach_step)
  show "agent_reachable sample_config (False, sample_node)"
    by (rule reach_fresh) (simp add: fresh_node_def sample_node_def)
  have "start_consistent sample_config None sample_node"
    by (simp add: start_consistent_def alloc_pairs_def sample_node_def disk_claims_def pairs_def)
  from step_start [OF sample_env_ok this sample_start]
  show "agent_step sample_config (False, sample_node) (True, sample_up)" by simp
qed

lemma sample_step_prepare:
  assumes "batch_disjoint sample_config cs"
    and "s' = snd (run_state (PrepareResourceClaims (sample_env bad works) sample_config cs) s)"
  shows "agent_step sample_config (True, s) (True, s')"
  using assms by (intro step_prepare [OF sample_env_ok assms(1)]) (simp add: sample_default prod_eq_iff)

lemma owned_claim: "gm_get (st_claims s) uid = Some c \<Longrightarrow> d \<in> set (pc_Devices c) \<Longrightarrow> (cl_Device d, uid) \<in> owned s"
  by (auto simp: owned_def pairs_def)

lemma sample_intent_reachable: "agent_reachable sample_config (True, sample_intent)"
proof -
  have "batch_disjoint sample_config [Some (sample_claim ''u1'')]" by (simp add: batch_disjoint_def)
  from sample_step_prepare [OF this sample_intent_def] show ?thesis by (rule reach_step [OF sample_up_reachable])
qed

theorem exclusive_ownership_witness:
  "single_valued (owned sample_intent) \<and> (''tt-a0'', ''u1'') \<in> owned sample_intent"
proof
  from sample_intent_reachable show "single_valued (owned sample_intent)" by (rule exclusive_ownership)
  show "(''tt-a0'', ''u1'') \<in> owned sample_intent"
    using owned_claim [of sample_intent "''u1''" "sample_prepared ''u1'' ClaimPreparing" "claim_device ''u1'' sample_result sample_device"]
    by (simp add: sample_intent_claims gm_get_Cons sample_run)
qed

lemma sample_intent_disk: "disk_claims (sy_disk sample_intent) = [(''u1'', sample_prepared ''u1'' ClaimPreparing)]"
proof -
  have "sy_disk sample_intent = StateFile (to_stored (sy_state sample_intent))"
    unfolding sample_intent_def sample_prepare [of "[12]" True, simplified]
    by (simp add: prepare_defs sample_run op_defs pure_defs sample_states cong: weak_congs)
  then show ?thesis by (simp add: disk_claims_def to_stored_def unmarshal_map_def sample_intent_claims gm_put_def)
qed

text \<open>
  The condition on a batch is needed: in this run of one call with two claims for one device, the preparations of both
  fail after their intents are recorded, and both are left as owners, because the map of owners the second is
  checked against is extended only after a complete preparation.
\<close>

theorem batch_double_owner: "{(''tt-a0'', ''u1''), (''tt-a0'', ''u2'')} \<subseteq> owned sample_batch"
  using owned_claim [of sample_batch "''u1''" "sample_prepared ''u1'' ClaimPreparing" "claim_device ''u1'' sample_result sample_device"]
    owned_claim [of sample_batch "''u2''" "sample_prepared ''u2'' ClaimPreparing" "claim_device ''u2'' sample_result sample_device"]
  by (simp add: sample_batch_claims gm_get_Cons sample_run)

end
