(* ===== verification/Janitor_Correct.thy ===== *)
theory Janitor_Correct
  imports Agent
begin

text \<open>
  What the monitoring cycle guarantees: it offers no quarantined device, resets no owned device, and
  fences the node when nothing is known about its devices.
\<close>

section \<open>Filtering\<close>

lemma DRAName_cong:
  "dv_StableID a = dv_StableID b \<Longrightarrow> dv_Node a = dv_Node b \<Longrightarrow> DRAName a = DRAName b"
  unfolding DRAName_def by (simp only:)

lemma filter_device_name [simp]: "DRAName (filter_device q item) = DRAName item"
  by (rule DRAName_cong) (simp_all add: filter_device_def split: option.split)

lemma filterLocked_eligible:
  "d \<in> set (sn_Devices (filterLocked q sn)) \<Longrightarrow> dv_Eligible d \<Longrightarrow> gm_get q (DRAName d) = None \<and> d \<in> set (sn_Devices sn)"
  by (auto simp: filterLocked_def filter_device_def split: option.splits)

text \<open>A snapshot that offers no quarantined device.\<close>

definition safe_offer :: "InventorySnapshot \<Rightarrow> sys \<Rightarrow> bool" where
  "safe_offer sn s \<longleftrightarrow> (\<forall>d \<in> set (sn_Devices sn). dv_Eligible d \<longrightarrow> gm_get (st_quarantined s) (DRAName d) = None)"

lemma safe_offer_filter [simp]: "safe_offer (filterLocked (st_quarantined s) sn) s"
  by (auto simp: safe_offer_def dest: filterLocked_eligible)

lemma safe_offer_empty [simp]: "safe_offer \<lparr>sn_Devices = [], sn_ObservedAt = t\<rparr> s" "safe_offer zero_snapshot s"
  by (simp_all add: safe_offer_def zero_snapshot_def)

interpretation offer: frame_invariant "safe_offer sn" for sn
  by unfold_locales (simp_all add: safe_offer_def append_audit_def)

lemma offer_persist [keeps_intro]: "keeps (safe_offer sn) (persist ev)"
  unfolding persist_def by (rule offer.k_attempt) (simp add: safe_offer_def store_state_def)


lemma hoare_skip: "(\<And>x. hoare (\<lambda>_. True) (f x) Q) \<Longrightarrow> hoare (\<lambda>_. True) (do { x \<leftarrow> m; f x }) Q"
  by (rule hoare_bind [where R = "\<lambda>_ _. True"]) (simp_all add: hoare_def)

lemma hoare_keeps_ret: "keeps I m \<Longrightarrow> (\<And>s. P s \<Longrightarrow> I s) \<Longrightarrow> (\<And>x s. I s \<Longrightarrow> Q (f x) s) \<Longrightarrow> hoare P (do { x \<leftarrow> m; ret (f x) }) Q"
  by (rule hoare_bind [where R = "\<lambda>_. I"]) (auto simp: keeps_def hoare_def)

lemma hoare_bind_gets: "(\<And>v. hoare (\<lambda>s. P s \<and> v = f s) (g v) Q) \<Longrightarrow> hoare P (do { x \<leftarrow> gets f; g x }) Q"
  by (auto simp: hoare_def)

lemma observeLocked_offer: "hoare (\<lambda>_. True) (observeLocked ev cfg sn b) (\<lambda>(f, _, _). safe_offer f)"
  unfolding observeLocked_def observe_with_def
  by (rule hoare_skip, rule hoare_skip, rule hoare_skip, rule hoare_skip, rule hoare_skip, rule hoare_skip,
      rule hoare_bind_gets, rule hoare_bind_gets, rule hoare_ret) auto

lemma inventoryFailed_offer: "hoare (\<lambda>_. True) (inventoryFailedLocked ev cfg e) (\<lambda>(f, _, _). safe_offer f)"
  unfolding inventoryFailedLocked_def Let_def
proof (rule hoare_skip, rule hoare_skip, rule hoare_if)
  fix sn stale
  show "hoare (\<lambda>_. True) (gets st_quarantined \<bind> (\<lambda>q. gets st_known \<bind> (\<lambda>known. auditLocked ev a None \<bind> (\<lambda>auditErr.
      ret (filterLocked q sn, (safetyFor (filterLocked q sn) known q)\<lparr>sf_Reason := r, sf_Message := m\<rparr>, auditErr)))))
    (\<lambda>(f, _, _). safe_offer f)" for a r m
    by (rule hoare_bind_gets, rule hoare_bind_gets, rule hoare_keeps_ret [OF offer.k_auditLocked]) auto
qed (rule hoare_skip, rule hoare_skip, rule hoare_skip, rule hoare_skip, rule hoare_skip, rule hoare_skip, rule hoare_skip,
    simp add: hoare_def)

lemma monitor_locked_offer: "hoare (\<lambda>_. True) (monitor_locked ev cfg snapshot) (\<lambda>(f, _, _). safe_offer f)"
proof -
  have commit: "hoare (safe_offer f) (modify (\<lambda>s. s\<lparr>sy_last := snapshot\<rparr>) \<bind> (\<lambda>_. persist ev \<bind> (\<lambda>persistErr.
      ret (f, sf, errors_join e persistErr)))) (\<lambda>(f, _, _). safe_offer f)" for f sf e
    by (rule hoare_bind [where R = "\<lambda>_. safe_offer f"])
      (use offer.k_set_last in \<open>auto simp: keeps_def intro!: hoare_keeps_ret [OF offer_persist]\<close>)
  have "hoare (\<lambda>_. True) (observeLocked ev cfg snapshot True \<bind> (\<lambda>(f, sf, e). modify (\<lambda>s. s\<lparr>sy_last := snapshot\<rparr>) \<bind>
      (\<lambda>_. persist ev \<bind> (\<lambda>persistErr. ret (f, sf, errors_join e persistErr))))) (\<lambda>(f, _, _). safe_offer f)"
    by (rule hoare_bind [OF observeLocked_offer], clarify, rule commit)
  then show ?thesis
    unfolding monitor_locked_def by (intro hoare_skip) (auto intro: inventoryFailed_offer split: option.split)
qed

lemma Monitor_safe_offer: "hoare (\<lambda>_. True) (Monitor ev cfg snapshot) (\<lambda>(f, _, _). safe_offer f)"
  unfolding Monitor_def
  by (rule hoare_skip) (auto simp: hoare_ret intro: monitor_locked_offer split: option.split)

text \<open>
  The snapshot a monitoring cycle returns offers no device that is quarantined when the cycle ends,
  whatever happened: healthy observation, stale observation, failed inventory, failed lock or failed
  writes.
\<close>

theorem Monitor_offers_safe:
  "case run_state (Monitor ev cfg snapshot) s of ((filtered, _, _), s') \<Rightarrow>
     filter (\<lambda>d. dv_Eligible d \<and> gm_get (st_quarantined s') (DRAName d) \<noteq> None) (sn_Devices filtered) = []"
proof -
  show ?thesis using Monitor_safe_offer [of ev cfg snapshot] by (auto simp: hoare_def safe_offer_def filter_empty_conv split: prod.splits)
qed

section \<open>Owned devices are not reset by the monitor\<close>

definition reset_devices :: "effect list \<Rightarrow> string set" where
  "reset_devices t = {name. \<exists>action path err. EffReset action name path err \<in> set t}"

text \<open>Since the trace was \<open>T\<close>, with the claims \<open>C\<close>, only devices outside \<open>D\<close> were reset.\<close>

definition resets_outside :: "(string, PreparedClaim) gomap \<Rightarrow> effect list \<Rightarrow> string set \<Rightarrow> sys \<Rightarrow> bool" where
  "resets_outside C T D s \<longleftrightarrow> st_claims s = C \<and>
     (\<exists>t. sy_trace s = T @ t \<and> (\<forall>action name path err. EffReset action name path err \<in> set t \<longrightarrow> name \<notin> D))"

lemma resets_outsideI:
  assumes "resets_outside C T D s" and "st_claims s' = st_claims s" and "sy_trace s' = sy_trace s @ t"
    and "\<And>action name path err. EffReset action name path err \<in> set t \<Longrightarrow> name \<notin> D"
  shows "resets_outside C T D s'"
proof -
  obtain u where u: "sy_trace s = T @ u" "\<And>action name path err. EffReset action name path err \<in> set u \<Longrightarrow> name \<notin> D"
    using assms(1) unfolding resets_outside_def by blast
  have "sy_trace s' = T @ (u @ t)" using u(1) assms(3) by simp
  moreover have "\<forall>action name path err. EffReset action name path err \<in> set (u @ t) \<longrightarrow> name \<notin> D" using u(2) assms(4) by auto
  ultimately show ?thesis using assms(1,2) unfolding resets_outside_def by metis
qed

interpretation spare: op_invariant "resets_outside C T D" "\<lambda>_ name _. name \<notin> D" for C T D
proof unfold_locales
  fix s action name path err
  assume I: "resets_outside C T D s" and "name \<notin> D"
  then show "resets_outside C T D (s\<lparr>sy_trace := sy_trace s @ [EffReset action name path err]\<rparr>)"
    by (intro resets_outsideI [OF I]) auto
next
  fix s e
  assume "resets_outside C T D s"
  then show "resets_outside C T D (append_audit e s)"
    by (rule resets_outsideI [where t = "[EffAudit e]"]) (auto simp: append_audit_def)
qed (auto simp: resets_outside_def)

lemma spare_persist: "keeps (resets_outside C T D) (persist ev)"
  unfolding persist_def
proof (rule spare.k_attempt)
  fix s
  assume "resets_outside C T D s"
  then show "resets_outside C T D (store_state s)"
    by (rule resets_outsideI [where t = "[EffPersist (sy_state s)]"]) (auto simp: store_state_def)
qed

text \<open>The owner the map names for a device with claims, when no claim has the empty UID.\<close>

lemma owner_of_owned:
  assumes "single_valued (pairs m)" and "set (gm_keys m) \<subseteq> set uids" and "(name, u) \<in> pairs m" and "\<And>d. (d, []) \<notin> pairs m"
  shows "owner_of (owners_of uids m) name \<noteq> []"
  using owners_of_complete [OF assms(1,3,2)] assms(3,4) by (auto simp: owner_of_def)

lemma spare_observe:
  assumes "env_ok ev" and "single_valued (pairs C)" and "\<And>d. (d, []) \<notin> pairs C"
  shows "keeps (resets_outside C T (Domain (pairs C))) (observeLocked ev cfg sn b)"
proof (rule keepsI)
  let ?I = "resets_outside C T (Domain (pairs C))"
  fix s x s'
  assume I: "?I s" and run: "run_state (observeLocked ev cfg sn b) s = (x, s')"
  obtain os s1 where os: "run_state (deviceOwners ev) s = (os, s1)" by fastforce
  have I1: "?I s1" by (rule keepsD [OF spare.k_deviceOwners I os])
  obtain n where "os = owners_of (ev_order ev n (gm_keys C)) C"
    using os I by (auto simp: deviceOwners_def range_keys_def next_step_def resets_outside_def)
  moreover have "set (ev_order ev n (gm_keys C)) = set (gm_keys C)" for n using assms(1) by (simp add: env_ok_def)
  ultimately have free: "owner_of os name = [] \<Longrightarrow> name \<notin> Domain (pairs C)" for name
    using owner_of_owned [OF assms(2), of "ev_order ev n (gm_keys C)" name] assms(3) by blast
  have "run_state (observe_with ev cfg os sn b) s1 = (x, s')" using run os by (simp add: observeLocked_def)
  then show "?I s'" by (intro keepsD [OF spare.k_observe_with I1]) (auto dest: free)
qed

lemma spare_fail:
  "keeps (resets_outside C T D) (inventoryFailedLocked ev cfg e)"
  unfolding inventoryFailedLocked_def fence_known_def
  by (intro keeps_intro spare.k_inventoryFresh spare.k_auditLocked spare.k_range_keys spare.k_quarantineLocked spare.k_now spare_persist)

lemma lock_trace: "keeps (\<lambda>s. sy_trace s = T) (lockAndReload ev)"
  unfolding lockAndReload_def reload_def io_result_def next_step_def
  by (rule keepsI) (auto split: io.splits prod.splits)

lemma spare_monitor_locked:
  assumes "env_ok ev" and "single_valued (pairs C)" and "\<And>d. (d, []) \<notin> pairs C"
  shows "keeps (resets_outside C T (Domain (pairs C))) (monitor_locked ev cfg snapshot)"
  unfolding monitor_locked_def
  by (intro keeps_intro spare.k_inventoryFresh spare_fail spare_observe [OF assms] spare.k_set_last spare_persist)

text \<open>
  C5: a monitoring cycle resets no device that a claim owns: for every reset it performs, the device
  belongs to no claim of the memory or of the state file when the cycle ends.  (No claim has the empty
  UID.)
\<close>

theorem Monitor_spares_owned:
  assumes "env_ok ev" and "exclusive s" and "[] \<notin> Range (owned s)"
    and "run_state (Monitor ev cfg snapshot) s = (r, s')"
  shows "\<exists>t. sy_trace s' = sy_trace s @ t \<and> reset_devices t \<inter> Domain (owned s') = {}"
proof -
  obtain e s1 where lock: "run_state (lockAndReload ev) s = (e, s1)" by fastforce
  have tr: "sy_trace s1 = sy_trace s" using keepsD [OF lock_trace _ lock] by blast
  show ?thesis
  proof (cases e)
    case (Some m)
    then have "s' = s1" using assms(4) lock by (simp add: Monitor_def)
    then show ?thesis using tr by (auto simp: reset_devices_def)
  next
    case None
    let ?C = "st_claims s1" and ?D = "Domain (pairs (st_claims s1))"
    have run: "run_state (monitor_locked ev cfg snapshot) s1 = (r, s')" using assms(4) lock None by (simp add: Monitor_def)
    have cov: "covered s1" using hoareD [OF lock_covers assms(2) lock] None by simp
    then have o1: "owned s1 = pairs ?C" "exclusive s1" by (auto simp: covered_def owned_def)
    have "own_inv {} (owned s) s" using assms(2) by (simp add: own_inv_def)
    then have "own_inv {} (owned s) s1" by (rule keepsD [OF own.k_lockAndReload _ lock])
    then have "owned s1 \<subseteq> owned s" by (simp add: own_inv_def)
    with o1 assms(3) have C: "single_valued (pairs ?C)" "\<And>d. (d, []) \<notin> pairs ?C" by (auto simp: own_inv_def)
    have "resets_outside ?C (sy_trace s) ?D s1" using tr by (simp add: resets_outside_def)
    then have out: "resets_outside ?C (sy_trace s) ?D s'" by (rule keepsD [OF spare_monitor_locked [OF assms(1) C] _ run])
    have "own_inv {} (pairs ?C) s1" using o1 by (simp add: own_inv_def)
    then have "own_inv {} (pairs ?C) s'" by (rule keepsD [OF own.k_monitor_locked _ run])
    then have "owned s' \<subseteq> pairs ?C" by (simp add: own_inv_def)
    then have "Domain (owned s') \<subseteq> ?D" by (rule Domain_mono)
    moreover obtain t where "sy_trace s' = sy_trace s @ t" "reset_devices t \<inter> ?D = {}"
      using out unfolding resets_outside_def reset_devices_def by blast
    ultimately show ?thesis by blast
  qed
qed
theorem Monitor_spares_owned_witness:
  "reset_devices (drop (length (sy_trace sample_intent))
      (sy_trace (snd (run_state (Monitor (sample_env [] True) sample_config sample_snapshot) sample_intent)))) \<inter>
    Domain (owned (snd (run_state (Monitor (sample_env [] True) sample_config sample_snapshot) sample_intent))) = {}"
proof -
  obtain r s' where run: "run_state (Monitor (sample_env [] True) sample_config sample_snapshot) sample_intent = (r, s')" by fastforce
  have "exclusive sample_intent" using agent_reachable_exclusive [OF sample_intent_reachable] by simp
  moreover have "[] \<notin> Range (owned sample_intent)"
    by (auto simp: owned_def pairs_def sample_intent_claims sample_intent_disk gm_get_Cons split: if_splits)
  ultimately show ?thesis using Monitor_spares_owned [OF sample_env_ok _ _ run] run by auto
qed

section \<open>Fencing\<close>

definition fenced :: "sys \<Rightarrow> string set" where
  "fenced s = {n. gm_get (st_quarantined s) n \<noteq> None}"

interpretation frame: frame_invariant "\<lambda>s. sy_state s = st" for st
  by unfold_locales (simp_all add: append_audit_def)

lemma quarantine_effect:
  assumes "run_state (quarantineLocked ev n p r c a) s = (x, s')"
  shows "st_known s' = st_known s \<and> fenced s' = insert n (fenced s)"
proof (cases "case gm_get (st_quarantined s) n of None \<Rightarrow> False | Some q \<Rightarrow> qr_Reason q = r")
  case True
  then have "s' = s" using assms by (simp add: quarantineLocked_def)
  moreover have "n \<in> fenced s" using True by (auto simp: fenced_def split: option.splits)
  ultimately show ?thesis by auto
next
  case False
  obtain t s1 where t: "run_state (now ev) s = (t, s1)" by fastforce
  have s1: "sy_state s1 = sy_state s" by (rule keepsD [OF frame.k_now refl t])
  let ?s2 = "s1\<lparr>sy_state := (sy_state s1)\<lparr>ps_Quarantined := gm_put n \<lparr>qr_Reason = r,
         qr_Since = (case gm_get (st_quarantined s) n of None \<Rightarrow> t | Some q \<Rightarrow> qr_Since q), qr_AwaitingHealth = False\<rparr> (st_quarantined s1)\<rparr>\<rparr>"
  obtain t' s3 where t': "run_state (now ev) ?s2 = (t', s3)" by fastforce
  have s3: "sy_state s3 = sy_state ?s2" by (rule keepsD [OF frame.k_now refl t'])
  obtain e where "run_state (auditLocked ev e c) s3 = (x, s')"
    using assms False t t' by (auto simp: quarantineLocked_def put_quarantine_def modify_state_def)
  then have "sy_state s' = sy_state s3" by (rule keepsD [OF frame.k_auditLocked refl])
  then show ?thesis using s1 s3 by (auto simp: fenced_def)
qed

text \<open>A loop whose body keeps \<open>K\<close> and quarantines \<open>G x\<close>.\<close>

lemma for_join_fences:
  assumes "\<And>x s r s'. x \<in> set xs \<Longrightarrow> K s \<Longrightarrow> run_state (f x) s = (r, s') \<Longrightarrow> K s' \<and> fenced s \<union> G x \<subseteq> fenced s'"
    and "K s" and "run_state (for_join f xs) s = (e, s')"
  shows "K s' \<and> fenced s \<union> (\<Union>x \<in> set xs. G x) \<subseteq> fenced s'"
  using assms
proof (induction xs arbitrary: s e s')
  case (Cons x xs)
  obtain e1 s1 where one: "run_state (f x) s = (e1, s1)" by fastforce
  obtain e2 s2 where rest: "run_state (for_join f xs) s1 = (e2, s2)" by fastforce
  have "s2 = s'" using Cons.prems(3) one rest by simp
  moreover have "K s1 \<and> fenced s \<union> G x \<subseteq> fenced s1" using Cons.prems(1) [OF _ Cons.prems(2) one] by simp
  moreover have "K s2 \<and> fenced s1 \<union> (\<Union>x \<in> set xs. G x) \<subseteq> fenced s2"
  proof (rule Cons.IH [OF _ _ rest])
    show "K s1" using calculation(2) by simp
    show "K s'' \<and> fenced s' \<union> G y \<subseteq> fenced s''" if "y \<in> set xs" "K s'" "run_state (f y) s' = (r, s'')" for y s' r s''
      by (rule Cons.prems(1) [OF _ that(2,3)]) (simp add: that(1))
  qed
  ultimately show ?case by auto
qed simp

lemma fence_known_effect:
  assumes "st_known s = K" and "run_state (fence_known ev reason n) s = (r, s')"
  shows "st_known s' = K \<and> fenced s \<union> (if gm_get K n \<noteq> None then {n} else {}) \<subseteq> fenced s'"
  using assms quarantine_effect [of ev n _ reason None "''inventory''" s r s']
  by (cases "gm_get K n") (auto simp: fence_known_def)

lemma persist_state: "keeps (\<lambda>s. sy_state s = st) (persist ev)"
  unfolding persist_def by (rule frame.k_attempt) (simp add: store_state_def)

text \<open>
  C30: when the inventory fails and the last observation is no longer fresh, every device the agent
  knows is quarantined, nothing is offered and the node is reported unsafe.
\<close>

theorem inventory_failure_fences:
  assumes "env_ok ev"
    and "run_state (inventoryFailedLocked ev cfg err) s = ((snapshot, safety, e), s')"
    and "freshness_error cfg (ev_now ev (sy_step s)) (sy_last s) \<noteq> None"
  shows "sn_Devices snapshot = [] \<and> sf_Unsafe safety \<and> set (gm_keys (st_known s')) \<subseteq> fenced s'"
proof -
  let ?reason = "''inventory unavailable'' @ (case err of None \<Rightarrow> [] | Some m \<Rightarrow> '': '' @ m)"
  obtain stale s1 where fr: "run_state (inventoryFresh ev cfg (sy_last s)) s = (stale, s1)" by fastforce
  have s1: "sy_state s1 = sy_state s" by (rule keepsD [OF frame.k_inventoryFresh refl fr])
  have stale: "stale \<noteq> None"
  proof (cases "sn_ObservedAt (sy_last s) = 0")
    case True
    then show ?thesis using fr by (auto simp: inventoryFresh_def freshness_error_def)
  next
    case False
    then show ?thesis using fr assms(3) by (auto simp: inventoryFresh_def now_def next_step_def)
  qed
  then obtain m where m: "stale = Some m" by blast
  obtain names s2 where rk: "run_state (range_keys ev (st_known s1)) s1 = (names, s2)" by fastforce
  have s2: "sy_state s2 = sy_state s1" by (rule keepsD [OF frame.k_range_keys refl rk])
  have names: "set names = set (gm_keys (st_known s1))"
    using rk assms(1) by (auto simp: range_keys_def next_step_def env_ok_def)
  obtain auditErr s3 where fj: "run_state (for_join (fence_known ev ?reason) names) s2 = (auditErr, s3)" by fastforce
  have s3: "st_known s3 = st_known s1 \<and> fenced s2 \<union> (\<Union>n \<in> set names. if gm_get (st_known s1) n \<noteq> None then {n} else {}) \<subseteq> fenced s3"
    by (rule for_join_fences [OF fence_known_effect _ fj]) (use s2 in simp_all)
  then have fence: "set (gm_keys (st_known s3)) \<subseteq> fenced s3"
    using names gm_get_None_iff [of "st_known s1"] by auto
  obtain t s4 where nw: "run_state (now ev) s3 = (t, s4)" by fastforce
  have s4: "sy_state s4 = sy_state s3" by (rule keepsD [OF frame.k_now refl nw])
  obtain pe s5 where ps: "run_state (persist ev) s4 = (pe, s5)" by fastforce
  have s5: "sy_state s5 = sy_state s4" by (rule keepsD [OF persist_state refl ps])
  have "((snapshot, safety, e), s') = ((\<lparr>sn_Devices = [], sn_ObservedAt = t\<rparr>,
      safetyFor \<lparr>sn_Devices = [], sn_ObservedAt = t\<rparr> (st_known s4) (st_quarantined s4), errors_join auditErr pe), s5)"
    unfolding assms(2) [symmetric] using fr m rk fj nw ps by (simp add: inventoryFailedLocked_def Let_def)
  then have res: "s' = s5" "snapshot = \<lparr>sn_Devices = [], sn_ObservedAt = t\<rparr>"
      "safety = safetyFor \<lparr>sn_Devices = [], sn_ObservedAt = t\<rparr> (st_known s4) (st_quarantined s4)"
    by simp_all
  show ?thesis using fence s4 s5 res by (simp add: fenced_def safetyFor_def Let_def)
qed

theorem inventory_failure_fences_witness:
  "set (gm_keys (st_known (snd (run_state (inventoryFailedLocked (sample_env [] True) sample_config None) sample_observed))))
     \<subseteq> fenced (snd (run_state (inventoryFailedLocked (sample_env [] True) sample_config None) sample_observed))"
proof -
  obtain sn sf e s' where r: "run_state (inventoryFailedLocked (sample_env [] True) sample_config None) sample_observed = ((sn, sf, e), s')"
    by (metis prod.collapse)
  have "freshness_error sample_config (ev_now (sample_env [] True) (sy_step sample_observed)) (sy_last sample_observed) \<noteq> None"
    by (simp add: sample_observed_def sample_node_def zero_snapshot_def freshness_error_def)
  from inventory_failure_fences [OF sample_env_ok r this] r show ?thesis by simp
qed

end
