(* ===== verification/Publication_Correct.thy ===== *)
theory Publication_Correct
  imports Publication Janitor_Correct Inventory_Correct
begin

text \<open>
  What is published: bounded slices of exactly the safe devices, a confirmation that is exact, and the
  agreement of the published capacity with the safety summary of the monitoring cycle.
\<close>

section \<open>Slices\<close>

lemma cut_slices_Nil [simp]: "cut_slices [] = []"
  by (subst cut_slices.simps) simp

lemma cut_slices_eq_Nil: "cut_slices ds = [] \<longleftrightarrow> ds = []"
  by (subst cut_slices.simps) (simp add: Let_def)

lemma cut_slices_concat: "concat (cut_slices ds) = ds"
proof (induction ds rule: cut_slices.induct)
  case (1 ds)
  then show ?case by (subst cut_slices.simps) (auto simp: Let_def)
qed

lemma cut_slices_step:
  assumes "ds \<noteq> []"
  shows "cut_slices ds = take 128 ds # cut_slices (drop 128 ds)"
proof (cases "length ds \<le> 128")
  case True
  then show ?thesis using assms by (subst cut_slices.simps) (simp add: maxDevicesPerSlice_def min_def)
next
  case False
  then show ?thesis using assms by (subst cut_slices.simps) (simp add: maxDevicesPerSlice_def min_def)
qed

lemma cut_slices_bounds: "c \<in> set (cut_slices ds) \<Longrightarrow> length c \<le> 128"
proof (induction ds rule: length_induct)
  case (1 ds)
  show ?case
  proof (cases "ds = []")
    case False
    then have "c = take 128 ds \<or> c \<in> set (cut_slices (drop 128 ds))" using 1(2) cut_slices_step by fastforce
    moreover have "length (drop 128 ds) < length ds" using False by simp
    ultimately show ?thesis using 1(1) by fastforce
  qed (use 1(2) in simp)
qed

lemma cut_slices_length: "length (cut_slices ds) = (length ds + 127) div 128"
proof (induction ds rule: length_induct)
  case (1 ds)
  show ?case
  proof (cases "ds = []")
    case False
    have "length (cut_slices ds) = Suc ((length (drop 128 ds) + 127) div 128)"
      using 1 False cut_slices_step [OF False] by simp
    also have "\<dots> = (length ds + 127) div 128"
    proof (cases "length ds \<le> 128")
      case True
      have "1 \<le> length ds" using False by (simp add: Suc_le_eq)
      then have "(length ds + 127) div 128 = 1" using True by (intro div_nat_eqI) simp_all
      then show ?thesis using True by simp
    next
      case False
      then have "length ds + 127 = (length ds - 128 + 127) + 128" by simp
      then have "(length ds + 127) div 128 = Suc ((length ds - 128 + 127) div 128)" by (simp only: div_add_self2)
      then show ?thesis by simp
    qed
    finally show ?thesis .
  qed simp
qed

lemma DriverResourcesAt_shape:
  "\<exists>slices. DriverResourcesAt nodeName snapshot maxAge t = [(nodeName, slices)] \<and>
     concat slices = (if fresh_at snapshot maxAge t
       then map (resourceDevice nodeName) (filter publishable (sn_Devices snapshot)) else []) \<and>
     list_all (\<lambda>c. length c \<le> 128) slices \<and>
     length slices = max 1 ((length (concat slices) + 127) div 128)"
proof -
  define ds where "ds = (if fresh_at snapshot maxAge t
       then map (resourceDevice nodeName) (filter publishable (sn_Devices snapshot)) else [])"
  define slices where "slices = (if cut_slices ds = [] then [[]] else cut_slices ds)"
  have "DriverResourcesAt nodeName snapshot maxAge t = [(nodeName, slices)]"
    by (simp add: DriverResourcesAt_def Let_def slices_def ds_def)
  moreover have "concat slices = ds" using cut_slices_concat [of ds] by (auto simp: slices_def)
  moreover have "list_all (\<lambda>c. length c \<le> 128) slices"
    using cut_slices_bounds [of _ ds] by (auto simp: slices_def list_all_iff)
  moreover have "length slices = max 1 ((length ds + 127) div 128)"
  proof (cases "ds = []")
    case False
    then have "cut_slices ds \<noteq> []" by (simp add: cut_slices_eq_Nil)
    then have "1 \<le> length (cut_slices ds)" by (simp add: Suc_le_eq)
    then show ?thesis using \<open>cut_slices ds \<noteq> []\<close> by (simp add: slices_def cut_slices_length)
  qed (simp add: slices_def)
  ultimately show ?thesis unfolding ds_def [symmetric] by metis
qed

text \<open>
  C27: a node publishes one pool, named after it, whose slices hold at most 128 devices each and no
  more slices than needed; together they are, in the order of the inventory, exactly the devices that
  are eligible, present and healthy, and nothing when the observation is not fresh.
\<close>

theorem DriverResourcesAt_pool:
  "\<exists>slices. DriverResourcesAt nodeName snapshot maxAge t = [(nodeName, slices)] \<and>
     concat slices = (if sn_ObservedAt snapshot \<noteq> 0 \<and> sn_ObservedAt snapshot \<le> t + 5 * second \<and> time_sub t (sn_ObservedAt snapshot) \<le> maxAge
       then map (resourceDevice nodeName)
         (filter (\<lambda>d. dv_Eligible d \<and> dv_CharacterDevicePresent d \<and> dv_Health d = HealthHealthy) (sn_Devices snapshot)) else []) \<and>
     list_all (\<lambda>c. length c \<le> 128) slices \<and>
     length slices = max 1 ((length (concat slices) + 127) div 128)"
  using DriverResourcesAt_shape [of nodeName snapshot maxAge t]
  by (simp only: fresh_at_def publishable_def [abs_def] not_less)

section \<open>Confirmation\<close>

text \<open>What a device says: its name and the maps of attributes and capacities, nil and empty alike.\<close>

definition or_empty :: "('k, 'v) gomap option \<Rightarrow> ('k, 'v) gomap" where
  "or_empty m = (case m of None \<Rightarrow> [] | Some x \<Rightarrow> x)"

definition content :: "ResourceDevice \<Rightarrow> string \<times> (string \<Rightarrow> DeviceAttribute option) \<times> (string \<Rightarrow> int option)" where
  "content d = (rd_Name d, gm_get (or_empty (rd_Attributes d)), gm_get (or_empty (rd_Capacity d)))"

lemma gm_get_eq_iff: "gm_get m = gm_get n \<longleftrightarrow> list_all (\<lambda>k. gm_get m k = gm_get n k) (gm_keys m @ gm_keys n)"
proof
  assume *: "list_all (\<lambda>k. gm_get m k = gm_get n k) (gm_keys m @ gm_keys n)"
  show "gm_get m = gm_get n"
  proof
    fix k
    show "gm_get m k = gm_get n k"
      using * gm_get_None_iff [of m k] gm_get_None_iff [of n k]
      by (cases "k \<in> set (gm_keys m) \<union> set (gm_keys n)") (auto simp: list_all_iff)
  qed
qed (simp add: list_all_iff)

text \<open>
  What \<open>Semantic.DeepEqual\<close> documents: values are compared deeply, maps as maps, and nil and empty maps are
  equal.
\<close>

definition map_equal :: "(string, 'v) gomap option \<Rightarrow> (string, 'v) gomap option \<Rightarrow> bool" where
  "map_equal a b =
     (let m = (case a of None \<Rightarrow> [] | Some m \<Rightarrow> m); n = (case b of None \<Rightarrow> [] | Some m \<Rightarrow> m)
      in list_all (\<lambda>k. gm_get m k = gm_get n k) (gm_keys m @ gm_keys n))"

definition device_equal :: "ResourceDevice \<Rightarrow> ResourceDevice \<Rightarrow> bool" where
  "device_equal a b \<longleftrightarrow> rd_Name a = rd_Name b \<and> map_equal (rd_Attributes a) (rd_Attributes b) \<and>
     map_equal (rd_Capacity a) (rd_Capacity b)"

lemma map_equal_iff: "map_equal a b \<longleftrightarrow> gm_get (or_empty a) = gm_get (or_empty b)"
  by (simp add: map_equal_def or_empty_def Let_def gm_get_eq_iff)

lemma device_equal_iff: "device_equal a b \<longleftrightarrow> content a = content b"
  by (auto simp: device_equal_def map_equal_iff content_def)

lemma or_empty_nil [simp]: "or_empty (nil_if_empty m) = or_empty m"
  by (auto simp: or_empty_def nil_if_empty_def)

lemma content_normalize: "map content (normalizeDeviceCollections ds) = map content ds"
  by (simp add: normalizeDeviceCollections_def content_def)

lemma same_devices_content:
  "same_devices (list_all2 device_equal) actual expected \<longleftrightarrow> map content (sort_key rd_Name actual) = map content (sort_key rd_Name expected)"
proof -
  have "list_all2 device_equal xs ys \<longleftrightarrow> map content xs = map content ys" for xs ys
    by (auto simp: list_all2_conv_all_nth device_equal_iff list_eq_iff_nth_eq)
  then show ?thesis unfolding same_devices_def by (simp only: content_normalize)
qed

lemma content_name: "fst (content d) = rd_Name d"
  by (simp add: content_def)

lemma same_devices_mset:
  assumes "distinct (map rd_Name expected)"
  shows "same_devices (list_all2 device_equal) actual expected \<longleftrightarrow> mset (map content actual) = mset (map content expected)"
proof
  assume "same_devices (list_all2 device_equal) actual expected"
  then have "mset (map content (sort_key rd_Name actual)) = mset (map content (sort_key rd_Name expected))"
    by (simp only: same_devices_content)
  then show "mset (map content actual) = mset (map content expected)" by (simp only: mset_map mset_sort)
next
  assume eq: "mset (map content actual) = mset (map content expected)"
  let ?a = "map content (sort_key rd_Name actual)" and ?e = "map content (sort_key rd_Name expected)"
  have names: "map fst (map content ds) = map rd_Name ds" for ds by (simp add: content_name)
  have m: "mset ?a = mset ?e" using eq by (simp only: mset_map mset_sort)
  have de: "distinct (map fst ?e)" unfolding names
    using assms by (metis distinct_map mset_eq_imp_distinct_iff mset_map mset_sort)
  then have da: "distinct (map fst ?a)" using m by (metis mset_eq_imp_distinct_iff mset_map)
  have se: "set ?a = set ?e" using m by (rule mset_eq_setD)
  have "?a = ?e"
  proof (rule map_sorted_distinct_set_unique [where f = fst])
    show "inj_on fst (set ?a \<union> set ?e)" using de unfolding se Un_absorb distinct_map [of fst] by blast
    show "sorted (map fst ?a)" "sorted (map fst ?e)" unfolding names by simp_all
  qed (use da de se in auto)
  then show "same_devices (list_all2 device_equal) actual expected" by (simp only: same_devices_content)
qed

lemma slice_errors_None:
  "first_error (slice_error nodeName n (case actual of [] \<Rightarrow> 0 | s # _ \<Rightarrow> rs_Generation s)) actual = None \<longleftrightarrow>
     (\<exists>g. \<forall>s \<in> set actual. rs_PoolName s = nodeName \<and> rs_ResourceSliceCount s = int n \<and> rs_Generation s = g)"
  by (cases actual) (auto simp: first_error_None slice_error_def split: if_splits)

text \<open>
  C28: publication is confirmed exactly when the API server lists, for this driver and node, as many
  slices as desired, all of one generation of the node's complete pool, and together they carry the
  desired devices with the same attributes and capacities, each once and no other.
\<close>

theorem ConfirmResourcePublication_iff:
  assumes "deepEqual = list_all2 device_equal" and "distinct (map rd_Name (concat slices))"
  shows "ConfirmResourcePublication deepEqual nodeName driver [(nodeName, slices)] (Inr items) = None \<longleftrightarrow>
     (let actual = filter (published_here nodeName driver) items
      in length actual = length slices \<and>
         (\<exists>g. \<forall>s \<in> set actual. rs_PoolName s = nodeName \<and> rs_ResourceSliceCount s = int (length slices) \<and> rs_Generation s = g) \<and>
         mset (map content (concat (map rs_Devices actual))) = mset (map content (concat slices)))"
proof -
  let ?actual = "filter (published_here nodeName driver) items"
  have "ConfirmResourcePublication deepEqual nodeName driver [(nodeName, slices)] (Inr items) = None \<longleftrightarrow>
      length ?actual = length slices \<and>
      first_error (slice_error nodeName (length slices) (case ?actual of [] \<Rightarrow> 0 | s # _ \<Rightarrow> rs_Generation s)) ?actual = None \<and>
      same_devices (list_all2 device_equal) (concat (map rs_Devices ?actual)) (concat slices)"
    unfolding ConfirmResourcePublication_def Let_def assms(1) by (simp add: gm_get_Cons split: option.split)
  then show ?thesis unfolding slice_errors_None same_devices_mset [OF assms(2)] Let_def .
qed

definition sample_slice :: "ResourceDevice list \<Rightarrow> ResourceSlice" where
  "sample_slice ds = \<lparr>rs_Name = ''s'', rs_Driver = ''d'', rs_NodeName = Some ''n'', rs_PoolName = ''n'', rs_Generation = 7,
     rs_ResourceSliceCount = 1, rs_Devices = ds\<rparr>"

theorem ConfirmResourcePublication_iff_witness:
  "ConfirmResourcePublication (list_all2 device_equal) ''n'' ''d'' [(''n'', [[\<lparr>rd_Name = ''a'', rd_Attributes = Some [], rd_Capacity = Some []\<rparr>]])]
     (Inr [sample_slice [\<lparr>rd_Name = ''a'', rd_Attributes = None, rd_Capacity = None\<rparr>]]) = None"
  by (subst ConfirmResourcePublication_iff [OF refl])
    (simp_all add: sample_slice_def published_here_def content_def or_empty_def)

section \<open>Agreement with the monitor\<close>

lemma publishable_filtered:
  "d \<in> set (sn_Devices (filterLocked q sn)) \<Longrightarrow> publishable d \<Longrightarrow> gm_get q (DRAName d) = None \<and> d \<in> set (sn_Devices sn)"
  by (auto simp: publishable_def dest: filterLocked_eligible)

text \<open>The devices a pool holds.\<close>

definition pool_names :: "DriverResources_type \<Rightarrow> string set" where
  "pool_names r = rd_Name ` set (concat (concat (map snd r)))"

lemma DriverResourcesAt_names:
  "pool_names (DriverResourcesAt nodeName sn maxAge t) =
     (if fresh_at sn maxAge t then DRAName ` set (filter publishable (sn_Devices sn)) else {})"
proof -
  let ?ds = "if fresh_at sn maxAge t then map (resourceDevice nodeName) (filter publishable (sn_Devices sn)) else []"
  have "concat (if cut_slices ?ds = [] then [[]] else cut_slices ?ds) = ?ds"
    using cut_slices_concat [of ?ds] by auto
  moreover have "concat (concat (map snd [(nodeName, x)])) = concat x" for x :: "ResourceDevice list list" by simp
  ultimately have "pool_names (DriverResourcesAt nodeName sn maxAge t) = rd_Name ` set ?ds"
    unfolding pool_names_def DriverResourcesAt_def Let_def by (simp only:)
  moreover have "rd_Name (resourceDevice nodeName d) = DRAName d" for d by (simp add: resourceDevice_def Let_def)
  ultimately show ?thesis by (simp add: image_image)
qed

text \<open>
  What a node publishes after a monitoring cycle contains no device that is quarantined when the
  cycle ends.
\<close>

theorem published_not_quarantined:
  "case run_state (Monitor ev cfg snapshot) s of ((filtered, _, _), s') \<Rightarrow>
     pool_names (DriverResourcesAt nodeName filtered maxAge t) \<inter> fenced s' = {}"
proof -
  obtain f sf e s' where r: "run_state (Monitor ev cfg snapshot) s = ((f, sf, e), s')" by (metis prod.collapse)
  have "safe_offer f s'" using hoareD [OF Monitor_safe_offer _ r] by simp
  then show ?thesis
    unfolding r by (auto simp: DriverResourcesAt_names safe_offer_def fenced_def publishable_def)
qed

lemma BuildSnapshot_certified:
  assumes "BuildSnapshot (Some (Inr obs)) t = Inr sn" and "d \<in> set (sn_Devices sn)" and "dv_Eligible d"
  shows "certified d"
proof -
  let ?ds = "sort_key dv_StableID (map (\<lambda>obs. normalize_device obs t) obs)"
  have "sn_Devices sn = markDuplicateIdentities ?ds" using assms(1) by (auto simp: BuildSnapshot_def)
  then have "d \<in> set ?ds" using assms(2,3) mark_sorted_eligible [of ?ds d] by simp
  then show ?thesis using assms(3) normalize_eligible by auto
qed

text \<open>
  C29: the two decisions of a node agree, up to the age of the observation.  For an inventory built from observations, the
  published pool is empty exactly when the safety summary fences the node or the observation has expired by the
  time of the publication.  So while it is fresh, capacity is published exactly when the node is reported safe.
\<close>

theorem unsafe_iff_no_capacity:
  assumes "BuildSnapshot (Some (Inr obs)) t0 = Inr sn"
  shows "pool_names (DriverResourcesAt nodeName (filterLocked q sn) maxAge t) = {} \<longleftrightarrow>
     sf_Unsafe (safetyFor (filterLocked q sn) known q) \<or> \<not> fresh_at sn maxAge t"
proof -
  have "counts_healthy q d \<longleftrightarrow> publishable d" if d: "d \<in> set (sn_Devices (filterLocked q sn))" for d
  proof (cases "dv_Eligible d")
    case True
    from filterLocked_eligible [OF d True] have "gm_get q (DRAName d) = None" "d \<in> set (sn_Devices sn)" by auto
    with BuildSnapshot_certified [OF assms _ True] True show ?thesis
      by (simp add: counts_healthy_def publishable_def certified_def)
  qed (simp add: counts_healthy_def publishable_def)
  then have "filter (counts_healthy q) (sn_Devices (filterLocked q sn)) = filter publishable (sn_Devices (filterLocked q sn))"
    by (rule filter_cong [OF refl])
  moreover have "fresh_at (filterLocked q sn) maxAge t = fresh_at sn maxAge t" by (simp add: fresh_at_def filterLocked_def)
  ultimately show ?thesis by (auto simp: safetyFor_def Let_def DriverResourcesAt_names filter_empty_conv)
qed

theorem unsafe_iff_no_capacity_witness:
  "pool_names (DriverResourcesAt ''n'' (filterLocked [] \<lparr>sn_Devices = [normalize_device sample_raw 1], sn_ObservedAt = 1\<rparr>) 5 2) = {} \<longleftrightarrow>
     sf_Unsafe (safetyFor (filterLocked [] \<lparr>sn_Devices = [normalize_device sample_raw 1], sn_ObservedAt = 1\<rparr>) [] [])"
proof -
  have "fresh_at \<lparr>sn_Devices = [normalize_device sample_raw 1], sn_ObservedAt = 1\<rparr> 5 2" by (simp add: fresh_at_def time_sub_def)
  moreover have "BuildSnapshot (Some (Inr [sample_raw])) 1 = Inr \<lparr>sn_Devices = [normalize_device sample_raw 1], sn_ObservedAt = 1\<rparr>"
    by (simp add: BuildSnapshot_def)
  ultimately show ?thesis using unsafe_iff_no_capacity [where obs = "[sample_raw]"] by blast
qed

end
