(* ===== verification/Replacement.thy ===== *)
theory Replacement
  imports Janitor_Correct
begin

text \<open>
  What happens to a device that takes the place of another one at the same device path.
\<close>

section \<open>Replaced hardware\<close>

text \<open>The agent still knows a device of another name at the path \<open>p\<close>.\<close>

definition stale_path :: "string \<Rightarrow> string \<Rightarrow> sys \<Rightarrow> bool" where
  "stale_path prior p s \<longleftrightarrow> map_option kd_Path (gm_get (st_known s) prior) = Some p"

interpretation stale: frame_invariant "stale_path prior p" for prior p
  by unfold_locales (simp_all add: stale_path_def append_audit_def)

interpretation fence: frame_invariant "\<lambda>s. F \<subseteq> fenced s" for F
  by unfold_locales (simp_all add: fenced_def append_audit_def)

lemma stale_quarantine: "keeps (stale_path prior p) (quarantineLocked ev n q r c a)"
  by (rule keepsI) (auto simp: stale_path_def dest: quarantine_effect)

lemma fence_quarantine: "keeps (\<lambda>s. F \<subseteq> fenced s) (quarantineLocked ev n q r c a)"
  by (rule keepsI) (auto dest: quarantine_effect)

lemma stale_put_known: "n \<noteq> prior \<Longrightarrow> keeps (stale_path prior p) (put_known n k)"
  unfolding put_known_def modify_state_def by (rule keeps_modify) (simp add: stale_path_def)

lemma fence_put_known: "keeps (\<lambda>s. F \<subseteq> fenced s) (put_known n k)"
  unfolding put_known_def modify_state_def by (rule keeps_modify) (simp add: fenced_def)

lemma stale_observe_device:
  "DRAName item \<noteq> prior \<Longrightarrow> keeps (stale_path prior p) (observe_device ev cfg os b t item)"
  unfolding observe_device_def
  by (intro keeps_intro stale_quarantine stale_put_known stale.k_range_keys stale.k_claimForOwner)

lemma fence_observe_device: "keeps (\<lambda>s. F \<subseteq> fenced s) (observe_device ev cfg os b t item)"
  unfolding observe_device_def
  by (intro keeps_intro fence_quarantine fence_put_known fence.k_range_keys fence.k_claimForOwner)

lemma fence_observe_missing: "keeps (\<lambda>s. F \<subseteq> fenced s) (observe_missing ev os ob n)"
  unfolding observe_missing_def by (intro keeps_intro fence_quarantine fence.k_claimForOwner)

text \<open>A device at the path of another known device is quarantined when it is observed.\<close>

definition identity_loop :: "env \<Rightarrow> InventoryDevice \<Rightarrow> (string, KnownDevice) gomap \<Rightarrow> string list \<Rightarrow> go_error op" where
  "identity_loop ev item known = for_join (\<lambda>priorName.
     if priorName \<noteq> DRAName item \<and> map_option kd_Path (gm_get known priorName) = Some (nd_Path (dv_Node item))
     then quarantineLocked ev (DRAName item) (nd_Path (dv_Node item)) ''hardware identity changed on device path'' None ''hotplug''
     else ret None)"

lemma identity_loop_fences:
  assumes "prior \<in> set priors" and "prior \<noteq> DRAName item"
    and "map_option kd_Path (gm_get known prior) = Some (nd_Path (dv_Node item))"
    and "run_state (identity_loop ev item known priors) s = (e, s')"
  shows "DRAName item \<in> fenced s'"
proof -
  let ?G = "\<lambda>priorName. if priorName \<noteq> DRAName item \<and> map_option kd_Path (gm_get known priorName) = Some (nd_Path (dv_Node item))
    then {DRAName item} else {}"
  have "True \<and> fenced s \<union> (\<Union>x \<in> set priors. ?G x) \<subseteq> fenced s'"
    by (rule for_join_fences [where K = "\<lambda>_. True" and G = ?G, OF _ _ assms(4) [unfolded identity_loop_def]])
      (auto split: if_splits dest: quarantine_effect)
  then have "?G prior \<subseteq> fenced s'" using assms(1) by blast
  moreover have "?G prior = {DRAName item}" using assms(2,3) by simp
  ultimately show ?thesis by simp
qed

lemma observe_device_fences:
  assumes "env_ok ev" and "stale_path prior (nd_Path (dv_Node item)) s" and "prior \<noteq> DRAName item"
    and "run_state (observe_device ev cfg os False t item) s = (e, s')"
  shows "DRAName item \<in> fenced s'"
proof -
  obtain priors s1 where rk: "run_state (range_keys ev (st_known s)) s = (priors, s1)" by fastforce
  have "prior \<in> set priors"
    using rk assms(1,2) gm_get_None_iff [of "st_known s" prior]
    by (auto simp: range_keys_def next_step_def env_ok_def stale_path_def)
  obtain e2 s2 where loop: "run_state (identity_loop ev item (st_known s) priors) s1 = (e2, s2)" by fastforce
  have "DRAName item \<in> fenced s2"
    by (rule identity_loop_fences [OF \<open>prior \<in> set priors\<close> assms(3) _ loop]) (use assms(2) in \<open>simp add: stale_path_def\<close>)
  then have "{DRAName item} \<subseteq> fenced s2" by simp
  then have "{DRAName item} \<subseteq> fenced s'"
  proof (rule keepsD [where I = "\<lambda>s. {DRAName item} \<subseteq> fenced s" and x = e, rotated])
    show "run_state (do {
        put_known (DRAName item) \<lparr>kd_Path = nd_Path (dv_Node item), kd_LastSeen = t\<rparr>;
        e3 \<leftarrow> (if deviceUnsafeReason cfg item \<noteq> []
            then do {
              claim \<leftarrow> claimForOwner (owner_of os (DRAName item));
              quarantineLocked ev (DRAName item) (nd_Path (dv_Node item)) (deviceUnsafeReason cfg item) claim
                (healthAction (owner_of os (DRAName item))) }
            else ret None);
        ret (errors_join None (errors_join e2 e3)) }) s2 = (e, s')"
      using assms(4) rk loop by (simp add: observe_device_def identity_loop_def)
  qed (intro keeps_intro fence_quarantine fence_put_known fence.k_claimForOwner)
  then show ?thesis by simp
qed

text \<open>The loop over a snapshot in which no device has the old name.\<close>

lemma observe_loop_fences:
  assumes "env_ok ev" and "prior \<notin> DRAName ` set items" and "stale_path prior (nd_Path (dv_Node item)) s"
    and "item \<in> set items" and "run_state (for_join (observe_device ev cfg os False t) items) s = (e, s')"
  shows "DRAName item \<in> fenced s'"
  using assms(2-)
proof (induction items arbitrary: s e s')
  case (Cons x items)
  obtain e1 s1 where one: "run_state (observe_device ev cfg os False t x) s = (e1, s1)" by fastforce
  obtain e2 s2 where rest: "run_state (for_join (observe_device ev cfg os False t) items) s1 = (e2, s2)" by fastforce
  have s2: "s' = s2" using Cons.prems(4) one rest by simp
  have st: "stale_path prior (nd_Path (dv_Node item)) s1"
    using keepsD [OF stale_observe_device Cons.prems(2) one] Cons.prems(1) by auto
  show ?case
  proof (cases "item \<in> set items")
    case True
    then show ?thesis using Cons.IH [OF _ st True rest] Cons.prems(1) s2 by auto
  next
    case False
    then have "item = x" using Cons.prems(3) by simp
    then have "{DRAName item} \<subseteq> fenced s1"
      using observe_device_fences [OF assms(1) Cons.prems(2) _] one Cons.prems(1) by auto
    then have "{DRAName item} \<subseteq> fenced s2"
      by (rule keepsD [OF keeps_for_join [OF fence_observe_device] _ rest])
    then show ?thesis using s2 by simp
  qed
qed simp

lemma observe_offers_nothing:
  assumes "env_ok ev" and "prior \<notin> DRAName ` set (sn_Devices sn)" and "stale_path prior (nd_Path (dv_Node item)) s"
    and "item \<in> set (sn_Devices sn)" and "run_state (observeLocked ev cfg sn False) s = ((f, sf, e), s')"
  shows "\<forall>d \<in> set (sn_Devices f). DRAName d = DRAName item \<longrightarrow> \<not> dv_Eligible d"
proof -
  obtain os s1 where os: "run_state (deviceOwners ev) s = (os, s1)" by fastforce
  have s1: "stale_path prior (nd_Path (dv_Node item)) s1" by (rule keepsD [OF stale.k_deviceOwners assms(3) os])
  obtain e1 s2 where loop: "run_state (for_join (observe_device ev cfg os False (sn_ObservedAt sn)) (sn_Devices sn)) s1 = (e1, s2)"
    by fastforce
  have "{DRAName item} \<subseteq> fenced s2" using observe_loop_fences [OF assms(1,2) s1 assms(4) loop] by simp
  moreover obtain names s3 where rk: "run_state (range_keys ev (st_known s2)) s2 = (names, s3)" by fastforce
  ultimately have "{DRAName item} \<subseteq> fenced s3" by (rule keepsD [OF fence.k_range_keys])
  moreover obtain e2 s4 where ms: "run_state (for_join (observe_missing ev os (index_by DRAName (sn_Devices sn))) names) s3 = (e2, s4)"
    by fastforce
  ultimately have "{DRAName item} \<subseteq> fenced s4" by (rule keepsD [OF keeps_for_join [OF fence_observe_missing]])
  moreover have "filterLocked (st_quarantined s4) sn = f"
    using assms(5) os loop rk ms by (auto simp: observeLocked_def observe_with_def)
  ultimately show ?thesis by (auto simp: fenced_def dest: filterLocked_eligible)
qed

text \<open>A claim on such a device is not verified, so it is never prepared.\<close>

lemma until_error_returns:
  assumes "x \<in> set xs" and "\<And>s. fst (run_state (f x) s) \<noteq> None"
  shows "fst (run_state (until_error f xs) s) \<noteq> None"
  using assms(1)
proof (induction xs arbitrary: s)
  case (Cons y ys)
  obtain e s1 where one: "run_state (f y) s = (e, s1)" by fastforce
  show ?case
  proof (cases e)
    case None
    then have "y \<noteq> x" using one assms(2) [of s] by auto
    then show ?thesis using Cons one None by simp
  qed (use one in simp)
qed simp

lemma index_by_get: "gm_get (index_by f xs) k = Some x \<Longrightarrow> x \<in> set xs \<and> f x = k"
  unfolding index_by_def by (induction xs rule: rev_induct) (auto split: if_splits)

lemma verify_refuses:
  assumes "\<forall>d \<in> set (sn_Devices f). DRAName d = cl_Device c \<longrightarrow> \<not> dv_Eligible d"
  shows "fst (run_state (verify_claimed ev (index_by DRAName (sn_Devices f)) p c) s) \<noteq> None"
  using assms index_by_get [of DRAName "sn_Devices f" "cl_Device c"]
  by (auto simp: verify_claimed_def split: option.splits prod.splits)

text \<open>
  An observation in which the device \<open>name\<close> is at the path \<open>path\<close> and the device \<open>prior\<close> is gone.
\<close>

definition replaced_in :: "string \<Rightarrow> string \<Rightarrow> string \<Rightarrow> InventorySnapshot \<Rightarrow> bool" where
  "replaced_in prior name path sn \<longleftrightarrow> prior \<notin> DRAName ` set (sn_Devices sn) \<and>
     (\<exists>item \<in> set (sn_Devices sn). DRAName item = name \<and> nd_Path (dv_Node item) = path)"

definition always_replaced :: "env \<Rightarrow> string \<Rightarrow> string \<Rightarrow> string \<Rightarrow> bool" where
  "always_replaced ev prior name path \<longleftrightarrow> (\<forall>n sn. ev_inventory ev n = Inr sn \<longrightarrow> replaced_in prior name path sn)"

lemma replaced_offers_nothing:
  assumes "env_ok ev" and "replaced_in prior name path sn" and "stale_path prior path s"
    and "run_state (observeLocked ev cfg sn False) s = ((f, sf, e), s')"
  shows "\<forall>d \<in> set (sn_Devices f). DRAName d = name \<longrightarrow> \<not> dv_Eligible d"
proof -
  obtain item where "item \<in> set (sn_Devices sn)" "DRAName item = name" "nd_Path (dv_Node item) = path"
      "prior \<notin> DRAName ` set (sn_Devices sn)" using assms(2) by (auto simp: replaced_in_def)
  then show ?thesis using observe_offers_nothing [OF assms(1) _ _ _ assms(4)] assms(3) by metis
qed

lemma stale_observe:
  assumes "prior \<notin> DRAName ` set (sn_Devices sn)"
  shows "keeps (stale_path prior path) (observeLocked ev cfg sn False)"
  unfolding observeLocked_def observe_with_def observe_missing_def if_False
  by (intro keeps_intro stale_observe_device stale_quarantine stale.k_deviceOwners stale.k_range_keys stale.k_claimForOwner)
    (use assms in auto)

lemma stale_verify_claimed: "keeps (stale_path prior path) (verify_claimed ev v p d)"
  unfolding verify_claimed_def by (intro keeps_intro stale_quarantine)

lemma verify_inventory_refuses:
  assumes "env_ok ev" and "always_replaced ev prior name path"
    and "stale_path prior path s" and "c \<in> set (pc_Devices p)" and "cl_Device c = name"
    and "run_state (verify_inventory ev cfg p) s = (e, s')"
  shows "e \<noteq> None" and "stale_path prior path s'"
proof -
  obtain i s1 where inv: "run_state (inventory ev) s = (i, s1)" by fastforce
  have s1: "stale_path prior path s1" by (rule keepsD [OF stale.k_inventory assms(3) inv])
  have "e \<noteq> None \<and> stale_path prior path s'"
  proof (cases i)
    case (Inl m)
    then show ?thesis using assms(6) inv s1 by (auto simp: verify_inventory_def)
  next
    case i: (Inr sn)
    then have rep: "replaced_in prior name path sn" using inv assms(2)
      by (auto simp: inventory_def next_step_def always_replaced_def)
    obtain st s2 where fr: "run_state (inventoryFresh ev cfg sn) s1 = (st, s2)" by fastforce
    have s2: "stale_path prior path s2" by (rule keepsD [OF stale.k_inventoryFresh s1 fr])
    show ?thesis
    proof (cases st)
      case (Some m)
      then show ?thesis using assms(6) inv i fr s2 by (auto simp: verify_inventory_def)
    next
      case st: None
      obtain f sf eo s3 where ob: "run_state (observeLocked ev cfg sn False) s2 = ((f, sf, eo), s3)" by (metis prod.collapse)
      have s3: "stale_path prior path s3"
        using rep by (intro keepsD [OF stale_observe s2 ob]) (simp add: replaced_in_def)
      show ?thesis
      proof (cases eo)
        case (Some m)
        then show ?thesis using assms(6) inv i fr st ob s3 by (auto simp: verify_inventory_def)
      next
        case eo: None
        let ?v = "until_error (verify_claimed ev (index_by DRAName (sn_Devices f)) p) (pc_Devices p)"
        have run: "run_state ?v s3 = (e, s')" using assms(6) inv i fr st ob eo by (simp add: verify_inventory_def)
        have "\<forall>d \<in> set (sn_Devices f). DRAName d = cl_Device c \<longrightarrow> \<not> dv_Eligible d"
          using replaced_offers_nothing [OF assms(1) rep s2 ob] assms(5) by simp
        then have "fst (run_state ?v s3) \<noteq> None" by (intro until_error_returns [OF assms(4)] verify_refuses)
        then show ?thesis using run keepsD [OF keeps_until_error [OF stale_verify_claimed] s3 run] by simp
      qed
    qed
  qed
  then show "e \<noteq> None" "stale_path prior path s'" by simp_all
qed

lemma stale_sanitize: "keeps (stale_path prior q) (sanitize_claimed ev p d)"
  unfolding sanitize_claimed_def sanitizeLocked_def device_reset_def del_quarantine_def put_quarantine_def modify_state_def
  by (intro keeps_intro stale.k_next_step stale.k_now stale.k_auditLocked keeps_modify) (simp_all add: stale_path_def)

lemma stale_persist: "keeps (stale_path prior q) (persist ev)"
  unfolding persist_def by (rule stale.k_attempt) (simp add: stale_path_def store_state_def)

lemma stale_writeCDI: "keeps (stale_path prior q) (writeCDI ev p)"
  unfolding writeCDI_def by (rule stale.k_attempt) (simp add: stale_path_def store_cdi_def)

lemma stale_claims: "keeps (stale_path prior q) (put_claim uid p)" "keeps (stale_path prior q) (del_claim uid)"
  unfolding put_claim_def del_claim_def modify_state_def by (intro keeps_modify; simp add: stale_path_def)+

lemma finish_prepare_refuses:
  assumes "env_ok ev" and "always_replaced ev prior name path"
    and "stale_path prior path s" and "c \<in> set (pc_Devices p)" and "cl_Device c = name"
    and "run_state (finish_prepare ev cfg uid p os) s = ((r, os'), s')"
  shows "isl r \<and> stale_path prior path s'"
proof -
  obtain e s1 where sz: "run_state (until_error (sanitize_claimed ev p) (pc_Devices p)) s = (e, s1)" by fastforce
  have s1: "stale_path prior path s1" by (rule keepsD [OF keeps_until_error [OF stale_sanitize] assms(3) sz])
  obtain v s2 where vi: "run_state (verify_inventory ev cfg p) s1 = (v, s2)" by fastforce
  from verify_inventory_refuses [OF assms(1,2) s1 assms(4,5) vi] show ?thesis
    using assms(6) sz vi s1 by (cases e; cases v) (auto simp: finish_prepare_def)
qed

lemma prepare_new_refuses:
  assumes "env_ok ev" and "always_replaced ev prior name path"
    and "stale_path prior path s" and "c \<in> set (pc_Devices p)" and "cl_Device c = name"
    and "run_state (prepare_new ev cfg uid p os) s = ((r, os'), s')"
  shows "isl r \<and> stale_path prior path s'"
proof -
  obtain s0 where put: "run_state (put_claim uid p) s = ((), s0)" by (metis old.unit.exhaust prod.collapse)
  have s0: "stale_path prior path s0" by (rule keepsD [OF stale_claims(1) assms(3) put])
  obtain e1 s1 where ps: "run_state (persist ev) s0 = (e1, s1)" by fastforce
  have s1: "stale_path prior path s1" by (rule keepsD [OF stale_persist s0 ps])
  obtain e2 s2 where au: "run_state (auditLocked ev (audit_event ''claim-prepare-intent'' ''recorded'') (Some p)) s1 = (e2, s2)"
    by fastforce
  have s2: "stale_path prior path s2" by (rule keepsD [OF stale.k_auditLocked s1 au])
  show ?thesis
  proof (cases "e1 = None \<and> e2 = None")
    case True
    then have "run_state (finish_prepare ev cfg uid p os) s2 = ((r, os'), s')"
      using assms(6) put ps au by (simp add: prepare_new_def)
    then show ?thesis by (rule finish_prepare_refuses [OF assms(1,2) s2 assms(4,5)])
  next
    case False
    obtain sd where del: "run_state (del_claim uid) s1 = ((), sd)" by (metis old.unit.exhaust prod.collapse)
    have "isl r \<and> (s' = sd \<or> s' = s2)"
      using False assms(6) put ps au del by (cases e1; cases e2) (auto simp: prepare_new_def)
    then show ?thesis using s2 keepsD [OF stale_claims(2) s1 del] by auto
  qed
qed

lemma repair_refuses:
  assumes "name \<in> fenced s" and "c \<in> set (pc_Devices q)" and "cl_Device c = name"
    and "run_state (repair_prepared ev q os) s = ((r, os'), s')"
  shows "isl r \<and> s' = s"
proof -
  have "find (\<lambda>d. gm_get (st_quarantined s) (cl_Device d) \<noteq> None) (pc_Devices q) \<noteq> None"
    using assms(1-3) by (auto simp: find_None_iff fenced_def)
  then show ?thesis using assms(4) by (auto simp: repair_prepared_def)
qed

text \<open>A claim that is admitted contains every device of this driver it asks for.\<close>

lemma allocation_devices_all:
  "allocation_devices cfg uid byName os seen as = Inr ds \<Longrightarrow>
     cl_Device ` set ds = al_Device ` {r \<in> set as. al_Driver r = cf_Driver cfg}"
proof (induction as arbitrary: seen ds)
  case (Cons a as)
  show ?case
  proof (cases "al_Driver a = cf_Driver cfg")
    case True
    with Cons.prems obtain x xs where x: "allocation_device cfg uid byName os seen a = Inr x"
        "allocation_devices cfg uid byName os (seen @ [al_Device a]) as = Inr xs" "ds = x # xs"
      by (auto split: sum.splits)
    have "{r \<in> set (a # as). al_Driver r = cf_Driver cfg} = insert a {r \<in> set as. al_Driver r = cf_Driver cfg}"
      using True by auto
    then show ?thesis using allocation_device_free [OF x(1)] Cons.IH [OF x(2)] x(3) by simp
  next
    case False
    have "{r \<in> set (a # as). al_Driver r = cf_Driver cfg} = {r \<in> set as. al_Driver r = cf_Driver cfg}"
      using False by auto
    then show ?thesis using False Cons by simp
  qed
qed simp

lemma claimFromAllocation_all:
  assumes "claimFromAllocation cfg c a byName os = Inr p" and "rc_Allocation c = Some a"
  shows "cl_Device ` set (pc_Devices p) = wants cfg c"
  using assms allocation_devices_all [of cfg "rc_UID c" byName os "[]" "an_Results a"]
  by (auto simp: claimFromAllocation_def wants_def split: option.splits sum.splits if_splits)

text \<open>
  C34: a preparation of a claim for a device that took the place of another one fails, and the next one fails
  for the same reason.  The agent still knows another name at the path of the device and every observation
  lists the device there and no device of the other name.  Then the observation that verifies the sanitized
  device quarantines it again, so a claim that is new and a claim whose interrupted preparation is resumed are
  both refused; a claim that is prepared already is refused while the device is in quarantine, as every
  observation leaves it.  The old name stays known at that path.
\<close>

theorem replaced_device_unpreparable:
  assumes "env_ok ev" and "\<And>n sn. ev_inventory ev n = Inr sn \<Longrightarrow> replaced_in prior name path sn"
    and "map_option kd_Path (gm_get (st_known s) prior) = Some path" and "name \<in> wants cfg c"
    and "\<And>q. gm_get (st_claims s) (rc_UID c) = Some q \<Longrightarrow> pc_Phase q = ClaimPrepared \<Longrightarrow> gm_get (st_quarantined s) name \<noteq> None"
    and "run_state (prepareOne ev cfg (Some c) byName os) s = ((r, os'), s')"
  shows "isl r \<and> map_option kd_Path (gm_get (st_known s') prior) = Some path"
proof -
  obtain a where a: "rc_Allocation c = Some a" using assms(4) by (auto simp: wants_def split: option.splits)
  have st: "stale_path prior path s" using assms(3) by (simp add: stale_path_def)
  have rep: "always_replaced ev prior name path" using assms(2) by (simp add: always_replaced_def)
  have "isl r \<and> stale_path prior path s'"
  proof (cases "claimFromAllocation cfg c a byName os")
    case (Inl e)
    then show ?thesis using a assms(6) st by (auto simp: prepareOne_def)
  next
    case (Inr p)
    have adm: "run_state (prepare_admitted ev cfg (rc_UID c) p os) s = ((r, os'), s')"
      using assms(6) a Inr by (simp add: prepareOne_def)
    obtain d where d: "d \<in> set (pc_Devices p)" "cl_Device d = name"
      using claimFromAllocation_all [OF Inr a] assms(4) by (metis imageE)
    show ?thesis
    proof (cases "gm_get (st_claims s) (rc_UID c)")
      case None
      then have "run_state (prepare_new ev cfg (rc_UID c) (p\<lparr>pc_Phase := ClaimPreparing\<rparr>) os) s = ((r, os'), s')"
        using adm by (simp add: prepare_admitted_def)
      from prepare_new_refuses [OF assms(1) rep st _ _ this] d show ?thesis by simp
    next
      case (Some q)
      then have ex: "run_state (prepare_existing ev cfg (rc_UID c) q p os) s = ((r, os'), s')"
        using adm by (simp add: prepare_admitted_def)
      show ?thesis
      proof (cases "sameClaim q p \<and> pc_Phase q \<noteq> ClaimReleasing \<and> pc_Phase q \<noteq> ClaimRecovered")
        case False
        then show ?thesis using ex st by (auto simp: prepare_existing_def split: if_splits)
      next
        case True
        then have d': "d \<in> set (pc_Devices q)" using d by (simp add: sameClaim_def)
        show ?thesis
        proof (cases "pc_Phase q = ClaimPrepared")
          case prepared: True
          then have rp: "run_state (repair_prepared ev q os) s = ((r, os'), s')" using ex True by (simp add: prepare_existing_def)
          have "name \<in> fenced s" using assms(5) Some prepared by (auto simp: fenced_def)
          from repair_refuses [OF this d' d(2) rp] st show ?thesis by simp
        next
          case resumed: False
          then have "run_state (finish_prepare ev cfg (rc_UID c) q os) s = ((r, os'), s')"
            using ex True by (simp add: prepare_existing_def)
          then show ?thesis by (rule finish_prepare_refuses [OF assms(1) rep st d' d(2)])
        qed
      qed
    qed
  qed
  then show ?thesis by (simp add: stale_path_def)
qed

text \<open>The sample node after the device \<open>tt-old\<close> at the same path was replaced.\<close>

definition sample_replaced :: sys where
  "sample_replaced = sample_observed\<lparr>sy_state :=
     (sy_state sample_observed)\<lparr>ps_Known := [(''tt-old'', \<lparr>kd_Path = ''/dev/tt0'', kd_LastSeen = 1\<rparr>)]\<rparr>\<rparr>"

theorem replaced_device_unpreparable_witness:
  "isl (fst (fst (run_state (prepareOne (sample_env [] True) sample_config (Some (sample_claim ''u1''))
     [(''tt-a0'', sample_device)] []) sample_replaced)))"
proof -
  obtain r os' s' where run: "run_state (prepareOne (sample_env [] True) sample_config (Some (sample_claim ''u1''))
     [(''tt-a0'', sample_device)] []) sample_replaced = ((r, os'), s')" by (metis prod.collapse)
  have "DRAName sample_device \<in> wants sample_config (sample_claim ''u1'')"
    by (auto simp: wants_def sample_run sample_allocation_def) (simp add: sample_result_def sample_config_def image_iff)
  then have "isl r \<and> map_option kd_Path (gm_get (st_known s') ''tt-old'') = Some ''/dev/tt0''"
    by (intro replaced_device_unpreparable [OF sample_env_ok _ _ _ _ run, where name = "DRAName sample_device"])
      (auto simp: sample_run sample_replaced_def sample_states gm_get_Cons replaced_in_def)
  then show ?thesis using run by simp
qed

end
