(* ===== verification/Exposure.thy ===== *)
theory Exposure
  imports Replacement "HOL-Library.Sublist"
begin

text \<open>
  The order of effects in a preparation (\<open>prepareOne\<close>, \<open>manager.go\<close>): the claim intent is durable before a device
  is touched, every device is reset before the CDI file that exposes it is written, again when an interrupted preparation is
  resumed, and success means that the claim is recorded, exposed and free of quarantined devices.  The proofs classify the runs of the janitor's operations by what they may change:
  \<open>quiet_since\<close> (audit records only), \<open>cleaned_since\<close> (resets and audit records), \<open>unexposed_since\<close> (no CDI file).
\<close>

section \<open>Quiet operations\<close>

text \<open>
  A call that only writes audit records: the claims, the state file and the CDI directory are as in \<open>s0\<close>,
  and the trace has grown by audit records.
\<close>

definition audits :: "effect list \<Rightarrow> bool" where
  "audits t \<longleftrightarrow> set t \<subseteq> range EffAudit"

definition quiet_since :: "sys \<Rightarrow> sys \<Rightarrow> bool" where
  "quiet_since s0 s \<longleftrightarrow> st_claims s = st_claims s0 \<and> sy_disk s = sy_disk s0 \<and> sy_cdi s = sy_cdi s0 \<and>
     (\<exists>t. sy_trace s = sy_trace s0 @ t \<and> audits t)"

lemma quiet_refl [simp]: "quiet_since s s"
  by (auto simp: quiet_since_def audits_def)

interpretation quiet: op_invariant "quiet_since s0" "\<lambda>_ _ _. False" for s0
proof unfold_locales
  fix s e
  assume "quiet_since s0 s"
  then obtain t where "sy_trace s = sy_trace s0 @ t" "audits t" "st_claims s = st_claims s0"
      "sy_disk s = sy_disk s0" "sy_cdi s = sy_cdi s0" by (auto simp: quiet_since_def)
  then have "sy_trace (append_audit e s) = sy_trace s0 @ (t @ [EffAudit e])" "audits (t @ [EffAudit e])"
    by (simp_all add: append_audit_def audits_def)
  then show "quiet_since s0 (append_audit e s)"
    using \<open>st_claims s = _\<close> \<open>sy_disk s = _\<close> \<open>sy_cdi s = _\<close> by (auto simp: quiet_since_def append_audit_def)
qed (auto simp: quiet_since_def)

lemma quiet_run: "keeps (quiet_since s) m \<Longrightarrow> run_state m s = (x, s') \<Longrightarrow> quiet_since s s'"
  using keepsD [of "quiet_since s" m s x s'] by simp

section \<open>Sanitization\<close>

text \<open>A sanitized device: one reset, then an audit record; success means that the reset succeeded.\<close>

lemma sanitize_run:
  assumes "run_state (sanitizeLocked ev a n p c) s = (r, s')"
  shows "\<exists>err s1. s1 = s\<lparr>sy_step := Suc (sy_step s), sy_trace := sy_trace s @ [EffReset a n p err]\<rparr> \<and>
     quiet_since s1 s' \<and> (r = None \<longrightarrow> err = None)"
proof -
  let ?err = "ev_reset ev (sy_step s) p"
  let ?s1 = "s\<lparr>sy_step := Suc (sy_step s), sy_trace := sy_trace s @ [EffReset a n p ?err]\<rparr>"
  obtain t s2 where nw: "run_state (now ev) ?s1 = (t, s2)" by fastforce
  let ?e = "(audit_event a (if ?err = None then ''success'' else ''failure''))
       \<lparr>au_Time := t, au_Device := n, au_Path := p, au_Reason := (case ?err of None \<Rightarrow> [] | Some e \<Rightarrow> e)\<rparr>"
  obtain ae s3 where au: "run_state (auditLocked ev ?e c) s2 = (ae, s3)" by fastforce
  have q3: "quiet_since ?s1 s3"
    by (rule keepsD [OF quiet.k_auditLocked keepsD [OF quiet.k_now quiet_refl nw] au])
  define tail where "tail = (if ?err = None \<and> ae = None then do { del_quarantine n; ret None }
     else do {
       current \<leftarrow> gets (\<lambda>s. gm_get (st_quarantined s) n);
       since \<leftarrow> (case current of None \<Rightarrow> now ev | Some r \<Rightarrow> ret (qr_Since r));
       put_quarantine n \<lparr>
         qr_Reason = ''sanitization failed'' @ (case ?err of
           Some e \<Rightarrow> '': '' @ e
         | None \<Rightarrow> '': audit record failed: '' @ (case ae of None \<Rightarrow> [] | Some e \<Rightarrow> e)),
         qr_Since = since, qr_AwaitingHealth = (case current of None \<Rightarrow> False | Some r \<Rightarrow> qr_AwaitingHealth r)\<rparr>;
       ret (errors_join ?err ae) })"
  have run: "run_state tail s3 = (r, s')"
    using assms nw au by (simp add: sanitizeLocked_def device_reset_def next_step_def tail_def)
  have k: "keeps (quiet_since ?s1) tail" unfolding tail_def by (intro keeps_intro quiet.k_del_quarantine quiet.k_put_quarantine quiet.k_now)
  from keepsD [OF k q3 run] have "quiet_since ?s1 s'" .
  moreover have "r = None \<longrightarrow> ?err = None"
    using run by (auto simp: tail_def split: if_splits prod.splits)
  ultimately show ?thesis by blast
qed

text \<open>
  The claims, the state file and the CDI directory are as in \<open>s0\<close>, and the trace has grown by resets
  and audit records that contain the successful resets \<open>rs\<close> in order.
\<close>

definition cleaned_since :: "effect list \<Rightarrow> sys \<Rightarrow> sys \<Rightarrow> bool" where
  "cleaned_since rs s0 s \<longleftrightarrow> st_claims s = st_claims s0 \<and> sy_disk s = sy_disk s0 \<and> sy_cdi s = sy_cdi s0 \<and>
     (\<exists>t. sy_trace s = sy_trace s0 @ t \<and> subseq rs t \<and> (\<forall>e \<in> set t. (\<exists>a. e = EffAudit a) \<or> (\<exists>a n p err. e = EffReset a n p err)))"

abbreviation reset_ok :: "string \<Rightarrow> ClaimDevice \<Rightarrow> effect" where
  "reset_ok action d \<equiv> EffReset action (cl_Device d) (cl_Path d) None"

lemma cleaned_refl: "cleaned_since [] s s"
  by (simp add: cleaned_since_def)

lemma cleaned_trans: "cleaned_since rs s0 s1 \<Longrightarrow> cleaned_since rs' s1 s2 \<Longrightarrow> cleaned_since (rs @ rs') s0 s2"
proof -
  assume a: "cleaned_since rs s0 s1" and b: "cleaned_since rs' s1 s2"
  from a obtain t where t: "sy_trace s1 = sy_trace s0 @ t" "subseq rs t"
    "\<forall>e \<in> set t. (\<exists>a. e = EffAudit a) \<or> (\<exists>a n p err. e = EffReset a n p err)" by (auto simp: cleaned_since_def)
  from b obtain u where u: "sy_trace s2 = sy_trace s1 @ u" "subseq rs' u"
    "\<forall>e \<in> set u. (\<exists>a. e = EffAudit a) \<or> (\<exists>a n p err. e = EffReset a n p err)" by (auto simp: cleaned_since_def)
  have "sy_trace s2 = sy_trace s0 @ (t @ u)" "subseq (rs @ rs') (t @ u)" using t u by (simp_all add: list_emb_append_mono)
  with t(3) u(3) a b show ?thesis unfolding cleaned_since_def by (metis Un_iff set_append)
qed

lemma quiet_cleaned: "quiet_since s0 s \<Longrightarrow> cleaned_since [] s0 s"
  unfolding quiet_since_def cleaned_since_def audits_def by blast

lemma cleaned_weaken: "cleaned_since rs s0 s \<Longrightarrow> cleaned_since [] s0 s"
  unfolding cleaned_since_def by (meson list_emb_Nil)

lemma sanitize_cleaned:
  assumes "run_state (sanitizeLocked ev a n p c) s = (r, s')"
  shows "cleaned_since (if r = None then [EffReset a n p None] else []) s s'"
proof -
  from sanitize_run [OF assms] obtain err s1 where
    s1: "s1 = s\<lparr>sy_step := Suc (sy_step s), sy_trace := sy_trace s @ [EffReset a n p err]\<rparr>"
    and q: "quiet_since s1 s'" and ok: "r = None \<longrightarrow> err = None" by blast
  have "cleaned_since (if r = None then [EffReset a n p None] else []) s s1"
    using ok unfolding s1 cleaned_since_def by auto
  from cleaned_trans [OF this quiet_cleaned [OF q]] show ?thesis by simp
qed

lemma sanitize_loop_cleaned:
  assumes "run_state (until_error (sanitize_claimed ev c) ds) s = (r, s')"
  shows "cleaned_since (if r = None then map (reset_ok ''preflight-sanitize'') ds else []) s s'"
  using assms
proof (induction ds arbitrary: s)
  case Nil
  then show ?case by (simp add: cleaned_refl)
next
  case (Cons d ds)
  obtain e s1 where one: "run_state (sanitizeLocked ev ''preflight-sanitize'' (cl_Device d) (cl_Path d) (Some c)) s = (e, s1)"
    by fastforce
  note c1 = sanitize_cleaned [OF one]
  obtain e' where one': "run_state (sanitize_claimed ev c d) s = (e', s1)" "e' = None \<longleftrightarrow> e = None"
    using one by (auto simp: sanitize_claimed_def)
  show ?case
  proof (cases e)
    case None
    then have "run_state (until_error (sanitize_claimed ev c) ds) s1 = (r, s')"
      using Cons.prems one' by simp
    note c2 = Cons.IH [OF this]
    from c1 c2 None show ?thesis by (cases r) (auto dest: cleaned_trans cleaned_weaken)
  next
    case (Some m)
    then have "s' = s1" "r \<noteq> None" using Cons.prems one' by (cases e'; auto)+
    then show ?thesis using c1 Some by (auto dest: cleaned_weaken)
  qed
qed

section \<open>Verification\<close>

lemma verify_loop_ok:
  assumes "run_state (until_error (verify_claimed ev v c) ds) s = (None, s')"
  shows "s' = s \<and> (\<forall>d \<in> set ds. \<exists>item. gm_get v (cl_Device d) = Some item \<and> dv_Eligible item)"
  using assms
proof (induction ds arbitrary: s)
  case (Cons d ds)
  obtain e s1 where one: "run_state (verify_claimed ev v c d) s = (e, s1)" by fastforce
  have e: "e = None" using Cons.prems one by (cases e) auto
  then have "s1 = s \<and> (\<exists>item. gm_get v (cl_Device d) = Some item \<and> dv_Eligible item)"
    using one by (auto simp: verify_claimed_def split: if_splits option.splits prod.splits)
  then show ?case using Cons one e by auto
qed simp

lemma verify_ok:
  assumes "run_state (verify_inventory ev cfg p) s = (None, s')"
  shows "\<forall>d \<in> set (pc_Devices p). cl_Device d \<notin> fenced s'"
proof -
  obtain i s1 where inv: "run_state (inventory ev) s = (i, s1)" by fastforce
  with assms obtain sn where i: "i = Inr sn" by (cases i) (auto simp: verify_inventory_def)
  obtain st s2 where fr: "run_state (inventoryFresh ev cfg sn) s1 = (st, s2)" by fastforce
  have st: "st = None" using assms inv i fr by (cases st) (auto simp: verify_inventory_def)
  obtain f sf e s3 where ob: "run_state (observeLocked ev cfg sn False) s2 = ((f, sf, e), s3)" by (metis prod.collapse)
  have e: "e = None" using assms inv i fr st ob by (cases e) (auto simp: verify_inventory_def)
  have "run_state (until_error (verify_claimed ev (index_by DRAName (sn_Devices f)) p) (pc_Devices p)) s3 = (None, s')"
    using assms inv i fr st ob e by (simp add: verify_inventory_def)
  note v = verify_loop_ok [OF this]
  have "safe_offer f s3" using hoareD [OF observeLocked_offer _ ob] by simp
  then show ?thesis using v unfolding safe_offer_def fenced_def by (fastforce dest: index_by_get)
qed

lemma verify_quiet: "run_state (verify_inventory ev cfg p) s = (r, s') \<Longrightarrow> quiet_since s s'"
  by (rule quiet_run [OF quiet.k_verify_inventory])

section \<open>Exposure\<close>

fun is_cdi_write :: "effect \<Rightarrow> bool" where
  "is_cdi_write (EffCDIWrite _ _) = True"
| "is_cdi_write _ = False"

fun intent_of :: "string \<Rightarrow> PreparedClaim \<Rightarrow> effect \<Rightarrow> bool" where
  "intent_of uid p (EffPersist st) \<longleftrightarrow> gm_get (ps_Claims st) uid = Some p"
| "intent_of uid p _ \<longleftrightarrow> False"

text \<open>
  The order of a preparation: the intent is durable, then every device is reset successfully, then the CDI
  file of the claim is written, once.  \<open>exposes\<close> says that a trace keeps it.
\<close>

definition exposes :: "string \<Rightarrow> PreparedClaim \<Rightarrow> effect list \<Rightarrow> bool" where
  "exposes uid p t \<longleftrightarrow> filter is_cdi_write t = [] \<or>
     (\<exists>e w v. t = e # w @ [EffCDIWrite (cdiFilename (pc_UID p)) (cdi_spec p)] @ v \<and> intent_of uid p e \<and>
        subseq (map (reset_ok ''preflight-sanitize'') (pc_Devices p)) w \<and> filter is_cdi_write (w @ v) = [])"

text \<open>Operations that write no CDI file.\<close>

definition unexposed_since :: "sys \<Rightarrow> sys \<Rightarrow> bool" where
  "unexposed_since s0 s \<longleftrightarrow> (\<exists>t. sy_trace s = sy_trace s0 @ t \<and> filter is_cdi_write t = [])"

lemma unexposed_refl [simp]: "unexposed_since s s"
  by (simp add: unexposed_since_def)

lemma unexposed_snoc: "unexposed_since s0 s \<Longrightarrow> sy_trace s' = sy_trace s @ [e] \<Longrightarrow> \<not> is_cdi_write e \<Longrightarrow> unexposed_since s0 s'"
  unfolding unexposed_since_def by force

interpretation dark: storage_invariant "unexposed_since s0" "\<lambda>_ _ _. True" for s0
proof unfold_locales
  fix s e assume "unexposed_since s0 s"
  then show "unexposed_since s0 (append_audit e s)" by (rule unexposed_snoc [where e = "EffAudit e"]) (simp_all add: append_audit_def)
next
  fix s a n p err assume "unexposed_since s0 s"
  then show "unexposed_since s0 (s\<lparr>sy_trace := sy_trace s @ [EffReset a n p err]\<rparr>)"
    by (rule unexposed_snoc [where e = "EffReset a n p err"]) simp_all
next
  fix s assume "unexposed_since s0 s"
  then show "unexposed_since s0 (store_state s)"
    by (rule unexposed_snoc [where e = "EffPersist (sy_state s)"]) (simp_all add: store_state_def)
qed (simp_all add: unexposed_since_def)

lemma dark_removeCDI: "keeps (unexposed_since s0) (removeCDI ev f)"
proof -
  have "unexposed_since s0 (drop_cdi f s)" if "unexposed_since s0 s" for s
    using that by (rule unexposed_snoc [where e = "EffCDIRemove f"]) (simp_all add: drop_cdi_def)
  then show ?thesis unfolding removeCDI_def by (intro keeps_intro dark.k_attempt)
qed

lemma dark_claims: "keeps (unexposed_since s0) (put_claim uid c)" "keeps (unexposed_since s0) (del_claim uid)"
  unfolding put_claim_def del_claim_def modify_state_def by (intro keeps_modify; simp add: unexposed_since_def)+

lemmas dark_intro = keeps_intro dark_removeCDI dark_claims dark.k_auditLocked dark.k_persist dark.k_quarantine_claimed

lemma dark_approve: "keeps (unexposed_since s0) (approve_prepare ev uid p os)"
  unfolding approve_prepare_def by (intro dark_intro)

text \<open>A commit writes the CDI file first, if at all.\<close>

lemma write_run:
  assumes "run_state (writeCDI ev p) s = (e, s')"
  shows "e \<noteq> None \<and> sy_trace s' = sy_trace s \<or>
    sy_trace s' = sy_trace s @ [EffCDIWrite (cdiFilename (pc_UID p)) (cdi_spec p)]"
  using assms
  by (cases "ev_io ev (sy_step s)") (auto simp: writeCDI_def attempt_def io_result_def next_step_def store_cdi_def)

definition commits :: "PreparedClaim \<Rightarrow> effect list \<Rightarrow> bool" where
  "commits p t \<longleftrightarrow> t = [] \<or> (\<exists>v. t = EffCDIWrite (cdiFilename (pc_UID p)) (cdi_spec p) # v \<and> filter is_cdi_write v = [])"

lemma commit_trace:
  assumes "run_state (commit_prepare ev uid p os) s = (r, s')"
  shows "\<exists>t. sy_trace s' = sy_trace s @ t \<and> commits p t"
proof -
  obtain e s1 where w: "run_state (writeCDI ev p) s = (e, s1)" by fastforce
  show ?thesis
  proof (cases e)
    case (Some m)
    then have "s' = s1" using assms w by (simp add: commit_prepare_def)
    then show ?thesis using write_run [OF w] by (auto simp: commits_def)
  next
    case None
    then have "run_state (approve_prepare ev uid p os) s1 = (r, s')" using assms w by (simp add: commit_prepare_def)
    then have "unexposed_since s1 s'" by (rule keepsD [OF dark_approve unexposed_refl])
    then obtain v where "sy_trace s' = sy_trace s1 @ v" "filter is_cdi_write v = []"
      by (auto simp: unexposed_since_def)
    then show ?thesis using write_run [OF w] None by (auto simp: commits_def)
  qed
qed

lemma exposes_commit:
  assumes "intent_of uid p e" and "subseq (map (reset_ok ''preflight-sanitize'') (pc_Devices p)) w"
    and "filter is_cdi_write w = []" and "commits p t"
  shows "exposes uid p (e # w @ t)"
  using assms unfolding exposes_def commits_def
  by (cases e) (auto intro: exI [where x = w])

lemma exposes_dark: "filter is_cdi_write t = [] \<Longrightarrow> exposes uid p t"
  by (simp add: exposes_def)

lemma cleaned_trace:
  assumes "cleaned_since rs s0 s"
  obtains t where "sy_trace s = sy_trace s0 @ t" "subseq rs t" "filter is_cdi_write t = []"
  using assms unfolding cleaned_since_def by (auto simp: filter_empty_conv) (metis is_cdi_write.simps(2,5))

text \<open>The part of a preparation after the intent.\<close>

lemma finish_trace:
  assumes "run_state (finish_prepare ev cfg uid p os) s = (r, s')"
  shows "\<exists>w t. sy_trace s' = sy_trace s @ w @ t \<and> filter is_cdi_write w = [] \<and> commits p t \<and>
    (t \<noteq> [] \<longrightarrow> subseq (map (reset_ok ''preflight-sanitize'') (pc_Devices p)) w)"
proof -
  let ?rs = "map (reset_ok ''preflight-sanitize'') (pc_Devices p)"
  obtain e1 s1 where sz: "run_state (until_error (sanitize_claimed ev p) (pc_Devices p)) s = (e1, s1)" by fastforce
  note c1 = sanitize_loop_cleaned [OF sz]
  obtain e2 s2 where vi: "run_state (verify_inventory ev cfg p) s1 = (e2, s2)" by fastforce
  have c2: "cleaned_since (if e1 = None then ?rs else []) s s2"
    using cleaned_trans [OF c1 quiet_cleaned [OF verify_quiet [OF vi]]] by simp
  show ?thesis
  proof (cases "e1 = None \<and> e2 = None")
    case True
    from c2 True obtain w where w: "sy_trace s2 = sy_trace s @ w" "subseq ?rs w" "filter is_cdi_write w = []"
      by (auto elim: cleaned_trace)
    have "run_state (commit_prepare ev uid p os) s2 = (r, s')" using assms sz vi True by (simp add: finish_prepare_def)
    from commit_trace [OF this] w show ?thesis by auto
  next
    case False
    then have "s' = (if e1 = None then s2 else s1)" using assms sz vi by (auto simp: finish_prepare_def)
    then have "cleaned_since [] s s'" using c1 c2 by (auto dest: cleaned_weaken)
    then show ?thesis by (rule cleaned_trace) (auto simp: commits_def)
  qed
qed

lemma persist_run:
  assumes "run_state (persist ev) s = (e, s')"
  shows "e \<noteq> None \<and> sy_trace s' = sy_trace s \<or> sy_trace s' = sy_trace s @ [EffPersist (sy_state s)]"
    and "e = None \<Longrightarrow> sy_disk s' = StateFile (to_stored (sy_state s)) \<and> sy_cdi s' = sy_cdi s \<and> sy_state s' = sy_state s"
  using assms
  by (cases "ev_io ev (sy_step s)"; auto simp: persist_def attempt_def io_result_def next_step_def store_state_def)+

lemma prepare_new_trace:
  assumes "run_state (prepare_new ev cfg uid p os) s = (r, s')"
  shows "\<exists>t. sy_trace s' = sy_trace s @ t \<and> exposes uid p t"
proof -
  let ?s = "s\<lparr>sy_state := (sy_state s)\<lparr>ps_Claims := gm_put uid p (st_claims s)\<rparr>\<rparr>"
  obtain e1 s1 where ps: "run_state (persist ev) ?s = (e1, s1)" by fastforce
  show ?thesis
  proof (cases e1)
    case (Some m)
    then have "sy_trace s' = sy_trace s1"
      using assms ps by (auto simp: prepare_new_def put_claim_def del_claim_def modify_state_def)
    then show ?thesis using persist_run(1) [OF ps] by (auto simp: exposes_def)
  next
    case None
    then have tr1: "sy_trace s1 = sy_trace s @ [EffPersist (sy_state ?s)]" using persist_run(1) [OF ps] by simp
    obtain e2 s2 where au: "run_state (auditLocked ev (audit_event ''claim-prepare-intent'' ''recorded'') (Some p)) s1 = (e2, s2)"
      by fastforce
    from quiet_run [OF quiet.k_auditLocked au] obtain w0 where w0: "sy_trace s2 = sy_trace s1 @ w0" "filter is_cdi_write w0 = []"
      by (auto elim: cleaned_trace dest: quiet_cleaned)
    have intent: "intent_of uid p (EffPersist (sy_state ?s))" by simp
    show ?thesis
    proof (cases e2)
      case (Some m)
      then have "s' = s2" using assms ps None au by (auto simp: prepare_new_def put_claim_def modify_state_def)
      then show ?thesis using tr1 w0 by (auto intro: exposes_dark)
    next
      case e2: None
      have fin: "run_state (finish_prepare ev cfg uid p os) s2 = (r, s')"
        using assms ps None au e2 by (auto simp: prepare_new_def put_claim_def modify_state_def)
      obtain w t where wt: "sy_trace s' = sy_trace s2 @ w @ t" "filter is_cdi_write w = []" "commits p t"
          "t \<noteq> [] \<longrightarrow> subseq (map (reset_ok ''preflight-sanitize'') (pc_Devices p)) w"
        using finish_trace [OF fin] by blast
      have tr: "sy_trace s' = sy_trace s @ (EffPersist (sy_state ?s) # (w0 @ w) @ t)" using tr1 w0 wt by simp
      have "exposes uid p (EffPersist (sy_state ?s) # (w0 @ w) @ t)"
      proof (cases "t = []")
        case True
        then show ?thesis using w0 wt by (intro exposes_dark) simp
      next
        case False
        then have "subseq (map (reset_ok ''preflight-sanitize'') (pc_Devices p)) (w0 @ w)"
          using wt(4) by (simp add: list_emb_append2)
        then show ?thesis using w0 wt by (intro exposes_commit [OF intent]) simp_all
      qed
      with tr show ?thesis by blast
    qed
  qed
qed

text \<open>
  What a preparation may write, by what the agent has recorded for the claim.  A claim that is not recorded: the
  intent, the resets, the CDI file (\<open>exposes\<close>).  A claim whose intent was recorded by an earlier, interrupted
  preparation: the resets again, then the CDI file (\<open>resumes\<close>).  A claim that is prepared: at most its CDI file,
  and only while no device of it is quarantined (\<open>repairs\<close>).  A claim in release or recovery: nothing.
\<close>

definition resumes :: "PreparedClaim \<Rightarrow> effect list \<Rightarrow> bool" where
  "resumes p t \<longleftrightarrow> filter is_cdi_write t = [] \<or>
     (\<exists>w v. t = w @ [EffCDIWrite (cdiFilename (pc_UID p)) (cdi_spec p)] @ v \<and>
        subseq (map (reset_ok ''preflight-sanitize'') (pc_Devices p)) w \<and> filter is_cdi_write (w @ v) = [])"

definition repairs :: "sys \<Rightarrow> PreparedClaim \<Rightarrow> effect list \<Rightarrow> bool" where
  "repairs s p t \<longleftrightarrow> t = [] \<or> t = [EffCDIWrite (cdiFilename (pc_UID p)) (cdi_spec p)] \<and>
     cl_Device ` set (pc_Devices p) \<inter> fenced s = {}"

definition prepares :: "sys \<Rightarrow> string \<Rightarrow> PreparedClaim \<Rightarrow> effect list \<Rightarrow> bool" where
  "prepares s uid p t \<longleftrightarrow>
     (case gm_get (st_claims s) uid of
        None \<Rightarrow> exposes uid p t
      | Some q \<Rightarrow> p = q \<and>
          (case pc_Phase q of
             ClaimPreparing \<Rightarrow> resumes q t
           | ClaimPrepared \<Rightarrow> repairs s q t
           | ClaimReleasing \<Rightarrow> t = []
           | ClaimRecovered \<Rightarrow> t = []))"

lemma finish_resumes:
  assumes "run_state (finish_prepare ev cfg uid p os) s = (r, s')"
  shows "\<exists>t. sy_trace s' = sy_trace s @ t \<and> resumes p t"
proof -
  obtain w t where wt: "sy_trace s' = sy_trace s @ w @ t" "filter is_cdi_write w = []" "commits p t"
    "t \<noteq> [] \<longrightarrow> subseq (map (reset_ok ''preflight-sanitize'') (pc_Devices p)) w"
    using finish_trace [OF assms] by blast
  then have "resumes p (w @ t)" unfolding resumes_def commits_def by auto
  with wt(1) show ?thesis by blast
qed

lemma repair_trace:
  assumes "run_state (repair_prepared ev q os) s = (r, s')"
  shows "\<exists>t. sy_trace s' = sy_trace s @ t \<and> repairs s q t"
proof (cases "find (\<lambda>d. gm_get (st_quarantined s) (cl_Device d) \<noteq> None) (pc_Devices q)")
  case None
  then have free: "cl_Device ` set (pc_Devices q) \<inter> fenced s = {}" by (auto simp: find_None_iff fenced_def)
  obtain e s1 where w: "run_state (writeCDI ev q) s = (e, s1)" by fastforce
  then have "s' = s1" using assms None by (cases e) (auto simp: repair_prepared_def)
  then show ?thesis using write_run [OF w] free by (auto simp: repairs_def)
next
  case (Some d)
  then have "s' = s" using assms by (auto simp: repair_prepared_def)
  then show ?thesis by (simp add: repairs_def)
qed

lemma prepare_existing_trace:
  assumes "gm_get (st_claims s) uid = Some q" and "run_state (prepare_existing ev cfg uid q p os) s = (r, s')"
  shows "\<exists>t. sy_trace s' = sy_trace s @ t \<and> prepares s uid q t \<and> (t \<noteq> [] \<longrightarrow> sameClaim q p)"
proof (cases "sameClaim q p")
  case False
  then have "s' = s" using assms(2) by (simp add: prepare_existing_def)
  then show ?thesis using assms(1)
    by (auto simp: prepares_def resumes_def repairs_def split: ClaimPhase.split)
next
  case same: True
  then show ?thesis
  proof (cases "pc_Phase q")
    case ClaimPreparing
    then show ?thesis using finish_resumes assms same by (fastforce simp: prepares_def prepare_existing_def)
  next
    case ClaimPrepared
    then show ?thesis using repair_trace assms same by (fastforce simp: prepares_def prepare_existing_def)
  qed (use assms same in \<open>simp_all add: prepares_def prepare_existing_def\<close>)
qed

text \<open>The claim a call asks for: its UID and exactly the devices its allocation names.\<close>

lemma sameClaim_wants:
  assumes "claimFromAllocation cfg c a byName os = Inr p" and "rc_Allocation c = Some a" and "sameClaim q p"
  shows "pc_UID q = rc_UID c" and "cl_Device ` set (pc_Devices q) = wants cfg c"
  using claimFromAllocation_free(1) [OF assms(1,2)] claimFromAllocation_all [OF assms(1,2)] assms(3)
  by (simp_all add: sameClaim_def)

text \<open>
  C3: no device is exposed before it is owned durably and clean.  Whatever fails and whatever the agent has
  recorded, a preparation writes at most one CDI file, the one of the claim.  For a claim that is not recorded,
  it does so only after the intent was written to the state file and every device of the claim was reset
  successfully, in that order.  For a claim whose recorded intent an earlier preparation left behind, every
  device is reset again first.  For a claim that is prepared already, it only rewrites the CDI file of the
  recorded claim, with no reset, and only while none of its devices is quarantined; a claim in release or in
  recovery, or one that asks for other devices than the recorded claim has, has no effect at all.
\<close>

theorem prepare_exposure:
  assumes "run_state (prepareOne ev cfg (Some c) byName os) s = (r, s')"
  shows "\<exists>p t. sy_trace s' = sy_trace s @ t \<and>
     (t = [] \<or> prepares s (rc_UID c) p t \<and> pc_UID p = rc_UID c \<and> cl_Device ` set (pc_Devices p) = wants cfg c)"
proof (cases "\<exists>a p. rc_Allocation c = Some a \<and> claimFromAllocation cfg c a byName os = Inr p")
  case False
  then have "s' = s" using assms by (auto simp: prepareOne_def split: option.splits sum.splits)
  then show ?thesis by simp
next
  case True
  then obtain a p where ap: "rc_Allocation c = Some a" "claimFromAllocation cfg c a byName os = Inr p" by blast
  show ?thesis
  proof (cases "gm_get (st_claims s) (rc_UID c)")
    case None
    let ?p = "p\<lparr>pc_Phase := ClaimPreparing\<rparr>"
    have "run_state (prepare_new ev cfg (rc_UID c) ?p os) s = (r, s')"
      using assms ap None by (simp add: prepareOne_def prepare_admitted_def)
    from prepare_new_trace [OF this] obtain t where t: "sy_trace s' = sy_trace s @ t" "exposes (rc_UID c) ?p t" by blast
    have "sameClaim ?p p" by (simp add: sameClaim_def)
    from sameClaim_wants [OF ap(2,1) this] t None have "prepares s (rc_UID c) ?p t \<and> pc_UID ?p = rc_UID c \<and>
      cl_Device ` set (pc_Devices ?p) = wants cfg c" by (simp add: prepares_def)
    with t(1) show ?thesis by blast
  next
    case (Some q)
    then have "run_state (prepare_existing ev cfg (rc_UID c) q p os) s = (r, s')"
      using assms ap by (simp add: prepareOne_def prepare_admitted_def)
    from prepare_existing_trace [OF Some this] sameClaim_wants [OF ap(2,1)] show ?thesis by blast
  qed
qed

section \<open>What success means\<close>

lemma approve_ok:
  assumes "run_state (approve_prepare ev uid p os) s = ((Inr ds, os'), s')"
  shows "gm_get (st_claims s') uid = Some (p\<lparr>pc_Phase := ClaimPrepared\<rparr>) \<and>
    sy_disk s' = StateFile (to_stored (sy_state s')) \<and> sy_cdi s' = sy_cdi s \<and>
    ds = cdiResults (p\<lparr>pc_Phase := ClaimPrepared\<rparr>) \<and> fenced s' = fenced s"
proof -
  obtain e1 s1 where au: "run_state (auditLocked ev (audit_event ''claim-prepare'' ''approved'') (Some p)) s = (e1, s1)" by fastforce
  have e1: "e1 = None" using assms au by (cases e1) (auto simp: approve_prepare_def split: prod.splits)
  have s1: "sy_state s1 = sy_state s" "sy_cdi s1 = sy_cdi s"
    using keepsD [OF frame.k_auditLocked refl au] quiet_run [OF quiet.k_auditLocked au] by (auto simp: quiet_since_def)
  let ?s2 = "s1\<lparr>sy_state := (sy_state s1)\<lparr>ps_Claims := gm_put uid (p\<lparr>pc_Phase := ClaimPrepared\<rparr>) (st_claims s1)\<rparr>\<rparr>"
  obtain e2 s3 where ps: "run_state (persist ev) ?s2 = (e2, s3)" by fastforce
  have e2: "e2 = None"
    using assms au e1 ps by (cases e2) (auto simp: approve_prepare_def put_claim_def modify_state_def split: prod.splits)
  have "s' = s3" "ds = cdiResults (p\<lparr>pc_Phase := ClaimPrepared\<rparr>)"
    using assms au e1 ps e2 by (auto simp: approve_prepare_def put_claim_def modify_state_def)
  then show ?thesis using persist_run(2) [OF ps e2] s1 by (auto simp: fenced_def)
qed

lemma write_ok:
  assumes "run_state (writeCDI ev p) s = (None, s')"
  shows "gm_get (sy_cdi s') (cdiFilename (pc_UID p)) = Some (cdi_spec p) \<and> fenced s' = fenced s"
  using assms
  by (cases "ev_io ev (sy_step s)")
    (auto simp: writeCDI_def attempt_def io_result_def next_step_def store_cdi_def fenced_def)

lemma finish_ok:
  assumes "run_state (finish_prepare ev cfg uid p os) s = ((Inr ds, os'), s')"
  shows "gm_get (st_claims s') uid = Some (p\<lparr>pc_Phase := ClaimPrepared\<rparr>) \<and>
    sy_disk s' = StateFile (to_stored (sy_state s')) \<and>
    gm_get (sy_cdi s') (cdiFilename (pc_UID p)) = Some (cdi_spec p) \<and>
    ds = cdiResults (p\<lparr>pc_Phase := ClaimPrepared\<rparr>) \<and> cl_Device ` set (pc_Devices p) \<inter> fenced s' = {}"
proof -
  obtain e1 s1 where sz: "run_state (until_error (sanitize_claimed ev p) (pc_Devices p)) s = (e1, s1)" by fastforce
  have e1: "e1 = None" using assms sz by (cases e1) (auto simp: finish_prepare_def)
  obtain e2 s2 where vi: "run_state (verify_inventory ev cfg p) s1 = (e2, s2)" by fastforce
  have e2: "e2 = None" using assms sz e1 vi by (cases e2) (auto simp: finish_prepare_def)
  have cm: "run_state (commit_prepare ev uid p os) s2 = ((Inr ds, os'), s')"
    using assms sz e1 vi e2 by (simp add: finish_prepare_def)
  obtain e3 s3 where w: "run_state (writeCDI ev p) s2 = (e3, s3)" by fastforce
  have e3: "e3 = None" using cm w by (cases e3) (auto simp: commit_prepare_def)
  have ap: "run_state (approve_prepare ev uid p os) s3 = ((Inr ds, os'), s')" using cm w e3 by (simp add: commit_prepare_def)
  have "\<forall>d \<in> set (pc_Devices p). cl_Device d \<notin> fenced s2" using verify_ok vi e2 by blast
  then show ?thesis using approve_ok [OF ap] write_ok w e3 by auto
qed

text \<open>
  A preparation that succeeds went one of two ways: it finished a recorded intent, or it repaired the CDI file
  of a claim that was prepared.
\<close>

lemma repair_ok:
  assumes "run_state (repair_prepared ev q os) s = ((Inr ds, os'), s')"
  shows "sy_state s' = sy_state s \<and> sy_disk s' = sy_disk s \<and>
    gm_get (sy_cdi s') (cdiFilename (pc_UID q)) = Some (cdi_spec q) \<and> ds = cdiResults q \<and>
    cl_Device ` set (pc_Devices q) \<inter> fenced s' = {}"
proof -
  have find: "find (\<lambda>d. gm_get (st_quarantined s) (cl_Device d) \<noteq> None) (pc_Devices q) = None"
    using assms by (auto simp: repair_prepared_def split: option.splits)
  obtain e s1 where w: "run_state (writeCDI ev q) s = (e, s1)" by fastforce
  have e: "e = None" "s' = s1" "ds = cdiResults q" using assms find w by (cases e; simp add: repair_prepared_def)+
  have "sy_state s' = sy_state s \<and> sy_disk s' = sy_disk s"
    using w e by (cases "ev_io ev (sy_step s)") (auto simp: writeCDI_def attempt_def io_result_def next_step_def store_cdi_def)
  then show ?thesis using write_ok w e find by (auto simp: find_None_iff fenced_def)
qed

lemma prepareOne_ways:
  assumes "run_state (prepareOne ev cfg (Some c) byName os) s = ((Inr ds, os'), s')"
  obtains (finished) p s1 where "run_state (finish_prepare ev cfg (rc_UID c) p os) s1 = ((Inr ds, os'), s')"
      "pc_UID p = rc_UID c" "cl_Device ` set (pc_Devices p) = wants cfg c"
    | (repaired) q where "gm_get (st_claims s) (rc_UID c) = Some q" "pc_Phase q = ClaimPrepared"
      "run_state (repair_prepared ev q os) s = ((Inr ds, os'), s')"
      "pc_UID q = rc_UID c" "cl_Device ` set (pc_Devices q) = wants cfg c"
proof -
  obtain a p where ap: "rc_Allocation c = Some a" "claimFromAllocation cfg c a byName os = Inr p"
    using assms by (auto simp: prepareOne_def split: option.splits sum.splits)
  note w = sameClaim_wants [OF ap(2,1)]
  show thesis
  proof (cases "gm_get (st_claims s) (rc_UID c)")
    case None
    let ?p = "p\<lparr>pc_Phase := ClaimPreparing\<rparr>"
    have "run_state (prepare_new ev cfg (rc_UID c) ?p os) s = ((Inr ds, os'), s')"
      using assms ap None by (simp add: prepareOne_def prepare_admitted_def)
    then obtain s1 where "run_state (finish_prepare ev cfg (rc_UID c) ?p os) s1 = ((Inr ds, os'), s')"
      by (auto simp: prepare_new_def split: prod.splits option.splits)
    moreover have "sameClaim ?p p" by (simp add: sameClaim_def)
    ultimately show thesis using w [of ?p] finished by blast
  next
    case (Some q)
    have run: "run_state (prepare_existing ev cfg (rc_UID c) q p os) s = ((Inr ds, os'), s')"
      using assms ap Some by (simp add: prepareOne_def prepare_admitted_def)
    have same: "sameClaim q p" using run by (auto simp: prepare_existing_def split: if_splits)
    show thesis
    proof (cases "pc_Phase q = ClaimPrepared")
      case True
      then have "run_state (repair_prepared ev q os) s = ((Inr ds, os'), s')"
        using run same by (simp add: prepare_existing_def)
      from repaired [OF Some True this w [OF same]] show thesis .
    next
      case False
      then have "run_state (finish_prepare ev cfg (rc_UID c) q os) s = ((Inr ds, os'), s')"
        using run same by (auto simp: prepare_existing_def split: if_splits)
      from finished [OF this w [OF same]] show thesis .
    qed
  qed
qed

text \<open>
  C18: a preparation that reports success has done everything it promises, whether the claim is new, resumed or
  prepared already: the claim is recorded as prepared with exactly the devices its allocation asks for, its CDI
  file is in place, the kubelet gets the results of this claim, and none of its devices is quarantined.  The
  state file holds the claim: either it was written with the state the agent has now, or the claim was recorded
  as prepared before the call and neither the state in memory nor the state file was changed.
\<close>

theorem prepareOne_success:
  assumes "run_state (prepareOne ev cfg (Some c) byName os) s = ((Inr ds, os'), s')"
  shows "\<exists>p. gm_get (st_claims s') (rc_UID c) = Some p \<and> pc_Phase p = ClaimPrepared \<and>
     cl_Device ` set (pc_Devices p) = wants cfg c \<and> ds = cdiResults p \<and>
     gm_get (sy_cdi s') (cdiFilename (rc_UID c)) = Some (cdi_spec p) \<and> wants cfg c \<inter> fenced s' = {} \<and>
     (sy_disk s' = StateFile (to_stored (sy_state s')) \<or>
      gm_get (st_claims s) (rc_UID c) = Some p \<and> sy_state s' = sy_state s \<and> sy_disk s' = sy_disk s)"
  using assms
proof (cases rule: prepareOne_ways)
  case (finished p s1)
  from finish_ok [OF finished(1)] finished(2,3) show ?thesis by (simp add: cdi_spec_def)
next
  case (repaired q)
  from repair_ok [OF repaired(3)] repaired show ?thesis by auto
qed

section \<open>A preparation that succeeds\<close>

abbreviation good :: env where
  "good \<equiv> sample_env [] True"

lemma good_audit: "\<exists>s'. run_state (auditLocked good e c) s = (None, s') \<and> sy_state s' = sy_state s"
  by (simp add: auditLocked_def attempt_def sample_run)

lemma good_persist:
  "\<exists>s'. run_state (persist good) s = (None, s') \<and> sy_state s' = sy_state s \<and> sy_trace s' = sy_trace s @ [EffPersist (sy_state s)]"
  by (simp add: persist_def attempt_def store_state_def sample_run)

lemma good_write: "\<exists>s'. run_state (writeCDI good p) s = (None, s') \<and> sy_state s' = sy_state s"
  by (simp add: writeCDI_def attempt_def store_cdi_def sample_run)

lemma good_sanitize:
  assumes "st_quarantined s = []"
  shows "\<exists>s'. run_state (sanitizeLocked good a n p c) s = (None, s') \<and> sy_state s' = sy_state s"
  using assms by (simp add: sanitizeLocked_def device_reset_def auditLocked_def attempt_def sample_run del_quarantine_def
    modify_state_def gm_del_def)

lemma good_verify:
  assumes "st_quarantined s = []" and "st_known s = sample_known"
    and "st_claims s = [(''u1'', sample_prepared ''u1'' ClaimPreparing)]"
  shows "\<exists>s'. run_state (verify_inventory good sample_config (sample_prepared ''u1'' ClaimPreparing)) s = (None, s')"
  by (simp add: verify_inventory_def inventoryFresh_def observeLocked_def observe_with_def deviceOwners_def observe_device_def
    observe_missing_def put_known_def modify_state_def verify_claimed_def sample_run pure_defs sample_known_def assms
    cong: weak_congs)

lemma good_approve: "\<exists>s'. run_state (approve_prepare good uid p os) s
    = ((Inr (cdiResults (p\<lparr>pc_Phase := ClaimPrepared\<rparr>)), fold (\<lambda>item. gm_put (cl_Device item) uid) (pc_Devices p) os), s')"
proof -
  obtain s1 where a: "run_state (auditLocked good (audit_event ''claim-prepare'' ''approved'') (Some p)) s = (None, s1)"
    using good_audit by blast
  obtain s2 where "run_state (persist good)
      (s1\<lparr>sy_state := (sy_state s1)\<lparr>ps_Claims := gm_put uid (p\<lparr>pc_Phase := ClaimPrepared\<rparr>) (st_claims s1)\<rparr>\<rparr>) = (None, s2)"
    using good_persist by blast
  with a show ?thesis by (simp add: approve_prepare_def put_claim_def modify_state_def)
qed

lemma good_finish:
  assumes "st_quarantined s = []" and "st_known s = sample_known"
    and "st_claims s = [(''u1'', sample_prepared ''u1'' ClaimPreparing)]"
  shows "\<exists>ds os' s'. run_state (finish_prepare good sample_config ''u1'' (sample_prepared ''u1'' ClaimPreparing) []) s
    = ((Inr ds, os'), s')"
proof -
  let ?p = "sample_prepared ''u1'' ClaimPreparing"
  obtain s1 where s1: "run_state (sanitizeLocked good ''preflight-sanitize'' ''tt-a0'' ''/dev/tt0'' (Some ?p)) s = (None, s1)"
    "sy_state s1 = sy_state s" using good_sanitize [OF assms(1)] by blast
  obtain s2 where s2: "run_state (verify_inventory good sample_config ?p) s1 = (None, s2)"
    using good_verify [of s1] s1(2) assms by auto
  obtain s3 where s3: "run_state (writeCDI good ?p) s2 = (None, s3)" using good_write by blast
  obtain s4 where "run_state (approve_prepare good ''u1'' ?p []) s3
    = ((Inr (cdiResults (?p\<lparr>pc_Phase := ClaimPrepared\<rparr>)), fold (\<lambda>item. gm_put (cl_Device item) ''u1'') (pc_Devices ?p) []), s4)"
    using good_approve by blast
  then show ?thesis using s1(1) s2 s3
    by (simp add: finish_prepare_def commit_prepare_def sanitize_claimed_def sample_run)
qed

lemma good_prepareOne:
  "\<exists>ds os' s'. run_state (prepareOne good sample_config (Some (sample_claim ''u1'')) [(''tt-a0'', sample_device)] [])
     sample_observed = ((Inr ds, os'), s') \<and> sy_trace s' \<noteq> []"
proof -
  let ?p = "sample_prepared ''u1'' ClaimPreparing"
  let ?s1 = "sample_observed\<lparr>sy_state := (sy_state sample_observed)\<lparr>ps_Claims := gm_put ''u1'' ?p (st_claims sample_observed)\<rparr>\<rparr>"
  obtain s2 where s2: "run_state (persist good) ?s1 = (None, s2)" "sy_state s2 = sy_state ?s1" "sy_trace s2 \<noteq> []"
    using good_persist [of ?s1] by force
  obtain s3 where s3: "run_state (auditLocked good (audit_event ''claim-prepare-intent'' ''recorded'') (Some ?p)) s2 = (None, s3)"
    "sy_state s3 = sy_state s2" using good_audit by blast
  have q: "st_quarantined s3 = []" "st_known s3 = sample_known" "st_claims s3 = [(''u1'', ?p)]"
    using s2(2) s3(2) by (simp_all add: sample_states gm_put_def)
  obtain ds os' s' where "run_state (finish_prepare good sample_config ''u1'' ?p []) s3 = ((Inr ds, os'), s')"
    using good_finish [OF q] by blast
  moreover from this have "sy_trace s' \<noteq> []"
    using finish_resumes quiet_run [OF quiet.k_auditLocked s3(1)] s2(3) by (fastforce simp: quiet_since_def)
  moreover have "gm_get (st_claims sample_observed) ''u1'' = None" by (simp add: sample_states gm_get_def)
  ultimately show ?thesis using s2(1) s3(1)
    by (simp add: prepareOne_def prepare_admitted_def prepare_new_def sample_run put_claim_def modify_state_def)
qed

theorem prepareOne_success_witness:
  "\<exists>ds os' s' p. run_state (prepareOne good sample_config (Some (sample_claim ''u1'')) [(''tt-a0'', sample_device)] [])
       sample_observed = ((Inr ds, os'), s') \<and>
     gm_get (st_claims s') ''u1'' = Some p \<and> pc_Phase p = ClaimPrepared \<and> ds = cdiResults p \<and>
     wants sample_config (sample_claim ''u1'') \<inter> fenced s' = {}"
proof -
  obtain ds os' s' where run: "run_state (prepareOne good sample_config (Some (sample_claim ''u1'')) [(''tt-a0'', sample_device)] [])
     sample_observed = ((Inr ds, os'), s')" using good_prepareOne by blast
  from prepareOne_success [OF run] run show ?thesis by (auto simp: sample_run)
qed

theorem prepare_exposure_witness:
  "\<exists>ds os' s' p t. run_state (prepareOne good sample_config (Some (sample_claim ''u1'')) [(''tt-a0'', sample_device)] [])
       sample_observed = ((Inr ds, os'), s') \<and> sy_trace s' = t \<and> t \<noteq> [] \<and> exposes ''u1'' p t"
proof -
  obtain ds os' s' where run: "run_state (prepareOne good sample_config (Some (sample_claim ''u1'')) [(''tt-a0'', sample_device)] [])
     sample_observed = ((Inr ds, os'), s')" "sy_trace s' \<noteq> []" using good_prepareOne by blast
  have "gm_get (st_claims sample_observed) (rc_UID (sample_claim ''u1'')) = None" by (simp add: sample_states gm_get_def)
  with prepare_exposure [OF run(1)] run show ?thesis by (auto simp: sample_run sample_states prepares_def)
qed

end
