(* ===== verification/Release.thy ===== *)
theory Release
  imports Exposure
begin

text \<open>
  The release of a claim (\<open>UnprepareResourceClaims\<close>, \<open>manager.go\<close>): it completes or the claim stays.
\<close>

section \<open>Release\<close>

text \<open>The reset of a released device, at the path where the device is now.\<close>

definition release_ok :: "(string, InventoryDevice) gomap \<Rightarrow> ClaimDevice \<Rightarrow> effect" where
  "release_ok byName d = EffReset ''postflight-sanitize'' (cl_Device d)
     (case gm_get byName (cl_Device d) of None \<Rightarrow> [] | Some item \<Rightarrow> nd_Path (dv_Node item)) None"

lemma release_unavailable_quiet: "keeps (quiet_since s0) (release_unavailable ev c d)"
  unfolding release_unavailable_def by (intro keeps_intro quiet.k_quarantineLocked)

lemma release_unavailable_error: "run_state (release_unavailable ev c d) s = (r, s') \<Longrightarrow> r \<noteq> None"
  by (cases r) (auto simp: release_unavailable_def split: prod.splits)

lemma release_device_cleaned:
  assumes "run_state (release_device ev byName c d) s = (r, s')"
  shows "cleaned_since (if r = None then [release_ok byName d] else []) s s'"
proof (cases "\<exists>item. gm_get byName (cl_Device d) = Some item \<and> dv_CharacterDevicePresent item")
  case True
  then obtain item where i: "gm_get byName (cl_Device d) = Some item" "dv_CharacterDevicePresent item" by blast
  then have "run_state (sanitizeLocked ev ''postflight-sanitize'' (cl_Device d) (nd_Path (dv_Node item)) (Some c)) s = (r, s')"
    using assms by (simp add: release_device_def)
  from sanitize_cleaned [OF this] i show ?thesis by (cases r) (simp_all add: release_ok_def)
next
  case False
  then have u: "run_state (release_unavailable ev c d) s = (r, s')"
    using assms by (auto simp: release_device_def split: option.splits if_splits)
  have "cleaned_since [] s s'" by (rule quiet_cleaned [OF quiet_run [OF release_unavailable_quiet u]])
  then show ?thesis using release_unavailable_error [OF u] by (cases r) simp_all
qed

lemma release_loop_cleaned:
  assumes "run_state (for_join (release_device ev byName c) ds) s = (r, s')"
  shows "cleaned_since (if r = None then map (release_ok byName) ds else []) s s'"
  using assms
proof (induction ds arbitrary: s r s')
  case Nil
  then show ?case by (simp add: cleaned_refl)
next
  case (Cons d ds)
  obtain e1 s1 where one: "run_state (release_device ev byName c d) s = (e1, s1)" by fastforce
  obtain e2 s2 where rest: "run_state (for_join (release_device ev byName c) ds) s1 = (e2, s2)" by fastforce
  have s2: "s' = s2" "r = errors_join e1 e2" using Cons.prems one rest by auto
  from cleaned_trans [OF release_device_cleaned [OF one] Cons.IH [OF rest]] s2 show ?case
    by (auto dest: cleaned_weaken split: if_splits)
qed

text \<open>
  How a release ends: the claim is forgotten, in memory and in the state file, its CDI file is gone and
  its devices were reset; or an error is returned and the claim is still there.
\<close>

definition released :: "(string, InventoryDevice) gomap \<Rightarrow> string \<Rightarrow> PreparedClaim \<Rightarrow> sys \<Rightarrow> go_error \<Rightarrow> sys \<Rightarrow> bool" where
  "released byName uid p s r s' \<longleftrightarrow>
     (if r = None
      then gm_get (st_claims s') uid = None \<and> sy_disk s' = StateFile (to_stored (sy_state s')) \<and>
        gm_get (sy_cdi s') (cdiFilename (pc_UID p)) = None \<and>
        (\<exists>t. sy_trace s' = sy_trace s @ t \<and> subseq (map (release_ok byName) (pc_Devices p)) t)
      else gm_get (st_claims s') uid \<noteq> None)"

lemma quarantine_claimed_claims: "keeps (\<lambda>s. st_claims s = C) (quarantine_claimed ev reason d)"
  unfolding quarantine_claimed_def now_def next_step_def put_quarantine_def modify_state_def
  by (rule keepsI) auto

lemma persist_claims: "keeps (\<lambda>s. st_claims s = C) (persist ev)"
  unfolding persist_def attempt_def io_result_def next_step_def
  by (rule keepsI) (auto simp: store_state_def split: io.splits)

lemma removeCDI_run:
  assumes "run_state (removeCDI ev f) s = (r, s')"
  shows "sy_state s' = sy_state s" and "\<exists>t. sy_trace s' = sy_trace s @ t" and "r = None \<Longrightarrow> gm_get (sy_cdi s') f = None"
  using assms
  by (cases "ev_io ev (sy_step s)"; auto simp: removeCDI_def attempt_def io_result_def next_step_def drop_cdi_def split: if_splits)+

lemma finish_release_ends:
  assumes "run_state (finish_release ev byName uid p) s = (r, s')" and "gm_get (st_claims s) uid = Some p"
  shows "released byName uid p s r s'"
proof -
  obtain e1 s1 where rl: "run_state (for_join (release_device ev byName p) (pc_Devices p)) s = (e1, s1)" by fastforce
  note c1 = release_loop_cleaned [OF rl]
  have cl1: "st_claims s1 = st_claims s" using c1 by (simp add: cleaned_since_def)
  show ?thesis
  proof (cases e1)
    case (Some m)
    obtain e' s2 where ps: "run_state (persist ev) s1 = (e', s2)" by fastforce
    have "st_claims s2 = st_claims s1" by (rule keepsD [OF persist_claims refl ps])
    moreover have "s' = s2" "r = Some m" using assms(1) rl Some ps by (simp_all add: finish_release_def)
    ultimately show ?thesis using cl1 assms(2) by (simp add: released_def)
  next
    case e1: None
    obtain t1 where t1: "sy_trace s1 = sy_trace s @ t1" "subseq (map (release_ok byName) (pc_Devices p)) t1"
      using c1 e1 by (auto elim: cleaned_trace)
    obtain e2 s2 where au: "run_state (auditLocked ev (audit_event ''claim-release'' ''approved'') (Some p)) s1 = (e2, s2)" by fastforce
    have q: "quiet_since s1 s2" by (rule quiet_run [OF quiet.k_auditLocked au])
    then have cl2: "st_claims s2 = st_claims s" using cl1 by (simp add: quiet_since_def)
    obtain t2 where t2: "sy_trace s2 = sy_trace s1 @ t2" using q by (auto simp: quiet_since_def)
    show ?thesis
    proof (cases e2)
      case (Some m)
      obtain e' s3 where fj: "run_state (for_join (quarantine_claimed ev (''claim release audit failed: '' @ m)) (pc_Devices p)) s2 = (e', s3)"
        by fastforce
      have "st_claims s3 = st_claims s2" by (rule keepsD [OF keeps_for_join [OF quarantine_claimed_claims] refl fj])
      moreover have "s' = s3" "r = Some m" using assms(1) rl e1 au Some fj by (simp_all add: finish_release_def)
      ultimately show ?thesis using cl2 assms(2) by (simp add: released_def)
    next
      case e2: None
      obtain e3 s3 where rm: "run_state (removeCDI ev (cdiFilename (pc_UID p))) s2 = (e3, s3)" by fastforce
      note r3 = removeCDI_run [OF rm]
      show ?thesis
      proof (cases e3)
        case (Some m)
        then have "s' = s3" "r = Some m" using assms(1) rl e1 au e2 rm by (simp_all add: finish_release_def)
        then show ?thesis using cl2 r3(1) assms(2) by (simp add: released_def)
      next
        case e3: None
        let ?s4 = "s3\<lparr>sy_state := (sy_state s3)\<lparr>ps_Claims := gm_del uid (st_claims s3)\<rparr>\<rparr>"
        obtain e4 s5 where ps: "run_state (persist ev) ?s4 = (e4, s5)" by fastforce
        obtain t3 where t3: "sy_trace s3 = sy_trace s2 @ t3" using r3(2) by blast
        show ?thesis
        proof (cases e4)
          case (Some m)
          then have "gm_get (st_claims s') uid = Some p" "r \<noteq> None"
            using assms(1) rl e1 au e2 rm e3 ps by (auto simp: finish_release_def del_claim_def put_claim_def modify_state_def)
          then show ?thesis by (simp add: released_def)
        next
          case e4: None
          then have s5: "s' = s5" "r = None"
            using assms(1) rl e1 au e2 rm e3 ps by (auto simp: finish_release_def del_claim_def modify_state_def)
          obtain t4 where "sy_trace s5 = sy_trace s3 @ t4" using persist_run(1) [OF ps] by auto
          then have tr: "sy_trace s' = sy_trace s @ (t1 @ t2 @ t3 @ t4)" using s5 t1 t2 t3 by simp
          have "subseq (map (release_ok byName) (pc_Devices p)) (t1 @ t2 @ t3 @ t4)" using t1(2) by (rule list_emb_prefix)
          with tr show ?thesis
            using persist_run(2) [OF ps e4] r3(3) e3 s5 by (auto simp: released_def)
        qed
      qed
    qed
  qed
qed

lemma released_extend:
  assumes "released byName uid p' s1 r s'" and "pc_UID p' = pc_UID p" and "pc_Devices p' = pc_Devices p"
    and "sy_trace s1 = sy_trace s @ t0"
  shows "released byName uid p s r s'"
  using assms by (cases r) (auto simp: released_def dest: list_emb_append2 [where zs = t0])

text \<open>
  C6: releasing a claim either completes or leaves the claim in place.  It reports success only when every
  device was reset successfully, the CDI file is gone and the claim is forgotten in memory and in the state
  file; after any failure the agent still owns the claim, so that its devices are not given away.
\<close>

theorem unprepare_release:
  assumes "gm_get (st_claims s) uid = Some p" and "run_state (unprepareOne ev byName uid) s = (r, s')"
  shows "if r = None
     then gm_get (st_claims s') uid = None \<and> sy_disk s' = StateFile (to_stored (sy_state s')) \<and>
       gm_get (sy_cdi s') (cdiFilename (pc_UID p)) = None \<and>
       (\<exists>t. sy_trace s' = sy_trace s @ t \<and> subseq (map (release_ok byName) (pc_Devices p)) t)
     else gm_get (st_claims s') uid \<noteq> None"
proof -
  have run: "run_state (release_claim ev byName uid p) s = (r, s')" using assms by (simp add: unprepareOne_def)
  have "released byName uid p s r s'"
  proof (cases "pc_Phase p = ClaimReleasing")
    case True
    then show ?thesis using run finish_release_ends assms(1) by (auto simp: release_claim_def)
  next
    case False
    let ?p = "p\<lparr>pc_Phase := ClaimReleasing\<rparr>"
    let ?s1 = "s\<lparr>sy_state := (sy_state s)\<lparr>ps_Claims := gm_put uid ?p (st_claims s)\<rparr>\<rparr>"
    obtain e1 s2 where ps: "run_state (persist ev) ?s1 = (e1, s2)" by fastforce
    have cl2: "st_claims s2 = st_claims ?s1" by (rule keepsD [OF persist_claims refl ps])
    show ?thesis
    proof (cases e1)
      case (Some m)
      then have "s' = s2" "r \<noteq> None" using run False ps by (auto simp: release_claim_def put_claim_def modify_state_def)
      then show ?thesis using cl2 by (simp add: released_def)
    next
      case e1: None
      obtain e2 s3 where au: "run_state (auditLocked ev (audit_event ''claim-release-intent'' ''recorded'') (Some ?p)) s2 = (e2, s3)"
        by fastforce
      have q: "quiet_since s2 s3" by (rule quiet_run [OF quiet.k_auditLocked au])
      show ?thesis
      proof (cases e2)
        case (Some m)
        then have "s' = s3" "r \<noteq> None" using run False ps e1 au by (auto simp: release_claim_def put_claim_def modify_state_def)
        then show ?thesis using cl2 q by (simp add: released_def quiet_since_def)
      next
        case None
        then have "run_state (finish_release ev byName uid ?p) s3 = (r, s')"
          using run False ps e1 au by (auto simp: release_claim_def put_claim_def modify_state_def)
        moreover have "gm_get (st_claims s3) uid = Some ?p" using cl2 q by (simp add: quiet_since_def)
        ultimately have f: "released byName uid ?p s3 r s'" by (rule finish_release_ends)
        obtain t0 where "sy_trace s3 = sy_trace s @ t0"
          using persist_run(1) [OF ps] q by (auto simp: quiet_since_def)
        from released_extend [OF f _ _ this] show ?thesis by simp
      qed
    qed
  qed
  then show ?thesis by (simp add: released_def)
qed

section \<open>A release that succeeds\<close>

definition sample_releasing :: sys where
  "sample_releasing = sample_observed
     \<lparr>sy_state := empty_state\<lparr>ps_Claims := [(''u1'', sample_prepared ''u1'' ClaimReleasing)], ps_Known := sample_known\<rparr>\<rparr>"

lemma good_remove: "\<exists>s'. run_state (removeCDI good f) s = (None, s')"
  by (simp add: removeCDI_def attempt_def drop_cdi_def sample_run)

lemma good_unprepareOne:
  "\<exists>s'. run_state (unprepareOne good [(''tt-a0'', sample_device)] ''u1'') sample_releasing = (None, s')"
proof -
  let ?p = "sample_prepared ''u1'' ClaimReleasing"
  have q: "st_quarantined sample_releasing = []" by (simp add: sample_releasing_def empty_state_def)
  obtain s1 where s1: "run_state (sanitizeLocked good ''postflight-sanitize'' ''tt-a0'' ''/dev/tt0'' (Some ?p)) sample_releasing = (None, s1)"
    using good_sanitize [OF q] by blast
  obtain s2 where s2: "run_state (auditLocked good (audit_event ''claim-release'' ''approved'') (Some ?p)) s1 = (None, s2)"
    using good_audit by blast
  obtain s3 where s3: "run_state (removeCDI good (cdiFilename ''u1'')) s2 = (None, s3)" using good_remove by blast
  obtain s4 where "run_state (persist good) (s3\<lparr>sy_state := (sy_state s3)\<lparr>ps_Claims := gm_del ''u1'' (st_claims s3)\<rparr>\<rparr>) = (None, s4)"
    using good_persist by blast
  moreover have "gm_get (st_claims sample_releasing) ''u1'' = Some ?p" by (simp add: sample_releasing_def gm_get_def)
  ultimately show ?thesis using s1 s2 s3
    by (simp add: unprepareOne_def release_claim_def finish_release_def release_device_def sample_run gm_get_Cons
      del_claim_def modify_state_def)
qed

theorem unprepare_release_witness:
  "\<exists>s'. run_state (unprepareOne good [(''tt-a0'', sample_device)] ''u1'') sample_releasing = (None, s') \<and>
     gm_get (st_claims s') ''u1'' = None \<and> gm_get (sy_cdi s') (cdiFilename ''u1'') = None"
proof -
  obtain s' where run: "run_state (unprepareOne good [(''tt-a0'', sample_device)] ''u1'') sample_releasing = (None, s')"
    using good_unprepareOne by blast
  have "gm_get (st_claims sample_releasing) ''u1'' = Some (sample_prepared ''u1'' ClaimReleasing)"
    by (simp add: sample_releasing_def gm_get_def)
  from unprepare_release [OF this run] run show ?thesis by (auto simp: sample_run)
qed

end
