(* ===== verification/Workloads.thy ===== *)
theory Workloads
  imports Placement
begin

text \<open>
  The workload API object (\<open>src/internal/api/types.go\<close>) with the part of the Kubernetes Pod template the
  controller reads or writes, and its validation (\<open>src/internal/controller/validation.go\<close>).

  The fields of a Kubernetes struct that the controller neither reads nor writes are one opaque value, the
  field \<open>..._Rest\<close>.  A pointer that may be nil is an option.
\<close>

section \<open>Pod templates\<close>

record EnvVar =
  en_Name :: string
  en_Value :: string
  en_ValueFrom :: "string option"

record SecurityContext =
  sc_Privileged :: "bool option"
  sc_AllowPrivilegeEscalation :: "bool option"
  sc_ReadOnlyRootFilesystem :: "bool option"
  sc_RunAsNonRoot :: "bool option"
  sc_CapabilitiesAdd :: "string list"
  sc_CapabilitiesDrop :: "string list"
  sc_SeccompProfile :: "string option"
  sc_AppArmorProfile :: "string option"
  sc_Rest :: string

record Container =
  ct_Name :: string
  ct_Env :: "EnvVar list"
  ct_Claims :: "string list"
  ct_SecurityContext :: "SecurityContext option"
  ct_TerminationMessagePath :: string
  ct_TerminationMessagePolicy :: string
  ct_Rest :: string

record Volume =
  vo_Name :: string
  vo_HostPath :: "string option"
  vo_Projected :: "string option list option"
  vo_Rest :: string

record PodSecurityContext =
  px_RunAsNonRoot :: "bool option"
  px_SeccompProfile :: "string option"
  px_AppArmorProfile :: "string option"
  px_Rest :: string

record Toleration =
  to_Key :: string
  to_Operator :: string
  to_Effect :: string
  to_TolerationSeconds :: "int option"
  to_Rest :: string

record PodResourceClaim =
  prc_Name :: string
  prc_ResourceClaimName :: "string option"
  prc_Rest :: string

record PodSpec =
  po_RestartPolicy :: string
  po_NodeName :: string
  po_NodeSelector :: "(string, string) gomap"
  po_ResourceClaims :: "PodResourceClaim list"
  po_ServiceAccountName :: string
  po_DeprecatedServiceAccount :: string
  po_AutomountServiceAccountToken :: "bool option"
  po_HostNetwork :: bool
  po_HostPID :: bool
  po_HostIPC :: bool
  po_Affinity :: "string option"
  po_Volumes :: "Volume list"
  po_EphemeralContainers :: "string list"
  po_InitContainers :: "Container list"
  po_Containers :: "Container list"
  po_SecurityContext :: "PodSecurityContext option"
  po_DNSPolicy :: string
  po_SchedulerName :: string
  po_EnableServiceLinks :: "bool option"
  po_Priority :: "int option"
  po_PreemptionPolicy :: "string option"
  po_Tolerations :: "Toleration list"
  po_Rest :: string

record PodTemplateSpec =
  pt_Labels :: "(string, string) gomap"
  pt_Annotations :: "(string, string) gomap"
  pt_Spec :: PodSpec

section \<open>Workloads\<close>

record WorkloadSpec =
  sp_ContainerName :: string
  sp_PodTemplate :: PodTemplateSpec
  sp_Topology :: WorkloadTopology
  sp_Ranks :: "WorkloadRank list"

record WorkloadStatus =
  ws_Phase :: string
  ws_ObservedGeneration :: int
  ws_SpecHash :: string
  ws_FabricGeneration :: string
  ws_Assignments :: "RankAssignment list"
  ws_Conditions :: "Condition list"

record WorkloadObject =
  wo_Namespace :: string
  wo_Name :: string
  wo_UID :: string
  wo_Generation :: int
  wo_Spec :: WorkloadSpec
  wo_Status :: WorkloadStatus

text \<open>The part of a workload that placement reads.\<close>

definition placement_view :: "WorkloadObject \<Rightarrow> Workload" where
  "placement_view w = \<lparr>wl_Name = wo_Name w, wl_UID = wo_UID w, wl_Topology = sp_Topology (wo_Spec w),
     wl_Ranks = sp_Ranks (wo_Spec w)\<rparr>"

section \<open>Validation\<close>

definition maxRanks :: nat where "maxRanks = 64"
definition maxDevicesPerWorkload :: int where "maxDevicesPerWorkload = 128"
definition maxContainers :: nat where "maxContainers = 16"

definition LabelHostname :: string where "LabelHostname = ''kubernetes.io/hostname''"

definition apparmor_prefix :: string where
  "apparmor_prefix = ''container.apparmor.security.beta.kubernetes.io/''"

text \<open>
  The loop over the ranks; \<open>dns\<close> is the list of problems \<open>IsDNS1123Label\<close> reports, \<open>seen\<close> the names so far.
\<close>

definition rank_error :: "(string \<Rightarrow> string list) \<Rightarrow> string set \<Rightarrow> WorkloadRank \<Rightarrow> go_error" where
  "rank_error dns seen rank =
     (if dns (wr_Name rank) \<noteq> [] then Some (''rank '' @ go_quote (wr_Name rank) @ '' is not DNS-safe'')
      else if wr_Name rank \<in> seen then Some (''rank '' @ go_quote (wr_Name rank) @ '' is duplicated'')
      else if (\<not> MatchesDeviceClass (wr_DeviceClassName rank) (wr_ChipSeries rank) \<and> wr_ChipSeries rank \<noteq> []) \<or>
              \<not> SupportedDeviceClass (wr_DeviceClassName rank)
      then Some (''rank '' @ go_quote (wr_Name rank) @ '' has an unsupported DeviceClass or chip series'')
      else if wr_Count rank <s 1 then Some (''rank '' @ go_quote (wr_Name rank) @ '' count must be positive'')
      else None)"

fun rank_errors :: "(string \<Rightarrow> string list) \<Rightarrow> string set \<Rightarrow> WorkloadRank list \<Rightarrow> go_error" where
  "rank_errors dns seen [] = None"
| "rank_errors dns seen (rank # ranks) =
     (case rank_error dns seen rank of
        Some e \<Rightarrow> Some e
      | None \<Rightarrow> rank_errors dns (insert (wr_Name rank) seen) ranks)"

definition volume_error :: "Volume \<Rightarrow> go_error" where
  "volume_error v =
     (if vo_HostPath v \<noteq> None then Some ''Pod template may not use hostPath volumes''
      else case vo_Projected v of
        None \<Rightarrow> None
      | Some sources \<Rightarrow>
          if list_ex (\<lambda>source. source \<noteq> None) sources then Some ''Pod template may not project ServiceAccount tokens''
          else None)"

definition container_error :: "Container \<Rightarrow> go_error" where
  "container_error c =
     (if (case ct_SecurityContext c of None \<Rightarrow> False | Some sc \<Rightarrow> sc_Privileged sc = Some True)
      then Some (''container '' @ go_quote (ct_Name c) @ '' requests privileged access'')
      else if ct_Claims c \<noteq> [] then Some (''container '' @ go_quote (ct_Name c) @ '' sets controller-managed DRA claims'')
      else if list_ex (\<lambda>v. en_Name v = ''TT_RANK'' \<or> en_Name v = ''TT_WORLD_SIZE'') (ct_Env c)
      then Some (''container '' @ go_quote (ct_Name c) @ '' sets controller-managed environment'')
      else None)"

definition validatePodTemplate :: "string \<Rightarrow> PodSpec \<Rightarrow> go_error" where
  "validatePodTemplate target spec =
     (if po_RestartPolicy spec \<noteq> ''Never'' then Some ''Pod template restartPolicy must be Never''
      else if po_NodeName spec \<noteq> [] \<or> gm_string (po_NodeSelector spec) LabelHostname \<noteq> [] \<or> po_ResourceClaims spec \<noteq> []
      then Some ''Pod template sets controller-managed placement or claims''
      else if po_ServiceAccountName spec \<noteq> [] \<or> po_AutomountServiceAccountToken spec = Some True
      then Some ''Pod template may not select or mount a ServiceAccount token''
      else if po_HostNetwork spec \<or> po_HostPID spec \<or> po_HostIPC spec
      then Some ''Pod template may not use host namespaces''
      else if po_Affinity spec \<noteq> None then Some ''Pod template may not set controller-managed node affinity''
      else case first_error volume_error (po_Volumes spec) of
        Some e \<Rightarrow> Some e
      | None \<Rightarrow>
          if po_EphemeralContainers spec \<noteq> [] then Some ''Pod template may not define ephemeral containers''
          else if po_Containers spec = [] \<or> length (po_InitContainers spec @ po_Containers spec) > maxContainers
          then Some (''Pod template must contain 1 to '' @ show_nat maxContainers @ '' containers'')
          else case first_error container_error (po_InitContainers spec @ po_Containers spec) of
            Some e \<Rightarrow> Some e
          | None \<Rightarrow>
              if list_ex (\<lambda>c. ct_Name c = target) (po_Containers spec) then None
              else Some (''container '' @ go_quote target @ '' not found in Pod template''))"

text \<open>\<open>validateWorkload\<close>; the sum of the counts is a 64-bit sum.\<close>

definition validateWorkload :: "(string \<Rightarrow> string list) \<Rightarrow> WorkloadObject option \<Rightarrow> go_error" where
  "validateWorkload dns workload =
     (case workload of
        None \<Rightarrow> Some ''workload is nil''
      | Some w \<Rightarrow>
          if sp_Ranks (wo_Spec w) = [] \<or> length (sp_Ranks (wo_Spec w)) > maxRanks
          then Some (''rank count must be between 1 and '' @ show_nat maxRanks)
          else case rank_errors dns {} (sp_Ranks (wo_Spec w)) of
            Some e \<Rightarrow> Some e
          | None \<Rightarrow>
              if sint (total_count (sp_Ranks (wo_Spec w))) > maxDevicesPerWorkload
              then Some (''workload requests '' @ show_int (sint (total_count (sp_Ranks (wo_Spec w)))) @ '' devices; maximum is ''
                     @ show_int maxDevicesPerWorkload)
              else if list_ex (\<lambda>(name, value). has_prefix name apparmor_prefix \<and> value = ''unconfined'')
                        (pt_Annotations (sp_PodTemplate (wo_Spec w)))
              then Some ''Pod template may not disable AppArmor''
              else validatePodTemplate (sp_ContainerName (wo_Spec w)) (pt_Spec (sp_PodTemplate (wo_Spec w))))"

end
