(* ===== verification/Children.thy ===== *)
theory Children
  imports Workloads Publication
begin

text \<open>
  The objects the controller creates for a rank (\<open>src/internal/controller/children.go\<close>): the ResourceClaim for
  exactly the assigned devices and the Pod on the assigned node, hardened and with the rank's environment.
\<close>

section \<open>Owners\<close>

record OwnerReference =
  ow_APIVersion :: string
  ow_Kind :: string
  ow_Name :: string
  ow_UID :: string
  ow_Controller :: "bool option"

definition SchedulingAPIVersion :: string where "SchedulingAPIVersion = ''scheduling.tenstorrent.com/v1''"
definition WorkloadKind :: string where "WorkloadKind = ''TenstorrentWorkload''"

definition owner :: "WorkloadObject \<Rightarrow> OwnerReference list" where
  "owner workload = [\<lparr>ow_APIVersion = SchedulingAPIVersion, ow_Kind = WorkloadKind, ow_Name = wo_Name workload,
     ow_UID = wo_UID workload, ow_Controller = Some True\<rparr>]"

definition ownedBy :: "OwnerReference list \<Rightarrow> string \<Rightarrow> bool" where
  "ownedBy references uid = list_ex (\<lambda>r. ow_Controller r = Some True \<and> ow_UID r = uid) references"

section \<open>Claims\<close>

text \<open>A claim with one request; \<open>ck_Allocation\<close> is the list of pools and devices the scheduler allocated.\<close>

record ExactRequest =
  er_Name :: string
  er_DeviceClassName :: string
  er_AllocationMode :: string
  er_Count :: int
  er_Selectors :: "string list"

record ClaimObject =
  ck_Namespace :: string
  ck_Name :: string
  ck_Labels :: "(string, string) gomap"
  ck_Owners :: "OwnerReference list"
  ck_Requests :: "ExactRequest list"
  ck_Allocation :: "(string \<times> string) list option"

definition label_workload_uid :: string where "label_workload_uid = ''tenstorrent.com/workload-uid''"
definition label_workload_name :: string where "label_workload_name = ''tenstorrent.com/workload-name''"
definition label_workload :: string where "label_workload = ''tenstorrent.com/workload''"

definition claim_expression :: "RankAssignment \<Rightarrow> string" where
  "claim_expression assignment =
     ''device.attributes['' @ go_quote AttributeDomain @ ''].nodeName == '' @ go_quote (ra_NodeName assignment)
     @ '' && device.attributes['' @ go_quote AttributeDomain @ ''].deviceID in [''
     @ join_with '','' (map (\<lambda>item. go_quote (ad_StableID item)) (ra_Devices assignment)) @ '']''"

definition buildClaim :: "WorkloadObject \<Rightarrow> WorkloadRank \<Rightarrow> RankAssignment \<Rightarrow> ClaimObject" where
  "buildClaim workload rank assignment =
     \<lparr>ck_Namespace = wo_Namespace workload, ck_Name = ra_ClaimName assignment,
      ck_Labels = [(label_workload_uid, wo_UID workload), (label_workload_name, wo_Name workload)],
      ck_Owners = owner workload,
      ck_Requests = [\<lparr>er_Name = ''accelerator'', er_DeviceClassName = wr_DeviceClassName rank,
        er_AllocationMode = ''ExactCount'', er_Count = int (length (ra_Devices assignment)),
        er_Selectors = [claim_expression assignment]\<rparr>],
      ck_Allocation = None\<rparr>"

section \<open>Pods\<close>

record PodCondition =
  pn_Type :: string
  pn_Status :: string
  pn_Reason :: string
  pn_Message :: string

record PodObject =
  pd_Namespace :: string
  pd_Name :: string
  pd_Labels :: "(string, string) gomap"
  pd_Annotations :: "(string, string) gomap"
  pd_Owners :: "OwnerReference list"
  pd_Spec :: PodSpec
  pd_Phase :: string
  pd_StartTime :: "go_time option"
  pd_Conditions :: "PodCondition list"

definition empty_context :: SecurityContext where
  "empty_context = \<lparr>sc_Privileged = None, sc_AllowPrivilegeEscalation = None, sc_ReadOnlyRootFilesystem = None,
     sc_RunAsNonRoot = None, sc_CapabilitiesAdd = [], sc_CapabilitiesDrop = [], sc_SeccompProfile = None, sc_AppArmorProfile = None,
     sc_Rest = []\<rparr>"

definition empty_pod_context :: PodSecurityContext where
  "empty_pod_context = \<lparr>px_RunAsNonRoot = None, px_SeccompProfile = None, px_AppArmorProfile = None, px_Rest = []\<rparr>"

definition harden_container :: "Container \<Rightarrow> Container" where
  "harden_container c =
     (let sc = (case ct_SecurityContext c of None \<Rightarrow> empty_context | Some sc \<Rightarrow> sc)
      in c\<lparr>ct_SecurityContext := Some (sc\<lparr>sc_Privileged := Some False, sc_AllowPrivilegeEscalation := Some False,
           sc_ReadOnlyRootFilesystem := Some True, sc_RunAsNonRoot := Some True, sc_CapabilitiesAdd := [],
           sc_CapabilitiesDrop := [''ALL'']\<rparr>)\<rparr>)"

definition hardenPod :: "bool \<Rightarrow> PodSpec \<Rightarrow> PodSpec" where
  "hardenPod disableAppArmor spec =
     (let ctx = (case po_SecurityContext spec of None \<Rightarrow> empty_pod_context | Some c \<Rightarrow> c);
          ctx = ctx\<lparr>px_RunAsNonRoot := Some True, px_SeccompProfile := Some ''RuntimeDefault''\<rparr>;
          ctx = (if \<not> disableAppArmor then ctx\<lparr>px_AppArmorProfile := Some ''RuntimeDefault''\<rparr> else ctx)
      in spec\<lparr>po_AutomountServiceAccountToken := Some False, po_SecurityContext := Some ctx,
           po_InitContainers := map harden_container (po_InitContainers spec),
           po_Containers := map harden_container (po_Containers spec)\<rparr>)"

definition rank_environment :: "nat \<Rightarrow> nat \<Rightarrow> EnvVar list" where
  "rank_environment rankIndex worldSize =
     [\<lparr>en_Name = ''TT_RANK'', en_Value = show_nat rankIndex, en_ValueFrom = None\<rparr>,
      \<lparr>en_Name = ''TT_WORLD_SIZE'', en_Value = show_nat worldSize, en_ValueFrom = None\<rparr>]"

text \<open>The container loop: the first container with the target name gets the claim and the environment.\<close>

fun inject_rank :: "string \<Rightarrow> nat \<Rightarrow> nat \<Rightarrow> Container list \<Rightarrow> Container list option" where
  "inject_rank target rankIndex worldSize [] = None"
| "inject_rank target rankIndex worldSize (c # cs) =
     (if ct_Name c \<noteq> target then map_option (\<lambda>cs'. c # cs') (inject_rank target rankIndex worldSize cs)
      else Some (c\<lparr>ct_Claims := ct_Claims c @ [''tenstorrent''],
             ct_Env := ct_Env c @ rank_environment rankIndex worldSize\<rparr> # cs))"

definition buildPod :: "WorkloadObject \<Rightarrow> nat \<Rightarrow> RankAssignment \<Rightarrow> bool \<Rightarrow> string + PodObject" where
  "buildPod workload rankIndex assignment disableAppArmor =
     (let template = sp_PodTemplate (wo_Spec workload);
          labels = gm_put label_workload_uid (wo_UID workload) (gm_put label_workload_name (wo_Name workload)
            (gm_put label_workload (wo_Name workload) (pt_Labels template)));
          spec = pt_Spec template;
          spec = spec\<lparr>po_NodeSelector := gm_put LabelHostname (ra_NodeName assignment) (po_NodeSelector spec)\<rparr>;
          spec = spec\<lparr>po_ResourceClaims := po_ResourceClaims spec @
            [\<lparr>prc_Name = ''tenstorrent'', prc_ResourceClaimName = Some (ra_ClaimName assignment), prc_Rest = []\<rparr>]\<rparr>
      in case inject_rank (sp_ContainerName (wo_Spec workload)) rankIndex (length (sp_Ranks (wo_Spec workload)))
                (po_Containers spec) of
           None \<Rightarrow> Inl (''container '' @ go_quote (sp_ContainerName (wo_Spec workload)) @ '' not found in Pod template'')
         | Some containers \<Rightarrow>
             Inr \<lparr>pd_Namespace = wo_Namespace workload, pd_Name = ra_PodName assignment, pd_Labels = labels,
               pd_Annotations = pt_Annotations template, pd_Owners = owner workload,
               pd_Spec = hardenPod disableAppArmor (spec\<lparr>po_Containers := containers\<rparr>),
               pd_Phase = [], pd_StartTime = None, pd_Conditions = []\<rparr>)"

definition pin_container :: "Container \<Rightarrow> Container" where
  "pin_container c = c\<lparr>ct_TerminationMessagePath := ''/dev/termination-log'', ct_TerminationMessagePolicy := ''File''\<rparr>"

definition no_execute :: "string \<Rightarrow> Toleration" where
  "no_execute key = \<lparr>to_Key = key, to_Operator = ''Exists'', to_Effect = ''NoExecute'', to_TolerationSeconds = Some 300,
     to_Rest = []\<rparr>"

definition pinAdmissionDefaults :: "PodObject \<Rightarrow> PodObject" where
  "pinAdmissionDefaults pod =
     (let spec = pd_Spec pod
      in pod\<lparr>pd_Spec := spec\<lparr>po_DNSPolicy := ''ClusterFirst'', po_SchedulerName := ''default-scheduler'',
           po_EnableServiceLinks := Some True, po_ServiceAccountName := ''default'', po_DeprecatedServiceAccount := ''default'',
           po_Priority := Some 0, po_PreemptionPolicy := Some ''PreemptLowerPriority'',
           po_Tolerations := po_Tolerations spec @ [no_execute ''node.kubernetes.io/not-ready'', no_execute ''node.kubernetes.io/unreachable''],
           po_InitContainers := map pin_container (po_InitContainers spec),
           po_Containers := map pin_container (po_Containers spec)\<rparr>\<rparr>)"

end
