(* ===== verification/Kube_Api.thy ===== *)
theory Kube_Api
  imports Prelude Operations
begin

text \<open>
  Calls to the Kubernetes API server, as the controller and the node agent make them through client-go.

  At every call other clients and the informers may act first (\<open>ke_others\<close>), and the call succeeds, fails without
  effect, or is applied although an error comes back (\<open>ApiLost\<close>).  The state of a component that makes
  calls extends \<open>api_server\<close>, which counts the questions put to the environment.
\<close>

datatype kube_error = NotFound | AlreadyExists | Conflict | Failure string

datatype api_outcome = ApiOk | ApiFail string | ApiConflict | ApiLost string

record api_server =
  kw_step :: nat

record 's api_env =
  ke_now :: "nat \<Rightarrow> go_time"
  ke_api :: "nat \<Rightarrow> api_outcome"
  ke_others :: "nat \<Rightarrow> 's \<Rightarrow> 's"
  ke_ctx :: "nat \<Rightarrow> nat option"

definition kube_step :: "('a api_server_scheme, nat) state" where
  "kube_step = State (\<lambda>s. (kw_step s, s\<lparr>kw_step := Suc (kw_step s)\<rparr>))"

definition kube_now :: "'a api_server_scheme api_env \<Rightarrow> ('a api_server_scheme, go_time) state" where
  "kube_now ev = do { n \<leftarrow> kube_step; ret (ke_now ev n) }"

definition api_call :: "'a api_server_scheme api_env \<Rightarrow> ('a api_server_scheme, api_outcome) state" where
  "api_call ev = do { n \<leftarrow> kube_step; modify (ke_others ev n); ret (ke_api ev n) }"

text \<open>A read of one object, and a write: \<open>f\<close> is its answer and effect on the objects as they are then.\<close>

definition api_get :: "'a api_server_scheme api_env \<Rightarrow> ('a api_server_scheme \<Rightarrow> 'b option) \<Rightarrow> ('a api_server_scheme, kube_error + 'b) state" where
  "api_get ev sel = do {
     r \<leftarrow> api_call ev;
     case r of
       ApiOk \<Rightarrow> gets (\<lambda>s. case sel s of None \<Rightarrow> Inl NotFound | Some x \<Rightarrow> Inr x)
     | ApiFail e \<Rightarrow> ret (Inl (Failure e))
     | ApiConflict \<Rightarrow> ret (Inl Conflict)
     | ApiLost e \<Rightarrow> ret (Inl (Failure e)) }"

definition api_write :: "'a api_server_scheme api_env \<Rightarrow>
    ('a api_server_scheme \<Rightarrow> kube_error + 'a api_server_scheme) \<Rightarrow> ('a api_server_scheme, kube_error option) state" where
  "api_write ev f = do {
     r \<leftarrow> api_call ev;
     answer \<leftarrow> gets f;
     case r of
       ApiOk \<Rightarrow> (case answer of Inl e \<Rightarrow> ret (Some e) | Inr s' \<Rightarrow> do { modify (\<lambda>_. s'); ret None })
     | ApiFail e \<Rightarrow> ret (Some (Failure e))
     | ApiConflict \<Rightarrow> ret (Some Conflict)
     | ApiLost e \<Rightarrow> (case answer of Inl _ \<Rightarrow> ret (Some (Failure e)) | Inr s' \<Rightarrow> do { modify (\<lambda>_. s'); ret (Some (Failure e)) }) }"

text \<open>\<open>retry.RetryOnConflict\<close>: the body once, and again at most \<open>n\<close> times while it conflicts.\<close>

fun retry_on_conflict :: "nat \<Rightarrow> ('s, kube_error option) state \<Rightarrow> ('s, kube_error option) state" where
  "retry_on_conflict 0 f = f"
| "retry_on_conflict (Suc n) f = do {
     e \<leftarrow> f;
     if e = Some Conflict then retry_on_conflict n f else ret e }"

section \<open>Invariants of API calls\<close>

text \<open>An invariant that ignores the step counter and that everyone else keeps.\<close>

locale api_invariant =
  fixes I :: "'a api_server_scheme \<Rightarrow> bool" and ev :: "'a api_server_scheme api_env"
  assumes inv_step: "I s \<Longrightarrow> I (s\<lparr>kw_step := n\<rparr>)"
    and inv_others: "I s \<Longrightarrow> I (ke_others ev n s)"
begin

lemma k_step: "keeps I kube_step"
  by (rule keepsI) (auto simp: kube_step_def inv_step)

lemma k_now: "keeps I (kube_now ev)"
  unfolding kube_now_def by (intro keeps_intro k_step)

lemma k_call: "keeps I (api_call ev)"
  unfolding api_call_def by (intro keeps_intro k_step keeps_modify inv_others)

lemma k_get: "keeps I (api_get ev sel)"
  unfolding api_get_def by (rule keeps_bind [OF k_call]) (auto split: api_outcome.split intro: keeps_intro)

lemma k_write:
  assumes "\<And>s s'. I s \<Longrightarrow> f s = Inr s' \<Longrightarrow> I s'"
  shows "keeps I (api_write ev f)"
proof (rule keepsI)
  fix s x s'
  assume s: "I s" and run: "run_state (api_write ev f) s = (x, s')"
  obtain r s1 where c: "run_state (api_call ev) s = (r, s1)" by fastforce
  have "I s1" by (rule keepsD [OF k_call s c])
  then show "I s'" using run c assms [of s1]
    by (auto simp: api_write_def split: api_outcome.splits sum.splits)
qed

lemma k_retry: "keeps I m \<Longrightarrow> keeps I (retry_on_conflict n m)"
  by (induction n) (auto intro!: keeps_intro)

end

end
