(* ===== verification/Controller.thy ===== *)
theory Controller
  imports Children Topology Kube_Api
begin

text \<open>
  The workload controller (\<open>src/internal/controller/controller.go\<close> and the API calls of \<open>children.go\<close>).

  An operation is a value of the state monad over \<open>world\<close>: the objects of the API server (\<open>kw_...\<close>), the
  informer caches (\<open>ic_...\<close>), which lag behind it, and the memory of the controller (\<open>co_...\<close>).  A write with a
  resource version conflicts when the object has changed since it was read.

  The functions of the Kubernetes libraries the code calls are the record \<open>kube_lib\<close>: the label check, the
  defaults of a Pod, the semantic comparisons, the JSON encoding of a workload spec, the decoding of cached
  objects and the number of retries after a conflict.  Metrics, logs and events are not modelled.
\<close>

section \<open>The world\<close>

record world = api_server +
  kw_workloads :: "(string, WorkloadObject) gomap"
  kw_claims :: "(string, ClaimObject) gomap"
  kw_pods :: "(string, PodObject) gomap"
  kw_fabric :: "FabricTopologyStatus option option"
  ic_nodes :: "NodeTopologySpec list"
  ic_workloads :: "(string, WorkloadObject) gomap"
  ic_claims :: "ClaimObject list"
  ic_pods :: "(string, PodObject) gomap"
  co_fabric :: FabricTopologyStatus
  co_pending :: "(string, RankAssignment list) gomap"
  co_queue :: "string list"
  co_delayed :: "string list"

type_synonym kube_env = "world api_env"

record kube_lib =
  kl_dns :: "string \<Rightarrow> string list"
  kl_default :: "PodObject \<Rightarrow> PodObject"
  kl_same_pod :: "PodSpec \<Rightarrow> PodSpec \<Rightarrow> bool"
  kl_same_claim :: "ExactRequest list \<Rightarrow> ExactRequest list \<Rightarrow> bool"
  kl_marshal :: "WorkloadSpec \<Rightarrow> string"
  kl_decode :: "WorkloadObject \<Rightarrow> kube_error option"
  kl_decode_node :: "NodeTopologySpec \<Rightarrow> kube_error option"
  kl_retries :: nat
  kl_range :: "string list \<Rightarrow> string list"

record controller_config =
  cc_TopologyTTL :: duration
  cc_DisableWorkloadAppArmor :: bool

type_synonym 'a kop = "(world, 'a) state"

definition object_key :: "string \<Rightarrow> string \<Rightarrow> string" where
  "object_key namespace name = namespace @ ''/'' @ name"

abbreviation workload_key :: "WorkloadObject \<Rightarrow> string" where
  "workload_key w \<equiv> object_key (wo_Namespace w) (wo_Name w)"

section \<open>Status\<close>

definition MaxWorkloads :: nat where "MaxWorkloads = 1000"

definition fabricQueueKey :: string where "fabricQueueKey = ''!fabric''"

definition terminalPhase :: "string \<Rightarrow> bool" where
  "terminalPhase phase \<longleftrightarrow> phase = ''Failed'' \<or> phase = ''Succeeded''"

definition setWorkloadStatus :: "go_time \<Rightarrow> string \<Rightarrow> bool \<Rightarrow> string \<Rightarrow> string \<Rightarrow> WorkloadObject \<Rightarrow> WorkloadObject" where
  "setWorkloadStatus t phase ready reason message w =
     (let transition = fold (\<lambda>c transition.
            if cd_Type c = ''Ready'' \<and> cd_Status c = ready \<and> cd_Reason c = reason then cd_LastTransitionTime c else transition)
            (ws_Conditions (wo_Status w)) t
      in w\<lparr>wo_Status := (wo_Status w)\<lparr>ws_Phase := phase, ws_Conditions :=
           [\<lparr>cd_Type = ''Ready'', cd_Status = ready, cd_Reason = reason, cd_Message = message,
             cd_ObservedGeneration = wo_Generation w, cd_LastTransitionTime = transition\<rparr>]\<rparr>\<rparr>)"

definition set_status :: "kube_env \<Rightarrow> string \<Rightarrow> bool \<Rightarrow> string \<Rightarrow> string \<Rightarrow> WorkloadObject \<Rightarrow> WorkloadObject kop" where
  "set_status ev phase ready reason message w = do {
     t \<leftarrow> kube_now ev;
     ret (setWorkloadStatus t phase ready reason message w) }"

definition workloadSpecHash :: "kube_lib \<Rightarrow> WorkloadObject \<Rightarrow> string" where
  "workloadSpecHash lib w = hex_string (take 8 (sum256 (kl_marshal lib (wo_Spec w))))"

text \<open>The write of a status: it conflicts when the object is not the one that was read.\<close>

definition write_status :: "string \<Rightarrow> WorkloadObject \<Rightarrow> WorkloadStatus \<Rightarrow> world \<Rightarrow> kube_error + world" where
  "write_status key current status s =
     (case gm_get (kw_workloads s) key of
        None \<Rightarrow> Inl NotFound
      | Some object \<Rightarrow>
          if object \<noteq> current then Inl Conflict
          else Inr (s\<lparr>kw_workloads := gm_put key (current\<lparr>wo_Status := status\<rparr>) (kw_workloads s)\<rparr>))"

definition update_once :: "kube_env \<Rightarrow> kube_lib \<Rightarrow> WorkloadObject \<Rightarrow> kube_error option kop" where
  "update_once ev lib w = do {
     r \<leftarrow> api_get ev (\<lambda>s. gm_get (kw_workloads s) (workload_key w));
     case r of
       Inl e \<Rightarrow> ret (Some e)
     | Inr current \<Rightarrow>
         (case kl_decode lib current of
            Some e \<Rightarrow> ret (Some e)
          | None \<Rightarrow>
              if terminalPhase (ws_Phase (wo_Status current)) \<and> ws_Phase (wo_Status current) \<noteq> ws_Phase (wo_Status w)
              then ret None
              else if wo_Status current = wo_Status w then ret None
              else api_write ev (write_status (workload_key w) current (wo_Status w))) }"

definition updateWorkloadStatus :: "kube_env \<Rightarrow> kube_lib \<Rightarrow> WorkloadObject \<Rightarrow> kube_error option kop" where
  "updateWorkloadStatus ev lib w =
     (let w = w\<lparr>wo_Status := (wo_Status w)\<lparr>ws_ObservedGeneration := wo_Generation w\<rparr>\<rparr>
      in retry_on_conflict (kl_retries lib) (update_once ev lib w))"

section \<open>Children\<close>

definition create_claim :: "ClaimObject \<Rightarrow> world \<Rightarrow> kube_error + world" where
  "create_claim c s =
     (let key = object_key (ck_Namespace c) (ck_Name c)
      in if gm_get (kw_claims s) key \<noteq> None then Inl AlreadyExists
         else Inr (s\<lparr>kw_claims := gm_put key c (kw_claims s)\<rparr>))"

definition ensureClaim :: "kube_env \<Rightarrow> kube_lib \<Rightarrow> WorkloadObject \<Rightarrow> WorkloadRank \<Rightarrow> RankAssignment \<Rightarrow> kube_error option kop" where
  "ensureClaim ev lib w rank assignment = do {
     let desired = buildClaim w rank assignment;
     err \<leftarrow> api_write ev (create_claim desired);
     if err \<noteq> Some AlreadyExists then ret err
     else do {
       r \<leftarrow> api_get ev (\<lambda>s. gm_get (kw_claims s) (object_key (wo_Namespace w) (ck_Name desired)));
       case r of
         Inl e \<Rightarrow> ret (Some e)
       | Inr existing \<Rightarrow>
           if \<not> ownedBy (ck_Owners existing) (wo_UID w) \<or> \<not> kl_same_claim lib (ck_Requests existing) (ck_Requests desired)
           then ret (Some (Failure (''ResourceClaim '' @ go_quote (ck_Name desired) @ '' collides with a different owner or spec'')))
           else ret None } }"

definition create_pod :: "PodObject \<Rightarrow> world \<Rightarrow> kube_error + world" where
  "create_pod p s =
     (let key = object_key (pd_Namespace p) (pd_Name p)
      in if gm_get (kw_pods s) key \<noteq> None then Inl AlreadyExists
         else Inr (s\<lparr>kw_pods := gm_put key p (kw_pods s)\<rparr>))"

definition pod_collision :: "kube_lib \<Rightarrow> WorkloadObject \<Rightarrow> RankAssignment \<Rightarrow> PodObject \<Rightarrow> PodObject \<Rightarrow> kube_error option" where
  "pod_collision lib w assignment pod existing =
     (if po_NodeName (pd_Spec existing) \<noteq> [] \<and> po_NodeName (pd_Spec existing) \<noteq> ra_NodeName assignment
      then Some (Failure (''Pod '' @ go_quote (pd_Name pod) @ '' is scheduled on unexpected node ''
             @ go_quote (po_NodeName (pd_Spec existing))))
      else if \<not> ownedBy (pd_Owners existing) (wo_UID w) \<or>
              \<not> kl_same_pod lib ((pd_Spec existing)\<lparr>po_NodeName := po_NodeName (pd_Spec pod)\<rparr>) (pd_Spec pod)
      then Some (Failure (''Pod '' @ go_quote (pd_Name pod) @ '' collides with a different owner or spec''))
      else None)"

definition ensurePod :: "kube_env \<Rightarrow> kube_lib \<Rightarrow> controller_config \<Rightarrow> WorkloadObject \<Rightarrow> nat \<Rightarrow> RankAssignment \<Rightarrow> kube_error option kop" where
  "ensurePod ev lib cfg w rankIndex assignment =
     (case buildPod w rankIndex assignment (cc_DisableWorkloadAppArmor cfg) of
        Inl e \<Rightarrow> ret (Some (Failure e))
      | Inr built \<Rightarrow> do {
          let pod = pinAdmissionDefaults (kl_default lib built);
          err \<leftarrow> api_write ev (create_pod pod);
          if err \<noteq> Some AlreadyExists then ret err
          else do {
            r \<leftarrow> api_get ev (\<lambda>s. gm_get (kw_pods s) (object_key (wo_Namespace w) (pd_Name pod)));
            case r of
              Inl e \<Rightarrow> ret (Some e)
            | Inr existing \<Rightarrow> ret (pod_collision lib w assignment pod existing) } })"

text \<open>The loop over the ranks: the assignment with index \<open>i\<close> belongs to the rank with index \<open>i\<close>.\<close>

fun ensure_ranks ::
    "kube_env \<Rightarrow> kube_lib \<Rightarrow> controller_config \<Rightarrow> WorkloadObject \<Rightarrow> nat \<Rightarrow> (WorkloadRank \<times> RankAssignment) list
     \<Rightarrow> kube_error option kop" where
  "ensure_ranks ev lib cfg w index [] = ret None"
| "ensure_ranks ev lib cfg w index ((rank, assignment) # rest) = do {
     e1 \<leftarrow> ensureClaim ev lib w rank assignment;
     case e1 of
       Some e \<Rightarrow> ret (Some e)
     | None \<Rightarrow> do {
         e2 \<leftarrow> ensurePod ev lib cfg w index assignment;
         case e2 of
           Some e \<Rightarrow> ret (Some e)
         | None \<Rightarrow> ensure_ranks ev lib cfg w (Suc index) rest } }"

definition ensureChildren :: "kube_env \<Rightarrow> kube_lib \<Rightarrow> controller_config \<Rightarrow> WorkloadObject \<Rightarrow> kube_error option kop" where
  "ensureChildren ev lib cfg w =
     (if length (ws_Assignments (wo_Status w)) \<noteq> length (sp_Ranks (wo_Spec w))
      then ret (Some (Failure (''workload has '' @ show_nat (length (ws_Assignments (wo_Status w))) @ '' assignments for ''
             @ show_nat (length (sp_Ranks (wo_Spec w))) @ '' ranks'')))
      else ensure_ranks ev lib cfg w 0 (zip (sp_Ranks (wo_Spec w)) (ws_Assignments (wo_Status w))))"

definition delete_pod :: "string \<Rightarrow> world \<Rightarrow> kube_error + world" where
  "delete_pod key s = (if gm_get (kw_pods s) key = None then Inl NotFound else Inr (s\<lparr>kw_pods := gm_del key (kw_pods s)\<rparr>))"

definition delete_claim :: "string \<Rightarrow> world \<Rightarrow> kube_error + world" where
  "delete_claim key s = (if gm_get (kw_claims s) key = None then Inl NotFound else Inr (s\<lparr>kw_claims := gm_del key (kw_claims s)\<rparr>))"

fun delete_each :: "kube_env \<Rightarrow> string \<Rightarrow> RankAssignment list \<Rightarrow> kube_error option kop" where
  "delete_each ev namespace [] = ret None"
| "delete_each ev namespace (a # as) = do {
     e1 \<leftarrow> api_write ev (delete_pod (object_key namespace (ra_PodName a)));
     if e1 \<noteq> None \<and> e1 \<noteq> Some NotFound then ret (Some (Failure (''delete Pod '' @ go_quote (ra_PodName a))))
     else do {
       e2 \<leftarrow> api_write ev (delete_claim (object_key namespace (ra_ClaimName a)));
       if e2 \<noteq> None \<and> e2 \<noteq> Some NotFound then ret (Some (Failure (''delete ResourceClaim '' @ go_quote (ra_ClaimName a))))
       else delete_each ev namespace as } }"

definition deleteChildren :: "kube_env \<Rightarrow> WorkloadObject \<Rightarrow> kube_error option kop" where
  "deleteChildren ev w = delete_each ev (wo_Namespace w) (ws_Assignments (wo_Status w))"

section \<open>Reservations\<close>

definition assignmentsReserved :: "RankAssignment list \<Rightarrow> Reservations \<Rightarrow> bool" where
  "assignmentsReserved assignments used =
     list_ex (\<lambda>a. list_ex (\<lambda>item. \<lparr>id_Pool = ad_Pool item, id_Name = ad_Name item\<rparr> \<in> used) (ra_Devices a)) assignments"

definition reserve_claim :: "string \<Rightarrow> ClaimObject \<Rightarrow> Reservations \<Rightarrow> Reservations" where
  "reserve_claim exclude c used =
     (if ck_Namespace c @ ''/'' @ gm_string (ck_Labels c) label_workload_name = exclude then used
      else case ck_Allocation c of
        None \<Rightarrow> used
      | Some results \<Rightarrow> fold (\<lambda>(pool, device) used. res_Add used pool device) results used)"

definition reserve_workload :: "kube_lib \<Rightarrow> string \<Rightarrow> WorkloadObject \<Rightarrow> Reservations \<Rightarrow> Reservations" where
  "reserve_workload lib exclude w used =
     (if workload_key w = exclude then used
      else if kl_decode lib w = None \<and> ws_Phase (wo_Status w) \<noteq> ''Failed'' \<and> ws_Phase (wo_Status w) \<noteq> ''Succeeded''
      then res_AddAssignments used (ws_Assignments (wo_Status w)) else used)"

text \<open>The result is a set, so the order in which the caches are visited does not matter.\<close>

definition reservations :: "kube_lib \<Rightarrow> string \<Rightarrow> world \<Rightarrow> Reservations" where
  "reservations lib exclude s =
     (let used = fold (\<lambda>(key, assignments) used. if key \<noteq> exclude then res_AddAssignments used assignments else used)
            (co_pending s) {};
          used = fold (reserve_claim exclude) (ic_claims s) used
      in fold (\<lambda>(key, w). reserve_workload lib exclude w) (ic_workloads s) used)"

section \<open>Observed phase\<close>

definition unschedulable :: "PodCondition \<Rightarrow> bool" where
  "unschedulable c \<longleftrightarrow> pn_Type c = ''PodScheduled'' \<and> pn_Status c = ''False'' \<and> pn_Reason c = ''Unschedulable''"

text \<open>The loop over the assignments, with the flag \<open>started\<close> and the number of Pods that succeeded.\<close>

fun observe_ranks ::
    "(string, PodObject) gomap \<Rightarrow> string \<Rightarrow> nat \<Rightarrow> bool \<Rightarrow> nat \<Rightarrow> RankAssignment list \<Rightarrow> string \<times> string \<times> string \<times> bool" where
  "observe_ranks pods namespace n started succeeded [] =
     (if succeeded = n then (''Succeeded'', ''RanksSucceeded'', ''all rank Pods succeeded'', True)
      else if started then (''Running'', ''RanksRunning'', ''one or more rank Pods are running'', True)
      else (''Assigned'', ''ChildrenPending'', ''rank Pods and claims are pending'', False))"
| "observe_ranks pods namespace n started succeeded (a # as) =
     (case gm_get pods (object_key namespace (ra_PodName a)) of
        None \<Rightarrow> observe_ranks pods namespace n started succeeded as
      | Some pod \<Rightarrow>
          if pd_Phase pod = ''Failed'' then (''Failed'', ''RankFailed'', ''a rank Pod failed'', started)
          else
            let succeeded = (if pd_Phase pod = ''Succeeded'' then succeeded + 1 else succeeded);
                started = (started \<or> pd_StartTime pod \<noteq> None \<or> pd_Phase pod = ''Running'')
            in case find unschedulable (pd_Conditions pod) of
                 Some condition \<Rightarrow> (''Assigned'', ''Unschedulable'', pn_Message condition, started)
               | None \<Rightarrow> observe_ranks pods namespace n started succeeded as)"

definition observedPhase :: "(string, PodObject) gomap \<Rightarrow> WorkloadObject \<Rightarrow> string \<times> string \<times> string \<times> bool" where
  "observedPhase pods w =
     observe_ranks pods (wo_Namespace w) (length (ws_Assignments (wo_Status w))) False 0 (ws_Assignments (wo_Status w))"

section \<open>Reconciliation of a workload\<close>

definition forget_pending :: "string \<Rightarrow> unit kop" where
  "forget_pending key = modify (\<lambda>s. s\<lparr>co_pending := gm_del key (co_pending s)\<rparr>)"

definition set_pending :: "string \<Rightarrow> RankAssignment list \<Rightarrow> unit kop" where
  "set_pending key assignments = modify (\<lambda>s. s\<lparr>co_pending := gm_put key assignments (co_pending s)\<rparr>)"

abbreviation with_hash :: "string \<Rightarrow> WorkloadObject \<Rightarrow> WorkloadObject" where
  "with_hash hash w \<equiv> w\<lparr>wo_Status := (wo_Status w)\<lparr>ws_SpecHash := hash\<rparr>\<rparr>"

definition pending_status :: "string \<Rightarrow> WorkloadObject \<Rightarrow> WorkloadObject" where
  "pending_status hash w = w\<lparr>wo_Status := \<lparr>ws_Phase = ''Pending'', ws_ObservedGeneration = wo_Generation w, ws_SpecHash = hash,
     ws_FabricGeneration = [], ws_Assignments = [], ws_Conditions = []\<rparr>\<rparr>"

text \<open>An assignment that is given up before a rank has started.\<close>

definition replan :: "kube_env \<Rightarrow> kube_lib \<Rightarrow> string \<Rightarrow> string \<Rightarrow> WorkloadObject \<Rightarrow> kube_error option kop" where
  "replan ev lib hash message w = do {
     forget_pending (workload_key w);
     err \<leftarrow> deleteChildren ev w;
     case err of
       Some e \<Rightarrow> ret (Some e)
     | None \<Rightarrow> do {
         w' \<leftarrow> set_status ev ''Pending'' False ''Replanning'' message (pending_status hash w);
         updateWorkloadStatus ev lib w' } }"

text \<open>The specification or the relevant fabric changed after the assignment.\<close>

definition reconcile_changed ::
    "kube_env \<Rightarrow> kube_lib \<Rightarrow> string \<Rightarrow> bool \<Rightarrow> bool \<Rightarrow> WorkloadObject \<Rightarrow> kube_error option kop" where
  "reconcile_changed ev lib hash changed started w =
     (if started
      then do {
        w' \<leftarrow> set_status ev ''Degraded'' False
          (if changed then ''SpecChanged'' else ''FabricChanged'')
          (if changed then ''workload spec changed after a rank started; assignment is frozen''
           else ''relevant fabric topology changed after a rank started; assignment is frozen'') w;
        updateWorkloadStatus ev lib w' }
      else do {
        err \<leftarrow> deleteChildren ev w;
        case err of
          Some e \<Rightarrow> ret (Some e)
        | None \<Rightarrow> do {
            forget_pending (workload_key w);
            updateWorkloadStatus ev lib (pending_status hash w) } })"

text \<open>The branch for a workload that has assignments and is not in a terminal phase.\<close>

definition reconcile_assigned ::
    "kube_env \<Rightarrow> kube_lib \<Rightarrow> controller_config \<Rightarrow> string \<Rightarrow> string \<Rightarrow> Reservations \<Rightarrow> WorkloadObject \<Rightarrow> kube_error option kop" where
  "reconcile_assigned ev lib cfg hash relevantGeneration used w = do {
     (phase, reason, message, started) \<leftarrow> gets (\<lambda>s. observedPhase (ic_pods s) w);
     if assignmentsReserved (ws_Assignments (wo_Status w)) used
     then
       if started
       then do {
         w' \<leftarrow> set_status ev ''Degraded'' False ''DeviceClaimed'' ''an assigned device was consumed by another claim'' w;
         updateWorkloadStatus ev lib w' }
       else replan ev lib hash ''an assigned device was consumed by another claim'' w
     else if reason = ''Unschedulable'' \<and> \<not> started then replan ev lib hash message w
     else if phase = ''Failed'' \<or> phase = ''Succeeded''
     then do {
       forget_pending (workload_key w);
       w' \<leftarrow> set_status ev phase (phase = ''Succeeded'') reason message w;
       err \<leftarrow> deleteChildren ev w';
       case err of
         Some e \<Rightarrow> ret (Some e)
       | None \<Rightarrow> updateWorkloadStatus ev lib w' }
     else
       let changed = (ws_SpecHash (wo_Status w) \<noteq> [] \<and> ws_SpecHash (wo_Status w) \<noteq> hash);
           fabricChanged = (ws_FabricGeneration (wo_Status w) \<noteq> relevantGeneration)
       in if changed \<or> fabricChanged then reconcile_changed ev lib hash changed started w
          else do {
            w' \<leftarrow> set_status ev phase (phase = ''Running'') reason message w;
            let w' = with_hash hash w';
            err \<leftarrow> ensureChildren ev lib cfg w';
            case err of
              Some e \<Rightarrow> ret (Some e)
            | None \<Rightarrow> updateWorkloadStatus ev lib w' } }"

definition solve_message :: "solve_error \<Rightarrow> string" where
  "solve_message e = (case e of WorkloadIsNil \<Rightarrow> ''workload is nil'' | LimitsExceeded \<Rightarrow> ''placement request exceeds configured limits''
     | ContextExpired \<Rightarrow> ''context deadline exceeded'')"

text \<open>The branch for a workload without assignments.\<close>

definition reconcile_unassigned ::
    "kube_env \<Rightarrow> kube_lib \<Rightarrow> controller_config \<Rightarrow> string \<Rightarrow> string \<Rightarrow> FabricTopologyStatus \<Rightarrow> Reservations \<Rightarrow> WorkloadObject
     \<Rightarrow> kube_error option kop" where
  "reconcile_unassigned ev lib cfg hash relevantGeneration fabric used w =
     (if \<not> fs_Valid fabric
      then do {
        w' \<leftarrow> set_status ev ''Pending'' False ''FabricInvalid'' ''validated fabric topology is unavailable'' w;
        updateWorkloadStatus ev lib (with_hash hash w') }
      else do {
        n \<leftarrow> kube_step;
        case SolveContext (kl_range lib) (ke_ctx ev n) (Some (placement_view w)) (fs_Endpoints fabric) used DefaultLimits of
          (assignments, ok, Some e) \<Rightarrow> do {
            w' \<leftarrow> set_status ev ''Pending'' False ''PlacementError'' (solve_message e) w;
            updateWorkloadStatus ev lib w' }
        | (assignments, ok, None) \<Rightarrow>
            if \<not> ok
            then do {
              w' \<leftarrow> set_status ev ''Pending'' False ''Unsatisfied'' ''no connected assignment satisfies all ranks'' w;
              updateWorkloadStatus ev lib (w'\<lparr>wo_Status := (wo_Status w')\<lparr>ws_FabricGeneration := relevantGeneration, ws_SpecHash := hash\<rparr>\<rparr>) }
            else do {
              w' \<leftarrow> set_status ev ''Assigned'' True ''Assigned'' ''complete connected assignment reserved''
                (w\<lparr>wo_Status := (wo_Status w)\<lparr>ws_Assignments := assignments,
                  ws_FabricGeneration := WorkloadGeneration fabric (sp_Topology (wo_Spec w)) assignments, ws_SpecHash := hash\<rparr>\<rparr>);
              err \<leftarrow> updateWorkloadStatus ev lib w';
              case err of
                Some e \<Rightarrow> ret (Some e)
              | None \<Rightarrow> do {
                  set_pending (workload_key w) assignments;
                  ensureChildren ev lib cfg w' } } })"

definition reconcileWorkload ::
    "kube_env \<Rightarrow> kube_lib \<Rightarrow> controller_config \<Rightarrow> WorkloadObject \<Rightarrow> FabricTopologyStatus \<Rightarrow> Reservations \<Rightarrow> kube_error option kop" where
  "reconcileWorkload ev lib cfg w fabric used =
     (let hash = workloadSpecHash lib w
      in case validateWorkload (kl_dns lib) (Some w) of
           Some e \<Rightarrow> do {
             w' \<leftarrow> set_status ev ''Failed'' False ''InvalidSpec'' e w;
             updateWorkloadStatus ev lib (with_hash hash w') }
         | None \<Rightarrow>
             let relevantGeneration = WorkloadGeneration fabric (sp_Topology (wo_Spec w)) (ws_Assignments (wo_Status w))
             in if ws_Assignments (wo_Status w) \<noteq> []
                then if terminalPhase (ws_Phase (wo_Status w))
                     then do { forget_pending (workload_key w); deleteChildren ev w }
                     else reconcile_assigned ev lib cfg hash relevantGeneration used w
                else reconcile_unassigned ev lib cfg hash relevantGeneration fabric used w)"

definition reconcileWorkloadKey :: "kube_env \<Rightarrow> kube_lib \<Rightarrow> controller_config \<Rightarrow> string \<Rightarrow> kube_error option kop" where
  "reconcileWorkloadKey ev lib cfg key = do {
     found \<leftarrow> gets (\<lambda>s. gm_get (ic_workloads s) key);
     case found of
       None \<Rightarrow> do { forget_pending key; ret None }
     | Some w \<Rightarrow>
         (case kl_decode lib w of
            Some e \<Rightarrow> ret (Some e)
          | None \<Rightarrow> do {
              count \<leftarrow> gets (\<lambda>s. length (ic_workloads s));
              if count > MaxWorkloads
              then do {
                w' \<leftarrow> set_status ev (if ws_Assignments (wo_Status w) \<noteq> [] then ''Degraded'' else ''Pending'') False
                  ''ClusterScaleExceeded'' (''active workload count exceeds '' @ show_nat MaxWorkloads) w;
                updateWorkloadStatus ev lib w' }
              else do {
                fabric \<leftarrow> gets co_fabric;
                used \<leftarrow> gets (reservations lib key);
                reconcileWorkload ev lib cfg w fabric used } }) }"

section \<open>The fabric and the queue\<close>

definition write_fabric :: "FabricTopologyStatus option \<Rightarrow> FabricTopologyStatus \<Rightarrow> world \<Rightarrow> kube_error + world" where
  "write_fabric current status s =
     (case kw_fabric s of
        None \<Rightarrow> Inl NotFound
      | Some object \<Rightarrow> if object \<noteq> current then Inl Conflict else Inr (s\<lparr>kw_fabric := Some (Some status)\<rparr>))"

definition create_fabric :: "world \<Rightarrow> kube_error + world" where
  "create_fabric s = (if kw_fabric s \<noteq> None then Inl AlreadyExists else Inr (s\<lparr>kw_fabric := Some None\<rparr>))"

definition update_fabric :: "kube_env \<Rightarrow> FabricTopologyStatus \<Rightarrow> FabricTopologyStatus option \<Rightarrow> kube_error option kop" where
  "update_fabric ev status current =
     (if current = Some status then ret None else api_write ev (write_fabric current status))"

definition publish_fabric :: "kube_env \<Rightarrow> FabricTopologyStatus \<Rightarrow> kube_error option kop" where
  "publish_fabric ev status = do {
     r \<leftarrow> api_get ev kw_fabric;
     case r of
       Inr current \<Rightarrow> update_fabric ev status current
     | Inl e \<Rightarrow>
         if e \<noteq> NotFound then ret (Some e)
         else do {
           err \<leftarrow> api_write ev create_fabric;
           case err of Some e \<Rightarrow> ret (Some e) | None \<Rightarrow> update_fabric ev status None } }"

definition zero_fabric :: FabricTopologyStatus where
  "zero_fabric = \<lparr>fs_Generation = [], fs_ObservedAt = 0, fs_Valid = False, fs_Endpoints = [], fs_Errors = [], fs_Conditions = []\<rparr>"

fun first_decode_error :: "('a \<Rightarrow> kube_error option) \<Rightarrow> 'a list \<Rightarrow> kube_error option" where
  "first_decode_error f [] = None"
| "first_decode_error f (x # xs) = (case f x of Some e \<Rightarrow> Some e | None \<Rightarrow> first_decode_error f xs)"

definition reconcileFabric ::
    "kube_env \<Rightarrow> kube_lib \<Rightarrow> controller_config \<Rightarrow> (FabricTopologyStatus \<times> kube_error option) kop" where
  "reconcileFabric ev lib cfg = do {
     nodes \<leftarrow> gets ic_nodes;
     case first_decode_error (kl_decode_node lib) nodes of
       Some e \<Rightarrow> ret (zero_fabric, Some e)
     | None \<Rightarrow> do {
         t \<leftarrow> kube_now ev;
         let status = BuildFabric nodes (cc_TopologyTTL cfg) t;
         err \<leftarrow> retry_on_conflict (kl_retries lib) (publish_fabric ev status);
         ret (status, err) } }"

definition enqueue :: "string \<Rightarrow> world \<Rightarrow> world" where
  "enqueue key s = (if key \<in> set (co_queue s) then s else s\<lparr>co_queue := co_queue s @ [key]\<rparr>)"

definition enqueueChild :: "string \<Rightarrow> (string, string) gomap \<Rightarrow> world \<Rightarrow> world" where
  "enqueueChild namespace labels s =
     (let name = gm_string labels label_workload_name
      in if name \<noteq> [] then enqueue (namespace @ ''/'' @ name) s else s)"

definition enqueueAllWorkloads :: "world \<Rightarrow> world" where
  "enqueueAllWorkloads s = fold (\<lambda>(key, w). enqueue (workload_key w)) (ic_workloads s) s"

text \<open>
  \<open>processNext\<close>: the queue answers on empty only after it was shut down.  Keys that are added with a delay
  (a retry after an error, the periodic refresh of the fabric) wait in \<open>co_delayed\<close>.
\<close>

definition delay :: "string \<Rightarrow> world \<Rightarrow> world" where
  "delay key s = s\<lparr>co_delayed := co_delayed s @ [key]\<rparr>"

definition process_fabric :: "kube_env \<Rightarrow> kube_lib \<Rightarrow> controller_config \<Rightarrow> kube_error option kop" where
  "process_fabric ev lib cfg = do {
     (status, err) \<leftarrow> reconcileFabric ev lib cfg;
     modify (\<lambda>s. s\<lparr>co_fabric := status\<rparr>);
     if err = None
     then do {
       modify enqueueAllWorkloads;
       if cc_TopologyTTL cfg > 0 then do { modify (delay fabricQueueKey); ret None } else ret None }
     else ret err }"

definition processNext :: "kube_env \<Rightarrow> kube_lib \<Rightarrow> controller_config \<Rightarrow> bool kop" where
  "processNext ev lib cfg = do {
     queue \<leftarrow> gets co_queue;
     case queue of
       [] \<Rightarrow> ret False
     | key # rest \<Rightarrow> do {
         modify (\<lambda>s. s\<lparr>co_queue := rest\<rparr>);
         err \<leftarrow> (if key = fabricQueueKey then process_fabric ev lib cfg else reconcileWorkloadKey ev lib cfg key);
         (if err \<noteq> None then modify (delay key) else ret ());
         ret True } }"

text \<open>The start of \<open>Run\<close>, after the caches have synchronized: nothing is pending, every key is queued.\<close>

definition start_controller :: "world \<Rightarrow> world" where
  "start_controller s = enqueueAllWorkloads (enqueue fabricQueueKey
     (s\<lparr>co_pending := [], co_fabric := zero_fabric, co_queue := [], co_delayed := []\<rparr>))"

end
