(* ===== verification/Controller_Invariants.thy ===== *)
theory Controller_Invariants
  imports Controller
begin

text \<open>
  The interfaces by which the operations of the controller keep an invariant of the world: \<open>call_invariant\<close> for the
  operations that only read and create objects, \<open>object_invariant\<close> for those that delete children as well, and
  \<open>status_invariant\<close> for whole reconciliations, which write the status of workloads and the memory of the controller.
\<close>

section \<open>Reading and creating\<close>

text \<open>An invariant of the API calls that ignores new children and the fabric object.\<close>

locale call_invariant = api_invariant I ev for I :: "world \<Rightarrow> bool" and ev :: kube_env +
  assumes inv_new_claim: "I s \<Longrightarrow> gm_get (kw_claims s) k = None \<Longrightarrow> I (s\<lparr>kw_claims := gm_put k c (kw_claims s)\<rparr>)"
    and inv_new_pod: "I s \<Longrightarrow> gm_get (kw_pods s) k = None \<Longrightarrow> I (s\<lparr>kw_pods := gm_put k p (kw_pods s)\<rparr>)"
    and inv_fabric: "I s \<Longrightarrow> I (s\<lparr>kw_fabric := f\<rparr>)"
begin

lemma k_set_status: "keeps I (set_status ev phase ready reason message w)"
  unfolding set_status_def by (intro keeps_intro k_now)

lemma k_ensureClaim: "keeps I (ensureClaim ev lib w rank a)"
  unfolding ensureClaim_def
  by (intro keeps_intro k_write k_get) (auto simp: create_claim_def Let_def inv_new_claim split: if_splits)

lemma k_ensurePod: "keeps I (ensurePod ev lib cfg w i a)"
  unfolding ensurePod_def
  by (intro keeps_intro k_write k_get) (auto simp: create_pod_def Let_def inv_new_pod split: if_splits)

lemma k_ensure_ranks: "keeps I (ensure_ranks ev lib cfg w i ras)"
  by (induction ras arbitrary: i) (auto intro!: keeps_intro k_ensureClaim k_ensurePod)

lemma k_ensureChildren: "keeps I (ensureChildren ev lib cfg w)"
  unfolding ensureChildren_def by (intro keeps_intro k_ensure_ranks)

lemma k_update_fabric: "keeps I (update_fabric ev status current)"
  unfolding update_fabric_def
  by (intro keeps_intro k_write) (auto simp: write_fabric_def inv_fabric split: option.splits if_splits)

lemma k_publish_fabric: "keeps I (publish_fabric ev status)"
  unfolding publish_fabric_def
  by (intro keeps_intro k_get k_write k_update_fabric) (auto simp: create_fabric_def inv_fabric split: if_splits)

lemma k_reconcileFabric: "keeps I (reconcileFabric ev lib cfg)"
  unfolding reconcileFabric_def by (intro keeps_intro k_now k_retry k_publish_fabric)

end

section \<open>Deleting children\<close>

locale object_invariant = call_invariant +
  assumes inv_delete_claim: "I s \<Longrightarrow> I (s\<lparr>kw_claims := gm_del k (kw_claims s)\<rparr>)"
    and inv_delete_pod: "I s \<Longrightarrow> I (s\<lparr>kw_pods := gm_del k (kw_pods s)\<rparr>)"
begin

lemma k_delete_each: "keeps I (delete_each ev ns as)"
proof (induction as)
  case (Cons a as)
  have "keeps I (api_write ev (delete_pod k))" "keeps I (api_write ev (delete_claim k))" for k
    by (auto intro!: k_write simp: delete_pod_def delete_claim_def inv_delete_pod inv_delete_claim split: if_splits)
  then show ?case unfolding delete_each.simps by (intro keeps_intro Cons)
qed (simp add: keeps_intro)

lemma k_deleteChildren: "keeps I (deleteChildren ev w)"
  unfolding deleteChildren_def by (rule k_delete_each)

end

section \<open>Whole reconciliations\<close>

locale status_invariant = object_invariant +
  assumes inv_update: "keeps I (updateWorkloadStatus ev lib w)"
    and inv_memory: "I s \<Longrightarrow> I (s\<lparr>co_pending := p, co_fabric := g, co_queue := q, co_delayed := d\<rparr>)"
begin

lemma inv_pending: "I s \<Longrightarrow> I (s\<lparr>co_pending := p\<rparr>)"
  using inv_memory [where s = s and p = p and g = "co_fabric s" and q = "co_queue s" and d = "co_delayed s"] by simp

lemma inv_queue: "I s \<Longrightarrow> I (s\<lparr>co_queue := q\<rparr>)"
  using inv_memory [where s = s and p = "co_pending s" and g = "co_fabric s" and q = q and d = "co_delayed s"] by simp

lemma inv_graph: "I s \<Longrightarrow> I (s\<lparr>co_fabric := g\<rparr>)"
  using inv_memory [where s = s and p = "co_pending s" and g = g and q = "co_queue s" and d = "co_delayed s"] by simp

lemma inv_delay: "I s \<Longrightarrow> I (delay k s)"
  using inv_memory [where s = s and p = "co_pending s" and g = "co_fabric s" and q = "co_queue s"] by (simp add: delay_def)

lemma inv_enqueueAll: "I s \<Longrightarrow> I (enqueueAllWorkloads s)"
proof -
  have "I t \<Longrightarrow> I (fold (\<lambda>(key, w). enqueue (workload_key w)) m t)" for m t
    by (induction m arbitrary: t) (auto simp: enqueue_def inv_queue)
  then show "I s \<Longrightarrow> I (enqueueAllWorkloads s)" by (simp add: enqueueAllWorkloads_def)
qed

lemma k_pending: "keeps I (forget_pending k)" "keeps I (set_pending k as)"
  unfolding forget_pending_def set_pending_def by (rule keeps_modify, erule inv_pending)+

lemma k_replan: "keeps I (replan ev lib hash message w)"
  unfolding replan_def by (intro keeps_intro k_pending k_deleteChildren k_set_status inv_update)

lemma k_changed: "keeps I (reconcile_changed ev lib hash changed started w)"
  unfolding reconcile_changed_def by (intro keeps_intro k_pending k_deleteChildren k_set_status inv_update)

lemma k_assigned: "keeps I (reconcile_assigned ev lib cfg hash g used w)"
  unfolding reconcile_assigned_def
  by (intro keeps_intro k_replan k_changed k_pending k_deleteChildren k_ensureChildren k_set_status inv_update)

lemma k_unassigned: "keeps I (reconcile_unassigned ev lib cfg hash g fabric used w)"
  unfolding reconcile_unassigned_def
  by (intro keeps_intro k_step k_pending k_ensureChildren k_set_status inv_update)

lemma k_reconcileWorkload: "keeps I (reconcileWorkload ev lib cfg w fabric used)"
  unfolding reconcileWorkload_def
  by (intro keeps_intro k_assigned k_unassigned k_pending k_deleteChildren k_set_status inv_update)

lemma k_reconcileWorkloadKey: "keeps I (reconcileWorkloadKey ev lib cfg key)"
  unfolding reconcileWorkloadKey_def
  by (intro keeps_intro k_reconcileWorkload k_pending k_set_status inv_update)

lemma k_process_fabric: "keeps I (process_fabric ev lib cfg)"
  unfolding process_fabric_def
  by (intro keeps_intro keeps_modify k_reconcileFabric inv_graph inv_enqueueAll inv_delay)

lemma k_processNext: "keeps I (processNext ev lib cfg)"
proof -
  have "keeps I (case queue of [] \<Rightarrow> ret False | key # rest \<Rightarrow> do {
         modify (\<lambda>s. s\<lparr>co_queue := rest\<rparr>);
         err \<leftarrow> (if key = fabricQueueKey then process_fabric ev lib cfg else reconcileWorkloadKey ev lib cfg key);
         (if err \<noteq> None then modify (delay key) else ret ());
         ret True })" for queue
    by (cases queue)
      (auto intro!: keeps_intro keeps_modify inv_queue inv_delay k_process_fabric k_reconcileWorkloadKey)
  then show ?thesis unfolding processNext_def by (intro keeps_bind keeps_gets)
qed

end

text \<open>An invariant under a condition on the environment.\<close>

lemma keeps_under: "keeps (\<lambda>s. A \<and> I s) m \<Longrightarrow> A \<Longrightarrow> keeps I m"
  by (simp add: keeps_def hoare_def)

end
