(* ===== verification/Controller_Logic.thy ===== *)
theory Controller_Logic
  imports Controller_Invariants Placement_Correct
begin

text \<open>
  The devices that the workloads hold, on the API server, in the cache and in the reservations of the controller;
  the steps of the other clients of the API server; the invariant \<open>fair\<close>, under which the reservations cover what
  the others hold, kept by the operations on the children; and what a status update does to \<open>fair\<close>.
\<close>

section \<open>Devices of assignments\<close>

definition devices_of :: "RankAssignment list \<Rightarrow> DeviceID set" where
  "devices_of as = (\<lambda>item. \<lparr>id_Pool = ad_Pool item, id_Name = ad_Name item\<rparr>) ` set (concat (map ra_Devices as))"

lemma devices_of_Nil [simp]: "devices_of [] = {}"
  by (simp add: devices_of_def)

lemma devices_of_Cons: "devices_of (a # as) =
    (\<lambda>item. \<lparr>id_Pool = ad_Pool item, id_Name = ad_Name item\<rparr>) ` set (ra_Devices a) \<union> devices_of as"
  by (auto simp: devices_of_def)

lemma res_AddAssignments_eq: "res_AddAssignments r as = r \<union> devices_of as"
  by (induction as arbitrary: r)
    (auto simp: res_AddAssignments_def res_AddAssignment_def res_Add_fold devices_of_Cons)

lemma assignmentsReserved_iff: "assignmentsReserved as used \<longleftrightarrow> devices_of as \<inter> used \<noteq> {}"
  by (auto simp: assignmentsReserved_def devices_of_def list_ex_iff)

lemma makeAssignment_devices:
  "(\<lambda>item. \<lparr>id_Pool = ad_Pool item, id_Name = ad_Name item\<rparr>) ` set (ra_Devices (makeAssignment wl r n ds)) = device_ids ds"
  by (simp add: makeAssignment_def Let_def assigned_device_def device_id_def image_image)

lemma plan_ok_avoids: "plan_ok wl eps reserved ranks sel plan \<Longrightarrow> devices_of (plan_assignments wl ranks plan) \<inter> reserved = {}"
proof (induction wl eps reserved ranks sel plan rule: plan_ok.induct)
  case (2 wl eps reserved r rs sel n ds ps)
  then have "subseq ds (node_choices wl r eps reserved sel n)" "devices_of (plan_assignments wl rs ps) \<inter> reserved = {}" by simp_all
  moreover from this(1) have "set ds \<subseteq> set (node_choices wl r eps reserved sel n)" by (auto elim: list_emb_set)
  ultimately have "device_ids ds \<inter> reserved = {}" by (auto simp: candidate_ok_def node_choices_def)
  then show ?case using \<open>devices_of (plan_assignments wl rs ps) \<inter> reserved = {}\<close>
    by (simp only: plan_assignments.simps devices_of_Cons makeAssignment_devices Int_Un_distrib2 Un_empty_left)
qed simp_all

lemma solve_avoids:
  assumes "SolveContext rng ctx (Some wl) eps reserved limits = (as, True, err)"
  shows "devices_of as \<inter> reserved = {}"
  using SolveContext_plan [OF assms] plan_ok_avoids by blast

section \<open>Who holds what\<close>

definition active :: "WorkloadObject \<Rightarrow> DeviceID set" where
  "active w = (if terminalPhase (ws_Phase (wo_Status w)) then {} else devices_of (ws_Assignments (wo_Status w)))"

definition assigned_to :: "(string, WorkloadObject) gomap \<Rightarrow> string \<Rightarrow> DeviceID set" where
  "assigned_to m key = (case gm_get m key of None \<Rightarrow> {} | Some w \<Rightarrow> active w)"

abbreviation held :: "world \<Rightarrow> string \<Rightarrow> DeviceID set" where
  "held s \<equiv> assigned_to (kw_workloads s)"

abbreviation shown :: "world \<Rightarrow> string \<Rightarrow> DeviceID set" where
  "shown s \<equiv> assigned_to (ic_workloads s)"

definition reserved_for :: "world \<Rightarrow> string \<Rightarrow> DeviceID set" where
  "reserved_for s key = (case gm_get (co_pending s) key of None \<Rightarrow> {} | Some as \<Rightarrow> devices_of as)"

definition stake :: "world \<Rightarrow> string \<Rightarrow> DeviceID set" where
  "stake s key = held s key \<union> shown s key \<union> reserved_for s key"

definition keyed :: "(string, WorkloadObject) gomap \<Rightarrow> bool" where
  "keyed m \<longleftrightarrow> (\<forall>key w. gm_get m key = Some w \<longrightarrow> workload_key w = key)"

definition fair :: "world \<Rightarrow> bool" where
  "fair s \<longleftrightarrow> keyed (kw_workloads s) \<and> keyed (ic_workloads s) \<and>
     (\<forall>a b. a \<noteq> b \<longrightarrow> stake s a \<inter> stake s b = {}) \<and> (\<forall>a. held s a \<subseteq> shown s a \<union> reserved_for s a)"

section \<open>Reservations cover the stakes of the others\<close>

lemma reserve_claims_mono: "used \<subseteq> fold (reserve_claim ex) cs used"
proof -
  have add: "used \<subseteq> fold (\<lambda>(pool, device) used. res_Add used pool device) rs used" for rs used
    by (induction rs arbitrary: used) (force simp: res_Add_def)+
  have one: "used \<subseteq> reserve_claim ex c used" for c used
    using add by (auto simp: reserve_claim_def split: option.splits)
  show ?thesis by (induction cs arbitrary: used) (use one in fastforce)+
qed

lemma reserve_pending:
  "fold (\<lambda>(key, as) used. if key \<noteq> ex then res_AddAssignments used as else used) m used =
     used \<union> (\<Union>(key, as) \<in> set m. if key \<noteq> ex then devices_of as else {})"
  by (induction m arbitrary: used) (auto simp: res_AddAssignments_eq)

lemma reserve_workloads:
  assumes "\<And>w. kl_decode lib w = None"
  shows "fold (\<lambda>(key, w). reserve_workload lib ex w) m used =
     used \<union> (\<Union>(key, w) \<in> set m. if workload_key w \<noteq> ex then active w else {})"
proof (induction m arbitrary: used)
  case (Cons p m)
  have "reserve_workload lib ex (snd p) used = used \<union> (if workload_key (snd p) \<noteq> ex then active (snd p) else {})"
    using assms by (auto simp: reserve_workload_def active_def terminalPhase_def res_AddAssignments_eq)
  with Cons show ?case by (cases p) auto
qed simp

lemma reservations_cover:
  assumes "\<And>w. kl_decode lib w = None" and "fair s" and "b \<noteq> key"
  shows "stake s b \<subseteq> reservations lib key s"
proof -
  have p: "reserved_for s b \<subseteq> (\<Union>(k, as) \<in> set (co_pending s). if k \<noteq> key then devices_of as else {})"
    using assms(3) by (auto simp: reserved_for_def split: option.splits dest!: gm_get_SomeD)
  have w: "shown s b \<subseteq> (\<Union>(k, w) \<in> set (ic_workloads s). if workload_key w \<noteq> key then active w else {})"
  proof (cases "gm_get (ic_workloads s) b")
    case (Some w)
    then have "(b, w) \<in> set (ic_workloads s)" by (rule gm_get_SomeD)
    moreover have "workload_key w \<noteq> key" using Some assms(2,3) by (auto simp: fair_def keyed_def)
    ultimately show ?thesis using Some by (auto simp: assigned_to_def)
  qed (simp add: assigned_to_def)
  let ?P = "(\<Union>(k, as) \<in> set (co_pending s). if k \<noteq> key then devices_of as else {})"
  let ?W = "(\<Union>(k, w) \<in> set (ic_workloads s). if workload_key w \<noteq> key then active w else {})"
  have eq: "reservations lib key s = fold (reserve_claim key) (ic_claims s) ?P \<union> ?W"
    by (simp only: reservations_def Let_def reserve_pending reserve_workloads [OF assms(1)] Un_empty_left)
  have "?P \<subseteq> fold (reserve_claim key) (ic_claims s) ?P" by (rule reserve_claims_mono)
  with p have "reserved_for s b \<subseteq> fold (reserve_claim key) (ic_claims s) ?P" by (rule subset_trans)
  then have "reserved_for s b \<union> shown s b \<subseteq> reservations lib key s" unfolding eq using w by (rule Un_mono)
  moreover have "held s b \<subseteq> shown s b \<union> reserved_for s b" using assms(2) by (simp add: fair_def)
  ultimately show ?thesis by (auto simp: stake_def)
qed

section \<open>Everyone else\<close>

text \<open>
  What users, the scheduler, the kubelets and the informers do: they write no status of a workload, and a new
  workload has no assignments.  A workload that is being reconciled (\<open>busy\<close>) is not created anew meanwhile.
\<close>

inductive other_step :: "string option \<Rightarrow> world \<Rightarrow> world \<Rightarrow> bool" for busy :: "string option" where
  edit: "gm_get (kw_workloads s) key = Some w \<Longrightarrow>
    other_step busy s (s\<lparr>kw_workloads := gm_put key (w\<lparr>wo_Spec := spec, wo_Generation := g\<rparr>) (kw_workloads s)\<rparr>)"
| create: "gm_get (kw_workloads s) (workload_key w) = None \<Longrightarrow> ws_Assignments (wo_Status w) = [] \<Longrightarrow> busy \<noteq> Some (workload_key w) \<Longrightarrow>
    other_step busy s (s\<lparr>kw_workloads := gm_put (workload_key w) w (kw_workloads s)\<rparr>)"
| remove: "other_step busy s (s\<lparr>kw_workloads := gm_del key (kw_workloads s)\<rparr>)"
| sync: "other_step busy s (s\<lparr>ic_workloads := (case gm_get (kw_workloads s) key of
      None \<Rightarrow> gm_del key (ic_workloads s) | Some w \<Rightarrow> gm_put key w (ic_workloads s))\<rparr>)"
| objects: "other_step busy s (s\<lparr>kw_claims := c, kw_pods := p, kw_fabric := f, ic_claims := c', ic_pods := p', ic_nodes := ns\<rparr>)"
| queued: "other_step busy s (s\<lparr>co_queue := q, co_delayed := d\<rparr>)"

definition undisturbed :: "string \<Rightarrow> kube_env \<Rightarrow> bool" where
  "undisturbed key ev \<longleftrightarrow> (\<forall>n s. (other_step (Some key))\<^sup>*\<^sup>* s (ke_others ev n s))"

definition definite :: "kube_env \<Rightarrow> bool" where
  "definite ev \<longleftrightarrow> (\<forall>n e. ke_api ev n \<noteq> ApiLost e)"

lemma assigned_to_put: "assigned_to (gm_put k w m) j = (if j = k then active w else assigned_to m j)"
  by (simp add: assigned_to_def)

lemma assigned_to_del: "assigned_to (gm_del k m) j = (if j = k then {} else assigned_to m j)"
  by (simp add: assigned_to_def)

lemma active_spec [simp]: "active (w\<lparr>wo_Spec := spec, wo_Generation := g\<rparr>) = active w"
  by (simp add: active_def)

lemma stake_shrinks:
  assumes "other_step busy s s'"
  shows "stake s' a \<subseteq> stake s a \<and> held s' a \<subseteq> held s a \<and> reserved_for s' a = reserved_for s a \<and>
    (shown s' a = shown s a \<or> shown s' a = held s' a)"
  using assms
proof cases
  case (edit key w spec g)
  then have "held s' a = held s a" by (cases "a = key") (simp_all add: assigned_to_def)
  with edit show ?thesis by (simp add: stake_def reserved_for_def)
next
  case (create w)
  then have "active w = {}" by (simp add: active_def)
  with create show ?thesis by (auto simp: stake_def reserved_for_def assigned_to_put)
next
  case (remove key)
  then show ?thesis by (auto simp: stake_def reserved_for_def assigned_to_del)
next
  case (sync key)
  then show ?thesis by (cases "a = key") (auto simp: stake_def reserved_for_def assigned_to_def split: option.splits)
qed (auto simp: stake_def reserved_for_def)

lemma other_keyed:
  assumes "other_step busy s s'" and "keyed (kw_workloads s)" and "keyed (ic_workloads s)"
  shows "keyed (kw_workloads s') \<and> keyed (ic_workloads s')"
  using assms by cases (auto simp: keyed_def split: option.splits if_splits)

lemma other_fair:
  assumes "other_step busy s s'" and "fair s"
  shows "fair s'"
proof -
  note sh = stake_shrinks [OF assms(1)]
  have "held s' a \<subseteq> shown s' a \<union> reserved_for s' a" for a
    using sh [of a] assms(2) unfolding fair_def by blast
  moreover have "stake s' a \<inter> stake s' b = {}" if "a \<noteq> b" for a b
    using sh [of a] sh [of b] assms(2) that unfolding fair_def by blast
  ultimately show ?thesis using other_keyed [OF assms(1)] assms(2) by (simp add: fair_def)
qed

text \<open>
  The status of the workload \<open>w\<close> in the cache is the one of the API server, unless the workload is gone: the
  cache shows the controller its own writes.
\<close>

definition in_step :: "WorkloadObject \<Rightarrow> world \<Rightarrow> bool" where
  "in_step w s \<longleftrightarrow> gm_get (kw_workloads s) (workload_key w) = None \<or>
     map_option wo_Status (gm_get (kw_workloads s) (workload_key w)) = Some (wo_Status w) \<and>
     map_option wo_Status (gm_get (ic_workloads s) (workload_key w)) = Some (wo_Status w)"

lemma in_step_held: "in_step w s \<Longrightarrow> held s (workload_key w) \<subseteq> shown s (workload_key w)"
  by (auto simp: in_step_def assigned_to_def active_def)

lemma other_in_step:
  assumes "other_step (Some (workload_key w)) s s'" and "in_step w s"
  shows "in_step w s'"
  using assms by cases (auto simp: in_step_def split: option.splits)

text \<open>What holds while the workload \<open>w\<close> is reconciled against the reservations \<open>U\<close>.\<close>

definition reconciling :: "WorkloadObject \<Rightarrow> DeviceID set \<Rightarrow> world \<Rightarrow> bool" where
  "reconciling w U s \<longleftrightarrow> fair s \<and> in_step w s \<and> (\<forall>b. b \<noteq> workload_key w \<longrightarrow> stake s b \<subseteq> U)"

section \<open>The invariants\<close>

lemmas world_defs = reconciling_def fair_def stake_def reserved_for_def in_step_def

lemma others_keep:
  assumes "undisturbed key ev" and "\<And>s s'. I s \<Longrightarrow> other_step (Some key) s s' \<Longrightarrow> I s'" and "I s"
  shows "I (ke_others ev n s)"
proof -
  have "(other_step (Some key))\<^sup>*\<^sup>* s (ke_others ev n s)" using assms(1) by (simp add: undisturbed_def)
  then show ?thesis using assms(3) by (induction rule: rtranclp_induct) (auto intro: assms(2))
qed

interpretation rec: object_invariant "\<lambda>s. undisturbed (workload_key w) ev \<and> reconciling w U s" ev for w U ev
proof unfold_locales
  fix s n assume a: "undisturbed (workload_key w) ev \<and> reconciling w U s"
  have "reconciling w U s'" if r: "reconciling w U s" and o: "other_step (Some (workload_key w)) s s'" for s s'
  proof -
    have "stake s' b \<subseteq> stake s b" for b using stake_shrinks [OF o] by blast
    then show ?thesis using r other_fair [OF o] other_in_step [OF o] unfolding reconciling_def by blast
  qed
  with others_keep [of "workload_key w" ev "reconciling w U" s n] a
  show "undisturbed (workload_key w) ev \<and> reconciling w U (ke_others ev n s)" by blast
qed (simp_all add: world_defs)

interpretation fairness: object_invariant "\<lambda>s. undisturbed key ev \<and> fair s" ev for key ev
proof unfold_locales
  fix s n assume a: "undisturbed key ev \<and> fair s"
  with others_keep [of key ev fair s n] other_fair show "undisturbed key ev \<and> fair (ke_others ev n s)" by blast
qed (simp_all add: world_defs)

text \<open>When nobody else acts, work on the children leaves the workloads and the reservations alone.\<close>

definition alone :: "kube_env \<Rightarrow> bool" where
  "alone ev \<longleftrightarrow> (\<forall>n s. ke_others ev n s = s)"

interpretation still: object_invariant "\<lambda>s. alone ev \<and> kw_workloads s = ws \<and> co_pending s = p" ev for ws p ev
  by unfold_locales (simp_all add: alone_def)

lemma fair_queue: "fair s \<Longrightarrow> fair (s\<lparr>co_queue := q\<rparr>)" "fair s \<Longrightarrow> fair (delay k s)" "fair s \<Longrightarrow> fair (s\<lparr>co_fabric := f\<rparr>)"
  by (simp_all add: world_defs delay_def)

lemma fair_enqueue: "fair s \<Longrightarrow> fair (enqueue k s)"
  by (simp add: enqueue_def fair_queue)

lemma fair_enqueueAll: "fair s \<Longrightarrow> fair (enqueueAllWorkloads s)"
proof -
  have "fair t \<Longrightarrow> fair (fold (\<lambda>(key, w). enqueue (workload_key w)) m t)" for m t
    by (induction m arbitrary: t) (auto simp: fair_enqueue)
  then show "fair s \<Longrightarrow> fair (enqueueAllWorkloads s)" by (simp add: enqueueAllWorkloads_def)
qed

section \<open>Status updates\<close>

lemma get_run: "run_state (api_get ev sel) s = (Inr x, s') \<Longrightarrow> sel s' = Some x"
  by (auto simp: api_get_def split: prod.splits api_outcome.splits option.splits)

lemma api_write_run:
  assumes "definite ev" and "run_state (api_write ev f) s = (r, s')"
  obtains o1 s1 where "run_state (api_call ev) s = (o1, s1)" and "r \<noteq> None \<and> s' = s1 \<or> r = None \<and> f s1 = Inr s'"
proof -
  obtain o1 s1 where c: "run_state (api_call ev) s = (o1, s1)" by fastforce
  have "o1 \<noteq> ApiLost e" for e using assms(1) c by (auto simp: definite_def api_call_def kube_step_def)
  then have "r \<noteq> None \<and> s' = s1 \<or> r = None \<and> f s1 = Inr s'"
    using assms(2) c by (auto simp: api_write_def split: api_outcome.splits sum.splits)
  with c show thesis by (rule that)
qed

text \<open>Everything but the cover of one workload.\<close>

definition fair_except :: "string \<Rightarrow> world \<Rightarrow> bool" where
  "fair_except key s \<longleftrightarrow> keyed (kw_workloads s) \<and> keyed (ic_workloads s) \<and>
     (\<forall>a b. a \<noteq> b \<longrightarrow> stake s a \<inter> stake s b = {}) \<and> (\<forall>a. a \<noteq> key \<longrightarrow> held s a \<subseteq> shown s a \<union> reserved_for s a)"

lemma fair_iff: "fair s \<longleftrightarrow> fair_except key s \<and> held s key \<subseteq> shown s key \<union> reserved_for s key"
proof -
  have "(\<forall>a. P a) \<longleftrightarrow> (\<forall>a. a \<noteq> key \<longrightarrow> P a) \<and> P key" for P :: "string \<Rightarrow> bool" by auto
  from this [of "\<lambda>a. held s a \<subseteq> shown s a \<union> reserved_for s a"] show ?thesis
    by (simp only: fair_def fair_except_def conj_assoc)
qed

lemma stake_change:
  assumes "fair_except key s" and "\<And>b. b \<noteq> key \<Longrightarrow> stake s' b = stake s b" and "stake s' key \<subseteq> stake s key \<union> D"
    and "\<And>b. b \<noteq> key \<Longrightarrow> D \<inter> stake s b = {}"
  shows "a \<noteq> b \<Longrightarrow> stake s' a \<inter> stake s' b = {}"
proof -
  assume "a \<noteq> b"
  have d: "stake s a \<inter> stake s b = {}" using assms(1) \<open>a \<noteq> b\<close> by (simp add: fair_except_def)
  consider "a = key" "b \<noteq> key" | "b = key" "a \<noteq> key" | "a \<noteq> key" "b \<noteq> key" using \<open>a \<noteq> b\<close> by blast
  then show ?thesis
  proof cases
    case 1
    then have "stake s' b = stake s b" "D \<inter> stake s b = {}" using assms(2,4) by simp_all
    with d assms(3) 1 show ?thesis by blast
  next
    case 2
    then have "stake s' a = stake s a" "D \<inter> stake s a = {}" using assms(2,4) by simp_all
    with d assms(3) 2 show ?thesis by blast
  next
    case 3
    then show ?thesis using d assms(2) by simp
  qed
qed

lemma write_status_run:
  assumes "write_status key current st s = Inr s'" and "fair s"
    and "\<And>b. b \<noteq> key \<Longrightarrow> active (current\<lparr>wo_Status := st\<rparr>) \<inter> stake s b = {}"
  shows "fair_except key s'" and "held s' key = active (current\<lparr>wo_Status := st\<rparr>)"
    and "\<And>b. b \<noteq> key \<Longrightarrow> stake s' b = stake s b" and "shown s' = shown s" and "reserved_for s' = reserved_for s"
proof -
  let ?w = "current\<lparr>wo_Status := st\<rparr>"
  from assms(1) have g: "gm_get (kw_workloads s) key = Some current" and s': "s' = s\<lparr>kw_workloads := gm_put key ?w (kw_workloads s)\<rparr>"
    by (auto simp: write_status_def split: option.splits if_splits)
  have h: "held s' b = (if b = key then active ?w else held s b)" for b by (simp add: s' assigned_to_put)
  show held: "held s' key = active ?w" using h by simp
  show sh: "shown s' = shown s" by (simp add: s')
  show rs: "reserved_for s' = reserved_for s" by (simp add: s' reserved_for_def [abs_def])
  show st: "stake s' b = stake s b" if "b \<noteq> key" for b using that by (simp add: stake_def sh rs h)
  have "stake s' key \<subseteq> stake s key \<union> active ?w" by (auto simp: stake_def sh rs h)
  have fe: "fair_except key s" using assms(2) fair_iff [of s key] by simp
  have dj: "stake s' a \<inter> stake s' b = {}" if "a \<noteq> b" for a b
    by (rule stake_change [OF fe st \<open>stake s' key \<subseteq> _\<close> assms(3) that])
  have "keyed (kw_workloads s')" using g assms(2) by (auto simp: s' fair_def keyed_def)
  moreover have "keyed (ic_workloads s')" using assms(2) by (simp add: s' fair_def)
  moreover have "held s' a \<subseteq> shown s' a \<union> reserved_for s' a" if "a \<noteq> key" for a
    using assms(2) that by (simp add: fair_def sh rs h)
  ultimately show "fair_except key s'" using dj by (simp add: fair_except_def)
qed

lemma update_once_run:
  assumes "undisturbed (workload_key w) ev" and "definite ev" and "workload_key w' = workload_key w"
    and "reconciling w U s" and "run_state (update_once ev lib w') s = (r, s')"
  shows "reconciling w U s' \<or>
    r = None \<and> \<not> (terminalPhase (ws_Phase (wo_Status w)) \<and> ws_Phase (wo_Status w) \<noteq> ws_Phase (wo_Status w')) \<and>
    (\<exists>s2 current. reconciling w U s2 \<and> write_status (workload_key w) current (wo_Status w') s2 = Inr s')"
proof -
  obtain g s1 where get: "run_state (api_get ev (\<lambda>s. gm_get (kw_workloads s) (workload_key w'))) s = (g, s1)" by fastforce
  have r1: "reconciling w U s1" by (rule keepsD [OF rec.k_get [THEN keeps_under, OF assms(1)] assms(4) get])
  show ?thesis
  proof (cases "\<exists>current. g = Inr current \<and> kl_decode lib current = None \<and>
      \<not> (terminalPhase (ws_Phase (wo_Status current)) \<and> ws_Phase (wo_Status current) \<noteq> ws_Phase (wo_Status w')) \<and>
      wo_Status current \<noteq> wo_Status w'")
    case False
    then have "s' = s1" using assms(5) get by (auto simp: update_once_def split: sum.splits option.splits if_splits)
    with r1 show ?thesis by simp
  next
    case True
    then obtain current where c: "g = Inr current" "kl_decode lib current = None"
      "\<not> (terminalPhase (ws_Phase (wo_Status current)) \<and> ws_Phase (wo_Status current) \<noteq> ws_Phase (wo_Status w'))"
      "wo_Status current \<noteq> wo_Status w'" by blast
    then have "run_state (api_write ev (write_status (workload_key w') current (wo_Status w'))) s1 = (r, s')"
      using assms(5) get by (auto simp: update_once_def)
    then obtain o1 s2 where call: "run_state (api_call ev) s1 = (o1, s2)"
      and out: "r \<noteq> None \<and> s' = s2 \<or> r = None \<and> write_status (workload_key w') current (wo_Status w') s2 = Inr s'"
      by (rule api_write_run [OF assms(2)])
    have r2: "reconciling w U s2" by (rule keepsD [OF rec.k_call [THEN keeps_under, OF assms(1)] r1 call])
    have "wo_Status current = wo_Status w"
      using get_run [OF get [unfolded c(1)]] r1 assms(3) by (auto simp: reconciling_def in_step_def)
    with c(3) r2 out assms(3) show ?thesis by auto
  qed
qed

lemma retry_run:
  assumes "undisturbed (workload_key w) ev" and "definite ev" and "workload_key w' = workload_key w"
    and "reconciling w U s" and "run_state (retry_on_conflict n (update_once ev lib w')) s = (r, s')"
  shows "reconciling w U s' \<or>
    r = None \<and> \<not> (terminalPhase (ws_Phase (wo_Status w)) \<and> ws_Phase (wo_Status w) \<noteq> ws_Phase (wo_Status w')) \<and>
    (\<exists>s2 current. reconciling w U s2 \<and> write_status (workload_key w) current (wo_Status w') s2 = Inr s')"
  using assms(4,5)
proof (induction n arbitrary: s)
  case 0
  then show ?case using update_once_run [OF assms(1-3)] by simp
next
  case (Suc n)
  obtain r1 s1 where one: "run_state (update_once ev lib w') s = (r1, s1)" by fastforce
  note u = update_once_run [OF assms(1-3) Suc.prems(1) one]
  show ?case
  proof (cases "r1 = Some Conflict")
    case True
    then have "reconciling w U s1" using u by simp
    then show ?thesis using Suc.IH Suc.prems(2) one True by simp
  next
    case False
    then have "s' = s1" "r = r1" using Suc.prems(2) one by simp_all
    with u show ?thesis by simp
  qed
qed

lemma update_run:
  assumes "undisturbed (workload_key w) ev" and "definite ev" and "workload_key w' = workload_key w"
    and "reconciling w U s" and "run_state (updateWorkloadStatus ev lib w') s = (r, s')"
  obtains (same) "reconciling w U s'"
  | (written) s2 current st where "r = None" and "reconciling w U s2" and "write_status (workload_key w) current st s2 = Inr s'"
      and "active (current\<lparr>wo_Status := st\<rparr>) = active w'"
      and "terminalPhase (ws_Phase (wo_Status w)) \<Longrightarrow> ws_Phase (wo_Status w') = ws_Phase (wo_Status w)"
proof -
  let ?w = "w'\<lparr>wo_Status := (wo_Status w')\<lparr>ws_ObservedGeneration := wo_Generation w'\<rparr>\<rparr>"
  have "run_state (retry_on_conflict (kl_retries lib) (update_once ev lib ?w)) s = (r, s')"
    using assms(5) by (simp add: updateWorkloadStatus_def)
  from retry_run [OF assms(1,2) _ assms(4) this] assms(3) same written show thesis
    by (auto simp: active_def)
qed

text \<open>The status that is written keeps or gives up the devices of the workload.\<close>

lemma written_shown:
  assumes "reconciling w U s" and "write_status (workload_key w) current st s = Inr s'"
  shows "shown s (workload_key w) = active w" and "held s (workload_key w) = active w"
proof -
  have "gm_get (kw_workloads s) (workload_key w) = Some current"
    using assms(2) by (auto simp: write_status_def split: option.splits if_splits)
  then show "shown s (workload_key w) = active w" "held s (workload_key w) = active w"
    using assms(1) by (auto simp: reconciling_def in_step_def assigned_to_def active_def)
qed

lemma update_fair:
  assumes "undisturbed (workload_key w) ev" and "definite ev" and "workload_key w' = workload_key w"
    and "terminalPhase (ws_Phase (wo_Status w)) \<or> active w' \<subseteq> active w"
  shows "hoare (reconciling w U) (updateWorkloadStatus ev lib w') (\<lambda>_. fair)"
proof (rule hoareI)
  fix s r s'
  assume rec: "reconciling w U s" and run: "run_state (updateWorkloadStatus ev lib w') s = (r, s')"
  from assms(1-3) rec run show "fair s'"
  proof (cases rule: update_run)
    case same
    then show ?thesis by (simp add: reconciling_def)
  next
    case (written s2 current st)
    have sub: "active w' \<subseteq> active w"
      using assms(4) written(5) by (cases "terminalPhase (ws_Phase (wo_Status w))") (auto simp: active_def)
    note sh = written_shown [OF written(2,3)]
    have f: "fair s2" using written(2) by (simp add: reconciling_def)
    have "active w' \<inter> stake s2 b = {}" if "b \<noteq> workload_key w" for b
    proof -
      have "stake s2 (workload_key w) \<inter> stake s2 b = {}" using f that by (auto simp: fair_def)
      then show ?thesis using sub sh by (auto simp: stake_def)
    qed
    then have d: "active (current\<lparr>wo_Status := st\<rparr>) \<inter> stake s2 b = {}" if "b \<noteq> workload_key w" for b
      using that written(4) by simp
    note ws = write_status_run [OF written(3) f d]
    have "held s' (workload_key w) \<subseteq> shown s' (workload_key w)" using ws(2,4) sh(1) sub written(4) by simp
    then show ?thesis using ws(1) fair_iff [of s' "workload_key w"] by blast
  qed
qed

lemma pending_fair:
  assumes "fair_except key s" and "held s key \<subseteq> shown s key \<union> devices_of as"
    and "\<And>b. b \<noteq> key \<Longrightarrow> devices_of as \<inter> stake s b = {}"
  shows "fair (s\<lparr>co_pending := gm_put key as (co_pending s)\<rparr>)"
proof -
  let ?s = "s\<lparr>co_pending := gm_put key as (co_pending s)\<rparr>"
  have rs: "reserved_for ?s b = (if b = key then devices_of as else reserved_for s b)" for b by (simp add: reserved_for_def)
  have st: "stake ?s b = stake s b" if "b \<noteq> key" for b using that by (simp add: stake_def rs)
  have sk: "stake ?s key \<subseteq> stake s key \<union> devices_of as" by (auto simp: stake_def rs)
  have dj: "stake ?s a \<inter> stake ?s b = {}" if "a \<noteq> b" for a b by (rule stake_change [OF assms(1) st sk assms(3) that])
  have "fair_except key ?s" using assms(1) dj by (simp add: fair_except_def rs)
  then show ?thesis using assms(2) fair_iff [of ?s key] by (simp add: rs)
qed

lemma forget_fair: "hoare (reconciling w U) (forget_pending (workload_key w)) (\<lambda>_. reconciling w U)"
proof (rule hoareI)
  fix s x s'
  assume r: "reconciling w U s" and run: "run_state (forget_pending (workload_key w)) s = (x, s')"
  let ?k = "workload_key w"
  have s': "s' = s\<lparr>co_pending := gm_del ?k (co_pending s)\<rparr>" using run by (simp add: forget_pending_def)
  have rs: "reserved_for s' b = (if b = ?k then {} else reserved_for s b)" for b by (simp add: s' reserved_for_def)
  have hs: "held s' = held s" "shown s' = shown s" by (simp_all add: s')
  have st: "stake s' b \<subseteq> stake s b" for b by (auto simp: stake_def rs hs)
  have h: "held s ?k \<subseteq> shown s ?k" using r in_step_held by (auto simp: reconciling_def)
  have f: "fair s" using r by (simp add: reconciling_def)
  have "held s' a \<subseteq> shown s' a \<union> reserved_for s' a" for a
    using f h by (cases "a = ?k") (auto simp: fair_def rs hs)
  moreover have "stake s' a \<inter> stake s' b = {}" if "a \<noteq> b" for a b
    using f st [of a] st [of b] that unfolding fair_def by blast
  ultimately have "fair s'" using f by (simp add: fair_def s')
  moreover have "in_step w s'" using r by (simp add: reconciling_def in_step_def s')
  ultimately show "reconciling w U s'" using r st unfolding reconciling_def by blast
qed

end
