(* ===== verification/Children_Correct.thy ===== *)
theory Children_Correct
  imports Children
begin

text \<open>
  The children of a workload: what validation and construction promise about the Pod of a rank, and the gap they
  leave.
\<close>

section \<open>What validation accepts\<close>

lemma validate_template:
  assumes "validateWorkload dns (Some w) = None"
  shows "validatePodTemplate (sp_ContainerName (wo_Spec w)) (pt_Spec (sp_PodTemplate (wo_Spec w))) = None"
  using assms by (auto simp: validateWorkload_def split: option.splits if_splits)

lemma template_accepted:
  assumes "validatePodTemplate target spec = None"
  shows "po_NodeName spec = []" "po_ResourceClaims spec = []" "\<not> po_HostNetwork spec" "\<not> po_HostPID spec" "\<not> po_HostIPC spec"
    "\<forall>v \<in> set (po_Volumes spec). vo_HostPath v = None" 
    "\<forall>c \<in> set (po_InitContainers spec @ po_Containers spec). container_error c = None"
    "\<exists>c \<in> set (po_Containers spec). ct_Name c = target" "po_EphemeralContainers spec = []" "po_RestartPolicy spec = ''Never''"
proof -
  have v: "first_error volume_error (po_Volumes spec) = None"
    and c: "first_error container_error (po_InitContainers spec @ po_Containers spec) = None"
    and t: "list_ex (\<lambda>c. ct_Name c = target) (po_Containers spec)"
    using assms by (auto simp: validatePodTemplate_def split: if_splits option.splits)
  show "\<forall>v \<in> set (po_Volumes spec). vo_HostPath v = None"
    using v by (auto simp: first_error_None volume_error_def split: if_splits)
  show "\<forall>c \<in> set (po_InitContainers spec @ po_Containers spec). container_error c = None"
    using c by (simp add: first_error_None)
  show "\<exists>c \<in> set (po_Containers spec). ct_Name c = target" using t by (auto simp: list_ex_iff)
qed (use assms in \<open>auto simp: validatePodTemplate_def split: if_splits option.splits\<close>)

lemma container_accepted:
  assumes "container_error c = None"
  shows "ct_Claims c = []" "filter (\<lambda>v. en_Name v = ''TT_RANK'' \<or> en_Name v = ''TT_WORLD_SIZE'') (ct_Env c) = []"
  using assms by (auto simp: container_error_def list_ex_iff filter_empty_conv split: if_splits)

section \<open>Containers\<close>

definition locked_down :: "Container \<Rightarrow> bool" where
  "locked_down c \<longleftrightarrow> (case ct_SecurityContext c of None \<Rightarrow> False | Some sc \<Rightarrow>
     sc_Privileged sc = Some False \<and> sc_AllowPrivilegeEscalation sc = Some False \<and> sc_ReadOnlyRootFilesystem sc = Some True \<and>
     sc_RunAsNonRoot sc = Some True \<and> sc_CapabilitiesAdd sc = [] \<and> sc_CapabilitiesDrop sc = [''ALL''])"

lemma harden_locked: "locked_down (harden_container c)"
  by (simp add: locked_down_def harden_container_def Let_def)

lemma harden_fields [shape]: "ct_Name (harden_container c) = ct_Name c" "ct_Claims (harden_container c) = ct_Claims c"
  "ct_Env (harden_container c) = ct_Env c"
  by (simp_all add: harden_container_def Let_def)

lemma inject_rank_Some: "\<exists>c \<in> set cs. ct_Name c = target \<Longrightarrow> \<exists>cs'. inject_rank target i n cs = Some cs'"
  by (induction cs) auto

text \<open>
  What a container gets from the cluster and its environment, what it would get from the template alone, and its own
  seccomp and AppArmor profiles.
\<close>

definition env_view :: "EnvVar list \<Rightarrow> (string \<times> string \<times> bool) list" where
  "env_view = map (\<lambda>v. (en_Name v, en_Value v, en_ValueFrom v = None))"

definition wiring :: "Container \<Rightarrow> string \<times> string list \<times> (string \<times> string \<times> bool) list" where
  "wiring c = (ct_Name c, ct_Claims c, env_view (ct_Env c))"

definition unwired :: "Container \<Rightarrow> string \<times> string list \<times> (string \<times> string \<times> bool) list" where
  "unwired c = (ct_Name c, [], env_view (ct_Env c))"

definition profiles :: "Container \<Rightarrow> string option \<times> string option" where
  "profiles c = (case ct_SecurityContext c of None \<Rightarrow> (None, None) | Some sc \<Rightarrow> (sc_SeccompProfile sc, sc_AppArmorProfile sc))"

definition rank_variable :: "EnvVar \<Rightarrow> bool" where
  "rank_variable v \<longleftrightarrow> en_Name v = ''TT_RANK'' \<or> en_Name v = ''TT_WORLD_SIZE''"

lemma harden_views: "wiring (harden_container c) = wiring c" "profiles (harden_container c) = profiles c"
  by (simp_all add: wiring_def profiles_def harden_fields) (simp add: harden_container_def Let_def empty_context_def split: option.split)

lemma accepted_unwired: "container_error c = None \<Longrightarrow> wiring c = unwired c"
  by (simp add: wiring_def unwired_def container_accepted)

text \<open>The first container with the target name runs the rank; the others stay as they are.\<close>

lemma inject_rank_split:
  assumes "inject_rank target i n cs = Some cs'"
  shows "\<exists>before c after. cs = before @ c # after \<and> ct_Name c = target \<and> target \<notin> ct_Name ` set before \<and>
     cs' = before @ c\<lparr>ct_Claims := ct_Claims c @ [''tenstorrent''], ct_Env := ct_Env c @ rank_environment i n\<rparr> # after"
  using assms
proof (induction cs arbitrary: cs')
  case (Cons c cs)
  show ?case
  proof (cases "ct_Name c = target")
    case True
    then show ?thesis using Cons.prems by (intro exI [of _ "[]"]) auto
  next
    case False
    then obtain cs'' where rest: "inject_rank target i n cs = Some cs''" "cs' = c # cs''" using Cons.prems by auto
    from Cons.IH [OF rest(1)] obtain before x after where x: "cs = before @ x # after" "ct_Name x = target" "target \<notin> ct_Name ` set before"
      "cs'' = before @ x\<lparr>ct_Claims := ct_Claims x @ [''tenstorrent''], ct_Env := ct_Env x @ rank_environment i n\<rparr> # after" by blast
    then have "c # cs = (c # before) @ x # after" "target \<notin> ct_Name ` set (c # before)"
      "cs' = (c # before) @ x\<lparr>ct_Claims := ct_Claims x @ [''tenstorrent''], ct_Env := ct_Env x @ rank_environment i n\<rparr> # after"
      using rest(2) False by auto
    with x(2) show ?thesis by blast
  qed
qed simp

section \<open>Pods\<close>

text \<open>
  A Pod that runs a rank: on the node of the assignment, with the claim of the assignment and no other, owned by the
  workload, without access to the host, under the default profiles of the runtime as far as the Pod decides them, every
  container locked down with the profiles it has in the template.  One container, the first with the target
  name, has the claim and the variables of the rank besides the environment of the template; every other container has no
  claim and exactly the environment of the template, in which there is no variable of a rank.
\<close>

definition rank_pod :: "WorkloadObject \<Rightarrow> nat \<Rightarrow> RankAssignment \<Rightarrow> bool \<Rightarrow> PodObject \<Rightarrow> bool" where
  "rank_pod w i a noAppArmor pod \<longleftrightarrow>
     (let spec = pd_Spec pod; template = pt_Spec (sp_PodTemplate (wo_Spec w)); target = sp_ContainerName (wo_Spec w) in
      pd_Namespace pod = wo_Namespace w \<and> pd_Name pod = ra_PodName a \<and> ownedBy (pd_Owners pod) (wo_UID w) \<and>
      po_NodeName spec = [] \<and> gm_get (po_NodeSelector spec) LabelHostname = Some (ra_NodeName a) \<and>
      map prc_ResourceClaimName (po_ResourceClaims spec) = [Some (ra_ClaimName a)] \<and>
      \<not> po_HostNetwork spec \<and> \<not> po_HostPID spec \<and> \<not> po_HostIPC spec \<and> po_EphemeralContainers spec = [] \<and>
      list_all (\<lambda>h. h = None) (map vo_HostPath (po_Volumes spec)) \<and> po_AutomountServiceAccountToken spec = Some False \<and>
      map_option px_RunAsNonRoot (po_SecurityContext spec) = Some (Some True) \<and>
      map_option px_SeccompProfile (po_SecurityContext spec) = Some (Some ''RuntimeDefault'') \<and>
      (\<not> noAppArmor \<longrightarrow> map_option px_AppArmorProfile (po_SecurityContext spec) = Some (Some ''RuntimeDefault'')) \<and>
      list_all locked_down (po_InitContainers spec @ po_Containers spec) \<and>
      map profiles (po_InitContainers spec @ po_Containers spec) = map profiles (po_InitContainers template @ po_Containers template) \<and>
      map wiring (po_InitContainers spec) = map unwired (po_InitContainers template) \<and>
      (\<exists>before c after. po_Containers template = before @ c # after \<and> ct_Name c = target \<and> target \<notin> ct_Name ` set before \<and>
         map wiring (po_Containers spec) = map unwired before @
           (target, [''tenstorrent''], env_view (ct_Env c @ rank_environment i (length (sp_Ranks (wo_Spec w))))) # map unwired after) \<and>
      list_all (\<lambda>c. filter rank_variable (ct_Env c) = []) (po_InitContainers template @ po_Containers template))"

text \<open>Two Pods that agree in everything that confines them.\<close>

definition container_view :: "Container \<Rightarrow> (string \<times> string list \<times> (string \<times> string \<times> bool) list) \<times> SecurityContext option" where
  "container_view c = (wiring c, map_option (\<lambda>sc. sc\<lparr>sc_Rest := []\<rparr>) (ct_SecurityContext c))"

definition same_confinement :: "PodObject \<Rightarrow> PodObject \<Rightarrow> bool" where
  "same_confinement p q \<longleftrightarrow>
     pd_Namespace p = pd_Namespace q \<and> pd_Name p = pd_Name q \<and> pd_Owners p = pd_Owners q \<and>
     po_NodeName (pd_Spec p) = po_NodeName (pd_Spec q) \<and> po_NodeSelector (pd_Spec p) = po_NodeSelector (pd_Spec q) \<and>
     po_ResourceClaims (pd_Spec p) = po_ResourceClaims (pd_Spec q) \<and> po_HostNetwork (pd_Spec p) = po_HostNetwork (pd_Spec q) \<and>
     po_HostPID (pd_Spec p) = po_HostPID (pd_Spec q) \<and> po_HostIPC (pd_Spec p) = po_HostIPC (pd_Spec q) \<and>
     po_EphemeralContainers (pd_Spec p) = po_EphemeralContainers (pd_Spec q) \<and>
     map vo_HostPath (po_Volumes (pd_Spec p)) = map vo_HostPath (po_Volumes (pd_Spec q)) \<and>
     po_AutomountServiceAccountToken (pd_Spec p) = po_AutomountServiceAccountToken (pd_Spec q) \<and>
     map_option (\<lambda>c. c\<lparr>px_Rest := []\<rparr>) (po_SecurityContext (pd_Spec p)) = map_option (\<lambda>c. c\<lparr>px_Rest := []\<rparr>) (po_SecurityContext (pd_Spec q)) \<and>
     map container_view (po_InitContainers (pd_Spec p)) = map container_view (po_InitContainers (pd_Spec q)) \<and>
     map container_view (po_Containers (pd_Spec p)) = map container_view (po_Containers (pd_Spec q))"

lemma map_view:
  assumes "map f xs = map f ys" and "\<And>x y. f x = f y \<Longrightarrow> g x = g y"
  shows "map g xs = map g ys"
  using assms(1)
proof (induction xs arbitrary: ys)
  case (Cons x xs)
  then obtain y ys' where y: "ys = y # ys'" "f x = f y" "map f xs = map f ys'" by (cases ys) auto
  then show ?case using assms(2) [OF y(2)] Cons.IH [OF y(3)] by simp
qed simp

lemma list_all_same: "map P xs = map P ys \<Longrightarrow> list_all P xs = list_all P ys"
proof -
  have "list_all P zs = list_all (\<lambda>b. b) (map P zs)" for zs by (induction zs) auto
  then show "map P xs = map P ys \<Longrightarrow> ?thesis" by metis
qed

lemma view_fields:
  assumes "container_view c = container_view d"
  shows "wiring c = wiring d" and "profiles c = profiles d" and "locked_down c = locked_down d"
proof -
  show "wiring c = wiring d" using assms by (simp add: container_view_def)
  have same: "map_option (\<lambda>sc. sc\<lparr>sc_Rest := []\<rparr>) (ct_SecurityContext c) = map_option (\<lambda>sc. sc\<lparr>sc_Rest := []\<rparr>) (ct_SecurityContext d)"
    using assms by (simp add: container_view_def)
  have lock: "locked_down c = (case map_option (\<lambda>sc. sc\<lparr>sc_Rest := []\<rparr>) (ct_SecurityContext c) of None \<Rightarrow> False | Some sc \<Rightarrow>
      sc_Privileged sc = Some False \<and> sc_AllowPrivilegeEscalation sc = Some False \<and> sc_ReadOnlyRootFilesystem sc = Some True \<and>
      sc_RunAsNonRoot sc = Some True \<and> sc_CapabilitiesAdd sc = [] \<and> sc_CapabilitiesDrop sc = [''ALL''])" for c
    by (simp add: locked_down_def split: option.split)
  have prof: "profiles c = (case map_option (\<lambda>sc. sc\<lparr>sc_Rest := []\<rparr>) (ct_SecurityContext c) of None \<Rightarrow> (None, None)
      | Some sc \<Rightarrow> (sc_SeccompProfile sc, sc_AppArmorProfile sc))" for c
    by (simp add: profiles_def split: option.split)
  show "profiles c = profiles d" unfolding prof same ..
  show "locked_down c = locked_down d" unfolding lock same ..
qed

lemma context_fields:
  assumes "map_option (\<lambda>c. c\<lparr>px_Rest := []\<rparr>) x = map_option (\<lambda>c. c\<lparr>px_Rest := []\<rparr>) y"
  shows "map_option px_RunAsNonRoot x = map_option px_RunAsNonRoot y" and "map_option px_SeccompProfile x = map_option px_SeccompProfile y"
    and "map_option px_AppArmorProfile x = map_option px_AppArmorProfile y"
  using arg_cong [OF assms, of "map_option px_RunAsNonRoot"] arg_cong [OF assms, of "map_option px_SeccompProfile"]
    arg_cong [OF assms, of "map_option px_AppArmorProfile"]
  by (simp_all add: option.map_comp comp_def)

lemma rank_pod_same:
  assumes "same_confinement q p" and "rank_pod w i a b p"
  shows "rank_pod w i a b q"
proof -
  note same = assms(1) [unfolded same_confinement_def]
  have views: "map container_view (po_InitContainers (pd_Spec q)) = map container_view (po_InitContainers (pd_Spec p))"
    "map container_view (po_Containers (pd_Spec q)) = map container_view (po_Containers (pd_Spec p))" using same by blast+
  have wire: "map wiring (po_InitContainers (pd_Spec q)) = map wiring (po_InitContainers (pd_Spec p))"
    "map wiring (po_Containers (pd_Spec q)) = map wiring (po_Containers (pd_Spec p))"
    using views map_view view_fields(1) by blast+
  have prof: "map profiles (po_InitContainers (pd_Spec q)) = map profiles (po_InitContainers (pd_Spec p))"
    "map profiles (po_Containers (pd_Spec q)) = map profiles (po_Containers (pd_Spec p))"
    using views map_view view_fields(2) by blast+
  have "map locked_down (po_InitContainers (pd_Spec q)) = map locked_down (po_InitContainers (pd_Spec p))"
    "map locked_down (po_Containers (pd_Spec q)) = map locked_down (po_Containers (pd_Spec p))"
    using views map_view view_fields(3) by blast+
  then have lock: "list_all locked_down (po_InitContainers (pd_Spec q)) = list_all locked_down (po_InitContainers (pd_Spec p))"
    "list_all locked_down (po_Containers (pd_Spec q)) = list_all locked_down (po_Containers (pd_Spec p))"
    using list_all_same by blast+
  have ctx: "map_option (\<lambda>c. c\<lparr>px_Rest := []\<rparr>) (po_SecurityContext (pd_Spec q)) = map_option (\<lambda>c. c\<lparr>px_Rest := []\<rparr>) (po_SecurityContext (pd_Spec p))"
    using same by blast
  show ?thesis using assms(2) unfolding rank_pod_def Let_def list_all_append map_append wire prof lock context_fields [OF ctx] using same by simp
qed

lemma pin_same: "same_confinement (pinAdmissionDefaults p) p"
  by (simp add: same_confinement_def pinAdmissionDefaults_def Let_def container_view_def wiring_def pin_container_def)

lemma same_confinement_trans: "same_confinement p q \<Longrightarrow> same_confinement q r \<Longrightarrow> same_confinement p r"
  unfolding same_confinement_def by metis

text \<open>The containers of an accepted template, after the injection of the rank and hardening.\<close>

lemma accepted_list: "\<forall>c \<in> set cs. container_error c = None \<Longrightarrow> map (wiring \<circ> harden_container) cs = map unwired cs"
  by (simp add: harden_views accepted_unwired)

lemma injected_containers:
  assumes "inject_rank target i n cs = Some cs'" and "\<forall>c \<in> set cs. container_error c = None"
  shows "\<exists>before c after. cs = before @ c # after \<and> ct_Name c = target \<and> target \<notin> ct_Name ` set before \<and>
      map (wiring \<circ> harden_container) cs' = map unwired before @
        (target, [''tenstorrent''], env_view (ct_Env c @ rank_environment i n)) # map unwired after"
    and "map (profiles \<circ> harden_container) cs' = map profiles cs"
proof -
  obtain before c after where sp: "cs = before @ c # after" "ct_Name c = target" "target \<notin> ct_Name ` set before"
    and cs': "cs' = before @ c\<lparr>ct_Claims := ct_Claims c @ [''tenstorrent''], ct_Env := ct_Env c @ rank_environment i n\<rparr> # after"
    using inject_rank_split [OF assms(1)] by blast
  have "map (wiring \<circ> harden_container) before = map unwired before" "map (wiring \<circ> harden_container) after = map unwired after"
    by (rule accepted_list, use assms(2) sp(1) in simp)+
  moreover have "ct_Claims c = []" by (rule container_accepted(1)) (use assms(2) sp(1) in simp)
  ultimately have "map (wiring \<circ> harden_container) cs' = map unwired before @
      (target, [''tenstorrent''], env_view (ct_Env c @ rank_environment i n)) # map unwired after"
    using sp(2) by (simp add: cs' harden_views) (simp add: wiring_def)
  with sp show "\<exists>before c after. cs = before @ c # after \<and> ct_Name c = target \<and> target \<notin> ct_Name ` set before \<and>
      map (wiring \<circ> harden_container) cs' = map unwired before @
        (target, [''tenstorrent''], env_view (ct_Env c @ rank_environment i n)) # map unwired after" by blast
  show "map (profiles \<circ> harden_container) cs' = map profiles cs"
    by (simp add: cs' sp(1) harden_views) (simp add: profiles_def)
qed

lemma built_rank_pod:
  assumes "validateWorkload dns (Some w) = None"
  shows "\<exists>pod. buildPod w i a noAppArmor = Inr pod \<and> rank_pod w i a noAppArmor pod"
proof -
  let ?spec = "pt_Spec (sp_PodTemplate (wo_Spec w))" and ?n = "length (sp_Ranks (wo_Spec w))"
  note t = template_accepted [OF validate_template [OF assms]]
  obtain cs where cs: "inject_rank (sp_ContainerName (wo_Spec w)) i ?n (po_Containers ?spec) = Some cs"
    using inject_rank_Some [OF t(8)] by blast
  have acc: "\<forall>c \<in> set (po_InitContainers ?spec). container_error c = None" "\<forall>c \<in> set (po_Containers ?spec). container_error c = None"
    using t(7) by auto
  define pod where "pod = projr (buildPod w i a noAppArmor)"
  have built: "buildPod w i a noAppArmor = Inr pod" using cs by (simp add: buildPod_def Let_def pod_def)
  have q: "po_InitContainers (pd_Spec pod) = map harden_container (po_InitContainers ?spec)" "po_Containers (pd_Spec pod) = map harden_container cs"
    "po_NodeName (pd_Spec pod) = []" "map vo_HostPath (po_Volumes (pd_Spec pod)) = map vo_HostPath (po_Volumes ?spec)"
    "po_EphemeralContainers (pd_Spec pod) = []"
    "gm_get (po_NodeSelector (pd_Spec pod)) LabelHostname = Some (ra_NodeName a)" "\<not> po_HostNetwork (pd_Spec pod)" "\<not> po_HostPID (pd_Spec pod)"
    "\<not> po_HostIPC (pd_Spec pod)" "map prc_ResourceClaimName (po_ResourceClaims (pd_Spec pod)) = [Some (ra_ClaimName a)]"
    "po_AutomountServiceAccountToken (pd_Spec pod) = Some False" "map_option px_RunAsNonRoot (po_SecurityContext (pd_Spec pod)) = Some (Some True)"
    "map_option px_SeccompProfile (po_SecurityContext (pd_Spec pod)) = Some (Some ''RuntimeDefault'')"
    "\<not> noAppArmor \<longrightarrow> map_option px_AppArmorProfile (po_SecurityContext (pd_Spec pod)) = Some (Some ''RuntimeDefault'')"
    "pd_Namespace pod = wo_Namespace w" "pd_Name pod = ra_PodName a" "ownedBy (pd_Owners pod) (wo_UID w)"
    using cs t(1-5,9) by (simp_all add: pod_def buildPod_def Let_def hardenPod_def ownedBy_def owner_def)
  note wired = injected_containers(1) [OF cs acc(2), folded map_map, folded q(2)]
  have init: "map wiring (po_InitContainers (pd_Spec pod)) = map unwired (po_InitContainers ?spec)"
    using accepted_list [OF acc(1)] by (simp add: q(1) del: map_eq_conv)
  have prof: "map profiles (po_InitContainers (pd_Spec pod) @ po_Containers (pd_Spec pod)) = map profiles (po_InitContainers ?spec @ po_Containers ?spec)"
    using injected_containers(2) [OF cs acc(2)] by (simp add: q(1,2) harden_views)
  have "list_all locked_down (po_InitContainers (pd_Spec pod) @ po_Containers (pd_Spec pod))"
    using harden_locked by (auto simp: list_all_iff q(1,2))
  moreover have "list_all (\<lambda>c. filter rank_variable (ct_Env c) = []) (po_InitContainers ?spec @ po_Containers ?spec)"
    using acc container_accepted(2) by (auto simp: list_all_iff rank_variable_def [abs_def])
  moreover have "list_all (\<lambda>h. h = None) (map vo_HostPath (po_Volumes (pd_Spec pod)))" unfolding q(4) using t(6) by (auto simp: list_all_iff)
  ultimately have "rank_pod w i a noAppArmor pod"
    using q(3,5-) wired init prof unfolding rank_pod_def Let_def by (intro conjI)
  with built show ?thesis by blast
qed

text \<open>
  C25: for a validated workload the Pod of every rank can be built, and the Pod the controller asks for is confined
  (\<open>rank_pod\<close>): it runs on the assigned node, it has the claim of its assignment and no other, it has no access to host
  namespaces, host paths or a service account token, the Pod asks for the default seccomp profile and, unless that is
  disabled, the default AppArmor profile, every container of it is unprivileged with a read-only root file system and no
  capability, exactly one container has the claim and the variables of the rank, and every other container has the
  environment of the template and no variable of a rank.  A profile that a container of the template asks for itself is kept.
  The defaults of the scheme, applied in between, are a parameter that leaves these fields alone.
\<close>

theorem buildPod_confined:
  assumes "validateWorkload dns (Some w) = None" and "\<And>p. same_confinement (scheme_default p) p"
  shows "\<exists>pod. buildPod w i a noAppArmor = Inr pod \<and> rank_pod w i a noAppArmor (pinAdmissionDefaults (scheme_default pod))"
proof -
  obtain pod where "buildPod w i a noAppArmor = Inr pod" "rank_pod w i a noAppArmor pod" using built_rank_pod [OF assms(1)] by blast
  moreover have "same_confinement (pinAdmissionDefaults (scheme_default pod)) pod"
    by (rule same_confinement_trans [OF pin_same assms(2)])
  ultimately show ?thesis using rank_pod_same by blast
qed

section \<open>A workload\<close>

definition sample_container :: "SecurityContext option \<Rightarrow> Container" where
  "sample_container sc = \<lparr>ct_Name = ''main'', ct_Env = [], ct_Claims = [], ct_SecurityContext = sc, ct_TerminationMessagePath = [],
     ct_TerminationMessagePolicy = [], ct_Rest = []\<rparr>"

definition sample_template :: "SecurityContext option \<Rightarrow> PodTemplateSpec" where
  "sample_template sc = \<lparr>pt_Labels = [], pt_Annotations = [],
     pt_Spec = \<lparr>po_RestartPolicy = ''Never'', po_NodeName = [], po_NodeSelector = [], po_ResourceClaims = [],
       po_ServiceAccountName = [], po_DeprecatedServiceAccount = [], po_AutomountServiceAccountToken = None,
       po_HostNetwork = False, po_HostPID = False, po_HostIPC = False, po_Affinity = None, po_Volumes = [],
       po_EphemeralContainers = [], po_InitContainers = [], po_Containers = [sample_container sc], po_SecurityContext = None,
       po_DNSPolicy = [], po_SchedulerName = [], po_EnableServiceLinks = None, po_Priority = None,
       po_PreemptionPolicy = None, po_Tolerations = [], po_Rest = []\<rparr>\<rparr>"

definition sample_rank :: WorkloadRank where
  "sample_rank = \<lparr>wr_Name = ''r0'', wr_DeviceClassName = ''tenstorrent'', wr_Count = 1, wr_ChipSeries = []\<rparr>"

definition empty_status :: WorkloadStatus where
  "empty_status = \<lparr>ws_Phase = [], ws_ObservedGeneration = 0, ws_SpecHash = [], ws_FabricGeneration = [], ws_Assignments = [],
     ws_Conditions = []\<rparr>"

definition sample_job :: "SecurityContext option \<Rightarrow> string \<Rightarrow> WorkloadObject" where
  "sample_job sc name = \<lparr>wo_Namespace = ''ns'', wo_Name = name, wo_UID = name, wo_Generation = 1,
     wo_Spec = \<lparr>sp_ContainerName = ''main'', sp_PodTemplate = sample_template sc,
       sp_Topology = \<lparr>wt_FabricID = [], wt_RingID = []\<rparr>, sp_Ranks = [sample_rank]\<rparr>,
     wo_Status = empty_status\<rparr>"

lemma sample_job_valid:
  assumes "\<And>c. sc = Some c \<Longrightarrow> sc_Privileged c \<noteq> Some True"
  shows "validateWorkload (\<lambda>_. []) (Some (sample_job sc name)) = None"
  using assms
  by (cases sc) (simp_all add: validateWorkload_def sample_job_def sample_template_def sample_container_def sample_rank_def
    rank_error_def total_count_def maxRanks_def maxDevicesPerWorkload_def maxContainers_def validatePodTemplate_def gm_string_def
    volume_error_def container_error_def SupportedDeviceClass_def GenericDeviceClassName_def MatchesDeviceClass_def
    word_sless_alt)

text \<open>Defaults of the scheme that fill in the process mount of a container, in the opaque rest of its context.\<close>

definition mount_default :: "PodObject \<Rightarrow> PodObject" where
  "mount_default p = p\<lparr>pd_Spec := (pd_Spec p)\<lparr>po_Containers := map (\<lambda>c. c\<lparr>ct_SecurityContext :=
     map_option (\<lambda>sc. sc\<lparr>sc_Rest := ''Default''\<rparr>) (ct_SecurityContext c)\<rparr>) (po_Containers (pd_Spec p))\<rparr>\<rparr>"

lemma mount_default_same: "same_confinement (mount_default p) p"
  by (simp add: same_confinement_def mount_default_def container_view_def wiring_def option.map_comp comp_def)

theorem buildPod_confined_witness:
  "\<exists>pod. buildPod (sample_job None ''w'') 0 zero_assignment False = Inr pod \<and>
     rank_pod (sample_job None ''w'') 0 zero_assignment False (pinAdmissionDefaults (mount_default pod))"
  by (rule buildPod_confined [where dns = "\<lambda>_. []", OF _ mount_default_same], rule sample_job_valid) simp

definition unconfined_context :: SecurityContext where
  "unconfined_context = empty_context\<lparr>sc_SeccompProfile := Some ''Unconfined'', sc_AppArmorProfile := Some ''Unconfined''\<rparr>"

text \<open>
  The confinement leaves a gap.  A container of the template may carry its own seccomp and AppArmor
  profiles: validation accepts the profile \<open>Unconfined\<close> there and hardening keeps it, and a profile of a
  container takes precedence over the one of the Pod that hardening sets.
\<close>

theorem container_profile_unconfined:
  "validateWorkload (\<lambda>_. []) (Some (sample_job (Some unconfined_context) ''w'')) = None \<and>
   (\<exists>pod c sc. buildPod (sample_job (Some unconfined_context) ''w'') 0 zero_assignment False = Inr pod \<and>
      po_Containers (pd_Spec pod) = [c] \<and> ct_SecurityContext c = Some sc \<and>
      sc_SeccompProfile sc = Some ''Unconfined'' \<and> sc_AppArmorProfile sc = Some ''Unconfined'')"
proof
  show "validateWorkload (\<lambda>_. []) (Some (sample_job (Some unconfined_context) ''w'')) = None"
    by (rule sample_job_valid) (simp add: unconfined_context_def empty_context_def)
next
  show "\<exists>pod c sc. buildPod (sample_job (Some unconfined_context) ''w'') 0 zero_assignment False = Inr pod \<and>
      po_Containers (pd_Spec pod) = [c] \<and> ct_SecurityContext c = Some sc \<and>
      sc_SeccompProfile sc = Some ''Unconfined'' \<and> sc_AppArmorProfile sc = Some ''Unconfined''"
    by (simp add: buildPod_def Let_def sample_job_def sample_template_def sample_container_def hardenPod_def
      harden_container_def unconfined_context_def empty_context_def)
qed

end
