(* ===== verification/Controller_Samples.thy ===== *)
theory Controller_Samples
  imports Controller_Logic Children_Correct Topology_Correct
begin

text \<open>
  A cluster with one node, one device and jobs of one rank, and the evaluation of API calls in which the ones with
  the numbers \<open>lost\<close> are applied although an error comes back.
\<close>

definition sample_spot :: FabricEndpoint where
  "sample_spot = \<lparr>fe_NodeName = ''n1'', fe_Pool = ''n1'', fe_DeviceName = ''d0'', fe_StableID = ''s0'', fe_ChipSeries = ''wormhole'',
     fe_FabricID = ''f'', fe_RingID = ''r'', fe_EndpointID = ''e0'', fe_Links = []\<rparr>"

definition spot_assignment :: "string \<Rightarrow> RankAssignment" where
  "spot_assignment x = makeAssignment (placement_view (sample_job None x)) ''r0'' ''n1'' [sample_spot]"

lemma spot_solved:
  "SolveContext (\<lambda>xs. xs) None (Some (placement_view (sample_job None x))) [sample_spot] {} DefaultLimits
    = ([spot_assignment x], True, None)"
proof -
  have 1: "gm_get (candidatesByNode (placement_view (sample_job None x)) sample_rank [sample_spot] {} {}) ''n1'' = Some [sample_spot]"
     "sortedNodeNames (candidatesByNode (placement_view (sample_job None x)) sample_rank [sample_spot] {} {}) = [''n1'']"
    by (simp_all add: candidatesByNode_def candidate_ok_def rank_matches_def matchesTopology_def MatchesDeviceClass_def class_names sample_rank_def
      sample_spot_def placement_view_def sample_job_def sortedNodeNames_def gm_keys_def gm_put_def gm_get_def)
  have "wl_Ranks (placement_view (sample_job None x)) = [sample_rank]" by (simp add: placement_view_def sample_job_def)
  moreover have "connected (\<lambda>xs. xs) [spot_assignment x] [sample_spot]"
    by (simp add: connected_def spot_assignment_def makeAssignment_def Let_def selected_ids_def assigned_device_def sample_spot_def
      index_by_def gm_put_def gm_get_def links_of_def)
  moreover have "wanted_count sample_rank = 1" by (simp add: wanted_count_def sample_rank_def)
  moreover have "wr_Name sample_rank = ''r0''" "wr_Count sample_rank = 1" by (simp_all add: sample_rank_def)
  ultimately show ?thesis
    using 1 
    by (simp add: SolveContext_def DefaultLimits_def total_count_def poll_def Let_def chooseCombinations_def visit_rank_def spot_assignment_def [symmetric])
qed

definition sample_lib :: kube_lib where
  "sample_lib = \<lparr>kl_dns = \<lambda>_. [], kl_default = \<lambda>p. p, kl_same_pod = (=), kl_same_claim = (=), kl_marshal = \<lambda>_. [],
     kl_decode = \<lambda>_. None, kl_decode_node = \<lambda>_. None, kl_retries = 4, kl_range = \<lambda>xs. xs\<rparr>"

definition sample_kube :: "nat list \<Rightarrow> kube_env" where
  "sample_kube lost = \<lparr>ke_now = \<lambda>_. 1, ke_api = \<lambda>n. if n \<in> set lost then ApiLost ''timeout'' else ApiOk, ke_others = \<lambda>_ s. s,
     ke_ctx = \<lambda>_. None\<rparr>"

definition sample_world :: "(string, WorkloadObject) gomap \<Rightarrow> world" where
  "sample_world ws = \<lparr>kw_step = 0, kw_workloads = ws, kw_claims = [], kw_pods = [], kw_fabric = None, ic_nodes = [], ic_workloads = ws, ic_claims = [],
     ic_pods = [], co_fabric = zero_fabric, co_pending = [], co_queue = [], co_delayed = []\<rparr>"

named_theorems kube_run

lemma run_kube_now [kube_run]: "run_state (kube_now ev) s = (ke_now ev (kw_step s), s\<lparr>kw_step := Suc (kw_step s)\<rparr>)"
  by (simp add: kube_now_def kube_step_def)

lemma run_kube_step [kube_run]: "run_state kube_step s = (kw_step s, s\<lparr>kw_step := Suc (kw_step s)\<rparr>)"
  by (simp add: kube_step_def)

lemma run_set_status [kube_run]: "run_state (set_status ev phase ready reason message w) s =
    (setWorkloadStatus (ke_now ev (kw_step s)) phase ready reason message w, s\<lparr>kw_step := Suc (kw_step s)\<rparr>)"
  by (simp add: set_status_def kube_run)

lemma run_api_call [kube_run]: "run_state (api_call (sample_kube lost)) s =
    (if kw_step s \<in> set lost then ApiLost ''timeout'' else ApiOk, s\<lparr>kw_step := Suc (kw_step s)\<rparr>)"
  by (simp add: api_call_def kube_run sample_kube_def)

lemma sample_kube_fields [kube_run]: "ke_now (sample_kube lost) n = 1" "ke_ctx (sample_kube lost) n = None"
  by (simp_all add: sample_kube_def)

lemma sample_lib_fields [kube_run]: "kl_dns sample_lib = (\<lambda>_. [])" "kl_decode sample_lib w = None" "kl_retries sample_lib = 4"
  "kl_range sample_lib = (\<lambda>xs. xs)" "kl_default sample_lib p = p" "kl_decode_node sample_lib n = None"
  by (simp_all add: sample_lib_def)

lemma sample_job_fields [kube_run]: "wo_Namespace (sample_job sc x) = ''ns''" "wo_Name (sample_job sc x) = x" "wo_UID (sample_job sc x) = x"
   "wo_Status (sample_job sc x) = empty_status" "sp_Ranks (wo_Spec (sample_job sc x)) = [sample_rank]"
   "sp_Topology (wo_Spec (sample_job sc x)) = \<lparr>wt_FabricID = [], wt_RingID = []\<rparr>"
  by (simp_all add: sample_job_def)


lemma retry_once: "run_state m s = (r, s') \<Longrightarrow> r \<noteq> Some Conflict \<Longrightarrow> run_state (retry_on_conflict n m) s = (r, s')"
  by (cases n) simp_all

lemma run_api_get [kube_run]: "run_state (api_get (sample_kube lost) sel) s =
    (if kw_step s \<in> set lost then Inl (Failure ''timeout'') else (case sel (s\<lparr>kw_step := Suc (kw_step s)\<rparr>) of None \<Rightarrow> Inl NotFound | Some x \<Rightarrow> Inr x),
     s\<lparr>kw_step := Suc (kw_step s)\<rparr>)"
  by (simp add: api_get_def kube_run)

lemma run_api_write: "f (s\<lparr>kw_step := Suc (kw_step s)\<rparr>) = Inr s' \<Longrightarrow> run_state (api_write (sample_kube lost) f) s =
    (if kw_step s \<in> set lost then Some (Failure ''timeout'') else None, s')"
  by (simp add: api_write_def kube_run)

lemma update_written:
  assumes "gm_get (kw_workloads s) (workload_key w) = Some current" and "\<not> terminalPhase (ws_Phase (wo_Status current))"
    and "st = (wo_Status w)\<lparr>ws_ObservedGeneration := wo_Generation w\<rparr>" and "wo_Status current \<noteq> st" and "kw_step s \<notin> set lost"
  shows "run_state (updateWorkloadStatus (sample_kube lost) sample_lib w) s =
    (if Suc (kw_step s) \<in> set lost then Some (Failure ''timeout'') else None,
     s\<lparr>kw_workloads := gm_put (workload_key w) (current\<lparr>wo_Status := st\<rparr>) (kw_workloads s), kw_step := Suc (Suc (kw_step s))\<rparr>)"
proof -
  have "run_state (update_once (sample_kube lost) sample_lib (w\<lparr>wo_Status := st\<rparr>)) s =
    (if Suc (kw_step s) \<in> set lost then Some (Failure ''timeout'') else None,
     s\<lparr>kw_workloads := gm_put (workload_key w) (current\<lparr>wo_Status := st\<rparr>) (kw_workloads s), kw_step := Suc (Suc (kw_step s))\<rparr>)"
    using assms(1,2,4,5) by (simp add: update_once_def kube_run run_api_write write_status_def)
  then show ?thesis unfolding updateWorkloadStatus_def Let_def assms(3) by (rule retry_once) simp
qed


lemma empty_status_fields [kube_run]: "ws_Assignments empty_status = []" "ws_Phase empty_status = []"
  by (simp_all add: empty_status_def)

definition assigned_job :: "FabricTopologyStatus \<Rightarrow> string \<Rightarrow> WorkloadObject" where
  "assigned_job fabric x = setWorkloadStatus 1 ''Assigned'' True ''Assigned'' ''complete connected assignment reserved''
     ((sample_job None x)\<lparr>wo_Status := empty_status\<lparr>ws_Assignments := [spot_assignment x],
        ws_FabricGeneration := WorkloadGeneration fabric \<lparr>wt_FabricID = [], wt_RingID = []\<rparr> [spot_assignment x],
        ws_SpecHash := workloadSpecHash sample_lib (sample_job None x)\<rparr>\<rparr>)"

abbreviation observed_job :: "FabricTopologyStatus \<Rightarrow> string \<Rightarrow> WorkloadObject" where
  "observed_job fabric x \<equiv> (sample_job None x)\<lparr>wo_Status := (wo_Status (assigned_job fabric x))\<lparr>ws_ObservedGeneration := 1\<rparr>\<rparr>"

lemma assigned_job_fields [kube_run]: "ws_Assignments (wo_Status (assigned_job fabric x)) = [spot_assignment x]"
    "ws_Phase (wo_Status (assigned_job fabric x)) = ''Assigned''" "wo_Namespace (assigned_job fabric x) = ''ns''" "wo_Name (assigned_job fabric x) = x"
    "wo_Generation (assigned_job fabric x) = 1"
  by (simp_all add: assigned_job_def setWorkloadStatus_def Let_def kube_run sample_job_def)

lemma assign_run:
  assumes "gm_get (ic_workloads s) (''ns/'' @ x) = Some (sample_job None x)" and "gm_get (kw_workloads s) (''ns/'' @ x) = Some (sample_job None x)"
    and "fs_Valid (co_fabric s)" and "fs_Endpoints (co_fabric s) = [sample_spot]" and "length (ic_workloads s) \<le> MaxWorkloads"
    and "reservations sample_lib (''ns/'' @ x) s = {}" and "kw_step s = n" and "n + 2 \<notin> set lost"
    and "s1 = s\<lparr>kw_workloads := gm_put (''ns/'' @ x) (observed_job (co_fabric s) x) (kw_workloads s), kw_step := n + 4\<rparr>"
  shows "run_state (reconcileWorkloadKey (sample_kube lost) sample_lib cfg (''ns/'' @ x)) s =
    (if n + 3 \<in> set lost then (Some (Failure ''timeout''), s1)
     else run_state (do { set_pending (''ns/'' @ x) [spot_assignment x]; ensureChildren (sample_kube lost) sample_lib cfg (assigned_job (co_fabric s) x) }) s1)"
proof -
  have key: "object_key ''ns'' x = ''ns/'' @ x" by (simp add: object_key_def)
  have valid: "validateWorkload (\<lambda>_. []) (Some (sample_job None x)) = None" by (rule sample_job_valid) simp
  have new: "empty_status \<noteq> (wo_Status (assigned_job (co_fabric s) x))\<lparr>ws_ObservedGeneration := 1\<rparr>"
  proof
    assume "empty_status = (wo_Status (assigned_job (co_fabric s) x))\<lparr>ws_ObservedGeneration := 1\<rparr>"
    from arg_cong [OF this, of ws_Assignments] show False by (simp add: kube_run)
  qed
  have upd: "run_state (updateWorkloadStatus (sample_kube lost) sample_lib (assigned_job (co_fabric s) x)) (s\<lparr>kw_step := Suc (Suc n)\<rparr>) =
    (if n + 3 \<in> set lost then Some (Failure ''timeout'') else None, s1)"
    by (subst update_written [where current = "sample_job None x"])
      (use assms new in \<open>simp_all add: kube_run key terminalPhase_def numeral_eq_Suc\<close>)
  have solved: "run_state (reconcile_unassigned (sample_kube lost) sample_lib cfg (workloadSpecHash sample_lib (sample_job None x)) g
       (co_fabric s) {} (sample_job None x)) s =
    (if n + 3 \<in> set lost then (Some (Failure ''timeout''), s1)
     else run_state (do { set_pending (''ns/'' @ x) [spot_assignment x]; ensureChildren (sample_kube lost) sample_lib cfg (assigned_job (co_fabric s) x) }) s1)" for g
    unfolding reconcile_unassigned_def
    using assms(3,4,7) upd by (simp add: kube_run spot_solved assigned_job_def [symmetric] key)
  show ?thesis using assms(1,5,6) solved by (simp add: reconcileWorkloadKey_def kube_run reconcileWorkload_def Let_def valid)
qed

end
