(* ===== verification/Controller_Exclusive.thy ===== *)
theory Controller_Exclusive
  imports Controller_Samples
begin

text \<open>
  The reconciliation of workloads keeps their devices apart (\<open>src/internal/controller/controller.go\<close>), over the
  interleavings of the controller with everyone else.
\<close>

section \<open>Reconciliation keeps the devices apart\<close>

definition restated :: "WorkloadObject \<Rightarrow> string \<Rightarrow> WorkloadObject \<Rightarrow> bool" where
  "restated w phase w' \<longleftrightarrow> wo_Namespace w' = wo_Namespace w \<and> wo_Name w' = wo_Name w \<and> ws_Phase (wo_Status w') = phase \<and>
     ws_Assignments (wo_Status w') = ws_Assignments (wo_Status w)"

lemma set_status_same: "returns (restated w phase) (set_status ev phase ready reason message w)"
  unfolding set_status_def by (intro returns_intro) (simp add: setWorkloadStatus_def Let_def restated_def)

text \<open>Setting a status and writing it, when the devices of the new status are covered.\<close>

lemma status_fair:
  assumes "undisturbed (workload_key w) ev" and "definite ev"
    and "\<And>w'. restated w0 phase w' \<Longrightarrow> hoare (reconciling w U) (f w') (\<lambda>_. fair)"
  shows "hoare (reconciling w U) (do { w' \<leftarrow> set_status ev phase ready reason message w0; f w' }) (\<lambda>_. fair)"
proof (rule hoareI)
  fix s r s'
  assume rec: "reconciling w U s"
    and run: "run_state (do { w' \<leftarrow> set_status ev phase ready reason message w0; f w' }) s = (r, s')"
  obtain w' s1 where one: "run_state (set_status ev phase ready reason message w0) s = (w', s1)" by fastforce
  have "reconciling w U s1" by (rule keepsD [OF rec.k_set_status [THEN keeps_under, OF assms(1)] rec one])
  moreover have "hoare (reconciling w U) (f w') (\<lambda>_. fair)"
    using returnsD [OF set_status_same one] by (rule assms(3))
  ultimately show "fair s'" using run one by (auto dest: hoareD)
qed

lemma reconciling_fair: "reconciling w U s \<Longrightarrow> fair s"
  by (simp add: reconciling_def)

lemma hoare_keep: "keeps (reconciling w U) m \<Longrightarrow> hoare (reconciling w U) m (\<lambda>_. reconciling w U)"
  by (simp add: keeps_def)

lemma hoare_done: "hoare (reconciling w U) (ret x) (\<lambda>_. fair)"
  by (rule hoare_ret) (rule reconciling_fair)

text \<open>An update that follows another operation.\<close>

lemma hoare_after:
  "keeps (reconciling w U) m \<Longrightarrow> (\<And>x. hoare (reconciling w U) (f x) (\<lambda>_. fair)) \<Longrightarrow>
     hoare (reconciling w U) (do { x \<leftarrow> m; f x }) (\<lambda>_. fair)"
  by (rule hoare_bind [OF hoare_keep])

lemma update_pending:
  assumes "undisturbed (workload_key w) ev" and "definite ev"
  shows "hoare (reconciling w U) (updateWorkloadStatus ev lib (pending_status hash w)) (\<lambda>_. fair)"
  by (rule update_fair [OF assms]) (simp_all add: pending_status_def active_def)

lemma replan_fair:
  assumes "undisturbed (workload_key w) ev" and "definite ev"
  shows "hoare (reconciling w U) (replan ev lib hash message w) (\<lambda>_. fair)"
proof -
  have st: "hoare (reconciling w U) (do {
       w' \<leftarrow> set_status ev ''Pending'' False ''Replanning'' message (pending_status hash w);
       updateWorkloadStatus ev lib w' }) (\<lambda>_. fair)"
    by (rule status_fair [OF assms], rule update_fair [OF assms]) (auto simp: restated_def pending_status_def active_def)
  show ?thesis unfolding replan_def
    by (rule hoare_bind [OF forget_fair], rule hoare_after [OF rec.k_deleteChildren [THEN keeps_under, OF assms(1)]], rule hoare_option)
      (auto intro: st hoare_done)
qed

lemma changed_fair:
  assumes "undisturbed (workload_key w) ev" and "definite ev" and "\<not> terminalPhase (ws_Phase (wo_Status w))"
  shows "hoare (reconciling w U) (reconcile_changed ev lib hash changed started w) (\<lambda>_. fair)"
proof -
  have one: "hoare (reconciling w U) (do { w' \<leftarrow> set_status ev ''Degraded'' False reason message w; updateWorkloadStatus ev lib w' }) (\<lambda>_. fair)"
    for reason message
    by (rule status_fair [OF assms(1,2)], rule update_fair [OF assms(1,2)]) (use assms(3) in \<open>auto simp: restated_def active_def terminalPhase_def\<close>)
  have two: "hoare (reconciling w U) (do {
       err \<leftarrow> deleteChildren ev w;
       case err of
         Some e \<Rightarrow> ret (Some e)
       | None \<Rightarrow> do { forget_pending (workload_key w); updateWorkloadStatus ev lib (pending_status hash w) } }) (\<lambda>_. fair)"
    by (rule hoare_after [OF rec.k_deleteChildren [THEN keeps_under, OF assms(1)]], rule hoare_option)
      (auto intro!: hoare_bind [OF forget_fair] update_pending assms hoare_done)
  show ?thesis unfolding reconcile_changed_def by (rule hoare_if) (rule one, rule two)
qed

lemma assigned_fair:
  assumes "undisturbed (workload_key w) ev" and "definite ev" and "\<not> terminalPhase (ws_Phase (wo_Status w))"
  shows "hoare (reconciling w U) (reconcile_assigned ev lib cfg hash g used w) (\<lambda>_. fair)"
proof -
  have degraded: "hoare (reconciling w U) (do { w' \<leftarrow> set_status ev ''Degraded'' False reason message w; updateWorkloadStatus ev lib w' }) (\<lambda>_. fair)"
    for reason message
    by (rule status_fair [OF assms(1,2)], rule update_fair [OF assms(1,2)]) (use assms(3) in \<open>auto simp: restated_def active_def terminalPhase_def\<close>)
  have final: "hoare (reconciling w U) (do {
       forget_pending (workload_key w);
       w' \<leftarrow> set_status ev phase ready reason message w;
       err \<leftarrow> deleteChildren ev w';
       case err of Some e \<Rightarrow> ret (Some e) | None \<Rightarrow> updateWorkloadStatus ev lib w' }) (\<lambda>_. fair)"
    for phase ready reason message
    by (rule hoare_bind [OF forget_fair], rule status_fair [OF assms(1,2)],
      rule hoare_after [OF rec.k_deleteChildren [THEN keeps_under, OF assms(1)]], rule hoare_option, rule update_fair [OF assms(1,2)])
      (use assms(3) in \<open>auto simp: restated_def active_def intro: hoare_done\<close>)
  have run: "hoare (reconciling w U) (do {
       w' \<leftarrow> set_status ev phase ready reason message w;
       let w' = with_hash hash w';
       err \<leftarrow> ensureChildren ev lib cfg w';
       case err of Some e \<Rightarrow> ret (Some e) | None \<Rightarrow> updateWorkloadStatus ev lib w' }) (\<lambda>_. fair)"
    for phase ready reason message
    by (rule status_fair [OF assms(1,2)], rule hoare_let,
      rule hoare_after [OF rec.k_ensureChildren [THEN keeps_under, OF assms(1)]], rule hoare_option, rule update_fair [OF assms(1,2)])
      (use assms(3) in \<open>auto simp: restated_def active_def intro: hoare_done\<close>)
  show ?thesis unfolding reconcile_assigned_def
    by (rule hoare_after [OF keeps_gets], rule hoare_prod, rule hoare_prod, rule hoare_prod)
      (intro hoare_if hoare_let degraded replan_fair final run changed_fair assms)
qed

text \<open>A new assignment: it avoids the reservations, and it is reserved as soon as it is written.\<close>

lemma assign_fair:
  assumes "undisturbed (workload_key w) ev" and "definite ev" and "workload_key w' = workload_key w"
    and "active w' \<subseteq> devices_of as" and "devices_of as \<inter> U = {}"
  shows "hoare (reconciling w U) (do {
      err \<leftarrow> updateWorkloadStatus ev lib w';
      case err of
        Some e \<Rightarrow> ret (Some e)
      | None \<Rightarrow> do { set_pending (workload_key w) as; ensureChildren ev lib cfg w'' } }) (\<lambda>_. fair)"
proof -
  let ?k = "workload_key w"
  have post: "hoare (reconciling w U) (updateWorkloadStatus ev lib w')
     (\<lambda>r s. if r = None then fair (s\<lparr>co_pending := gm_put ?k as (co_pending s)\<rparr>) else fair s)"
  proof (rule hoareI)
    fix s r s'
    assume rec: "reconciling w U s" and run: "run_state (updateWorkloadStatus ev lib w') s = (r, s')"
    have avoid: "devices_of as \<inter> stake t b = {}" if "reconciling w U t" "b \<noteq> ?k" for t b
      using that assms(5) unfolding reconciling_def by blast
    from assms(1-3) rec run show "if r = None then fair (s'\<lparr>co_pending := gm_put ?k as (co_pending s')\<rparr>) else fair s'"
    proof (cases rule: update_run)
      case same
      then have "fair s'" "held s' ?k \<subseteq> shown s' ?k" using in_step_held by (auto simp: reconciling_def)
      moreover from this have "fair (s'\<lparr>co_pending := gm_put ?k as (co_pending s')\<rparr>)"
        using avoid [OF same] fair_iff [of s' ?k] by (intro pending_fair) blast+
      ultimately show ?thesis by simp
    next
      case (written s2 current st)
      have f: "fair s2" using written(2) by (simp add: reconciling_def)
      have "active (current\<lparr>wo_Status := st\<rparr>) \<inter> stake s2 b = {}" if "b \<noteq> ?k" for b
        using avoid [OF written(2) that] assms(4) written(4) by blast
      note ws = write_status_run [OF written(3) f this]
      have "fair (s'\<lparr>co_pending := gm_put ?k as (co_pending s')\<rparr>)"
      proof (rule pending_fair [OF ws(1)])
        show "held s' ?k \<subseteq> shown s' ?k \<union> devices_of as" using ws(2) written(4) assms(4) by blast
        show "devices_of as \<inter> stake s' b = {}" if "b \<noteq> ?k" for b using avoid [OF written(2) that] ws(3) [of b] that by simp
      qed
      with written(1) show ?thesis by simp
    qed
  qed
  have children: "hoare (\<lambda>s. fair (s\<lparr>co_pending := gm_put ?k as (co_pending s)\<rparr>))
      (do { set_pending ?k as; ensureChildren ev lib cfg w'' }) (\<lambda>_. fair)"
    unfolding set_pending_def
    by (rule hoare_bind [OF hoare_modify], assumption) (use fairness.k_ensureChildren [THEN keeps_under, OF assms(1)] in \<open>simp add: keeps_def\<close>)
  show ?thesis
    by (rule hoare_bind [OF post], rule hoare_option) (use children in \<open>auto intro: hoare_ret\<close>)
qed

lemma unassigned_status:
  assumes "undisturbed (workload_key w) ev" and "definite ev" and "ws_Assignments (wo_Status w) = []"
    and "\<And>w'. restated w phase w' \<Longrightarrow> restated w phase (f w')"
  shows "hoare (reconciling w U) (do { w' \<leftarrow> set_status ev phase ready reason message w; updateWorkloadStatus ev lib (f w') }) (\<lambda>_. fair)"
  by (rule status_fair [OF assms(1,2)], drule assms(4), rule update_fair [OF assms(1,2)])
    (use assms(3) in \<open>auto simp: restated_def active_def\<close>)

lemma unassigned_fair:
  assumes "undisturbed (workload_key w) ev" and "definite ev" and "ws_Assignments (wo_Status w) = []"
  shows "hoare (reconciling w U) (reconcile_unassigned ev lib cfg hash g fabric U w) (\<lambda>_. fair)"
proof -
  have invalid: "hoare (reconciling w U) (do { w' \<leftarrow> set_status ev ''Pending'' False reason message w; updateWorkloadStatus ev lib (with_hash hash w') }) (\<lambda>_. fair)"
    for reason message by (rule unassigned_status) (use assms in \<open>auto simp: restated_def\<close>)
  have failed: "hoare (reconciling w U) (do { w' \<leftarrow> set_status ev ''Pending'' False reason message w; updateWorkloadStatus ev lib w' }) (\<lambda>_. fair)"
    for reason message by (rule unassigned_status) (use assms in \<open>auto simp: restated_def\<close>)
  have unsatisfied: "hoare (reconciling w U) (do { w' \<leftarrow> set_status ev ''Pending'' False reason message w;
      updateWorkloadStatus ev lib (w'\<lparr>wo_Status := (wo_Status w')\<lparr>ws_FabricGeneration := g, ws_SpecHash := hash\<rparr>\<rparr>) }) (\<lambda>_. fair)"
    for reason message by (rule unassigned_status) (use assms in \<open>auto simp: restated_def\<close>)
  show ?thesis unfolding reconcile_unassigned_def
  proof (rule hoare_if, rule invalid, rule hoare_after [OF rec.k_step [THEN keeps_under, OF assms(1)]], goal_cases)
    case (1 n)
    obtain as ok err where sol: "SolveContext (kl_range lib) (ke_ctx ev n) (Some (placement_view w)) (fs_Endpoints fabric) U DefaultLimits
        = (as, ok, err)" by (metis prod.collapse)
    show ?case
    proof (cases "err = None \<and> ok")
      case True
      have av: "devices_of as \<inter> U = {}" by (rule solve_avoids) (use sol True in simp)
      show ?thesis unfolding sol using True
        by (simp, intro status_fair [OF assms(1,2)] assign_fair [OF assms(1,2) _ _ av])
          (auto simp: restated_def active_def)
    next
      case False
      then show ?thesis unfolding sol using failed unsatisfied by (cases err) simp_all
    qed
  qed
qed

lemma reconcileWorkload_fair:
  assumes "undisturbed (workload_key w) ev" and "definite ev"
  shows "hoare (reconciling w U) (reconcileWorkload ev lib cfg w fabric U) (\<lambda>_. fair)"
proof -
  have invalid: "hoare (reconciling w U) (do { w' \<leftarrow> set_status ev ''Failed'' False ''InvalidSpec'' e w;
      updateWorkloadStatus ev lib (with_hash hash w') }) (\<lambda>_. fair)" for e hash
    by (rule status_fair [OF assms], rule update_fair [OF assms]) (auto simp: restated_def active_def terminalPhase_def)
  have final: "hoare (reconciling w U) (do { forget_pending (workload_key w); deleteChildren ev w }) (\<lambda>_. fair)"
    by (rule hoare_bind [OF forget_fair], rule hoare_weaken [OF hoare_keep [OF rec.k_deleteChildren [THEN keeps_under, OF assms(1)]]])
      (auto intro: reconciling_fair)
  show ?thesis unfolding reconcileWorkload_def
    by (intro hoare_let hoare_option hoare_if invalid final assigned_fair unassigned_fair assms) auto
qed

section \<open>The controller among the others\<close>

text \<open>
  The cached workload has the status of the API server, unless one of them is gone.
\<close>

definition in_sync :: "string \<Rightarrow> world \<Rightarrow> bool" where
  "in_sync key s \<longleftrightarrow> (case gm_get (ic_workloads s) key of
       None \<Rightarrow> held s key = {}
     | Some w \<Rightarrow> (case gm_get (kw_workloads s) key of None \<Rightarrow> True | Some w' \<Rightarrow> wo_Status w' = wo_Status w))"

lemma reconcileKey_fair:
  assumes "\<And>w. kl_decode lib w = None" and "undisturbed key ev" and "definite ev" and "fair s" and "in_sync key s"
    and "run_state (reconcileWorkloadKey ev lib cfg key) s = (r, s')"
  shows "fair s'"
proof (cases "gm_get (ic_workloads s) key")
  case None
  then have "shown s key = {}" "held s key = {}" using assms(5) by (simp_all add: in_sync_def assigned_to_def)
  moreover have "s' = s\<lparr>co_pending := gm_del key (co_pending s)\<rparr>"
    using assms(6) None by (simp add: reconcileWorkloadKey_def forget_pending_def)
  ultimately show ?thesis using assms(4) unfolding fair_def stake_def reserved_for_def
    by (auto simp: disjoint_iff split: option.splits)
next
  case (Some w)
  have key: "workload_key w = key" using Some assms(4) by (auto simp: fair_def keyed_def)
  let ?U = "reservations lib key s"
  have "in_step w s" using Some assms(5) key by (auto simp: in_sync_def in_step_def split: option.splits)
  then have rec: "reconciling w ?U s"
    using assms(4) reservations_cover [OF assms(1,4)] key by (simp add: reconciling_def)
  have dist: "undisturbed (workload_key w) ev" using assms(2) key by simp
  have scale: "hoare (reconciling w ?U) (do {
       w' \<leftarrow> set_status ev (if ws_Assignments (wo_Status w) \<noteq> [] then ''Degraded'' else ''Pending'') False reason message w;
       updateWorkloadStatus ev lib w' }) (\<lambda>_. fair)" for reason message
    by (rule status_fair [OF dist assms(3)], rule update_fair [OF dist assms(3)])
      (auto simp: restated_def active_def terminalPhase_def)
  show ?thesis
  proof (cases "length (ic_workloads s) > MaxWorkloads")
    case True
    then show ?thesis using hoareD [OF scale rec] assms(6) Some assms(1)
      by (simp add: reconcileWorkloadKey_def)
  next
    case False
    then show ?thesis using hoareD [OF reconcileWorkload_fair [OF dist assms(3)] rec] assms(6) Some assms(1)
      by (simp add: reconcileWorkloadKey_def)
  qed
qed

lemma process_fabric_fair: "undisturbed key ev \<Longrightarrow> keeps fair (process_fabric ev lib cfg)"
  unfolding process_fabric_def
  by (intro keeps_intro keeps_modify fairness.k_reconcileFabric [THEN keeps_under] fair_queue fair_enqueueAll)

lemma processNext_fair:
  assumes "\<And>w. kl_decode lib w = None" and "definite ev" and "co_queue s = key # rest" and "undisturbed key ev"
    and "in_sync key s" and "fair s"
  shows "fair (snd (run_state (processNext ev lib cfg) s))"
proof -
  let ?s = "s\<lparr>co_queue := rest\<rparr>"
  define m where "m = (if key = fabricQueueKey then process_fabric ev lib cfg else reconcileWorkloadKey ev lib cfg key)"
  obtain r s1 where run: "run_state m ?s = (r, s1)" by fastforce
  have f: "fair ?s" by (rule fair_queue(1) [OF assms(6)])
  have y: "in_sync key ?s" using assms(5) by (auto simp: in_sync_def split: option.splits)
  have "fair s1"
  proof (cases "key = fabricQueueKey")
    case True
    then show ?thesis using keepsD [OF process_fabric_fair [OF assms(4)] f] run by (auto simp: m_def)
  next
    case False
    then show ?thesis using reconcileKey_fair [OF assms(1,4,2) f y] run by (auto simp: m_def)
  qed
  then show ?thesis using run assms(3) by (simp add: processNext_def m_def [symmetric] fair_queue(2))
qed

text \<open>
  The controller and everyone else, as a specification of its environment: steps of the others, the processing of a
  queued key, and a restart, after which the caches show the API server and nothing is pending.  No API call is applied and reported as failed, and a
  workload is reconciled only when the cache shows the status the controller wrote last.
\<close>

inductive controller_step :: "kube_lib \<Rightarrow> controller_config \<Rightarrow> world \<Rightarrow> world \<Rightarrow> bool" for lib cfg where
  others: "other_step None s s' \<Longrightarrow> controller_step lib cfg s s'"
| next_key: "co_queue s = key # rest \<Longrightarrow> in_sync key s \<Longrightarrow> undisturbed key ev \<Longrightarrow> definite ev \<Longrightarrow>
    controller_step lib cfg s (snd (run_state (processNext ev lib cfg) s))"
| restart: "controller_step lib cfg s (start_controller (s\<lparr>ic_workloads := kw_workloads s, ic_claims := map snd (kw_claims s),
    ic_pods := kw_pods s\<rparr>))"

inductive controller_reachable :: "kube_lib \<Rightarrow> controller_config \<Rightarrow> world \<Rightarrow> bool" for lib cfg where
  initial: "keyed (kw_workloads s) \<Longrightarrow> list_all (\<lambda>(k, w). ws_Assignments (wo_Status w) = []) (kw_workloads s) \<Longrightarrow>
    ic_workloads s = kw_workloads s \<Longrightarrow> controller_reachable lib cfg (start_controller s)"
| step: "controller_reachable lib cfg s \<Longrightarrow> controller_step lib cfg s s' \<Longrightarrow> controller_reachable lib cfg s'"

lemma start_fair:
  assumes "keyed (kw_workloads s)" and "ic_workloads s = kw_workloads s" and "\<And>a b. a \<noteq> b \<Longrightarrow> held s a \<inter> held s b = {}"
  shows "fair (start_controller s)"
proof -
  let ?s = "s\<lparr>co_pending := [], co_fabric := zero_fabric, co_queue := [], co_delayed := []\<rparr>"
  have "reserved_for ?s k = {}" "held ?s k = held s k" "shown ?s k = held s k" for k
    using assms(2) by (simp_all add: reserved_for_def)
  then have "fair ?s" using assms by (simp add: fair_def stake_def)
  then have "fair (enqueue fabricQueueKey ?s)" by (rule fair_enqueue)
  then show ?thesis by (simp add: start_controller_def fair_enqueueAll)
qed

lemma reachable_fair:
  assumes "controller_reachable lib cfg s" and "\<And>w. kl_decode lib w = None"
  shows "fair s"
  using assms(1)
proof induction
  case (initial s)
  have "held s k = {}" for k
    using initial(2) by (auto simp: assigned_to_def active_def list_all_iff split: option.splits dest!: gm_get_SomeD)
  then show ?case using initial by (intro start_fair) auto
next
  case (step s s')
  from step.hyps(2) show ?case
  proof cases
    case others
    then show ?thesis using step.IH by (rule other_fair)
  next
    case (next_key key rest ev)
    then show ?thesis using processNext_fair [OF assms(2)] step.IH by simp
  next
    case restart
    have "keyed (kw_workloads s)" using step.IH by (simp add: fair_def)
    moreover have "held s a \<inter> held s b = {}" if "a \<noteq> b" for a b
      using step.IH that unfolding fair_def stake_def by blast
    ultimately show ?thesis unfolding restart by (intro start_fair) simp_all
  qed
qed

text \<open>
  C2: the controller gives no device to two workloads, as long as it learns the outcome of its writes.  From a cluster
  without assignments, over every sequence of reconciliations, restarts and actions of clients that leave the
  status of workloads alone, the assignments of two workloads that are not finished have no device in common.  API
  calls may fail and conflict, but no call is applied and reported as failed (\<open>definite\<close>); caches may lag behind,
  but not the status of the workload being reconciled (\<open>in_sync\<close>), which nobody creates anew meanwhile (\<open>undisturbed\<close>);
  every object decodes.  The controller ensures none of these conditions.
\<close>

theorem exclusive_assignments:
  assumes "controller_reachable lib cfg s" and "\<And>w. kl_decode lib w = None"
    and "gm_get (kw_workloads s) a = Some v" and "gm_get (kw_workloads s) b = Some w" and "a \<noteq> b"
    and "ws_Phase (wo_Status v) \<notin> {''Failed'', ''Succeeded''}" and "ws_Phase (wo_Status w) \<notin> {''Failed'', ''Succeeded''}"
  shows "devices_of (ws_Assignments (wo_Status v)) \<inter> devices_of (ws_Assignments (wo_Status w)) = {}"
proof -
  have "held s a \<inter> held s b = {}" using reachable_fair [OF assms(1,2)] assms(5) unfolding fair_def stake_def by blast
  then show ?thesis using assms(3,4,6,7) by (simp add: assigned_to_def active_def terminalPhase_def)
qed

section \<open>A run\<close>

definition spot_node :: NodeTopologySpec where
  "spot_node = \<lparr>nt_NodeName = ''n1'', nt_ObservedAt = 1, nt_Devices =
     [\<lparr>td_Pool = ''n1'', td_Name = ''d0'', td_StableID = ''s0'', td_ChipSeries = ''wormhole'', td_FabricID = ''f'',
       td_RingID = ''r'', td_EndpointID = ''e0'', td_Links = []\<rparr>]\<rparr>"

definition sample_config :: controller_config where
  "sample_config = \<lparr>cc_TopologyTTL = 100, cc_DisableWorkloadAppArmor = False\<rparr>"

definition spot_fabric :: FabricTopologyStatus where
  "spot_fabric = BuildFabric [spot_node] 100 1"

lemma spot_fabric_fields: "fs_Valid spot_fabric" "fs_Endpoints spot_fabric = [sample_spot]"
  by (simp_all add: spot_fabric_def BuildFabric_def Let_def add_node_def add_device_def spot_node_def stale_def time_sub_def
    MaxNodes_def MaxFabrics_def Topology_MaxEndpoints_def fabric_endpoint_def sample_spot_def index_by_def)

abbreviation two_jobs :: "(string, WorkloadObject) gomap" where
  "two_jobs \<equiv> [(''ns/a'', sample_job None ''a''), (''ns/b'', sample_job None ''b'')]"

definition first_world :: world where
  "first_world = start_controller ((sample_world two_jobs)\<lparr>ic_nodes := [spot_node]\<rparr>)"

lemma two_jobs_keyed: "keyed two_jobs"
  by (auto simp: keyed_def gm_get_Cons kube_run object_key_def split: if_splits)

lemma first_reachable: "controller_reachable lib cfg first_world"
  unfolding first_world_def
  by (rule controller_reachable.initial) (simp_all add: sample_world_def two_jobs_keyed kube_run)

lemma first_queue: "co_queue first_world = [fabricQueueKey, ''ns/a'', ''ns/b'']"
  by (simp add: first_world_def start_controller_def enqueueAllWorkloads_def enqueue_def sample_world_def kube_run object_key_def fabricQueueKey_def)

lemma sample_kube_quiet: "undisturbed key (sample_kube lost)" "definite (sample_kube [])" "alone (sample_kube lost)"
  by (simp_all add: undisturbed_def definite_def alone_def sample_kube_def)

definition second_world :: world where
  "second_world = snd (run_state (processNext (sample_kube []) sample_lib sample_config) first_world)"

lemma fabric_run:
  assumes "ic_nodes s = [spot_node]" and "kw_fabric s = None"
  shows "run_state (process_fabric (sample_kube []) sample_lib sample_config) s = (None, delay fabricQueueKey (enqueueAllWorkloads
    (s\<lparr>kw_step := kw_step s + 4, kw_fabric := Some (Some spot_fabric), co_fabric := spot_fabric\<rparr>)))"
proof -
  let ?s = "s\<lparr>kw_step := Suc (kw_step s)\<rparr>"
  have "run_state (publish_fabric (sample_kube []) spot_fabric) ?s = (None, s\<lparr>kw_step := kw_step s + 4, kw_fabric := Some (Some spot_fabric)\<rparr>)"
    using assms(2)
    by (simp add: publish_fabric_def kube_run run_api_write create_fabric_def update_fabric_def write_fabric_def numeral_eq_Suc)
  then have "run_state (retry_on_conflict (kl_retries sample_lib) (publish_fabric (sample_kube []) spot_fabric)) ?s =
      (None, s\<lparr>kw_step := kw_step s + 4, kw_fabric := Some (Some spot_fabric)\<rparr>)" by (rule retry_once) simp
  then show ?thesis using assms(1)
    by (simp add: process_fabric_def reconcileFabric_def Let_def kube_run sample_config_def spot_fabric_def [symmetric])
qed

lemma first_world_fields: "ic_nodes first_world = [spot_node]" "kw_fabric first_world = None" "kw_workloads first_world = two_jobs"
  "ic_workloads first_world = two_jobs" "co_pending first_world = []" "ic_claims first_world = []" "kw_step first_world = 0"
  by (simp_all add: first_world_def start_controller_def enqueueAllWorkloads_def enqueue_def sample_world_def kube_run object_key_def fabricQueueKey_def)

lemma second_world_fields: "co_queue second_world = [''ns/a'', ''ns/b'']" "co_fabric second_world = spot_fabric"
   "kw_workloads second_world = two_jobs" "ic_workloads second_world = two_jobs" "co_pending second_world = []" "ic_claims second_world = []" "kw_step second_world = 4"
  by (simp_all add: second_world_def processNext_def first_queue fabric_run first_world_fields delay_def enqueueAllWorkloads_def
    enqueue_def kube_run object_key_def)

lemma sample_in_sync: "kw_workloads s = two_jobs \<Longrightarrow> ic_workloads s = two_jobs \<Longrightarrow> in_sync key s"
  by (auto simp: in_sync_def assigned_to_def split: option.splits)

lemma second_reachable: "controller_reachable sample_lib sample_config second_world"
  unfolding second_world_def
  by (rule controller_reachable.step [OF first_reachable], rule controller_step.next_key [OF first_queue])
    (simp_all add: sample_in_sync first_world_fields sample_kube_quiet)

definition third_world :: world where
  "third_world = snd (run_state (processNext (sample_kube []) sample_lib sample_config) second_world)"

lemma third_reachable: "controller_reachable sample_lib sample_config third_world"
  unfolding third_world_def
  by (rule controller_reachable.step [OF second_reachable], rule controller_step.next_key [OF second_world_fields(1)])
    (simp_all add: sample_in_sync second_world_fields sample_kube_quiet)

lemma no_reservations:
  assumes "ic_workloads s = two_jobs" and "co_pending s = []" and "ic_claims s = []"
  shows "reservations sample_lib key s = {}"
  using assms by (simp add: reservations_def reserve_workload_def kube_run res_AddAssignments_eq)

lemma assigned_kept:
  assumes "run_state (do { set_pending key as; ensureChildren (sample_kube lost) lib cfg w }) s = (r, s')"
  shows "kw_workloads s' = kw_workloads s"
proof -
  let ?p = "gm_put key as (co_pending s)"
  have "keeps (\<lambda>t. kw_workloads t = kw_workloads s \<and> co_pending t = ?p) (ensureChildren (sample_kube lost) lib cfg w)"
    by (rule still.k_ensureChildren [THEN keeps_under, OF sample_kube_quiet(3)])
  from keepsD [OF this, of "s\<lparr>co_pending := ?p\<rparr>"] assms show ?thesis by (simp add: set_pending_def)
qed

lemma third_workloads: "kw_workloads third_world = [(''ns/a'', observed_job spot_fabric ''a''), (''ns/b'', sample_job None ''b'')]"
proof -
  let ?s = "second_world\<lparr>co_queue := [''ns/b'']\<rparr>"
  let ?s1 = "?s\<lparr>kw_workloads := gm_put ''ns/a'' (observed_job spot_fabric ''a'') (kw_workloads ?s), kw_step := kw_step ?s + 4\<rparr>"
  have "run_state (reconcileWorkloadKey (sample_kube []) sample_lib sample_config (''ns/'' @ ''a'')) ?s =
    (if kw_step ?s + 3 \<in> set [] then (Some (Failure ''timeout''), ?s1)
     else run_state (do { set_pending (''ns/'' @ ''a'') [spot_assignment ''a''];
       ensureChildren (sample_kube []) sample_lib sample_config (assigned_job (co_fabric ?s) ''a'') }) ?s1)"
    by (rule assign_run) (simp_all add: second_world_fields gm_get_Cons MaxWorkloads_def no_reservations spot_fabric_fields)
  moreover obtain r s' where run: "run_state (do { set_pending (''ns/'' @ ''a'') [spot_assignment ''a''];
       ensureChildren (sample_kube []) sample_lib sample_config (assigned_job (co_fabric ?s) ''a'') }) ?s1 = (r, s')" by fastforce
  ultimately have "run_state (reconcileWorkloadKey (sample_kube []) sample_lib sample_config ''ns/a'') ?s = (r, s')" by simp
  then have "kw_workloads third_world = kw_workloads s'"
    by (simp add: third_world_def processNext_def second_world_fields(1) fabricQueueKey_def delay_def)
  also have "\<dots> = kw_workloads ?s1" by (rule assigned_kept [OF run])
  finally show ?thesis by (simp add: second_world_fields gm_put_def)
qed

lemma observed_status: "devices_of (ws_Assignments (wo_Status (observed_job fabric x))) = {\<lparr>id_Pool = ''n1'', id_Name = ''d0''\<rparr>}"
  "ws_Phase (wo_Status (observed_job fabric x)) = ''Assigned''"
  by (simp_all add: kube_run spot_assignment_def devices_of_Cons makeAssignment_devices device_id_def sample_spot_def assigned_device_def)

theorem exclusive_assignments_witness:
  "controller_reachable sample_lib sample_config third_world \<and>
   gm_get (kw_workloads third_world) ''ns/a'' = Some (observed_job spot_fabric ''a'') \<and>
   gm_get (kw_workloads third_world) ''ns/b'' = Some (sample_job None ''b'') \<and>
   devices_of (ws_Assignments (wo_Status (observed_job spot_fabric ''a''))) = {\<lparr>id_Pool = ''n1'', id_Name = ''d0''\<rparr>} \<and>
   devices_of (ws_Assignments (wo_Status (observed_job spot_fabric ''a''))) \<inter> devices_of (ws_Assignments (wo_Status (sample_job None ''b''))) = {}"
proof -
  have got: "gm_get (kw_workloads third_world) ''ns/a'' = Some (observed_job spot_fabric ''a'')"
     "gm_get (kw_workloads third_world) ''ns/b'' = Some (sample_job None ''b'')" by (simp_all add: third_workloads gm_get_Cons)
  have "devices_of (ws_Assignments (wo_Status (observed_job spot_fabric ''a''))) \<inter>
      devices_of (ws_Assignments (wo_Status (sample_job None ''b''))) = {}"
    by (rule exclusive_assignments [OF third_reachable _ got]) (simp_all add: kube_run terminalPhase_def)
  then show ?thesis using third_reachable got observed_status by blast
qed

text \<open>
  C35: a device can be assigned twice.  The controller notes its reservation of an assignment only when the status
  update has been reported as successful.  When the update of workload a is applied and its answer is lost, and
  workload b is reconciled before the cache shows the update, b is assigned the same device.
\<close>

theorem lost_update_double_assignment:
  "\<exists>s1 r s2 v w. run_state (reconcileWorkloadKey (sample_kube [7]) sample_lib sample_config ''ns/a'') second_world = (Some (Failure ''timeout''), s1) \<and>
     run_state (reconcileWorkloadKey (sample_kube []) sample_lib sample_config ''ns/b'') s1 = (r, s2) \<and>
     gm_get (kw_workloads s2) ''ns/a'' = Some v \<and> gm_get (kw_workloads s2) ''ns/b'' = Some w \<and>
     ws_Phase (wo_Status v) = ''Assigned'' \<and> ws_Phase (wo_Status w) = ''Assigned'' \<and>
     devices_of (ws_Assignments (wo_Status v)) = {\<lparr>id_Pool = ''n1'', id_Name = ''d0''\<rparr>} \<and>
     devices_of (ws_Assignments (wo_Status w)) = {\<lparr>id_Pool = ''n1'', id_Name = ''d0''\<rparr>}"
proof -
  define s1 where "s1 = second_world\<lparr>kw_workloads := gm_put (''ns/'' @ ''a'') (observed_job spot_fabric ''a'') (kw_workloads second_world), kw_step := 4 + 4\<rparr>"
  have "run_state (reconcileWorkloadKey (sample_kube [7]) sample_lib sample_config (''ns/'' @ ''a'')) second_world =
    (if (4::nat) + 3 \<in> set [7] then (Some (Failure ''timeout''), s1)
     else run_state (do { set_pending (''ns/'' @ ''a'') [spot_assignment ''a''];
       ensureChildren (sample_kube [7]) sample_lib sample_config (assigned_job (co_fabric second_world) ''a'') }) s1)"
    by (rule assign_run) (simp_all add: second_world_fields gm_get_Cons MaxWorkloads_def no_reservations spot_fabric_fields s1_def)
  then have a: "run_state (reconcileWorkloadKey (sample_kube [7]) sample_lib sample_config ''ns/a'') second_world = (Some (Failure ''timeout''), s1)"
    by simp
  let ?s1 = "s1\<lparr>kw_workloads := gm_put (''ns/'' @ ''b'') (observed_job spot_fabric ''b'') (kw_workloads s1), kw_step := 8 + 4\<rparr>"
  have "run_state (reconcileWorkloadKey (sample_kube []) sample_lib sample_config (''ns/'' @ ''b'')) s1 =
    (if (8::nat) + 3 \<in> set [] then (Some (Failure ''timeout''), ?s1)
     else run_state (do { set_pending (''ns/'' @ ''b'') [spot_assignment ''b''];
       ensureChildren (sample_kube []) sample_lib sample_config (assigned_job (co_fabric s1) ''b'') }) ?s1)"
    by (rule assign_run) (simp_all add: second_world_fields gm_get_Cons MaxWorkloads_def no_reservations spot_fabric_fields s1_def)
  moreover obtain r s2 where run: "run_state (do { set_pending (''ns/'' @ ''b'') [spot_assignment ''b''];
       ensureChildren (sample_kube []) sample_lib sample_config (assigned_job (co_fabric s1) ''b'') }) ?s1 = (r, s2)" by fastforce
  ultimately have b: "run_state (reconcileWorkloadKey (sample_kube []) sample_lib sample_config ''ns/b'') s1 = (r, s2)" by simp
  have "kw_workloads s2 = kw_workloads ?s1" by (rule assigned_kept [OF run])
  then have got: "gm_get (kw_workloads s2) ''ns/a'' = Some (observed_job spot_fabric ''a'')" "gm_get (kw_workloads s2) ''ns/b'' = Some (observed_job spot_fabric ''b'')"
    by (simp_all add: s1_def second_world_fields gm_get_Cons gm_put_def)
  show ?thesis using a b got observed_status [of spot_fabric] by blast
qed

end
