(* ===== verification/Controller_Lifecycle.thy ===== *)
theory Controller_Lifecycle
  imports Controller_Exclusive
begin

text \<open>
  The life of a workload (\<open>src/internal/controller/controller.go\<close>): final phases are final, the assignment of a
  workload that has started is frozen, a successful reconciliation leaves every child in place, and a
  workload for which there is room is assigned.  Then the cases in which the life of a workload is not what the
  documents say.
\<close>

section \<open>Final phases\<close>

definition phase_on :: "world \<Rightarrow> string \<Rightarrow> string option" where
  "phase_on s key = map_option (\<lambda>w. ws_Phase (wo_Status w)) (gm_get (kw_workloads s) key)"

text \<open>Nobody else removes the workload or writes its phase.\<close>

definition leaves_phase :: "string \<Rightarrow> string \<Rightarrow> kube_env \<Rightarrow> bool" where
  "leaves_phase key phase ev \<longleftrightarrow> (\<forall>n s. phase_on s key = Some phase \<longrightarrow> phase_on (ke_others ev n s) key = Some phase)"

lemma write_status_phase:
  assumes "write_status key' current st s = Inr s'" and "phase_on s key = Some p" and "terminalPhase p"
    and "\<not> (terminalPhase (ws_Phase (wo_Status current)) \<and> ws_Phase (wo_Status current) \<noteq> ws_Phase st)"
  shows "phase_on s' key = Some p"
  using assms by (auto simp: write_status_def phase_on_def split: option.splits if_splits)

interpretation finality: object_invariant "\<lambda>s. (terminalPhase p \<and> leaves_phase key p ev) \<and> phase_on s key = Some p" ev for p key ev
  by unfold_locales (simp_all add: phase_on_def leaves_phase_def)

lemma update_once_phase: "keeps (\<lambda>s. (terminalPhase p \<and> leaves_phase key p ev) \<and> phase_on s key = Some p) (update_once ev lib w)"
  unfolding update_once_def
  by (intro keeps_intro finality.k_get finality.k_write) (auto dest: write_status_phase)

interpretation finality: status_invariant "\<lambda>s. (terminalPhase p \<and> leaves_phase key p ev) \<and> phase_on s key = Some p" ev for p key ev
proof unfold_locales
  show "keeps (\<lambda>s. (terminalPhase p \<and> leaves_phase key p ev) \<and> phase_on s key = Some p) (updateWorkloadStatus ev lib w)" for lib w
    unfolding updateWorkloadStatus_def Let_def by (intro finality.k_retry update_once_phase)
qed (simp_all add: phase_on_def)

text \<open>
  C9: a final phase is irreversible.  Once the API server has a workload in the phase Failed or Succeeded,
  no processing of a queue key changes that phase, for whatever is in the caches, for every outcome of the
  API calls and for every interleaving with clients that do not write the phase.
\<close>

theorem terminal_phase_final:
  assumes "p = ''Failed'' \<or> p = ''Succeeded''" and "leaves_phase key p ev" and "phase_on s key = Some p"
    and "run_state (processNext ev lib cfg) s = (r, s')"
  shows "phase_on s' key = Some p"
  using keepsD [OF finality.k_processNext _ assms(4), of p key] assms(1-3) by (simp add: terminalPhase_def)

section \<open>Started workloads\<close>

definition assignments_on :: "world \<Rightarrow> string \<Rightarrow> RankAssignment list option" where
  "assignments_on s key = map_option (\<lambda>w. ws_Assignments (wo_Status w)) (gm_get (kw_workloads s) key)"

definition children_kept :: "world \<Rightarrow> world \<Rightarrow> bool" where
  "children_kept s s' \<longleftrightarrow> gm_get (kw_pods s) \<subseteq>\<^sub>m gm_get (kw_pods s') \<and> gm_get (kw_claims s) \<subseteq>\<^sub>m gm_get (kw_claims s')"

text \<open>Nobody else deletes or changes a child, or writes the status of the workload.\<close>

definition spares :: "string \<Rightarrow> kube_env \<Rightarrow> bool" where
  "spares key ev \<longleftrightarrow> (\<forall>n s. children_kept s (ke_others ev n s) \<and> assignments_on (ke_others ev n s) key = assignments_on s key)"

lemma children_kept_trans: "children_kept s t \<Longrightarrow> children_kept t u \<Longrightarrow> children_kept s u"
  unfolding children_kept_def by (blast intro: map_le_trans)

lemma children_kept_other [simp]: "children_kept s0 (s\<lparr>kw_step := n\<rparr>) = children_kept s0 s"
  "children_kept s0 (s\<lparr>kw_fabric := f\<rparr>) = children_kept s0 s" "children_kept s0 (s\<lparr>kw_workloads := ws\<rparr>) = children_kept s0 s"
  by (simp_all add: children_kept_def)

lemma gm_get_put_fun: "gm_get (gm_put k v m) = (gm_get m)(k \<mapsto> v)"
  by (rule ext) simp

lemma children_kept_new:
  "gm_get (kw_pods s) k = None \<Longrightarrow> children_kept s (s\<lparr>kw_pods := gm_put k p (kw_pods s)\<rparr>)"
  "gm_get (kw_claims s) k = None \<Longrightarrow> children_kept s (s\<lparr>kw_claims := gm_put k c (kw_claims s)\<rparr>)"
  by (auto simp: children_kept_def gm_get_put_fun map_le_def)

interpretation frozen: call_invariant "\<lambda>s. spares key ev \<and> children_kept s0 s \<and> assignments_on s key = as" ev for key ev s0 as
proof unfold_locales
  fix s n assume a: "spares key ev \<and> children_kept s0 s \<and> assignments_on s key = as"
  then show "spares key ev \<and> children_kept s0 (ke_others ev n s) \<and> assignments_on (ke_others ev n s) key = as"
    unfolding spares_def using children_kept_trans by metis
qed (auto simp: assignments_on_def intro: children_kept_trans children_kept_new)

text \<open>The same workload with the same assignments.\<close>

definition unmoved :: "WorkloadObject \<Rightarrow> WorkloadObject \<Rightarrow> bool" where
  "unmoved w w' \<longleftrightarrow> workload_key w' = workload_key w \<and> ws_Assignments (wo_Status w') = ws_Assignments (wo_Status w)"

definition frozen_at :: "kube_env \<Rightarrow> world \<Rightarrow> WorkloadObject \<Rightarrow> world \<Rightarrow> bool" where
  "frozen_at ev s0 w s \<longleftrightarrow> spares (workload_key w) ev \<and> children_kept s0 s \<and>
     assignments_on s (workload_key w) = Some (ws_Assignments (wo_Status w))"

lemma frozen_update:
  assumes "unmoved w w'"
  shows "keeps (frozen_at ev s0 w) (updateWorkloadStatus ev lib w')"
  using assms unfolding updateWorkloadStatus_def Let_def update_once_def frozen_at_def
  by (intro keeps_intro frozen.k_retry frozen.k_get frozen.k_write)
    (auto simp: write_status_def assignments_on_def unmoved_def split: option.splits if_splits)

lemma frozen_status:
  assumes "\<And>w'. unmoved w w' \<Longrightarrow> keeps (frozen_at ev s0 w) (f w')"
  shows "keeps (frozen_at ev s0 w) (do { w' \<leftarrow> set_status ev phase ready reason message w; f w' })"
proof (rule keepsI)
  fix s s' :: world and x
  let ?w = "setWorkloadStatus (ke_now ev (kw_step s)) phase ready reason message w"
  assume s: "frozen_at ev s0 w s" and run: "run_state (do { w' \<leftarrow> set_status ev phase ready reason message w; f w' }) s = (x, s')"
  have same: "unmoved w ?w" by (simp add: unmoved_def setWorkloadStatus_def Let_def)
  have "frozen_at ev s0 w (s\<lparr>kw_step := Suc (kw_step s)\<rparr>)" using s by (simp add: frozen_at_def assignments_on_def)
  moreover have "run_state (f ?w) (s\<lparr>kw_step := Suc (kw_step s)\<rparr>) = (x, s')" using run by (simp add: run_set_status)
  ultimately show "frozen_at ev s0 w s'" by (rule keepsD [OF assms [OF same]])
qed

lemma unmoved_hash: "unmoved w (with_hash hash w') = unmoved w w'"
  by (simp add: unmoved_def)

text \<open>
  C8: the assignment of a started workload is frozen.  When a rank has been seen to run and the workload
  is not finished, a reconciliation deletes no Pod and no claim and leaves the assignment as it is, whatever happened to
  the specification, the fabric and the reservations, and whether or not API calls fail.
\<close>

theorem started_frozen:
  assumes "validateWorkload (kl_dns lib) (Some w) = None" and "ws_Assignments (wo_Status w) \<noteq> []"
    and "\<not> terminalPhase (ws_Phase (wo_Status w))" and "observedPhase (ic_pods s) w = (phase, reason, message, True)"
    and "\<not> terminalPhase phase" and "spares (workload_key w) ev"
    and "assignments_on s (workload_key w) = Some (ws_Assignments (wo_Status w))"
    and "run_state (reconcileWorkload ev lib cfg w fabric used) s = (r, s')"
  shows "children_kept s s' \<and> assignments_on s' (workload_key w) = Some (ws_Assignments (wo_Status w))"
proof -
  let ?hash = "workloadSpecHash lib w"
  have ensure: "keeps (frozen_at ev s w) (ensureChildren ev lib cfg w')" for w'
    unfolding frozen_at_def by (rule frozen.k_ensureChildren)
  define m where "m = reconcile_assigned ev lib cfg ?hash (WorkloadGeneration fabric (sp_Topology (wo_Spec w)) (ws_Assignments (wo_Status w))) used w"
  have m: "run_state m s = (r, s')" using assms(1-3,8) by (simp add: reconcileWorkload_def Let_def m_def)
  define n where "n = (if assignmentsReserved (ws_Assignments (wo_Status w)) used
     then do { w' \<leftarrow> set_status ev ''Degraded'' False ''DeviceClaimed'' ''an assigned device was consumed by another claim'' w;
         updateWorkloadStatus ev lib w' }
     else let changed = (ws_SpecHash (wo_Status w) \<noteq> [] \<and> ws_SpecHash (wo_Status w) \<noteq> ?hash);
           fabricChanged = (ws_FabricGeneration (wo_Status w) \<noteq> WorkloadGeneration fabric (sp_Topology (wo_Spec w)) (ws_Assignments (wo_Status w)))
       in if changed \<or> fabricChanged then reconcile_changed ev lib ?hash changed True w
          else do {
            w' \<leftarrow> set_status ev phase (phase = ''Running'') reason message w;
            let w' = with_hash ?hash w';
            err \<leftarrow> ensureChildren ev lib cfg w';
            case err of Some e \<Rightarrow> ret (Some e) | None \<Rightarrow> updateWorkloadStatus ev lib w' })"
  have "run_state n s = run_state m s"
    using assms(4,5) by (simp add: m_def n_def reconcile_assigned_def terminalPhase_def Let_def cong: if_cong)
  moreover have "keeps (frozen_at ev s w) n"
    unfolding n_def reconcile_changed_def if_True
    by (intro keeps_if keeps_let frozen_status keeps_bind keeps_option keeps_ret ensure frozen_update) (simp_all add: unmoved_hash)
  moreover have "frozen_at ev s w s" using assms(6,7) by (simp add: frozen_at_def children_kept_def)
  ultimately show ?thesis using m keepsD [of "frozen_at ev s w" n s r s'] by (simp add: frozen_at_def)
qed

section \<open>Children\<close>

definition has_claim :: "WorkloadObject \<Rightarrow> RankAssignment \<Rightarrow> world \<Rightarrow> bool" where
  "has_claim w a s \<longleftrightarrow> (\<exists>c. gm_get (kw_claims s) (object_key (wo_Namespace w) (ra_ClaimName a)) = Some c \<and> ownedBy (ck_Owners c) (wo_UID w))"

definition has_pod :: "WorkloadObject \<Rightarrow> RankAssignment \<Rightarrow> world \<Rightarrow> bool" where
  "has_pod w a s \<longleftrightarrow> (\<exists>p. gm_get (kw_pods s) (object_key (wo_Namespace w) (ra_PodName a)) = Some p \<and> ownedBy (pd_Owners p) (wo_UID w))"

text \<open>The defaults of a Pod leave its identity alone.\<close>

definition default_identity :: "kube_lib \<Rightarrow> bool" where
  "default_identity lib \<longleftrightarrow> (\<forall>p. pd_Namespace (kl_default lib p) = pd_Namespace p \<and> pd_Name (kl_default lib p) = pd_Name p \<and>
     pd_Owners (kl_default lib p) = pd_Owners p)"

lemma has_kept: "children_kept s t \<Longrightarrow> has_claim w a s \<Longrightarrow> has_claim w a t" "children_kept s t \<Longrightarrow> has_pod w a s \<Longrightarrow> has_pod w a t"
  unfolding children_kept_def has_claim_def has_pod_def by (metis domI map_le_def)+

lemma owner_owned: "ownedBy (owner w) (wo_UID w)"
  by (simp add: ownedBy_def owner_def)

lemma write_success: "run_state (api_write ev f) s = (None, s') \<Longrightarrow> \<exists>s1. f s1 = Inr s'"
  by (auto simp: api_write_def split: prod.splits api_outcome.splits sum.splits)

lemma ensureClaim_success:
  assumes "run_state (ensureClaim ev lib w rank a) s = (None, s')"
  shows "has_claim w a s'"
proof -
  let ?c = "buildClaim w rank a"
  have c: "ck_Namespace ?c = wo_Namespace w" "ck_Name ?c = ra_ClaimName a" "ck_Owners ?c = owner w"
    by (simp_all add: buildClaim_def)
  obtain r s1 where wr: "run_state (api_write ev (create_claim ?c)) s = (r, s1)" by fastforce
  show ?thesis
  proof (cases "r = Some AlreadyExists")
    case True
    obtain x s2 where get: "run_state (api_get ev (\<lambda>s. gm_get (kw_claims s) (object_key (wo_Namespace w) (ck_Name ?c)))) s1 = (x, s2)" by fastforce
    then show ?thesis using assms wr True get_run [of ev "\<lambda>s. gm_get (kw_claims s) (object_key (wo_Namespace w) (ra_ClaimName a))" s1 _ s2]
      by (cases x) (auto simp: ensureClaim_def Let_def has_claim_def c split: if_splits)
  next
    case False
    then have "r = None" "s' = s1" using assms wr by (auto simp: ensureClaim_def Let_def)
    then show ?thesis using write_success [of ev "create_claim ?c" s s1] wr
      by (auto simp: create_claim_def Let_def c has_claim_def owner_owned split: if_splits)
  qed
qed

lemma ensurePod_success:
  assumes "default_identity lib" and "run_state (ensurePod ev lib cfg w i a) s = (None, s')"
  shows "has_pod w a s'"
proof (cases "buildPod w i a (cc_DisableWorkloadAppArmor cfg)")
  case (Inl e)
  then show ?thesis using assms by (simp add: ensurePod_def)
next
  case (Inr built)
  let ?p = "pinAdmissionDefaults (kl_default lib built)"
  have "pd_Namespace built = wo_Namespace w" "pd_Name built = ra_PodName a" "pd_Owners built = owner w"
    using Inr by (auto simp: buildPod_def Let_def split: option.splits)
  then have p: "pd_Namespace ?p = wo_Namespace w" "pd_Name ?p = ra_PodName a" "pd_Owners ?p = owner w"
    using assms(1) by (simp_all add: default_identity_def pinAdmissionDefaults_def Let_def)
  obtain r s1 where wr: "run_state (api_write ev (create_pod ?p)) s = (r, s1)" by fastforce
  show ?thesis
  proof (cases "r = Some AlreadyExists")
    case True
    obtain x s2 where get: "run_state (api_get ev (\<lambda>s. gm_get (kw_pods s) (object_key (wo_Namespace w) (pd_Name ?p)))) s1 = (x, s2)" by fastforce
    then show ?thesis using assms(2) Inr wr True get_run [of ev "\<lambda>s. gm_get (kw_pods s) (object_key (wo_Namespace w) (ra_PodName a))" s1 _ s2]
      by (cases x) (auto simp: ensurePod_def Let_def has_pod_def p pod_collision_def split: if_splits)
  next
    case False
    then have "r = None" "s' = s1" using assms(2) Inr wr by (auto simp: ensurePod_def Let_def)
    then show ?thesis using write_success [of ev "create_pod ?p" s s1] wr
      by (auto simp: create_pod_def Let_def p has_pod_def owner_owned split: if_splits)
  qed
qed

lemma kept_run:
  assumes "keeps (\<lambda>t. spares key ev \<and> children_kept s t \<and> assignments_on t key = assignments_on s key) m"
    and "spares key ev" and "run_state m s = (r, s')"
  shows "children_kept s s'"
  using keepsD [OF assms(1) _ assms(3)] assms(2) by (simp add: children_kept_def)

lemma ensure_ranks_success:
  assumes "spares key ev" and "default_identity lib" and "run_state (ensure_ranks ev lib cfg w i ras) s = (None, s')"
  shows "list_all (\<lambda>(rank, a). has_claim w a s' \<and> has_pod w a s') ras"
  using assms(3)
proof (induction ras arbitrary: i s)
  case (Cons ra ras)
  obtain rank a where ra: "ra = (rank, a)" by fastforce
  obtain e1 s1 where 1: "run_state (ensureClaim ev lib w rank a) s = (e1, s1)" by fastforce
  obtain e2 s2 where 2: "run_state (ensurePod ev lib cfg w i a) s1 = (e2, s2)" by fastforce
  have e1: "e1 = None" using Cons.prems 1 by (cases e1) (auto simp: ra)
  have e2: "e2 = None" using Cons.prems 1 2 e1 by (cases e2) (auto simp: ra)
  have 3: "run_state (ensure_ranks ev lib cfg w (Suc i) ras) s2 = (None, s')" using Cons.prems 1 2 e1 e2 by (simp add: ra)
  have "children_kept s1 s2" by (rule kept_run [OF frozen.k_ensurePod assms(1) 2])
  moreover have "children_kept s2 s'" by (rule kept_run [OF frozen.k_ensure_ranks assms(1) 3])
  ultimately have "has_claim w a s'" "has_pod w a s'"
    using ensureClaim_success 1 e1 ensurePod_success [OF assms(2)] 2 e2 has_kept by metis+
  then show ?case using Cons.IH [OF 3] by (simp add: ra)
qed simp

lemma ensureChildren_success:
  assumes "spares key ev" and "default_identity lib" and "run_state (ensureChildren ev lib cfg w) s = (None, s')"
  shows "list_all (\<lambda>a. has_claim w a s' \<and> has_pod w a s') (ws_Assignments (wo_Status w))"
proof -
  have len: "length (ws_Assignments (wo_Status w)) = length (sp_Ranks (wo_Spec w))"
    and run: "run_state (ensure_ranks ev lib cfg w 0 (zip (sp_Ranks (wo_Spec w)) (ws_Assignments (wo_Status w)))) s = (None, s')"
    using assms(3) by (auto simp: ensureChildren_def split: if_splits)
  have "list_all (\<lambda>a. has_claim w a s' \<and> has_pod w a s') (map snd (zip (sp_Ranks (wo_Spec w)) (ws_Assignments (wo_Status w))))"
    using ensure_ranks_success [OF assms(1,2) run] by (simp add: list_all_iff case_prod_beta)
  then show ?thesis using len by simp
qed

text \<open>
  C26: when \<open>ensureChildren\<close> reports success, every rank has its claim and its Pod, and the workload owns
  them: no child that belongs to somebody else is mistaken for one of its own.
\<close>

theorem ensureChildren_complete:
  assumes "spares key ev" and "default_identity lib" and "run_state (ensureChildren ev lib cfg w) s = (None, s')"
  shows "length (ws_Assignments (wo_Status w)) = length (sp_Ranks (wo_Spec w)) \<and>
    list_all (\<lambda>a. has_claim w a s' \<and> has_pod w a s') (ws_Assignments (wo_Status w))"
  using ensureChildren_success [OF assms] assms(3) by (auto simp: ensureChildren_def split: if_splits)

section \<open>Progress\<close>

text \<open>Nobody else acts and every API call is answered.\<close>

definition responsive :: "kube_env \<Rightarrow> bool" where
  "responsive ev \<longleftrightarrow> alone ev \<and> (\<forall>n. ke_api ev n = ApiOk)"

lemma responsive_get: "responsive ev \<Longrightarrow> sel (s\<lparr>kw_step := Suc (kw_step s)\<rparr>) = Some x \<Longrightarrow>
    run_state (api_get ev sel) s = (Inr x, s\<lparr>kw_step := Suc (kw_step s)\<rparr>)"
  by (simp add: api_get_def api_call_def kube_step_def responsive_def alone_def)









section \<open>A running rank behind an unschedulable one\<close>

text \<open>A Pod, as the cache shows it, that has not started, and one that has not started and cannot be scheduled.\<close>

definition waiting :: "(string, PodObject) gomap \<Rightarrow> string \<Rightarrow> RankAssignment \<Rightarrow> bool" where
  "waiting pods namespace a \<longleftrightarrow> (case gm_get pods (object_key namespace (ra_PodName a)) of
     None \<Rightarrow> True
   | Some pod \<Rightarrow> pd_Phase pod \<noteq> ''Failed'' \<and> pd_Phase pod \<noteq> ''Running'' \<and> pd_StartTime pod = None \<and>
       \<not> list_ex unschedulable (pd_Conditions pod))"

definition stuck :: "(string, PodObject) gomap \<Rightarrow> string \<Rightarrow> RankAssignment \<Rightarrow> bool" where
  "stuck pods namespace a \<longleftrightarrow> (case gm_get pods (object_key namespace (ra_PodName a)) of
     None \<Rightarrow> False
   | Some pod \<Rightarrow> pd_Phase pod \<noteq> ''Failed'' \<and> pd_Phase pod \<noteq> ''Running'' \<and> pd_StartTime pod = None \<and>
       list_ex unschedulable (pd_Conditions pod))"

lemma find_ex: "find P xs = None \<longleftrightarrow> \<not> list_ex P xs"
  by (induction xs) auto

lemma observe_stuck:
  assumes "list_all (waiting pods namespace) before" and "stuck pods namespace a"
  shows "\<exists>m. observe_ranks pods namespace n False k (before @ a # rest) = (''Assigned'', ''Unschedulable'', m, False)"
  using assms(1)
proof (induction before arbitrary: k)
  case Nil
  then show ?case using assms(2) find_ex [of unschedulable]
    by (auto simp: stuck_def Let_def split: option.splits)
next
  case (Cons b before)
  then show ?case using find_ex [of unschedulable]
    by (auto simp: waiting_def Let_def split: option.splits)
qed

lemma responsive_answer: "responsive ev \<Longrightarrow> run_state (api_write ev f) s = (case f (s\<lparr>kw_step := Suc (kw_step s)\<rparr>) of
    Inl e \<Rightarrow> (Some e, s\<lparr>kw_step := Suc (kw_step s)\<rparr>) | Inr s' \<Rightarrow> (None, s'))"
  by (simp add: api_write_def api_call_def kube_step_def responsive_def alone_def split: sum.split)

lemma delete_each_gone:
  assumes "responsive ev"
  shows "\<exists>s'. run_state (delete_each ev namespace as) s = (None, s') \<and>
    (\<forall>k. gm_get (kw_pods s') k = (if k \<in> (\<lambda>a. object_key namespace (ra_PodName a)) ` set as then None else gm_get (kw_pods s) k)) \<and>
    (\<forall>k. gm_get (kw_claims s') k = (if k \<in> (\<lambda>a. object_key namespace (ra_ClaimName a)) ` set as then None else gm_get (kw_claims s) k))"
proof (induction as arbitrary: s)
  case (Cons a as)
  let ?p = "object_key namespace (ra_PodName a)" and ?c = "object_key namespace (ra_ClaimName a)"
  obtain e1 s1 where 1: "run_state (api_write ev (delete_pod ?p)) s = (e1, s1)" by fastforce
  have e1: "e1 = None \<or> e1 = Some NotFound" "gm_get (kw_pods s1) = (gm_get (kw_pods s))(?p := None)" "kw_claims s1 = kw_claims s"
    using 1 by (auto simp: responsive_answer [OF assms] delete_pod_def fun_eq_iff split: if_splits)
  obtain e2 s2 where 2: "run_state (api_write ev (delete_claim ?c)) s1 = (e2, s2)" by fastforce
  have e2: "e2 = None \<or> e2 = Some NotFound" "gm_get (kw_claims s2) = (gm_get (kw_claims s1))(?c := None)" "kw_pods s2 = kw_pods s1"
    using 2 by (auto simp: responsive_answer [OF assms] delete_claim_def fun_eq_iff split: if_splits)
  obtain s' where s': "run_state (delete_each ev namespace as) s2 = (None, s')"
    "\<forall>k. gm_get (kw_pods s') k = (if k \<in> (\<lambda>a. object_key namespace (ra_PodName a)) ` set as then None else gm_get (kw_pods s2) k)"
    "\<forall>k. gm_get (kw_claims s') k = (if k \<in> (\<lambda>a. object_key namespace (ra_ClaimName a)) ` set as then None else gm_get (kw_claims s2) k)"
    using Cons.IH by blast
  have "run_state (delete_each ev namespace (a # as)) s = (None, s')" using 1 2 e1(1) e2(1) s'(1) by auto
  then show ?case using s'(2,3) e1(2,3) e2(2,3) by auto
qed simp

interpretation pod_still: api_invariant "\<lambda>s. alone ev \<and> gm_get (kw_pods s) k = None \<and> gm_get (kw_claims s) j = None" ev for k j ev
  by unfold_locales (simp_all add: alone_def)

lemma update_no_pods:
  "keeps (\<lambda>s. alone ev \<and> gm_get (kw_pods s) k = None \<and> gm_get (kw_claims s) j = None) (updateWorkloadStatus ev lib w)"
  unfolding updateWorkloadStatus_def Let_def update_once_def
  by (intro keeps_intro pod_still.k_retry pod_still.k_get pod_still.k_write) (auto simp: write_status_def split: option.splits if_splits)

lemma replan_deletes:
  assumes "responsive ev" and "b \<in> set (ws_Assignments (wo_Status w))" and "run_state (replan ev lib hash message w) s = (r, s')"
  shows "gm_get (kw_pods s') (object_key (wo_Namespace w) (ra_PodName b)) = None \<and>
    gm_get (kw_claims s') (object_key (wo_Namespace w) (ra_ClaimName b)) = None"
proof -
  let ?s = "s\<lparr>co_pending := gm_del (workload_key w) (co_pending s)\<rparr>"
  obtain s1 where del: "run_state (deleteChildren ev w) ?s = (None, s1)"
    "gm_get (kw_pods s1) (object_key (wo_Namespace w) (ra_PodName b)) = None"
    "gm_get (kw_claims s1) (object_key (wo_Namespace w) (ra_ClaimName b)) = None"
    using delete_each_gone [OF assms(1), of "wo_Namespace w" "ws_Assignments (wo_Status w)" ?s] assms(2) by (auto simp: deleteChildren_def)
  let ?s1 = "s1\<lparr>kw_step := Suc (kw_step s1)\<rparr>"
  have "run_state (updateWorkloadStatus ev lib
      (setWorkloadStatus (ke_now ev (kw_step s1)) ''Pending'' False ''Replanning'' message (pending_status hash w))) ?s1 = (r, s')"
    using assms(3) del(1) by (simp add: replan_def forget_pending_def run_set_status)
  from keepsD [OF update_no_pods _ this] del(2,3) assms(1) show ?thesis by (simp add: responsive_def)
qed

text \<open>
  C38: a running rank is deleted when an earlier rank is stuck.  The Pods are examined in the order of the ranks up to
  the first one that cannot be scheduled.  When none of the ranks up to that one has started, the workload is taken for
  one that has not started, whatever the later ranks do: if the API server answers, the reconciliation deletes the Pod
  and the claim of every rank, of a later rank whose Pod runs as well.
\<close>

theorem unschedulable_deletes_running:
  assumes "validateWorkload (kl_dns lib) (Some w) = None" and "\<not> terminalPhase (ws_Phase (wo_Status w))" and "responsive ev"
    and "ws_Assignments (wo_Status w) = before @ a # rest" and "list_all (waiting (ic_pods s) (wo_Namespace w)) before"
    and "stuck (ic_pods s) (wo_Namespace w) a" and "b \<in> set rest"
    and "gm_get (ic_pods s) (object_key (wo_Namespace w) (ra_PodName b)) = Some pod" and "pd_Phase pod = ''Running''"
    and "run_state (reconcileWorkload ev lib cfg w fabric used) s = (r, s')"
  shows "gm_get (kw_pods s') (object_key (wo_Namespace w) (ra_PodName b)) = None \<and>
    gm_get (kw_claims s') (object_key (wo_Namespace w) (ra_ClaimName b)) = None"
proof -
  let ?hash = "workloadSpecHash lib w" and ?gen = "WorkloadGeneration fabric (sp_Topology (wo_Spec w)) (ws_Assignments (wo_Status w))"
  obtain m where obs: "observedPhase (ic_pods s) w = (''Assigned'', ''Unschedulable'', m, False)"
    unfolding observedPhase_def assms(4) using observe_stuck [OF assms(5,6)] by metis
  have "run_state (reconcile_assigned ev lib cfg ?hash ?gen used w) s = (r, s')"
    using assms(1,2,4,10) by (simp add: reconcileWorkload_def Let_def)
  then have "\<exists>message. run_state (replan ev lib ?hash message w) s = (r, s')"
    by (auto simp: reconcile_assigned_def obs split: if_splits)
  then show ?thesis using replan_deletes [OF assms(3), of b w] assms(4,7) by auto
qed

section \<open>Children of a failed workload\<close>

lemma responsive_skipped:
  assumes "responsive ev" and "kl_decode lib current = None" and "gm_get (kw_workloads s) (workload_key w) = Some current"
    and "terminalPhase (ws_Phase (wo_Status current))" and "ws_Phase (wo_Status current) \<noteq> ws_Phase (wo_Status w)"
  shows "run_state (updateWorkloadStatus ev lib w) s = (None, s\<lparr>kw_step := Suc (kw_step s)\<rparr>)"
  unfolding updateWorkloadStatus_def Let_def
  by (rule retry_once) (use assms in \<open>simp_all add: update_once_def responsive_get\<close>)

text \<open>
  C39: a failed workload can get children that nobody tracks.  When the specification of a workload that failed
  validation is repaired, its phase stays Failed.  If it can be placed on the fabric, the API server answers and the
  reconciliation reports success, then every rank of the placement has its claim and its Pod, but the update of the
  status was skipped, since Failed is final: the server keeps the workload as failed, with no assignment.
\<close>

theorem failed_workload_children:
  assumes "validateWorkload (kl_dns lib) (Some w) = None" and "ws_Phase (wo_Status w) = ''Failed''" and "ws_Assignments (wo_Status w) = []"
    and "gm_get (kw_workloads s) (workload_key w) = Some w" and "kl_decode lib w = None" and "responsive ev" and "default_identity lib"
    and "fs_Valid fabric" and "\<And>n. SolveContext (kl_range lib) (ke_ctx ev n) (Some (placement_view w)) (fs_Endpoints fabric) used DefaultLimits
      = (as, True, None)"
    and "run_state (reconcileWorkload ev lib cfg w fabric used) s = (None, s')"
  shows "phase_on s' (workload_key w) = Some ''Failed'' \<and> assignments_on s' (workload_key w) = Some [] \<and>
    length as = length (sp_Ranks (wo_Spec w)) \<and> list_all (\<lambda>a. has_claim w a s' \<and> has_pod w a s') as"
proof -
  let ?k = "workload_key w" and ?n = "kw_step s"
  define w1 where "w1 = setWorkloadStatus (ke_now ev (Suc ?n)) ''Assigned'' True ''Assigned'' ''complete connected assignment reserved''
    (w\<lparr>wo_Status := (wo_Status w)\<lparr>ws_Assignments := as, ws_FabricGeneration := WorkloadGeneration fabric (sp_Topology (wo_Spec w)) as,
       ws_SpecHash := workloadSpecHash lib w\<rparr>\<rparr>)"
  have w1: "workload_key w1 = ?k" "ws_Phase (wo_Status w1) = ''Assigned''" "ws_Assignments (wo_Status w1) = as"
    "wo_Namespace w1 = wo_Namespace w" "wo_UID w1 = wo_UID w" "sp_Ranks (wo_Spec w1) = sp_Ranks (wo_Spec w)"
    by (simp_all add: w1_def setWorkloadStatus_def Let_def)
  let ?s = "s\<lparr>kw_step := Suc (Suc ?n)\<rparr>" and ?s3 = "s\<lparr>kw_step := Suc (Suc (Suc ?n)), co_pending := gm_put ?k as (co_pending s)\<rparr>"
  have "run_state (updateWorkloadStatus ev lib w1) ?s = (None, ?s\<lparr>kw_step := Suc (kw_step ?s)\<rparr>)"
    by (rule responsive_skipped [OF assms(6,5)]) (use assms(2,4) w1 in \<open>simp_all add: terminalPhase_def\<close>)
  then have "run_state (reconcileWorkload ev lib cfg w fabric used) s = run_state (ensureChildren ev lib cfg w1) ?s3"
    using assms(1,3,8,9)
    by (simp add: reconcileWorkload_def Let_def reconcile_unassigned_def run_kube_step run_set_status w1_def [symmetric] set_pending_def)
  then have run: "run_state (ensureChildren ev lib cfg w1) ?s3 = (None, s')" using assms(10) by simp
  have "kw_workloads s' = kw_workloads ?s3"
    using keepsD [OF still.k_ensureChildren _ run, of "kw_workloads ?s3" "co_pending ?s3"] assms(6) by (simp add: responsive_def)
  moreover have "spares ?k ev" using assms(6) by (simp add: spares_def responsive_def alone_def children_kept_def)
  then have "list_all (\<lambda>a. has_claim w1 a s' \<and> has_pod w1 a s') as" using ensureChildren_success [OF _ assms(7) run] w1(3) by simp
  moreover have "length as = length (sp_Ranks (wo_Spec w))" using run w1(3,6) by (auto simp: ensureChildren_def split: if_splits)
  ultimately show ?thesis using assms(2-4) w1(4,5) by (simp add: phase_on_def assignments_on_def has_claim_def has_pod_def)
qed

section \<open>Runs\<close>

lemma run_api_answer: "run_state (api_write (sample_kube []) f) s =
    (case f (s\<lparr>kw_step := Suc (kw_step s)\<rparr>) of Inl e \<Rightarrow> (Some e, s\<lparr>kw_step := Suc (kw_step s)\<rparr>) | Inr s' \<Rightarrow> (None, s'))"
  by (simp add: api_write_def kube_run split: sum.split)

definition sample_pod :: "string \<Rightarrow> string \<Rightarrow> PodCondition list \<Rightarrow> PodObject" where
  "sample_pod name phase conditions = \<lparr>pd_Namespace = ''ns'', pd_Name = name, pd_Labels = [], pd_Annotations = [], pd_Owners = [],
     pd_Spec = pt_Spec (sample_template None), pd_Phase = phase, pd_StartTime = None, pd_Conditions = conditions\<rparr>"

definition rank_at :: "string \<Rightarrow> RankAssignment" where
  "rank_at name = \<lparr>ra_Rank = name, ra_NodeName = ''n1'', ra_ClaimName = name, ra_PodName = name, ra_Devices = []\<rparr>"

definition pair_job :: WorkloadObject where
  "pair_job = (sample_job None ''a'')\<lparr>wo_Spec := (wo_Spec (sample_job None ''a''))\<lparr>sp_Ranks := [sample_rank, sample_rank\<lparr>wr_Name := ''r1''\<rparr>]\<rparr>,
     wo_Status := empty_status\<lparr>ws_Phase := ''Assigned'', ws_Assignments := [rank_at ''p0'', rank_at ''p1'']\<rparr>\<rparr>"

definition pair_world :: world where
  "pair_world = (sample_world [(''ns/a'', pair_job)])\<lparr>
     ic_pods := [(''ns/p0'', sample_pod ''p0'' ''Pending'' [\<lparr>pn_Type = ''PodScheduled'', pn_Status = ''False'', pn_Reason = ''Unschedulable'', pn_Message = ''m''\<rparr>]),
       (''ns/p1'', sample_pod ''p1'' ''Running'' [])],
     kw_pods := [(''ns/p0'', sample_pod ''p0'' ''Pending'' [\<lparr>pn_Type = ''PodScheduled'', pn_Status = ''False'', pn_Reason = ''Unschedulable'', pn_Message = ''m''\<rparr>]),
       (''ns/p1'', sample_pod ''p1'' ''Running'' [])]\<rparr>"

lemma pair_observed: "observedPhase (ic_pods pair_world) pair_job = (''Assigned'', ''Unschedulable'', ''m'', False)"
  by (simp add: observedPhase_def pair_world_def pair_job_def rank_at_def sample_pod_def gm_get_Cons kube_run object_key_def unschedulable_def)

lemma pair_valid: "validateWorkload (\<lambda>_. []) (Some pair_job) = None"
  by (simp_all add: pair_job_def validateWorkload_def sample_job_def sample_template_def sample_container_def sample_rank_def
    rank_error_def total_count_def maxRanks_def maxDevicesPerWorkload_def maxContainers_def validatePodTemplate_def gm_string_def
    volume_error_def container_error_def SupportedDeviceClass_def GenericDeviceClassName_def MatchesDeviceClass_def
    word_sless_alt)

lemma pair_deleted: "run_state (deleteChildren (sample_kube []) pair_job) pair_world = (None, pair_world\<lparr>kw_pods := [], kw_step := 4\<rparr>)"
  by (simp add: deleteChildren_def pair_world_def pair_job_def rank_at_def run_api_answer delete_pod_def delete_claim_def
    gm_get_Cons gm_del_def kube_run object_key_def sample_world_def numeral_eq_Suc)

lemma pair_updated:
  assumes "w = setWorkloadStatus 1 ''Pending'' False ''Replanning'' ''m'' (pending_status hash pair_job)"
  shows "kw_pods (snd (run_state (updateWorkloadStatus (sample_kube []) sample_lib w) (pair_world\<lparr>kw_pods := [], kw_step := 5\<rparr>))) = []"
proof -
  let ?st = "(wo_Status w)\<lparr>ws_ObservedGeneration := wo_Generation w\<rparr>"
  have w: "workload_key w = ''ns/a''" by (simp add: assms setWorkloadStatus_def Let_def pending_status_def pair_job_def kube_run object_key_def)
  have "ws_Assignments (wo_Status pair_job) \<noteq> ws_Assignments ?st"
    by (simp add: assms setWorkloadStatus_def Let_def pending_status_def pair_job_def)
  then have "wo_Status pair_job \<noteq> ?st" by metis
  moreover have "gm_get (kw_workloads pair_world) ''ns/a'' = Some pair_job" by (simp add: pair_world_def sample_world_def gm_get_Cons)
  moreover have "\<not> terminalPhase (ws_Phase (wo_Status pair_job))" by (simp add: pair_job_def terminalPhase_def)
  ultimately show ?thesis by (subst update_written [where current = pair_job and st = ?st]) (simp_all add: w)
qed

lemma sample_responsive: "responsive (sample_kube [])"
  by (simp add: responsive_def sample_kube_quiet) (simp add: sample_kube_def)

theorem unschedulable_deletes_running_witness:
  "gm_get (kw_pods pair_world) ''ns/p1'' = Some (sample_pod ''p1'' ''Running'' []) \<and>
   gm_get (kw_pods (snd (run_state (reconcileWorkload (sample_kube []) sample_lib sample_config pair_job spot_fabric {}) pair_world))) ''ns/p1'' = None"
proof -
  have k: "object_key (wo_Namespace pair_job) (ra_PodName (rank_at x)) = ''ns/'' @ x" for x
    by (simp add: pair_job_def kube_run object_key_def rank_at_def)
  have "ws_Assignments (wo_Status pair_job) = [] @ rank_at ''p0'' # [rank_at ''p1'']" by (simp add: pair_job_def)
  moreover have "stuck (ic_pods pair_world) (wo_Namespace pair_job) (rank_at ''p0'')"
    by (simp add: stuck_def k pair_world_def gm_get_Cons sample_pod_def unschedulable_def)
  moreover have pod: "gm_get (ic_pods pair_world) ''ns/p1'' = Some (sample_pod ''p1'' ''Running'' [])"
    "gm_get (kw_pods pair_world) ''ns/p1'' = Some (sample_pod ''p1'' ''Running'' [])"
    by (simp_all add: pair_world_def gm_get_Cons)
  moreover have "pd_Phase (sample_pod ''p1'' ''Running'' []) = ''Running''" "\<not> terminalPhase (ws_Phase (wo_Status pair_job))"
    "validateWorkload (kl_dns sample_lib) (Some pair_job) = None"
    by (simp_all add: sample_pod_def pair_job_def terminalPhase_def) (simp add: kube_run pair_valid [unfolded pair_job_def])
  ultimately show ?thesis
    using unschedulable_deletes_running [of sample_lib pair_job "sample_kube []" "[]" "rank_at ''p0''" "[rank_at ''p1'']" pair_world
        "rank_at ''p1''" "sample_pod ''p1'' ''Running'' []" sample_config spot_fabric "{}", OF _ _ sample_responsive _ _ _ _ _ _ prod.collapse [symmetric]]
    by (simp add: k)
qed

lemma sample_children:
  assumes "wo_Spec w = wo_Spec (sample_job None x)" and "ws_Assignments (wo_Status w) = [spot_assignment x]" and "kw_claims s = []" and "kw_pods s = []"
  shows "\<exists>claim pod. run_state (ensureChildren (sample_kube []) sample_lib sample_config w) s =
     (None, s\<lparr>kw_claims := claim, kw_step := Suc (Suc (kw_step s)), kw_pods := pod\<rparr>)"
proof -
  have spec: "sp_ContainerName (wo_Spec w) = ''main''" "po_Containers (pt_Spec (sp_PodTemplate (wo_Spec w))) = [sample_container None]"
    "sp_Ranks (wo_Spec w) = [sample_rank]" by (simp_all add: assms(1) sample_job_def sample_template_def)
  obtain pod where pod: "buildPod w 0 (spot_assignment x) False = Inr pod"
    by (simp add: buildPod_def Let_def spec sample_container_def)
  show ?thesis
    by (simp add: ensureChildren_def assms(2-4) spec ensureClaim_def Let_def run_api_answer create_claim_def ensurePod_def sample_config_def pod
      kube_run create_pod_def) blast
qed

lemma validateWorkload_status: "validateWorkload dns (Some (w\<lparr>wo_Status := st\<rparr>)) = validateWorkload dns (Some w)"
  by (simp add: validateWorkload_def Let_def cong: option.case_cong if_cong)

lemma sample_defaults: "default_identity sample_lib" "spares key (sample_kube lost)"
  by (simp_all add: default_identity_def kube_run spares_def sample_kube_def children_kept_def)

definition failed_job :: WorkloadObject where
  "failed_job = (sample_job None ''a'')\<lparr>wo_Status := empty_status\<lparr>ws_Phase := ''Failed''\<rparr>\<rparr>"

definition failed_world :: world where
  "failed_world = (sample_world [(''ns/a'', failed_job)])\<lparr>co_fabric := spot_fabric\<rparr>"

lemma failed_skipped:
  assumes "workload_key w = ''ns/a''" and "ws_Phase (wo_Status w) = ''Assigned''" and "kw_workloads s = [(''ns/a'', failed_job)]"
  shows "run_state (updateWorkloadStatus (sample_kube []) sample_lib w) s = (None, s\<lparr>kw_step := Suc (kw_step s)\<rparr>)"
  unfolding updateWorkloadStatus_def Let_def
  by (rule retry_once) (use assms in \<open>simp_all add: update_once_def kube_run gm_get_Cons failed_job_def terminalPhase_def\<close>)

lemma failed_run:
  "\<exists>s'. run_state (reconcileWorkload (sample_kube []) sample_lib sample_config failed_job spot_fabric {}) failed_world = (None, s')"
proof -
  let ?w = "setWorkloadStatus 1 ''Assigned'' True ''Assigned'' ''complete connected assignment reserved''
     (failed_job\<lparr>wo_Status := (wo_Status failed_job)\<lparr>ws_Assignments := [spot_assignment ''a''],
        ws_FabricGeneration := WorkloadGeneration spot_fabric (sp_Topology (wo_Spec failed_job)) [spot_assignment ''a''],
        ws_SpecHash := workloadSpecHash sample_lib failed_job\<rparr>\<rparr>)"
  have w: "workload_key ?w = ''ns/a''" "wo_Namespace ?w = wo_Namespace failed_job" "wo_UID ?w = wo_UID failed_job" "ws_Phase (wo_Status ?w) = ''Assigned''" "ws_Assignments (wo_Status ?w) = [spot_assignment ''a'']"
    "wo_Spec ?w = wo_Spec (sample_job None ''a'')"
    by (simp_all add: setWorkloadStatus_def Let_def failed_job_def kube_run object_key_def)
  have view: "placement_view failed_job = placement_view (sample_job None ''a'')" by (simp add: placement_view_def failed_job_def)
  have "validateWorkload (\<lambda>_. []) (Some (sample_job None ''a'')) = None" by (rule sample_job_valid) simp
  then have valid: "validateWorkload (\<lambda>_. []) (Some failed_job) = None" by (simp add: failed_job_def validateWorkload_status)
  let ?s = "failed_world\<lparr>co_pending := [(''ns/a'', [spot_assignment ''a''])], kw_step := 3\<rparr>"
  have "ws_Assignments (wo_Status failed_job) = []" "workload_key failed_job = ''ns/a''" by (simp_all add: failed_job_def kube_run object_key_def)
  then have run: "run_state (reconcileWorkload (sample_kube []) sample_lib sample_config failed_job spot_fabric {}) failed_world =
      run_state (ensureChildren (sample_kube []) sample_lib sample_config ?w) ?s"
    using valid w(1,4)
    by (simp add: reconcileWorkload_def Let_def kube_run reconcile_unassigned_def spot_fabric_fields view spot_solved failed_skipped
       failed_world_def sample_world_def set_pending_def gm_put_def numeral_eq_Suc)
  obtain claim pod where c: "run_state (ensureChildren (sample_kube []) sample_lib sample_config ?w) ?s = (None, ?s\<lparr>kw_claims := claim, kw_step := 5, kw_pods := pod\<rparr>)"
    using sample_children [OF w(6,5), of ?s] by (auto simp: failed_world_def sample_world_def)
  then show ?thesis using run by metis
qed

theorem failed_workload_children_witness:
  "\<exists>s'. run_state (reconcileWorkload (sample_kube []) sample_lib sample_config failed_job spot_fabric {}) failed_world = (None, s') \<and>
     phase_on s' ''ns/a'' = Some ''Failed'' \<and> assignments_on s' ''ns/a'' = Some [] \<and>
     has_claim failed_job (spot_assignment ''a'') s' \<and> has_pod failed_job (spot_assignment ''a'') s'"
proof -
  obtain s' where run: "run_state (reconcileWorkload (sample_kube []) sample_lib sample_config failed_job spot_fabric {}) failed_world = (None, s')"
    using failed_run by blast
  have view: "placement_view failed_job = placement_view (sample_job None ''a'')" by (simp add: placement_view_def failed_job_def)
  have "validateWorkload (\<lambda>_. []) (Some (sample_job None ''a'')) = None" by (rule sample_job_valid) simp
  then have valid: "validateWorkload (kl_dns sample_lib) (Some failed_job) = None" by (simp add: failed_job_def validateWorkload_status kube_run)
  have key: "workload_key failed_job = ''ns/a''" "ws_Phase (wo_Status failed_job) = ''Failed''" "ws_Assignments (wo_Status failed_job) = []"
    by (simp_all add: failed_job_def kube_run object_key_def)
  have "gm_get (kw_workloads failed_world) (workload_key failed_job) = Some failed_job"
    by (simp add: key failed_world_def sample_world_def gm_get_Cons)
  moreover have "SolveContext (kl_range sample_lib) (ke_ctx (sample_kube []) n) (Some (placement_view failed_job)) (fs_Endpoints spot_fabric) {} DefaultLimits
      = ([spot_assignment ''a''], True, None)" for n by (simp add: view kube_run spot_fabric_fields spot_solved)
  ultimately show ?thesis
    using failed_workload_children [OF valid key(2,3) _ _ sample_responsive sample_defaults(1) _ _ run] run key(1)
    by (simp add: kube_run spot_fabric_fields)
qed




theorem terminal_phase_final_witness:
  "phase_on (snd (run_state (processNext (sample_kube []) sample_lib sample_config) (failed_world\<lparr>co_queue := [''ns/a'']\<rparr>))) ''ns/a'' = Some ''Failed''"
proof (rule terminal_phase_final [OF _ _ _ prod.collapse [symmetric]])
  show "leaves_phase ''ns/a'' ''Failed'' (sample_kube [])" by (simp add: leaves_phase_def sample_kube_def)
qed (simp_all add: terminalPhase_def phase_on_def failed_world_def sample_world_def gm_get_Cons failed_job_def)

definition running_world :: world where
  "running_world = pair_world\<lparr>ic_pods := [(''ns/p0'', sample_pod ''p0'' ''Running'' [])]\<rparr>"

lemma running_observed: "observedPhase (ic_pods running_world) pair_job = (''Running'', ''RanksRunning'', ''one or more rank Pods are running'', True)"
  by (simp add: observedPhase_def running_world_def pair_job_def rank_at_def sample_pod_def gm_get_Cons kube_run object_key_def)

theorem started_frozen_witness:
  "\<exists>r s'. run_state (reconcileWorkload (sample_kube []) sample_lib sample_config pair_job spot_fabric {}) running_world = (r, s') \<and>
     gm_get (kw_pods s') ''ns/p1'' = Some (sample_pod ''p1'' ''Running'' []) \<and>
     assignments_on s' ''ns/a'' = Some (ws_Assignments (wo_Status pair_job))"
proof -
  obtain r s' where run: "run_state (reconcileWorkload (sample_kube []) sample_lib sample_config pair_job spot_fabric {}) running_world = (r, s')" by fastforce
  have key: "workload_key pair_job = ''ns/a''" by (simp add: pair_job_def kube_run object_key_def)
  have kept: "children_kept running_world s' \<and> assignments_on s' (workload_key pair_job) = Some (ws_Assignments (wo_Status pair_job))"
  proof (rule started_frozen [OF _ _ _ running_observed _ sample_defaults(2) _ run])
    show "validateWorkload (kl_dns sample_lib) (Some pair_job) = None" by (simp add: kube_run pair_valid)
    show "assignments_on running_world (workload_key pair_job) = Some (ws_Assignments (wo_Status pair_job))"
      unfolding key by (simp add: assignments_on_def running_world_def pair_world_def sample_world_def gm_get_Cons)
  qed (simp_all add: pair_job_def terminalPhase_def)
  have "gm_get (kw_pods running_world) ''ns/p1'' = Some (sample_pod ''p1'' ''Running'' [])"
    by (simp add: running_world_def pair_world_def gm_get_Cons)
  then have "gm_get (kw_pods s') ''ns/p1'' = Some (sample_pod ''p1'' ''Running'' [])"
    using kept by (auto simp: children_kept_def map_le_def dom_def)
  with kept show ?thesis using run unfolding key by blast
qed

theorem ensureChildren_complete_witness:
  "\<exists>s'. run_state (ensureChildren (sample_kube []) sample_lib sample_config (assigned_job spot_fabric ''a'')) (sample_world []) = (None, s') \<and>
     has_claim (assigned_job spot_fabric ''a'') (spot_assignment ''a'') s' \<and> has_pod (assigned_job spot_fabric ''a'') (spot_assignment ''a'') s'"
proof -
  have "wo_Spec (assigned_job spot_fabric ''a'') = wo_Spec (sample_job None ''a'')" by (simp add: assigned_job_def setWorkloadStatus_def Let_def)
  then obtain s' where run: "run_state (ensureChildren (sample_kube []) sample_lib sample_config (assigned_job spot_fabric ''a'')) (sample_world []) = (None, s')"
    using sample_children [of "assigned_job spot_fabric ''a''" "''a''" "sample_world []"] by (auto simp: kube_run sample_world_def)
  from ensureChildren_complete [OF sample_defaults(2,1) run] run show ?thesis by (simp add: kube_run)
qed

end
