(* ===== verification/Node_Safety.thy ===== *)
theory Node_Safety
  imports Publication Claims Kube_Api
begin

text \<open>
  The safety of a node as the cluster sees it (\<open>src/internal/lifecycle/node.go\<close>): the taint that keeps new
  Pods away and the condition that reports the accelerators; and the watchdog of the controller
  (\<open>watchdog.go\<close>), which fences the nodes whose agent has stopped reporting.

  The state \<open>cluster\<close> holds the objects of the API server these operations touch.  A write carries the version that
  was read, so it conflicts when the object has changed since.  The joined errors of \<open>errors.Join\<close> are a list, nil is
  the empty list.
\<close>

section \<open>The cluster\<close>

record Taint =
  ta_Key :: string
  ta_Value :: string
  ta_Effect :: string

datatype ConditionStatus = ConditionTrue | ConditionFalse | ConditionUnknown

record NodeCondition =
  nc_Type :: string
  nc_Status :: ConditionStatus
  nc_Reason :: string
  nc_Message :: string
  nc_LastHeartbeatTime :: go_time
  nc_LastTransitionTime :: go_time

record NodeObject =
  no_Name :: string
  no_Taints :: "Taint list"
  no_Conditions :: "NodeCondition list"

text \<open>
  What cleanup reads of a workload, whose phase may be missing, and of a Pod.  The list of the workloads is missing when their
  CRD is not installed.
\<close>

record WorkloadSummary =
  wk_Namespace :: string
  wk_Name :: string
  wk_Phase :: "string option"

record PodSummary =
  pk_Namespace :: string
  pk_Labels :: "(string, string) gomap"

record cluster = api_server +
  kn_nodes :: "(string, NodeObject) gomap"
  kn_slices :: "(string, ResourceSlice) gomap"
  kn_topologies :: "(string, NodeTopologySpec) gomap"
  kn_fabric :: bool
  kn_claims :: "ResourceClaim list"
  kn_workloads :: "WorkloadSummary list option"
  kn_daemonsets :: "(string, unit) gomap"
  kn_deployments :: "(string, unit) gomap"
  kn_pods :: "PodSummary list"

type_synonym cluster_env = "cluster api_env"

type_synonym 'a nop = "(cluster, 'a) state"

definition NodeConditionType :: string where "NodeConditionType = ''TenstorrentAcceleratorsHealthy''"

definition NodeTaintKey :: string where "NodeTaintKey = ''tenstorrent.com/accelerator-unhealthy''"

definition write_taints :: "string \<Rightarrow> NodeObject \<Rightarrow> Taint list \<Rightarrow> cluster \<Rightarrow> kube_error + cluster" where
  "write_taints nodeName node taints s =
     (case gm_get (kn_nodes s) nodeName of
        None \<Rightarrow> Inl NotFound
      | Some object \<Rightarrow>
          if object \<noteq> node then Inl Conflict
          else Inr (s\<lparr>kn_nodes := gm_put nodeName (node\<lparr>no_Taints := taints\<rparr>) (kn_nodes s)\<rparr>))"

definition write_conditions :: "string \<Rightarrow> NodeObject \<Rightarrow> NodeCondition list \<Rightarrow> cluster \<Rightarrow> kube_error + cluster" where
  "write_conditions nodeName node conditions s =
     (case gm_get (kn_nodes s) nodeName of
        None \<Rightarrow> Inl NotFound
      | Some object \<Rightarrow>
          if object \<noteq> node then Inl Conflict
          else Inr (s\<lparr>kn_nodes := gm_put nodeName (node\<lparr>no_Conditions := conditions\<rparr>) (kn_nodes s)\<rparr>))"

section \<open>The taint and the condition\<close>

abbreviation safety_taint :: "Taint \<Rightarrow> bool" where
  "safety_taint t \<equiv> ta_Key t = NodeTaintKey"

abbreviation safety_condition :: "NodeCondition \<Rightarrow> bool" where
  "safety_condition c \<equiv> nc_Type c = NodeConditionType"

text \<open>The loop of \<open>setSafetyTaint\<close>: the first taint with the key decides.\<close>

fun remove_taint :: "Taint list \<Rightarrow> Taint list" where
  "remove_taint [] = []"
| "remove_taint (t # ts) = (if safety_taint t then ts else t # remove_taint ts)"

definition setSafetyTaint :: "Taint list \<Rightarrow> bool \<Rightarrow> Taint list \<times> bool" where
  "setSafetyTaint taints unsafe =
     (if list_ex safety_taint taints
      then (if unsafe then (taints, False) else (remove_taint taints, True))
      else if \<not> unsafe then (taints, False)
      else (taints @ [\<lparr>ta_Key = NodeTaintKey, ta_Value = ''true'', ta_Effect = ''NoSchedule''\<rparr>], True))"

fun put_condition :: "NodeCondition \<Rightarrow> NodeCondition list \<Rightarrow> NodeCondition list" where
  "put_condition condition [] = [condition]"
| "put_condition condition (c # cs) =
     (if \<not> safety_condition c then c # put_condition condition cs
      else (if nc_Status c = nc_Status condition
            then condition\<lparr>nc_LastTransitionTime := nc_LastTransitionTime c\<rparr> else condition) # cs)"

definition safety_status :: "Safety \<Rightarrow> ConditionStatus" where
  "safety_status safety = (if sf_Unsafe safety then ConditionFalse else ConditionTrue)"

definition setSafetyCondition :: "go_time \<Rightarrow> Safety \<Rightarrow> NodeCondition list \<Rightarrow> NodeCondition list" where
  "setSafetyCondition t safety conditions =
     put_condition \<lparr>nc_Type = NodeConditionType, nc_Status = safety_status safety, nc_Reason = sf_Reason safety,
       nc_Message = sf_Message safety, nc_LastHeartbeatTime = t, nc_LastTransitionTime = t\<rparr> conditions"

definition publish_condition :: "cluster_env \<Rightarrow> string \<Rightarrow> Safety \<Rightarrow> NodeObject \<Rightarrow> kube_error option nop" where
  "publish_condition ev nodeName safety node = do {
     t \<leftarrow> kube_now ev;
     api_write ev (write_conditions nodeName node (setSafetyCondition t safety (no_Conditions node))) }"

definition UpdateNodeSafety :: "cluster_env \<Rightarrow> string \<Rightarrow> Safety \<Rightarrow> kube_error option nop" where
  "UpdateNodeSafety ev nodeName safety = do {
     r \<leftarrow> api_get ev (\<lambda>s. gm_get (kn_nodes s) nodeName);
     case r of
       Inl e \<Rightarrow> ret (Some e)
     | Inr node \<Rightarrow>
         let (taints, changed) = setSafetyTaint (no_Taints node) (sf_Unsafe safety)
         in if changed
            then do {
              err \<leftarrow> api_write ev (write_taints nodeName node taints);
              case err of
                Some e \<Rightarrow> ret (Some e)
              | None \<Rightarrow> publish_condition ev nodeName safety (node\<lparr>no_Taints := taints\<rparr>) }
            else publish_condition ev nodeName safety node }"

definition clear_conditions :: "cluster_env \<Rightarrow> string \<Rightarrow> NodeObject \<Rightarrow> kube_error option nop" where
  "clear_conditions ev nodeName node =
     (let conditions = filter (\<lambda>c. \<not> safety_condition c) (no_Conditions node)
      in if length conditions = length (no_Conditions node) then ret None
         else api_write ev (write_conditions nodeName node conditions))"

definition ClearNodeSafety :: "cluster_env \<Rightarrow> string \<Rightarrow> kube_error option nop" where
  "ClearNodeSafety ev nodeName = do {
     r \<leftarrow> api_get ev (\<lambda>s. gm_get (kn_nodes s) nodeName);
     case r of
       Inl e \<Rightarrow> ret (Some e)
     | Inr node \<Rightarrow>
         let taints = filter (\<lambda>t. \<not> safety_taint t) (no_Taints node)
         in if length taints \<noteq> length (no_Taints node)
            then do {
              err \<leftarrow> api_write ev (write_taints nodeName node taints);
              case err of
                Some e \<Rightarrow> ret (Some e)
              | None \<Rightarrow> clear_conditions ev nodeName (node\<lparr>no_Taints := taints\<rparr>) }
            else clear_conditions ev nodeName node }"

section \<open>The watchdog\<close>

definition acceleratorCondition :: "NodeCondition list \<Rightarrow> NodeCondition option" where
  "acceleratorCondition conditions = find safety_condition conditions"

text \<open>\<open>now.Sub(heartbeat)\<close> saturates; a condition without a heartbeat, and a node without the condition, is skipped.\<close>

definition agent_stale :: "duration \<Rightarrow> go_time \<Rightarrow> NodeObject \<Rightarrow> bool" where
  "agent_stale ttl t node =
     (case acceleratorCondition (no_Conditions node) of
        None \<Rightarrow> False
      | Some c \<Rightarrow> \<not> (nc_LastHeartbeatTime c = 0 \<or> time_sub t (nc_LastHeartbeatTime c) \<le> ttl))"

definition agent_unavailable :: "duration \<Rightarrow> Safety" where
  "agent_unavailable ttl = \<lparr>sf_Unsafe = True, sf_Healthy = 0, sf_Total = 0, sf_Reason = ''AgentUnavailable'',
     sf_Message = ''Tenstorrent DRA node-agent heartbeat is older than '' @ duration_string ttl\<rparr>"

definition delete_slice :: "string \<Rightarrow> cluster \<Rightarrow> kube_error + cluster" where
  "delete_slice name s =
     (if gm_get (kn_slices s) name = None then Inl NotFound else Inr (s\<lparr>kn_slices := gm_del name (kn_slices s)\<rparr>))"

definition delete_topology :: "string \<Rightarrow> cluster \<Rightarrow> kube_error + cluster" where
  "delete_topology name s =
     (if gm_get (kn_topologies s) name = None then Inl NotFound
      else Inr (s\<lparr>kn_topologies := gm_del name (kn_topologies s)\<rparr>))"

fun delete_slices :: "cluster_env \<Rightarrow> string \<Rightarrow> string \<Rightarrow> ResourceSlice list \<Rightarrow> kube_error list nop" where
  "delete_slices ev driver nodeName [] = ret []"
| "delete_slices ev driver nodeName (item # slices) =
     (if rs_Driver item \<noteq> driver \<or> rs_NodeName item \<noteq> Some nodeName then delete_slices ev driver nodeName slices
      else do {
        err \<leftarrow> api_write ev (delete_slice (rs_Name item));
        errs \<leftarrow> delete_slices ev driver nodeName slices;
        ret ((case err of None \<Rightarrow> [] | Some e \<Rightarrow> [e]) @ errs) })"

text \<open>The body of the loop for a node that is fenced; the topology client may be nil.\<close>

definition fence_node ::
    "cluster_env \<Rightarrow> bool \<Rightarrow> string \<Rightarrow> duration \<Rightarrow> ResourceSlice list \<Rightarrow> string \<Rightarrow> kube_error list nop" where
  "fence_node ev topologyClient driver ttl slices nodeName = do {
     err \<leftarrow> UpdateNodeSafety ev nodeName (agent_unavailable ttl);
     sliceErrs \<leftarrow> delete_slices ev driver nodeName slices;
     topologyErr \<leftarrow> (if topologyClient then api_write ev (delete_topology nodeName) else ret None);
     ret ((case err of None \<Rightarrow> [] | Some e \<Rightarrow> [e]) @ sliceErrs @
          (case topologyErr of None \<Rightarrow> [] | Some e \<Rightarrow> if e = NotFound then [] else [e])) }"

fun fence_nodes ::
    "cluster_env \<Rightarrow> bool \<Rightarrow> string \<Rightarrow> duration \<Rightarrow> go_time \<Rightarrow> ResourceSlice list \<Rightarrow> NodeObject list \<Rightarrow> (nat \<times> kube_error list) nop" where
  "fence_nodes ev topologyClient driver ttl t slices [] = ret (0, [])"
| "fence_nodes ev topologyClient driver ttl t slices (node # nodes) =
     (if \<not> agent_stale ttl t node then fence_nodes ev topologyClient driver ttl t slices nodes
      else do {
        errs \<leftarrow> fence_node ev topologyClient driver ttl slices (no_Name node);
        (fenced, rest) \<leftarrow> fence_nodes ev topologyClient driver ttl t slices nodes;
        ret (Suc fenced, errs @ rest) })"

definition FenceStaleAgents ::
    "cluster_env \<Rightarrow> bool \<Rightarrow> string \<Rightarrow> duration \<Rightarrow> go_time \<Rightarrow> (nat \<times> kube_error list) nop" where
  "FenceStaleAgents ev topologyClient driver ttl t =
     (if ttl \<le> 0 then ret (0, [Failure ''node-agent TTL must be positive''])
      else do {
        nodes \<leftarrow> api_get ev (\<lambda>s. Some (map snd (kn_nodes s)));
        case nodes of
          Inl e \<Rightarrow> ret (0, [e])
        | Inr nodes \<Rightarrow> do {
            slices \<leftarrow> api_get ev (\<lambda>s. Some (map snd (kn_slices s)));
            case slices of
              Inl e \<Rightarrow> ret (0, [e])
            | Inr slices \<Rightarrow> fence_nodes ev topologyClient driver ttl t slices nodes } })"

end
