(* ===== verification/Cleanup.thy ===== *)
theory Cleanup
  imports Node_Safety
begin

text \<open>
  The removal of the driver's objects when it is uninstalled: \<open>runCleanup\<close> of \<open>src/cmd/tt-dra-driver/main.go\<close>, from
  the check of the flags on.  The construction of the clients is not modelled; the release name, its namespace and the
  resource prefix are arguments.  An error is its message, without the text of
  the API server's error.
\<close>

definition cleanup_flags_error :: "bool \<Rightarrow> bool \<Rightarrow> string \<Rightarrow> string \<Rightarrow> string \<Rightarrow> go_error" where
  "cleanup_flags_error qpsPositive burstPositive releaseName releaseNamespace resourcePrefix =
     (if \<not> qpsPositive \<or> \<not> burstPositive then Some ''Kubernetes API QPS and burst must be positive''
      else if releaseName = [] \<or> releaseNamespace = [] \<or> resourcePrefix = []
      then Some ''release name, namespace, and resource prefix are required''
      else None)"

definition join_key :: "string \<Rightarrow> string \<Rightarrow> string" where
  "join_key namespace name = namespace @ ''/'' @ name"

text \<open>The first claim with an allocation of the driver.\<close>

definition allocated_here :: "ResourceClaim \<Rightarrow> bool" where
  "allocated_here c \<longleftrightarrow> (case rc_Allocation c of None \<Rightarrow> False
     | Some a \<Rightarrow> list_ex (\<lambda>r. al_Driver r = DefaultDriverName) (an_Results a))"

definition claim_refusal :: "ResourceClaim list \<Rightarrow> string option" where
  "claim_refusal claims = map_option (\<lambda>c. ''refusing cleanup: ResourceClaim '' @ join_key (rc_Namespace c) (rc_Name c) @
     '' still has a Tenstorrent allocation'') (find allocated_here claims)"

definition active_workload :: "WorkloadSummary \<Rightarrow> bool" where
  "active_workload w \<longleftrightarrow> wk_Phase w \<noteq> Some ''Succeeded'' \<and> wk_Phase w \<noteq> Some ''Failed''"

definition workload_refusal :: "WorkloadSummary list \<Rightarrow> string option" where
  "workload_refusal ws = map_option (\<lambda>w. ''refusing cleanup: TenstorrentWorkload '' @ join_key (wk_Namespace w) (wk_Name w) @
     '' is still active'') (find active_workload ws)"

definition delete_daemonset :: "string \<Rightarrow> cluster \<Rightarrow> kube_error + cluster" where
  "delete_daemonset key s =
     (if gm_get (kn_daemonsets s) key = None then Inl NotFound else Inr (s\<lparr>kn_daemonsets := gm_del key (kn_daemonsets s)\<rparr>))"

definition delete_deployment :: "string \<Rightarrow> cluster \<Rightarrow> kube_error + cluster" where
  "delete_deployment key s =
     (if gm_get (kn_deployments s) key = None then Inl NotFound else Inr (s\<lparr>kn_deployments := gm_del key (kn_deployments s)\<rparr>))"

definition delete_topologies :: "cluster \<Rightarrow> kube_error + cluster" where
  "delete_topologies s = Inr (s\<lparr>kn_topologies := []\<rparr>)"

definition delete_fabric :: "cluster \<Rightarrow> kube_error + cluster" where
  "delete_fabric s = (if \<not> kn_fabric s then Inl NotFound else Inr (s\<lparr>kn_fabric := False\<rparr>))"

text \<open>A deletion whose error is tolerated when the object is not there; the loops over slices and nodes stop at the first error.\<close>

definition delete_or_fail :: "cluster_env \<Rightarrow> string \<Rightarrow> (cluster \<Rightarrow> kube_error + cluster) \<Rightarrow> go_error nop" where
  "delete_or_fail ev message f = do {
     err \<leftarrow> api_write ev f;
     ret (if err \<noteq> None \<and> err \<noteq> Some NotFound then Some message else None) }"

definition remaining_pods :: "string \<Rightarrow> string \<Rightarrow> string \<Rightarrow> cluster \<Rightarrow> nat" where
  "remaining_pods releaseName releaseNamespace resourcePrefix s =
     length (filter (\<lambda>p. gm_string (pk_Labels p) ''job-name'' \<noteq> resourcePrefix @ ''-cleanup'')
       (filter (\<lambda>p. pk_Namespace p = releaseNamespace \<and> gm_get (pk_Labels p) ''app.kubernetes.io/instance'' = Some releaseName)
         (kn_pods s)))"

text \<open>
  The loop that waits for the Pods: \<open>None\<close> when the fuel is used up.  A question to \<open>ke_ctx\<close> tells whether the
  context of the command has expired (\<open>Some 0\<close>).
\<close>

fun wait_pods :: "nat \<Rightarrow> cluster_env \<Rightarrow> string \<Rightarrow> string \<Rightarrow> string \<Rightarrow> go_time \<Rightarrow> go_error option nop" where
  "wait_pods 0 ev releaseName releaseNamespace resourcePrefix deadline = ret None"
| "wait_pods (Suc fuel) ev releaseName releaseNamespace resourcePrefix deadline = do {
     r \<leftarrow> api_get ev (\<lambda>s. Some (remaining_pods releaseName releaseNamespace resourcePrefix s));
     case r of
       Inl e \<Rightarrow> ret (Some (Some ''wait for driver Pods''))
     | Inr remaining \<Rightarrow>
         if remaining = 0 then ret (Some None)
         else do {
           t \<leftarrow> kube_now ev;
           if t > deadline then ret (Some (Some (''timed out waiting for '' @ show_nat remaining @ '' driver Pods to terminate'')))
           else do {
             n \<leftarrow> kube_step;
             if ke_ctx ev n = Some 0 then ret (Some (Some ''context deadline exceeded''))
             else wait_pods fuel ev releaseName releaseNamespace resourcePrefix deadline } } }"

definition cleanup_slice :: "cluster_env \<Rightarrow> ResourceSlice \<Rightarrow> go_error nop" where
  "cleanup_slice ev item =
     (if rs_Driver item \<noteq> DefaultDriverName then ret None
      else delete_or_fail ev (''delete ResourceSlice '' @ go_quote (rs_Name item)) (delete_slice (rs_Name item)))"

definition cleanup_node :: "cluster_env \<Rightarrow> NodeObject \<Rightarrow> go_error nop" where
  "cleanup_node ev node =
     (if list_ex safety_condition (no_Conditions node)
      then do {
        err \<leftarrow> ClearNodeSafety ev (no_Name node);
        ret (if err \<noteq> None then Some (''clear node safety for '' @ go_quote (no_Name node)) else None) }
      else ret None)"

text \<open>After the Pods are gone: slices, topologies, the fabric object and the safety of the nodes, in this order.\<close>

definition cleanup_nodes :: "cluster_env \<Rightarrow> go_error nop" where
  "cleanup_nodes ev = do {
     nodes \<leftarrow> api_get ev (\<lambda>s. Some (map snd (kn_nodes s)));
     case nodes of
       Inl e \<Rightarrow> ret (Some ''list nodes for safety cleanup'')
     | Inr nodes \<Rightarrow> until_error (cleanup_node ev) nodes }"

definition cleanup_fabric :: "cluster_env \<Rightarrow> go_error nop" where
  "cleanup_fabric ev = do {
     err \<leftarrow> delete_or_fail ev ''delete fabric topology'' delete_fabric;
     case err of Some e \<Rightarrow> ret (Some e) | None \<Rightarrow> cleanup_nodes ev }"

definition cleanup_topologies :: "cluster_env \<Rightarrow> go_error nop" where
  "cleanup_topologies ev = do {
     err \<leftarrow> delete_or_fail ev ''delete node topology objects'' delete_topologies;
     case err of Some e \<Rightarrow> ret (Some e) | None \<Rightarrow> cleanup_fabric ev }"

definition cleanup_objects :: "cluster_env \<Rightarrow> go_error nop" where
  "cleanup_objects ev = do {
     slices \<leftarrow> api_get ev (\<lambda>s. Some (map snd (kn_slices s)));
     case slices of
       Inl e \<Rightarrow> ret (Some ''list ResourceSlices'')
     | Inr slices \<Rightarrow> do {
         err \<leftarrow> until_error (cleanup_slice ev) slices;
         case err of Some e \<Rightarrow> ret (Some e) | None \<Rightarrow> cleanup_topologies ev } }"

definition minute :: duration where "minute = 60 * second"

text \<open>The removal proper: the workloads of the driver, the wait, the objects.\<close>

definition cleanup_waited :: "nat \<Rightarrow> cluster_env \<Rightarrow> string \<Rightarrow> string \<Rightarrow> string \<Rightarrow> go_error option nop" where
  "cleanup_waited fuel ev releaseName releaseNamespace resourcePrefix = do {
     t \<leftarrow> kube_now ev;
     waited \<leftarrow> wait_pods fuel ev releaseName releaseNamespace resourcePrefix (t + minute);
     case waited of
       None \<Rightarrow> ret None
     | Some (Some e) \<Rightarrow> ret (Some (Some e))
     | Some None \<Rightarrow> do { err \<leftarrow> cleanup_objects ev; ret (Some err) } }"

definition cleanup_release :: "nat \<Rightarrow> cluster_env \<Rightarrow> string \<Rightarrow> string \<Rightarrow> string \<Rightarrow> go_error option nop" where
  "cleanup_release fuel ev releaseName releaseNamespace resourcePrefix = do {
     err \<leftarrow> delete_or_fail ev ''delete node DaemonSet'' (delete_daemonset (join_key releaseNamespace (resourcePrefix @ ''-node'')));
     case err of
       Some e \<Rightarrow> ret (Some (Some e))
     | None \<Rightarrow> do {
         err \<leftarrow> delete_or_fail ev ''delete controller Deployment''
           (delete_deployment (join_key releaseNamespace (resourcePrefix @ ''-controller'')));
         case err of
           Some e \<Rightarrow> ret (Some (Some e))
         | None \<Rightarrow> cleanup_waited fuel ev releaseName releaseNamespace resourcePrefix } }"

text \<open>A cluster without the CRD of the workloads answers their listing with not found, which is tolerated.\<close>

definition runCleanup :: "nat \<Rightarrow> cluster_env \<Rightarrow> string \<Rightarrow> string \<Rightarrow> string \<Rightarrow> go_error option nop" where
  "runCleanup fuel ev releaseName releaseNamespace resourcePrefix = do {
     claims \<leftarrow> api_get ev (\<lambda>s. Some (kn_claims s));
     case claims of
       Inl e \<Rightarrow> ret (Some (Some ''list ResourceClaims''))
     | Inr claims \<Rightarrow>
         (case claim_refusal claims of
            Some e \<Rightarrow> ret (Some (Some e))
          | None \<Rightarrow> do {
              workloads \<leftarrow> api_get ev kn_workloads;
              case workloads of
                Inl e \<Rightarrow>
                  if e \<noteq> NotFound then ret (Some (Some ''list TenstorrentWorkloads''))
                  else cleanup_release fuel ev releaseName releaseNamespace resourcePrefix
              | Inr workloads \<Rightarrow>
                  (case workload_refusal workloads of
                     Some e \<Rightarrow> ret (Some (Some e))
                   | None \<Rightarrow> cleanup_release fuel ev releaseName releaseNamespace resourcePrefix) }) }"

end
