(* ===== verification/Node_Safety_Correct.thy ===== *)
theory Node_Safety_Correct
  imports Node_Safety
begin

text \<open>
  What the safety operations on nodes promise (\<open>src/internal/lifecycle/node.go\<close>, \<open>watchdog.go\<close>): a successful
  update publishes the taint and the condition and nothing else, and the watchdog fences exactly the nodes whose agent
  has stopped reporting.  The cycles that follow leave what a failed deletion left behind.
\<close>

section \<open>Publication of the safety of a node\<close>

definition cordoned :: "string \<Rightarrow> cluster \<Rightarrow> bool" where
  "cordoned nodeName s \<longleftrightarrow> (\<exists>node. gm_get (kn_nodes s) nodeName = Some node \<and> list_ex safety_taint (no_Taints node))"

definition reported :: "string \<Rightarrow> Safety \<Rightarrow> cluster \<Rightarrow> bool" where
  "reported nodeName safety s \<longleftrightarrow> (\<exists>node c. gm_get (kn_nodes s) nodeName = Some node \<and>
     acceleratorCondition (no_Conditions node) = Some c \<and> nc_Status c = safety_status safety \<and>
     nc_Reason c = sf_Reason safety \<and> nc_Message c = sf_Message safety)"

lemma set_taint_unsafe: "setSafetyTaint taints True = (ts, b) \<Longrightarrow> list_ex safety_taint ts"
  by (auto simp: setSafetyTaint_def split: if_splits)

lemma set_taint_others: "setSafetyTaint taints unsafe = (ts, b) \<Longrightarrow> filter (\<lambda>t. \<not> safety_taint t) ts = filter (\<lambda>t. \<not> safety_taint t) taints"
proof -
  have "filter (\<lambda>t. \<not> safety_taint t) (remove_taint ts) = filter (\<lambda>t. \<not> safety_taint t) ts" for ts
    by (induction ts) auto
  then show "setSafetyTaint taints unsafe = (ts, b) \<Longrightarrow> ?thesis" by (auto simp: setSafetyTaint_def split: if_splits)
qed

lemma set_taint_safe:
  assumes "setSafetyTaint taints False = (ts, b)" and "length (filter safety_taint taints) \<le> 1"
  shows "\<not> list_ex safety_taint ts"
proof -
  have "length (filter safety_taint ts) \<le> 1 \<Longrightarrow> filter safety_taint (remove_taint ts) = []" for ts
    by (induction ts) (auto split: if_splits)
  from this [OF assms(2)] assms(1) show ?thesis by (auto simp: setSafetyTaint_def list_ex_iff filter_empty_conv split: if_splits)
qed

lemma set_condition:
  "\<exists>c. acceleratorCondition (setSafetyCondition t safety cs) = Some c \<and> nc_Status c = safety_status safety \<and>
     nc_Reason c = sf_Reason safety \<and> nc_Message c = sf_Message safety \<and> nc_LastHeartbeatTime c = t"
  by (induction cs) (auto simp: setSafetyCondition_def acceleratorCondition_def)

lemma set_condition_others:
  "filter (\<lambda>c. \<not> safety_condition c) (setSafetyCondition t safety cs) = filter (\<lambda>c. \<not> safety_condition c) cs"
  by (induction cs) (auto simp: setSafetyCondition_def)

text \<open>The node as a successful call leaves it, from the node \<open>old\<close> that it read.\<close>

definition published_node :: "go_time \<Rightarrow> Safety \<Rightarrow> NodeObject \<Rightarrow> NodeObject" where
  "published_node t safety old = old\<lparr>no_Taints := fst (setSafetyTaint (no_Taints old) (sf_Unsafe safety)),
     no_Conditions := setSafetyCondition t safety (no_Conditions old)\<rparr>"

lemma write_applied: "run_state (api_write ev f) s = (None, s') \<Longrightarrow> \<exists>s1. f s1 = Inr s'"
  by (auto simp: api_write_def split: prod.splits api_outcome.splits sum.splits)

lemma publish_condition_success:
  assumes "run_state (publish_condition ev nodeName safety node) s = (None, s')"
  shows "\<exists>t. gm_get (kn_nodes s') nodeName = Some (node\<lparr>no_Conditions := setSafetyCondition t safety (no_Conditions node)\<rparr>)"
proof -
  obtain t s1 where "run_state (kube_now ev) s = (t, s1)" by fastforce
  then obtain s2 where "write_conditions nodeName node (setSafetyCondition t safety (no_Conditions node)) s2 = Inr s'"
    using assms write_applied [of ev "write_conditions nodeName node (setSafetyCondition t safety (no_Conditions node))" s1 s']
    by (auto simp: publish_condition_def)
  then show ?thesis by (auto simp: write_conditions_def split: option.splits if_splits)
qed

text \<open>Nobody else writes the node.\<close>

definition leaves_node :: "string \<Rightarrow> cluster_env \<Rightarrow> bool" where
  "leaves_node nodeName ev \<longleftrightarrow> (\<forall>n s. gm_get (kn_nodes (ke_others ev n s)) nodeName = gm_get (kn_nodes s) nodeName)"

interpretation same_node: api_invariant "\<lambda>s. leaves_node nodeName ev \<and> gm_get (kn_nodes s) nodeName = x" ev for nodeName x ev
  by unfold_locales (auto simp: leaves_node_def)

lemma UpdateNodeSafety_published:
  assumes "leaves_node nodeName ev" and "run_state (UpdateNodeSafety ev nodeName safety) s = (None, s')"
  obtains t old where "gm_get (kn_nodes s) nodeName = Some old" and "gm_get (kn_nodes s') nodeName = Some (published_node t safety old)"
proof -
  obtain r s1 where get: "run_state (api_get ev (\<lambda>s. gm_get (kn_nodes s) nodeName)) s = (r, s1)" by fastforce
  then obtain old where r: "r = Inr old" using assms(2) by (cases r) (auto simp: UpdateNodeSafety_def)
  have "gm_get (kn_nodes s1) nodeName = Some old"
    using get r by (auto simp: api_get_def split: prod.splits api_outcome.splits option.splits)
  moreover have "gm_get (kn_nodes s1) nodeName = gm_get (kn_nodes s) nodeName"
    using keepsD [OF same_node.k_get _ get] assms(1) by blast
  ultimately have old: "gm_get (kn_nodes s) nodeName = Some old" by simp
  obtain ts b where set: "setSafetyTaint (no_Taints old) (sf_Unsafe safety) = (ts, b)" by fastforce
  have ts: "b \<or> ts = no_Taints old" using set by (auto simp: setSafetyTaint_def split: if_splits)
  obtain s2 where "run_state (publish_condition ev nodeName safety (old\<lparr>no_Taints := ts\<rparr>)) s2 = (None, s')"
  proof (cases b)
    case True
    obtain e s2 where wr: "run_state (api_write ev (write_taints nodeName old ts)) s1 = (e, s2)" by fastforce
    then show thesis using assms(2) get r set True that [of s2] by (cases e) (auto simp: UpdateNodeSafety_def)
  next
    case False
    then show thesis using assms(2) get r set ts that [of s1] by (auto simp: UpdateNodeSafety_def)
  qed
  from publish_condition_success [OF this] old set show thesis by (auto simp: published_node_def intro!: that)
qed

text \<open>
  A successful update of the safety of a node has published it: the condition carries the status, reason and
  message, the taint is there exactly when the node is unsafe (if the node had at most one), and the taints and
  conditions of others are as they were.
\<close>

theorem UpdateNodeSafety_success:
  assumes "leaves_node nodeName ev" and "run_state (UpdateNodeSafety ev nodeName safety) s = (None, s')"
  shows "\<exists>old new. gm_get (kn_nodes s) nodeName = Some old \<and> gm_get (kn_nodes s') nodeName = Some new \<and> reported nodeName safety s' \<and>
    (sf_Unsafe safety \<longrightarrow> cordoned nodeName s') \<and>
    (\<not> sf_Unsafe safety \<and> length (filter safety_taint (no_Taints old)) \<le> 1 \<longrightarrow> \<not> cordoned nodeName s') \<and>
    filter (\<lambda>t. \<not> safety_taint t) (no_Taints new) = filter (\<lambda>t. \<not> safety_taint t) (no_Taints old) \<and>
    filter (\<lambda>c. \<not> safety_condition c) (no_Conditions new) = filter (\<lambda>c. \<not> safety_condition c) (no_Conditions old)"
proof -
  obtain t old where old: "gm_get (kn_nodes s) nodeName = Some old" and new: "gm_get (kn_nodes s') nodeName = Some (published_node t safety old)"
    using UpdateNodeSafety_published [OF assms] by blast
  obtain ts b where set: "setSafetyTaint (no_Taints old) (sf_Unsafe safety) = (ts, b)" by fastforce
  have "reported nodeName safety s'" using new set_condition [of t safety "no_Conditions old"]
    by (auto simp: reported_def published_node_def)
  moreover have "sf_Unsafe safety \<Longrightarrow> list_ex safety_taint ts" "\<not> sf_Unsafe safety \<Longrightarrow> length (filter safety_taint (no_Taints old)) \<le> 1 \<Longrightarrow>
     \<not> list_ex safety_taint ts" using set set_taint_unsafe set_taint_safe by auto
  moreover have "no_Taints (published_node t safety old) = ts" "no_Conditions (published_node t safety old) = setSafetyCondition t safety (no_Conditions old)"
    by (simp_all add: published_node_def set)
  ultimately show ?thesis using old new set_taint_others [OF set] set_condition_others by (auto simp: cordoned_def)
qed

section \<open>Invariants of the watchdog\<close>

text \<open>
  An invariant under the writes of the watchdog to the nodes \<open>M\<close>, which fence them, and under the deletion of the
  slices with names \<open>K\<close>.
\<close>

locale fence_invariant = api_invariant I ev for I :: "cluster \<Rightarrow> bool" and ev :: cluster_env +
  fixes ttl :: duration and M :: "string set" and K :: "string set"
  assumes inv_taints: "I s \<Longrightarrow> m \<in> M \<Longrightarrow> gm_get (kn_nodes s) m = Some node \<Longrightarrow> setSafetyTaint (no_Taints node) True = (ts, b) \<Longrightarrow>
      I (s\<lparr>kn_nodes := gm_put m (node\<lparr>no_Taints := ts\<rparr>) (kn_nodes s)\<rparr>)"
    and inv_report: "I s \<Longrightarrow> m \<in> M \<Longrightarrow> gm_get (kn_nodes s) m = Some node \<Longrightarrow>
      I (s\<lparr>kn_nodes := gm_put m (node\<lparr>no_Conditions := setSafetyCondition (ke_now ev n) (agent_unavailable ttl) (no_Conditions node)\<rparr>) (kn_nodes s)\<rparr>)"
    and inv_slice: "I s \<Longrightarrow> k \<in> K \<Longrightarrow> I (s\<lparr>kn_slices := gm_del k (kn_slices s)\<rparr>)"
    and inv_topology: "I s \<Longrightarrow> m \<in> M \<Longrightarrow> I (s\<lparr>kn_topologies := gm_del m (kn_topologies s)\<rparr>)"
begin

lemma k_publish:
  assumes "m \<in> M"
  shows "keeps I (publish_condition ev m (agent_unavailable ttl) node)"
proof -
  have w: "keeps I (api_write ev (write_conditions m node (setSafetyCondition (ke_now ev n) (agent_unavailable ttl) (no_Conditions node))))" for n
    by (intro k_write) (auto simp: write_conditions_def inv_report assms split: option.splits if_splits)
  have "keeps I (do { n \<leftarrow> kube_step;
      api_write ev (write_conditions m node (setSafetyCondition (ke_now ev n) (agent_unavailable ttl) (no_Conditions node))) })"
    by (intro keeps_intro k_step w)
  then show ?thesis by (simp add: publish_condition_def kube_now_def)
qed

lemma k_update:
  assumes "m \<in> M"
  shows "keeps I (UpdateNodeSafety ev m (agent_unavailable ttl))"
proof -
  have "sf_Unsafe (agent_unavailable ttl)" by (simp add: agent_unavailable_def)
  then show ?thesis unfolding UpdateNodeSafety_def
    by (intro keeps_intro k_get k_write k_publish assms)
      (auto simp: write_taints_def intro: inv_taints [OF _ assms _ sym] split: option.splits if_splits)
qed

lemma k_slices:
  "(\<And>x. x \<in> set slices \<Longrightarrow> rs_Driver x = driver \<Longrightarrow> rs_NodeName x = Some m \<Longrightarrow> rs_Name x \<in> K) \<Longrightarrow>
    keeps I (delete_slices ev driver m slices)"
proof (induction slices)
  case (Cons x slices)
  have "rs_Name x \<in> K \<Longrightarrow> keeps I (api_write ev (delete_slice (rs_Name x)))"
    by (intro k_write) (auto simp: delete_slice_def inv_slice split: if_splits)
  with Cons show ?case by (auto intro!: keeps_intro)
qed (simp add: keeps_intro)

lemma k_fence:
  assumes "m \<in> M" and "\<And>x. x \<in> set slices \<Longrightarrow> rs_Driver x = driver \<Longrightarrow> rs_NodeName x = Some m \<Longrightarrow> rs_Name x \<in> K"
  shows "keeps I (fence_node ev b driver ttl slices m)"
  unfolding fence_node_def
  by (intro keeps_intro k_update k_slices k_write assms)
    (auto simp: delete_topology_def inv_topology assms(1) split: if_splits)

lemma k_fence_nodes:
  assumes "\<And>node. node \<in> set nodes \<Longrightarrow> agent_stale ttl t node \<Longrightarrow> no_Name node \<in> M"
    and "\<And>x m. x \<in> set slices \<Longrightarrow> rs_Driver x = driver \<Longrightarrow> rs_NodeName x = Some m \<Longrightarrow> m \<in> M \<Longrightarrow> rs_Name x \<in> K"
  shows "keeps I (fence_nodes ev b driver ttl t slices nodes)"
  using assms(1)
proof (induction nodes)
  case (Cons node nodes)
  have "agent_stale ttl t node \<Longrightarrow> keeps I (fence_node ev b driver ttl slices (no_Name node))"
    using Cons.prems [of node] assms(2) by (intro k_fence) auto
  with Cons show ?case by (auto intro!: keeps_intro)
qed (simp add: keeps_intro)

end

definition quiet_cluster :: "cluster_env \<Rightarrow> bool" where
  "quiet_cluster ev \<longleftrightarrow> (\<forall>n s. ke_others ev n s = s)"

definition fenced_off :: "duration \<Rightarrow> string \<Rightarrow> cluster \<Rightarrow> bool" where
  "fenced_off ttl nodeName s \<longleftrightarrow> cordoned nodeName s \<and> reported nodeName (agent_unavailable ttl) s"

interpretation stays_fenced: fence_invariant "\<lambda>s. quiet_cluster ev \<and> fenced_off ttl n s" ev ttl UNIV UNIV for ev ttl n
proof unfold_locales
  fix s m node ts b
  assume a: "quiet_cluster ev \<and> fenced_off ttl n s" and o: "gm_get (kn_nodes s) m = Some node" "setSafetyTaint (no_Taints node) True = (ts, b)"
  then show "quiet_cluster ev \<and> fenced_off ttl n (s\<lparr>kn_nodes := gm_put m (node\<lparr>no_Taints := ts\<rparr>) (kn_nodes s)\<rparr>)"
    using set_taint_unsafe [OF o(2)] by (auto simp: fenced_off_def cordoned_def reported_def)
next
  fix s m node k
  assume a: "quiet_cluster ev \<and> fenced_off ttl n s" and o: "gm_get (kn_nodes s) m = Some node"
  then show "quiet_cluster ev \<and> fenced_off ttl n
      (s\<lparr>kn_nodes := gm_put m (node\<lparr>no_Conditions := setSafetyCondition (ke_now ev k) (agent_unavailable ttl) (no_Conditions node)\<rparr>) (kn_nodes s)\<rparr>)"
    using set_condition [of "ke_now ev k" "agent_unavailable ttl" "no_Conditions node"] by (auto simp: fenced_off_def cordoned_def reported_def)
qed (auto simp: quiet_cluster_def fenced_off_def cordoned_def reported_def)

interpretation stays_gone: fence_invariant "\<lambda>s. quiet_cluster ev \<and> gm_get (kn_slices s) k = None" ev ttl UNIV UNIV for ev ttl k
  by unfold_locales (auto simp: quiet_cluster_def)

interpretation stays_removed: fence_invariant "\<lambda>s. quiet_cluster ev \<and> gm_get (kn_topologies s) n = None" ev ttl UNIV UNIV for ev ttl n
  by unfold_locales (auto simp: quiet_cluster_def)

interpretation unfenced: fence_invariant
  "\<lambda>s. quiet_cluster ev \<and> gm_get (kn_nodes s) n = x \<and> gm_get (kn_topologies s) n = y" ev ttl "- {n}" UNIV for ev ttl n x y
  by unfold_locales (auto simp: quiet_cluster_def)

interpretation kept_slice: fence_invariant "\<lambda>s. quiet_cluster ev \<and> gm_get (kn_slices s) k = x" ev ttl "M" "- {k}" for ev ttl k x M
  by unfold_locales (auto simp: quiet_cluster_def)


section \<open>The watchdog fences exactly the stale nodes\<close>

lemma join_nil: "(case e of None \<Rightarrow> [] | Some x \<Rightarrow> [x]) = [] \<longleftrightarrow> e = None"
  by (cases e) auto

lemma delete_slices_gone:
  assumes "quiet_cluster ev" and "run_state (delete_slices ev driver m slices) s = ([], s')"
    and "x \<in> set slices" and "rs_Driver x = driver" and "rs_NodeName x = Some m"
  shows "gm_get (kn_slices s') (rs_Name x) = None"
  using assms(2,3)
proof (induction slices arbitrary: s)
  case (Cons y slices)
  show ?case
  proof (cases "rs_Driver y = driver \<and> rs_NodeName y = Some m")
    case False
    then show ?thesis using Cons assms(4,5) by auto
  next
    case True
    obtain e s1 where wr: "run_state (api_write ev (delete_slice (rs_Name y))) s = (e, s1)" by fastforce
    obtain es s2 where rest: "run_state (delete_slices ev driver m slices) s1 = (es, s2)" by fastforce
    have ok: "e = None" "es = []" "s2 = s'" using Cons.prems(1) True wr rest by (cases e; simp)+
    have "gm_get (kn_slices s1) (rs_Name y) = None"
      using write_applied [of ev "delete_slice (rs_Name y)" s s1] wr ok(1) by (auto simp: delete_slice_def split: if_splits)
    moreover have "keeps (\<lambda>s. quiet_cluster ev \<and> gm_get (kn_slices s) (rs_Name y) = None) (delete_slices ev driver m slices)"
      by (rule stays_gone.k_slices) simp
    ultimately have "gm_get (kn_slices s') (rs_Name y) = None" using keepsD [of _ _ s1 es s2] rest ok assms(1) by blast
    then show ?thesis using Cons.IH [of s1] Cons.prems(2) rest ok by auto
  qed
qed simp

definition withdrawn :: "string \<Rightarrow> duration \<Rightarrow> string \<Rightarrow> ResourceSlice list \<Rightarrow> cluster \<Rightarrow> bool" where
  "withdrawn driver ttl m slices s \<longleftrightarrow> fenced_off ttl m s \<and> gm_get (kn_topologies s) m = None \<and>
     (\<forall>x \<in> set slices. rs_Driver x = driver \<and> rs_NodeName x = Some m \<longrightarrow> gm_get (kn_slices s) (rs_Name x) = None)"

lemma withdrawn_kept:
  assumes "quiet_cluster ev" and "withdrawn driver ttl m slices s" and "run_state (fence_nodes ev b driver ttl t slices' nodes) s = (r, s')"
  shows "withdrawn driver ttl m slices s'"
proof -
  have "fenced_off ttl m s'" using keepsD [OF stays_fenced.k_fence_nodes _ assms(3)] assms(1,2) by (simp add: withdrawn_def)
  moreover have "gm_get (kn_topologies s') m = None" using keepsD [OF stays_removed.k_fence_nodes _ assms(3)] assms(1,2) by (simp add: withdrawn_def)
  moreover have "gm_get (kn_slices s') k = None" if "gm_get (kn_slices s) k = None" for k
    using keepsD [OF stays_gone.k_fence_nodes _ assms(3)] assms(1) that by simp
  ultimately show ?thesis using assms(2) by (simp add: withdrawn_def)
qed

lemma fence_node_withdraws:
  assumes "quiet_cluster ev" and "run_state (fence_node ev True driver ttl slices m) s = ([], s')"
  shows "withdrawn driver ttl m slices s'"
proof -
  let ?u = "agent_unavailable ttl"
  obtain e1 s1 where u: "run_state (UpdateNodeSafety ev m ?u) s = (e1, s1)" by fastforce
  obtain e2 s2 where d: "run_state (delete_slices ev driver m slices) s1 = (e2, s2)" by fastforce
  obtain e3 where p: "run_state (api_write ev (delete_topology m)) s2 = (e3, s')" 
    using assms(2) u d by (auto simp: fence_node_def split: prod.splits)
  have ok: "e1 = None" "e2 = []" "e3 = None \<or> e3 = Some NotFound"
    using assms(2) u d p by (auto simp: fence_node_def join_nil split: option.splits if_splits)
  have "leaves_node m ev" using assms(1) by (simp add: leaves_node_def quiet_cluster_def)
  then obtain t old where "gm_get (kn_nodes s1) m = Some (published_node t ?u old)"
    using u ok(1) by (auto elim: UpdateNodeSafety_published)
  then have "fenced_off ttl m s1"
    using set_condition [of t ?u "no_Conditions old"] set_taint_unsafe [OF prod.collapse [symmetric]]
    by (auto simp: fenced_off_def cordoned_def reported_def published_node_def agent_unavailable_def)
  then have "fenced_off ttl m s2" using keepsD [OF stays_fenced.k_slices _ d, of ttl m] assms(1) by simp
  moreover have "gm_get (kn_slices s2) (rs_Name x) = None" if "x \<in> set slices" "rs_Driver x = driver" "rs_NodeName x = Some m" for x
    using delete_slices_gone [OF assms(1) _ that] d ok(2) by blast
  moreover obtain s3 where "run_state (api_call ev) s2 = (fst (run_state (api_call ev) s2), s3)" "kn_nodes s3 = kn_nodes s2" "kn_slices s3 = kn_slices s2"
    using assms(1) by (auto simp: api_call_def kube_step_def quiet_cluster_def)
  then have "kn_nodes s' = kn_nodes s2 \<and> kn_slices s' = kn_slices s2 \<and> gm_get (kn_topologies s') m = None"
    using p ok(3) assms(1) by (auto simp: api_write_def delete_topology_def split: api_outcome.splits sum.splits if_splits prod.splits)
  ultimately show ?thesis by (simp add: withdrawn_def fenced_off_def cordoned_def reported_def)
qed


lemma fence_nodes_withdraw:
  assumes "quiet_cluster ev" and "run_state (fence_nodes ev True driver ttl t slices nodes) s = ((n, []), s')"
    and "node \<in> set nodes" and "agent_stale ttl t node"
  shows "withdrawn driver ttl (no_Name node) slices s'"
  using assms(2,3)
proof (induction nodes arbitrary: n s)
  case (Cons x nodes)
  show ?case
  proof (cases "agent_stale ttl t x")
    case False
    then show ?thesis using Cons assms(4) by auto
  next
    case True
    obtain es s1 where f: "run_state (fence_node ev True driver ttl slices (no_Name x)) s = (es, s1)" by fastforce
    obtain m rest s2 where r: "run_state (fence_nodes ev True driver ttl t slices nodes) s1 = ((m, rest), s2)" by (metis prod.collapse)
    have ok: "es = []" "rest = []" "s2 = s'" using Cons.prems(1) True f r by auto
    have "withdrawn driver ttl (no_Name x) slices s'"
      using fence_node_withdraws [OF assms(1)] withdrawn_kept [OF assms(1) _ r] f ok by simp
    then show ?thesis using Cons.IH [of s1 m] Cons.prems(2) r ok by auto
  qed
qed simp

definition cluster_wf :: "cluster \<Rightarrow> bool" where
  "cluster_wf s \<longleftrightarrow> gm_wf (kn_nodes s) \<and> list_all (\<lambda>(k, n). no_Name n = k) (kn_nodes s) \<and>
     gm_wf (kn_slices s) \<and> list_all (\<lambda>(k, x). rs_Name x = k) (kn_slices s)"

text \<open>What the watchdog leaves of a node: nothing to schedule on, and everything of an agent that reports.\<close>

definition capacity_withdrawn :: "string \<Rightarrow> duration \<Rightarrow> string \<Rightarrow> cluster \<Rightarrow> bool" where
  "capacity_withdrawn driver ttl m s \<longleftrightarrow> fenced_off ttl m s \<and> gm_get (kn_topologies s) m = None \<and>
     (\<forall>k x. gm_get (kn_slices s) k = Some x \<longrightarrow> rs_Driver x = driver \<longrightarrow> rs_NodeName x \<noteq> Some m)"

definition untouched :: "string \<Rightarrow> cluster \<Rightarrow> cluster \<Rightarrow> bool" where
  "untouched m s s' \<longleftrightarrow> gm_get (kn_nodes s') m = gm_get (kn_nodes s) m \<and> gm_get (kn_topologies s') m = gm_get (kn_topologies s) m \<and>
     (\<forall>k x. gm_get (kn_slices s) k = Some x \<longrightarrow> rs_NodeName x = Some m \<longrightarrow> gm_get (kn_slices s') k = Some x)"

interpretation fewer: fence_invariant "\<lambda>s. quiet_cluster ev \<and> gm_get (kn_slices s) \<subseteq>\<^sub>m f" ev ttl UNIV UNIV for ev ttl f
  by unfold_locales (auto simp: quiet_cluster_def map_le_def dom_def split: if_splits)

lemma fence_nodes_exact:
  assumes "quiet_cluster ev" and "cluster_wf s" and "gm_get (kn_nodes s) m = Some node"
    and "run_state (fence_nodes ev True driver ttl t (map snd (kn_slices s)) (map snd (kn_nodes s))) s = ((n, errs), s')"
  shows "agent_stale ttl t node \<Longrightarrow> errs = [] \<Longrightarrow> capacity_withdrawn driver ttl m s'"
    and "\<not> agent_stale ttl t node \<Longrightarrow> untouched m s s'"
proof -
  let ?slices = "map snd (kn_slices s)" and ?nodes = "map snd (kn_nodes s)"
  have mem: "node \<in> set ?nodes" using gm_get_SomeD [OF assms(3)] by force
  have name: "no_Name node = m" using gm_get_SomeD [OF assms(3)] assms(2) by (auto simp: cluster_wf_def list_all_iff)
  have sl: "x \<in> set ?slices \<and> rs_Name x = k" if "gm_get (kn_slices s) k = Some x" for k x
    using gm_get_SomeD [OF that] assms(2) by (force simp: cluster_wf_def list_all_iff)
  show "capacity_withdrawn driver ttl m s'" if st: "agent_stale ttl t node" and ok: "errs = []"
  proof -
    have w: "withdrawn driver ttl m ?slices s'" using fence_nodes_withdraw [OF assms(1) _ mem st] assms(4) ok name by blast
    have "gm_get (kn_slices s') \<subseteq>\<^sub>m gm_get (kn_slices s)"
      using keepsD [OF fewer.k_fence_nodes _ assms(4)] assms(1) by simp
    then have "gm_get (kn_slices s) k = Some x" if "gm_get (kn_slices s') k = Some x" for k x
      using that by (metis domI map_le_def)
    then show ?thesis using w sl unfolding capacity_withdrawn_def withdrawn_def by fastforce
  qed
  show "untouched m s s'" if fresh: "\<not> agent_stale ttl t node"
  proof -
    have stale: "no_Name x \<in> - {m}" if nx: "x \<in> set ?nodes" and sx: "agent_stale ttl t x" for x
    proof -
      obtain k where k: "(k, x) \<in> set (kn_nodes s)" using nx by force
      then have "gm_get (kn_nodes s) k = Some x" "no_Name x = k" using assms(2) by (auto simp: cluster_wf_def gm_get_Some_iff list_all_iff)
      then show ?thesis using assms(3) fresh sx by auto
    qed
    have "gm_get (kn_nodes s') m = gm_get (kn_nodes s) m \<and> gm_get (kn_topologies s') m = gm_get (kn_topologies s) m"
      using keepsD [OF unfenced.k_fence_nodes _ assms(4)] stale assms(1) by auto
    moreover have "gm_get (kn_slices s') k = Some x" if "gm_get (kn_slices s) k = Some x" "rs_NodeName x = Some m" for k x
    proof -
      have "rs_Name y \<in> - {k}" if y: "y \<in> set ?slices" "rs_Driver y = driver" "rs_NodeName y = Some q" "q \<in> - {m}" for y q
      proof -
        obtain j where j: "(j, y) \<in> set (kn_slices s)" using y(1) by force
        then have "gm_get (kn_slices s) j = Some y" "rs_Name y = j" using assms(2) by (auto simp: cluster_wf_def gm_get_Some_iff list_all_iff)
        then show ?thesis using \<open>gm_get (kn_slices s) k = Some x\<close> \<open>rs_NodeName x = Some m\<close> y(3,4) by auto
      qed
      then show ?thesis using keepsD [OF kept_slice.k_fence_nodes [OF stale] _ assms(4)] assms(1) that(1) by auto
    qed
    ultimately show ?thesis by (simp add: untouched_def)
  qed
qed


lemma quiet_get:
  assumes "quiet_cluster ev" and "run_state (api_get ev (\<lambda>s. Some (f s))) s = (r, s1)" 
  shows "\<exists>k. s1 = s\<lparr>kw_step := k\<rparr>" and "r = Inr x \<Longrightarrow> x = f s1"
  using assms by (auto simp: api_get_def api_call_def kube_step_def quiet_cluster_def split: api_outcome.splits)

lemma untouched_refl: "untouched m s (s\<lparr>kw_step := k\<rparr>)"
  by (simp add: untouched_def)

lemma FenceStaleAgents_ttl:
  assumes "ttl \<le> 0" and "run_state (FenceStaleAgents ev b driver ttl t) s = ((n, errs), s')"
  shows "errs \<noteq> [] \<and> s' = s"
  using assms by (auto simp: FenceStaleAgents_def)

lemma FenceStaleAgents_stale:
  assumes "quiet_cluster ev" and "cluster_wf s" and "gm_get (kn_nodes s) m = Some node"
    and "run_state (FenceStaleAgents ev True driver ttl t) s = ((n, errs), s')"
  shows "(agent_stale ttl t node \<longrightarrow> errs = [] \<longrightarrow> capacity_withdrawn driver ttl m s') \<and>
    (\<not> agent_stale ttl t node \<longrightarrow> untouched m s s')"
proof (cases "ttl \<le> 0")
  case True
  then show ?thesis using assms(4) untouched_refl [of m s "kw_step s"] by (auto simp: FenceStaleAgents_def)
next
  case False
  obtain r1 s1 where n: "run_state (api_get ev (\<lambda>s. Some (map snd (kn_nodes s)))) s = (r1, s1)" by fastforce
  obtain k1 where k1: "s1 = s\<lparr>kw_step := k1\<rparr>" using quiet_get(1) [OF assms(1) n] by blast
  show ?thesis
  proof (cases r1)
    case (Inl e)
    then show ?thesis using False assms(4) n k1 untouched_refl by (auto simp: FenceStaleAgents_def)
  next
    case (Inr nodes)
    have nodes: "nodes = map snd (kn_nodes s)" using quiet_get(2) [OF assms(1) n Inr] k1 by simp
    obtain r2 s2 where sl: "run_state (api_get ev (\<lambda>s. Some (map snd (kn_slices s)))) s1 = (r2, s2)" by fastforce
    obtain k2 where k2: "s2 = s\<lparr>kw_step := k2\<rparr>" using quiet_get(1) [OF assms(1) sl] k1 by auto
    show ?thesis
    proof (cases r2)
      case (Inl e)
      then show ?thesis using False assms(4) n Inr sl k2 untouched_refl by (auto simp: FenceStaleAgents_def)
    next
      case 2: (Inr slices)
      have "slices = map snd (kn_slices s)" using quiet_get(2) [OF assms(1) sl 2] k2 by simp
      then have run: "run_state (fence_nodes ev True driver ttl t (map snd (kn_slices s2)) (map snd (kn_nodes s2))) s2 = ((n, errs), s')"
        using False assms(4) n Inr sl 2 nodes k2 by (simp add: FenceStaleAgents_def)
      have "cluster_wf s2" "gm_get (kn_nodes s2) m = Some node" using assms(2,3) k2 by (simp_all add: cluster_wf_def)
      note ex = fence_nodes_exact [OF assms(1) this run]
      have "untouched m s2 s' = untouched m s s'" using k2 by (simp add: untouched_def)
      then show ?thesis using ex by blast
    qed
  qed
qed

text \<open>
  An agent that has stopped reporting: the first condition of the driver has a heartbeat, and it is older than the limit.
\<close>

definition silent :: "duration \<Rightarrow> go_time \<Rightarrow> NodeObject \<Rightarrow> bool" where
  "silent ttl t node \<longleftrightarrow> (\<exists>c cs. filter (\<lambda>c. nc_Type c = ''TenstorrentAcceleratorsHealthy'') (no_Conditions node) = c # cs \<and>
     nc_LastHeartbeatTime c \<noteq> 0 \<and> ttl < t - nc_LastHeartbeatTime c)"

lemma find_filter: "find P xs = (case filter P xs of [] \<Rightarrow> None | x # _ \<Rightarrow> Some x)"
  by (induction xs) auto

lemma silent_stale: "0 < ttl \<Longrightarrow> ttl < 2 ^ 63 - 1 \<Longrightarrow> agent_stale ttl t node \<longleftrightarrow> silent ttl t node"
  by (auto simp: agent_stale_def silent_def acceleratorCondition_def find_filter NodeConditionType_def time_sub_le_iff split: list.splits)

text \<open>
  C10: the watchdog fences exactly the agents that have stopped reporting.  A cycle without an error has tainted every
  node whose heartbeat has expired, reported its accelerators as unavailable and removed its slices and its
  topology, and a cycle, with errors or without, leaves the node, the slices and the topology of every other node alone.
\<close>

theorem FenceStaleAgents_exact:
  assumes "quiet_cluster ev" and "cluster_wf s" and "gm_get (kn_nodes s) m = Some node" and "ttl < 2 ^ 63 - 1"
    and "run_state (FenceStaleAgents ev True driver ttl t) s = ((n, errs), s')"
  shows "(silent ttl t node \<longrightarrow> errs = [] \<longrightarrow> capacity_withdrawn driver ttl m s') \<and>
    (\<not> silent ttl t node \<longrightarrow> untouched m s s')"
  using FenceStaleAgents_stale [OF assms(1-3,5)] silent_stale [OF _ assms(4), of t node] FenceStaleAgents_ttl [OF _ assms(5)]
    untouched_refl [of m s "kw_step s"]
  by (cases "ttl \<le> 0") auto

section \<open>A run\<close>

definition sample_condition :: "go_time \<Rightarrow> NodeCondition" where
  "sample_condition t = \<lparr>nc_Type = NodeConditionType, nc_Status = ConditionTrue, nc_Reason = ''DevicesHealthy'', nc_Message = [],
     nc_LastHeartbeatTime = t, nc_LastTransitionTime = t\<rparr>"

definition sample_cluster :: cluster where
  "sample_cluster = \<lparr>kw_step = 0, kn_nodes = [(''n1'', \<lparr>no_Name = ''n1'', no_Taints = [], no_Conditions = [sample_condition 1]\<rparr>),
      (''n2'', \<lparr>no_Name = ''n2'', no_Taints = [], no_Conditions = [sample_condition 150]\<rparr>)],
     kn_slices = [(''s1'', \<lparr>rs_Name = ''s1'', rs_Driver = ''d'', rs_NodeName = Some ''n1'', rs_PoolName = ''n1'', rs_Generation = 1,
       rs_ResourceSliceCount = 1, rs_Devices = []\<rparr>)], kn_topologies = [], kn_fabric = True,
     kn_claims = [], kn_workloads = Some [], kn_daemonsets = [], kn_deployments = [], kn_pods = []\<rparr>"

text \<open>Every call but the ones with the numbers \<open>failing\<close> succeeds.\<close>

definition sample_api :: "nat list \<Rightarrow> cluster_env" where
  "sample_api failing = \<lparr>ke_now = \<lambda>_. 200, ke_api = \<lambda>n. if n \<in> set failing then ApiFail ''timeout'' else ApiOk, ke_others = \<lambda>_ s. s,
     ke_ctx = \<lambda>_. None\<rparr>"

lemma sample_api_now: "run_state (kube_now (sample_api failing)) s = (200, s\<lparr>kw_step := Suc (kw_step s)\<rparr>)"
  by (simp add: kube_now_def kube_step_def sample_api_def)

lemma sample_api_get: "run_state (api_get (sample_api failing) sel) s =
    (if kw_step s \<in> set failing then Inl (Failure ''timeout'')
     else (case sel (s\<lparr>kw_step := Suc (kw_step s)\<rparr>) of None \<Rightarrow> Inl NotFound | Some x \<Rightarrow> Inr x), s\<lparr>kw_step := Suc (kw_step s)\<rparr>)"
  by (simp add: api_get_def api_call_def kube_step_def sample_api_def)

lemma sample_api_write: "run_state (api_write (sample_api failing) f) s =
    (if kw_step s \<in> set failing then (Some (Failure ''timeout''), s\<lparr>kw_step := Suc (kw_step s)\<rparr>)
     else (case f (s\<lparr>kw_step := Suc (kw_step s)\<rparr>) of Inl e \<Rightarrow> (Some e, s\<lparr>kw_step := Suc (kw_step s)\<rparr>) | Inr s' \<Rightarrow> (None, s')))"
  by (simp add: api_write_def api_call_def kube_step_def sample_api_def split: sum.split)

lemmas sample_api_run = sample_api_now sample_api_get sample_api_write

lemma sample_api_quiet: "quiet_cluster (sample_api failing)" "leaves_node m (sample_api failing)"
  by (simp_all add: quiet_cluster_def leaves_node_def sample_api_def)

lemmas fence_defs = FenceStaleAgents_def fence_node_def UpdateNodeSafety_def publish_condition_def setSafetyTaint_def
  write_taints_def write_conditions_def delete_slice_def delete_topology_def agent_stale_def acceleratorCondition_def time_sub_def
  setSafetyCondition_def agent_unavailable_def

lemma sample_fenced: "\<exists>s'. run_state (FenceStaleAgents (sample_api []) True ''d'' 120 200) sample_cluster = ((1, []), s')"
  by (simp add: fence_defs sample_cluster_def sample_condition_def sample_api_run gm_get_Cons gm_put_def gm_del_def numeral_eq_Suc)

lemma sample_cluster_ok: "cluster_wf sample_cluster"
  by (simp add: cluster_wf_def sample_cluster_def gm_wf_Cons gm_get_Cons)

theorem FenceStaleAgents_exact_witness:
  "\<exists>s'. run_state (FenceStaleAgents (sample_api []) True ''d'' 120 200) sample_cluster = ((1, []), s') \<and>
     capacity_withdrawn ''d'' 120 ''n1'' s' \<and> untouched ''n2'' sample_cluster s'"
proof -
  obtain s' where run: "run_state (FenceStaleAgents (sample_api []) True ''d'' 120 200) sample_cluster = ((1, []), s')"
    using sample_fenced by blast
  obtain a b where nodes: "gm_get (kn_nodes sample_cluster) ''n1'' = Some a" "silent 120 200 a"
    "gm_get (kn_nodes sample_cluster) ''n2'' = Some b" "\<not> silent 120 200 b"
    by (simp add: sample_cluster_def gm_get_Cons silent_def sample_condition_def NodeConditionType_def)
  show ?thesis using run nodes(2,4) FenceStaleAgents_exact [OF sample_api_quiet(1) sample_cluster_ok nodes(1) _ run]
    FenceStaleAgents_exact [OF sample_api_quiet(1) sample_cluster_ok nodes(3) _ run] by simp
qed

theorem UpdateNodeSafety_success_witness:
  "\<exists>s'. run_state (UpdateNodeSafety (sample_api []) ''n1'' (agent_unavailable 120)) sample_cluster = (None, s') \<and> cordoned ''n1'' s'"
proof -
  obtain s' where run: "run_state (UpdateNodeSafety (sample_api []) ''n1'' (agent_unavailable 120)) sample_cluster = (None, s')"
    by (simp add: fence_defs sample_cluster_def sample_condition_def sample_api_run gm_get_Cons gm_put_def)
  then show ?thesis using UpdateNodeSafety_success [OF sample_api_quiet(2) run] by (auto simp: agent_unavailable_def)
qed

section \<open>After a failed deletion\<close>

text \<open>A cluster stays well-formed, and a report of the watchdog carries the time at which it was written.\<close>

lemma names_get: "gm_wf m \<Longrightarrow> list_all (\<lambda>(k, x). f x = k) m \<longleftrightarrow> (\<forall>k x. gm_get m k = Some x \<longrightarrow> f x = k)"
  by (auto simp: list_all_iff gm_get_Some_iff)

lemma cluster_wf_iff:
  "cluster_wf s \<longleftrightarrow> gm_wf (kn_nodes s) \<and> (\<forall>k n. gm_get (kn_nodes s) k = Some n \<longrightarrow> no_Name n = k) \<and>
     gm_wf (kn_slices s) \<and> (\<forall>k x. gm_get (kn_slices s) k = Some x \<longrightarrow> rs_Name x = k)"
  using names_get [of "kn_nodes s" no_Name] names_get [of "kn_slices s" rs_Name] by (auto simp: cluster_wf_def)

interpretation wf: fence_invariant "\<lambda>s. quiet_cluster ev \<and> cluster_wf s" ev ttl UNIV UNIV for ev ttl
  by unfold_locales (auto simp: quiet_cluster_def cluster_wf_iff)

definition heard_since :: "go_time \<Rightarrow> duration \<Rightarrow> string \<Rightarrow> cluster \<Rightarrow> bool" where
  "heard_since t ttl m s \<longleftrightarrow> (\<forall>node c. gm_get (kn_nodes s) m = Some node \<longrightarrow> acceleratorCondition (no_Conditions node) = Some c \<longrightarrow>
     nc_Reason c = sf_Reason (agent_unavailable ttl) \<longrightarrow> t \<le> nc_LastHeartbeatTime c)"

interpretation heard: fence_invariant "\<lambda>s. quiet_cluster ev \<and> (\<forall>n. t \<le> ke_now ev n) \<and> heard_since t ttl m s" ev ttl UNIV UNIV
  for ev t ttl m
proof unfold_locales
  fix s q node k
  assume a: "quiet_cluster ev \<and> (\<forall>n. t \<le> ke_now ev n) \<and> heard_since t ttl m s" and o: "gm_get (kn_nodes s) q = Some node"
  then show "quiet_cluster ev \<and> (\<forall>n. t \<le> ke_now ev n) \<and> heard_since t ttl m
      (s\<lparr>kn_nodes := gm_put q (node\<lparr>no_Conditions := setSafetyCondition (ke_now ev k) (agent_unavailable ttl) (no_Conditions node)\<rparr>) (kn_nodes s)\<rparr>)"
    using set_condition [of "ke_now ev k" "agent_unavailable ttl" "no_Conditions node"] by (auto simp: heard_since_def)
qed (auto simp: quiet_cluster_def heard_since_def)

text \<open>A successful list call, and what a cycle keeps when every write of a fencing keeps it.\<close>

lemma keeps_FenceStaleAgents:
  assumes "\<And>nodes slices. keeps I (fence_nodes ev b driver ttl t slices nodes)" and "\<And>f :: cluster \<Rightarrow> NodeObject list option. keeps I (api_get ev f)"
    and "\<And>f :: cluster \<Rightarrow> ResourceSlice list option. keeps I (api_get ev f)"
  shows "keeps I (FenceStaleAgents ev b driver ttl t)"
  unfolding FenceStaleAgents_def by (intro keeps_intro assms)

lemma keeps_cycle_wf: "keeps (\<lambda>s. quiet_cluster ev \<and> cluster_wf s) (FenceStaleAgents ev b driver ttl t)"
  by (intro keeps_FenceStaleAgents wf.k_fence_nodes wf.k_get) simp_all

lemma keeps_cycle_heard:
  "keeps (\<lambda>s. quiet_cluster ev \<and> (\<forall>n. t \<le> ke_now ev n) \<and> heard_since t ttl m s) (FenceStaleAgents ev b driver ttl t')"
  by (intro keeps_FenceStaleAgents heard.k_fence_nodes heard.k_get) simp_all

text \<open>
  C37: a deletion that failed is not retried in time.  The watchdog writes the condition of a lost node, with a
  fresh heartbeat, before it deletes the slices and the topology of the node.  So when a cycle has newly reported
  the agent of a node as unavailable, whatever else of the fencing failed, a cycle less than the limit later takes
  the agent for one that reports: it leaves the node, its topology and every slice that is still there alone.
\<close>

theorem fence_retry_skipped:
  assumes "quiet_cluster ev" and "quiet_cluster ev'" and "cluster_wf s" and "ttl < 2 ^ 63 - 1"
    and "\<And>n. t \<le> ke_now ev n" and "\<And>c. acceleratorCondition (no_Conditions node) = Some c \<Longrightarrow>
      nc_Reason c \<noteq> ''AgentUnavailable''" and "gm_get (kn_nodes s) m = Some node"
    and "run_state (FenceStaleAgents ev True driver ttl t) s = ((n, errs), s1)" and "reported m (agent_unavailable ttl) s1"
    and "t' \<le> t + ttl" and "run_state (FenceStaleAgents ev' True driver ttl t') s1 = ((n', errs'), s2)"
  shows "untouched m s1 s2"
proof -
  have "heard_since t ttl m s" using assms(6,7) by (auto simp: heard_since_def agent_unavailable_def)
  then have "heard_since t ttl m s1" using keepsD [OF keeps_cycle_heard _ assms(8)] assms(1,5) by blast
  moreover obtain new c where new: "gm_get (kn_nodes s1) m = Some new" "acceleratorCondition (no_Conditions new) = Some c"
    "nc_Reason c = sf_Reason (agent_unavailable ttl)" using assms(9) by (auto simp: reported_def)
  ultimately have beat: "t \<le> nc_LastHeartbeatTime c" by (auto simp: heard_since_def)
  have "\<not> silent ttl t' new"
    using new(2) beat assms(10) by (auto simp: silent_def acceleratorCondition_def find_filter NodeConditionType_def)
  moreover have "cluster_wf s1" using keepsD [OF keeps_cycle_wf _ assms(8)] assms(1,3) by blast
  ultimately show ?thesis using FenceStaleAgents_stale [OF assms(2) _ new(1) assms(11)] silent_stale [OF _ assms(4), of t' new]
    FenceStaleAgents_ttl [OF _ assms(11)] untouched_refl [of m s1 "kw_step s1"] by (cases "ttl \<le> 0") auto
qed

lemma sample_retry:
  "\<exists>s1 s2. run_state (FenceStaleAgents (sample_api [6]) True ''d'' 120 200) sample_cluster = ((1, [Failure ''timeout'']), s1) \<and>
     run_state (FenceStaleAgents (sample_api []) True ''d'' 120 230) s1 = ((0, []), s2) \<and>
     reported ''n1'' (agent_unavailable 120) s1 \<and> map_option rs_NodeName (gm_get (kn_slices s1) ''s1'') = Some (Some ''n1'')"
  by (simp add: fence_defs sample_cluster_def sample_condition_def sample_api_run gm_get_Cons gm_put_def gm_del_def numeral_eq_Suc
    reported_def safety_status_def)

theorem fence_retry_skipped_witness:
  "\<exists>s1 s2. run_state (FenceStaleAgents (sample_api [6]) True ''d'' 120 200) sample_cluster = ((1, [Failure ''timeout'']), s1) \<and>
     run_state (FenceStaleAgents (sample_api []) True ''d'' 120 230) s1 = ((0, []), s2) \<and>
     untouched ''n1'' s1 s2 \<and> map_option rs_NodeName (gm_get (kn_slices s2) ''s1'') = Some (Some ''n1'')"
proof -
  obtain s1 s2 where run: "run_state (FenceStaleAgents (sample_api [6]) True ''d'' 120 200) sample_cluster = ((1, [Failure ''timeout'']), s1)"
    "run_state (FenceStaleAgents (sample_api []) True ''d'' 120 230) s1 = ((0, []), s2)" "reported ''n1'' (agent_unavailable 120) s1"
    "map_option rs_NodeName (gm_get (kn_slices s1) ''s1'') = Some (Some ''n1'')" using sample_retry by blast
  obtain node where node: "gm_get (kn_nodes sample_cluster) ''n1'' = Some node" "no_Conditions node = [sample_condition 1]"
    by (simp add: sample_cluster_def gm_get_Cons)
  have first: "nc_Reason (sample_condition 1) \<noteq> ''AgentUnavailable''" "acceleratorCondition (no_Conditions node) = Some (sample_condition 1)"
    by (simp_all add: sample_condition_def acceleratorCondition_def node(2))
  have "untouched ''n1'' s1 s2"
    by (rule fence_retry_skipped [OF sample_api_quiet(1) sample_api_quiet(1) sample_cluster_ok _ _ _ node(1) run(1,3) _ run(2)])
      (use first in \<open>auto simp: sample_api_def\<close>)
  with run show ?thesis by (auto simp: untouched_def)
qed

end
