(* ===== verification/Cleanup_Correct.thy ===== *)
theory Cleanup_Correct
  imports Cleanup Node_Safety_Correct
begin

text \<open>
  What the removal of the driver promises (\<open>runCleanup\<close> of \<open>src/cmd/tt-dra-driver/main.go\<close>): it refuses while the
  driver is in use, it ends, and when it reports success everything the driver generated is gone.
\<close>


section \<open>Nothing is removed while the driver is in use\<close>

definition in_use :: "cluster \<Rightarrow> bool" where
  "in_use s \<longleftrightarrow>
     (\<exists>c a r. c \<in> set (kn_claims s) \<and> rc_Allocation c = Some a \<and> r \<in> set (an_Results a) \<and> al_Driver r = ''dra.tenstorrent.com'') \<or>
     (\<exists>ws w. kn_workloads s = Some ws \<and> w \<in> set ws \<and> wk_Phase w \<notin> {Some ''Succeeded'', Some ''Failed''})"

lemma in_use_iff:
  "in_use s \<longleftrightarrow> list_ex allocated_here (kn_claims s) \<or> (\<exists>ws. kn_workloads s = Some ws \<and> list_ex active_workload ws)"
  by (fastforce simp: in_use_def list_ex_iff allocated_here_def active_workload_def DefaultDriverName_def split: option.splits)

lemma find_None: "find P xs = None \<longleftrightarrow> \<not> list_ex P xs"
  by (induction xs) auto

text \<open>Meanwhile nothing but Pods changes.\<close>

definition pods_only :: "cluster_env \<Rightarrow> bool" where
  "pods_only ev \<longleftrightarrow> (\<forall>n s. \<exists>ps. ke_others ev n s = s\<lparr>kn_pods := ps\<rparr>)"

lemma pods_only_step:
  assumes "pods_only ev" and "run_state (api_get ev sel) s = (r, s1)"
  shows "kw_step s1 = Suc (kw_step s)"
proof -
  have "kw_step (ke_others ev n t) = kw_step t" for n t
    using assms(1) unfolding pods_only_def by (metis cluster.surjective cluster.update_convs(9) api_server.select_convs(1))
  then show ?thesis using assms(2)
    by (auto simp: api_get_def api_call_def kube_step_def split: api_outcome.splits)
qed

lemma pods_only_read:
  assumes "pods_only ev" and "run_state (api_get ev sel) s = (r, s1)"
  shows "\<exists>k ps. s1 = s\<lparr>kw_step := k, kn_pods := ps\<rparr>" and "r = Inr x \<Longrightarrow> sel s1 = Some x" and "r = Inl NotFound \<Longrightarrow> sel s1 = None"
proof -
  obtain ps where "ke_others ev (kw_step s) (s\<lparr>kw_step := Suc (kw_step s)\<rparr>) = s\<lparr>kw_step := Suc (kw_step s), kn_pods := ps\<rparr>"
    using assms(1) unfolding pods_only_def by metis
  then have "s1 = s\<lparr>kw_step := Suc (kw_step s), kn_pods := ps\<rparr>" using assms(2)
    by (simp add: api_get_def api_call_def kube_step_def split: api_outcome.splits)
  then show "\<exists>k ps. s1 = s\<lparr>kw_step := k, kn_pods := ps\<rparr>" by blast
qed (use assms(2) in \<open>auto simp: api_get_def split: prod.splits api_outcome.splits option.splits\<close>)

text \<open>A refusal: an error, and nothing but Pods has changed.\<close>

definition refused :: "cluster \<Rightarrow> go_error option \<times> cluster \<Rightarrow> bool" where
  "refused s x \<longleftrightarrow> (\<exists>e k ps. x = (Some (Some e), s\<lparr>kw_step := k, kn_pods := ps\<rparr>))"

lemma in_use_refused:
  assumes "pods_only ev" and "in_use s"
  shows "refused s (run_state (runCleanup fuel ev releaseName releaseNamespace resourcePrefix) s)"
proof -
  obtain r1 s1 where c: "run_state (api_get ev (\<lambda>s. Some (kn_claims s))) s = (r1, s1)" by fastforce
  note rd = pods_only_read [OF assms(1) c]
  obtain k1 ps1 where k1: "s1 = s\<lparr>kw_step := k1, kn_pods := ps1\<rparr>" using rd(1) by blast
  show ?thesis
  proof (cases r1)
    case (Inl e)
    then show ?thesis using c k1 by (auto simp: runCleanup_def refused_def)
  next
    case (Inr claims)
    then have claims: "claims = kn_claims s" using rd(2) [of claims] k1 by simp
    show ?thesis
    proof (cases "claim_refusal claims")
      case (Some e)
      then show ?thesis using c Inr k1 by (auto simp: runCleanup_def refused_def)
    next
      case None
      then obtain ws where ws: "kn_workloads s = Some ws" "list_ex active_workload ws"
        using assms(2) claims by (auto simp: in_use_iff claim_refusal_def find_None)
      obtain r2 s2 where w: "run_state (api_get ev kn_workloads) s1 = (r2, s2)" by fastforce
      note rd2 = pods_only_read [OF assms(1) w]
      obtain k2 ps2 where k2: "s2 = s\<lparr>kw_step := k2, kn_pods := ps2\<rparr>" using rd2(1) k1 by auto
      show ?thesis
      proof (cases r2)
        case 2: (Inl e)
        have "e \<noteq> NotFound" using rd2(3) 2 ws k2 by auto
        then show ?thesis using c Inr None w 2 k2 by (auto simp: runCleanup_def refused_def)
      next
        case 2: (Inr workloads)
        then have "workloads = ws" using rd2(2) [of workloads] ws k2 by simp
        then obtain e where "workload_refusal workloads = Some e" using ws(2) find_None [of active_workload ws] by (auto simp: workload_refusal_def)
        then show ?thesis using c Inr None w 2 k2 by (auto simp: runCleanup_def refused_def)
      qed
    qed
  qed
qed

text \<open>
  C13: cleanup refuses while the driver is in use: when a claim has a device of the driver, or a
  workload has not finished, it returns an error and has removed nothing, whatever API calls fail.
\<close>

theorem cleanup_refuses:
  assumes "pods_only ev" and "in_use s"
  shows "refused s (run_state (runCleanup fuel ev releaseName releaseNamespace resourcePrefix) s)"
  by (rule in_use_refused [OF assms])

section \<open>The wait ends\<close>

text \<open>The clock passes every time.\<close>

definition clock_advances :: "cluster_env \<Rightarrow> bool" where
  "clock_advances ev \<longleftrightarrow> (\<forall>t. \<exists>n. \<forall>m \<ge> n. ke_now ev m > t)"

lemma wait_pods_returns:
  assumes "pods_only ev" and "\<forall>m \<ge> n. ke_now ev m > deadline" and "n \<le> kw_step s + fuel" and "0 < fuel"
  shows "fst (run_state (wait_pods fuel ev releaseName releaseNamespace resourcePrefix deadline) s) \<noteq> None"
  using assms(3,4)
proof (induction fuel arbitrary: s)
  case (Suc fuel)
  obtain r s1 where g: "run_state (api_get ev (\<lambda>s. Some (remaining_pods releaseName releaseNamespace resourcePrefix s))) s = (r, s1)"
    by fastforce
  note st = pods_only_step [OF assms(1) g]
  show ?case
  proof (cases "\<exists>k. r = Inr (Suc k) \<and> \<not> ke_now ev (Suc (kw_step s)) > deadline")
    case True
    then obtain k where k: "r = Inr (Suc k)" "\<not> ke_now ev (Suc (kw_step s)) > deadline" by blast
    then have "Suc (kw_step s) < n" using assms(2) by (meson not_le)
    then have "fst (run_state (wait_pods fuel ev releaseName releaseNamespace resourcePrefix deadline) (s1\<lparr>kw_step := Suc (Suc (Suc (kw_step s)))\<rparr>)) \<noteq> None"
      using Suc.prems by (intro Suc.IH) auto
    then show ?thesis using g st k by (auto simp: kube_now_def kube_step_def)
  next
    case False
    then show ?thesis using g st by (cases r) (auto simp: kube_now_def kube_step_def gr0_conv_Suc)
  qed
qed simp

lemma cleanup_release_returns:
  assumes "pods_only ev" and "clock_advances ev"
  shows "\<exists>n. \<forall>fuel \<ge> n. fst (run_state (cleanup_release fuel ev releaseName releaseNamespace resourcePrefix) s) \<noteq> None"
proof -
  let ?d1 = "delete_or_fail ev ''delete node DaemonSet'' (delete_daemonset (join_key releaseNamespace (resourcePrefix @ ''-node'')))"
    and ?d2 = "delete_or_fail ev ''delete controller Deployment'' (delete_deployment (join_key releaseNamespace (resourcePrefix @ ''-controller'')))"
  obtain e1 s1 where 1: "run_state ?d1 s = (e1, s1)" by fastforce
  obtain e2 s2 where 2: "run_state ?d2 s1 = (e2, s2)" by fastforce
  obtain t s3 where 3: "run_state (kube_now ev) s2 = (t, s3)" by fastforce
  obtain n where n: "\<forall>m \<ge> n. ke_now ev m > t + minute" using assms(2) unfolding clock_advances_def by blast
  have "fst (run_state (cleanup_release fuel ev releaseName releaseNamespace resourcePrefix) s) \<noteq> None" if "fuel \<ge> Suc n" for fuel
  proof -
    obtain w s4 where w: "run_state (wait_pods fuel ev releaseName releaseNamespace resourcePrefix (t + minute)) s3 = (w, s4)" by fastforce
    have "w \<noteq> None" using wait_pods_returns [OF assms(1) n, where s = s3 and fuel = fuel and releaseName = releaseName and
        releaseNamespace = releaseNamespace and resourcePrefix = resourcePrefix] w that by simp
    then obtain a where a: "w = Some a" by blast
    show ?thesis using 1 2 3 w a by (cases e1; cases e2; cases a) (auto simp: cleanup_release_def cleanup_waited_def split: prod.split)
  qed
  then show ?thesis by blast
qed

text \<open>
  C15: cleanup ends: the loop that waits for the driver's Pods is left at its deadline at the latest, when
  the clock passes every time, even if the Pods never go away.
\<close>

theorem cleanup_terminates:
  assumes "pods_only ev" and "clock_advances ev"
  shows "\<exists>n. \<forall>fuel \<ge> n. fst (run_state (runCleanup fuel ev releaseName releaseNamespace resourcePrefix) s) \<noteq> None"
proof -
  obtain r1 s1 where 1: "run_state (api_get ev (\<lambda>s. Some (kn_claims s))) s = (r1, s1)" by fastforce
  obtain r2 s2 where 2: "run_state (api_get ev kn_workloads) s1 = (r2, s2)" by fastforce
  obtain n where n: "\<forall>fuel \<ge> n. fst (run_state (cleanup_release fuel ev releaseName releaseNamespace resourcePrefix) s2) \<noteq> None"
    using cleanup_release_returns [OF assms] by blast
  then show ?thesis using 1 2
    by (intro exI [of _ n]) (cases r1; cases r2; auto simp: runCleanup_def split: option.split)
qed


section \<open>What is removed\<close>

lemma pods_only_nodes: "pods_only ev \<Longrightarrow> kn_nodes (ke_others ev n s) = kn_nodes s"
    "pods_only ev \<Longrightarrow> kn_slices (ke_others ev n s) = kn_slices s" "pods_only ev \<Longrightarrow> kn_topologies (ke_others ev n s) = kn_topologies s"
    "pods_only ev \<Longrightarrow> kn_fabric (ke_others ev n s) = kn_fabric s" "pods_only ev \<Longrightarrow> kn_daemonsets (ke_others ev n s) = kn_daemonsets s"
    "pods_only ev \<Longrightarrow> kn_deployments (ke_others ev n s) = kn_deployments s"
  unfolding pods_only_def by (metis cluster.surjective cluster.update_convs(9) cluster.select_convs)+

text \<open>What holds of the objects and is not undone by their removal.\<close>

locale removal_invariant = api_invariant I ev for I :: "cluster \<Rightarrow> bool" and ev :: cluster_env +
  assumes inv_slice: "I s \<Longrightarrow> I (s\<lparr>kn_slices := gm_del k (kn_slices s)\<rparr>)"
    and inv_topologies: "I s \<Longrightarrow> I (s\<lparr>kn_topologies := []\<rparr>)"
    and inv_fabric: "I s \<Longrightarrow> I (s\<lparr>kn_fabric := False\<rparr>)"
begin

lemma k_delete: "(\<And>s s'. I s \<Longrightarrow> f s = Inr s' \<Longrightarrow> I s') \<Longrightarrow> keeps I (delete_or_fail ev message f)"
  unfolding delete_or_fail_def by (intro keeps_intro k_write)

lemma k_slice: "keeps I (cleanup_slice ev x)"
  unfolding cleanup_slice_def by (intro keeps_intro k_delete) (auto simp: delete_slice_def inv_slice split: if_splits)

lemma k_topologies: "keeps I (delete_or_fail ev message delete_topologies)"
  by (rule k_delete) (auto simp: delete_topologies_def inv_topologies)

lemma k_fabric: "keeps I (delete_or_fail ev message delete_fabric)"
  by (rule k_delete) (auto simp: delete_fabric_def inv_fabric split: if_splits)

end

locale cleanup_invariant = removal_invariant I ev for I :: "cluster \<Rightarrow> bool" and ev :: cluster_env +
  assumes inv_taints: "I s \<Longrightarrow> gm_get (kn_nodes s) m = Some node \<Longrightarrow>
      I (s\<lparr>kn_nodes := gm_put m (node\<lparr>no_Taints := filter (\<lambda>t. \<not> safety_taint t) (no_Taints node)\<rparr>) (kn_nodes s)\<rparr>)"
    and inv_conditions: "I s \<Longrightarrow> gm_get (kn_nodes s) m = Some node \<Longrightarrow>
      I (s\<lparr>kn_nodes := gm_put m (node\<lparr>no_Conditions := filter (\<lambda>c. \<not> safety_condition c) (no_Conditions node)\<rparr>) (kn_nodes s)\<rparr>)"
begin

lemma k_clear_conditions: "keeps I (clear_conditions ev m node)"
  unfolding clear_conditions_def
  by (intro keeps_intro k_write) (auto simp: write_conditions_def inv_conditions split: option.splits if_splits)

lemma k_clear: "keeps I (ClearNodeSafety ev m)"
  unfolding ClearNodeSafety_def
  by (intro keeps_intro k_get k_write k_clear_conditions) (auto simp: write_taints_def inv_taints split: option.splits if_splits)

lemma k_node: "keeps I (cleanup_node ev node)"
  unfolding cleanup_node_def by (intro keeps_intro k_clear)

lemma k_nodes: "keeps I (cleanup_nodes ev)"
  unfolding cleanup_nodes_def by (intro keeps_intro k_get k_node)

lemma k_cleanup_fabric: "keeps I (cleanup_fabric ev)"
  unfolding cleanup_fabric_def by (intro keeps_intro k_fabric k_nodes)

lemma k_cleanup_topologies: "keeps I (cleanup_topologies ev)"
  unfolding cleanup_topologies_def by (intro keeps_intro k_topologies k_cleanup_fabric)

lemma k_objects: "keeps I (cleanup_objects ev)"
  unfolding cleanup_objects_def by (intro keeps_intro k_get k_slice k_cleanup_topologies)

end

definition safety_cleared :: "string \<Rightarrow> cluster \<Rightarrow> bool" where
  "safety_cleared m s \<longleftrightarrow> (\<exists>node. gm_get (kn_nodes s) m = Some node \<and> \<not> list_ex safety_taint (no_Taints node) \<and>
     \<not> list_ex safety_condition (no_Conditions node))"

interpretation gone_slice: cleanup_invariant "\<lambda>s. pods_only ev \<and> gm_get (kn_slices s) k = None" ev for ev k
  by unfold_locales (auto simp: pods_only_nodes)

interpretation fewer_slices: cleanup_invariant "\<lambda>s. pods_only ev \<and> gm_get (kn_slices s) \<subseteq>\<^sub>m f" ev for ev f
  by unfold_locales (auto simp: pods_only_nodes map_le_def dom_def split: if_splits)

interpretation gone_topologies: cleanup_invariant "\<lambda>s. pods_only ev \<and> kn_topologies s = []" ev for ev
  by unfold_locales (auto simp: pods_only_nodes)

interpretation gone_fabric: cleanup_invariant "\<lambda>s. pods_only ev \<and> \<not> kn_fabric s" ev for ev
  by unfold_locales (auto simp: pods_only_nodes)

interpretation gone_owners: cleanup_invariant "\<lambda>s. pods_only ev \<and> gm_get (kn_daemonsets s) j = None \<and> gm_get (kn_deployments s) k = None" ev for ev j k
  by unfold_locales (auto simp: pods_only_nodes)

interpretation cleared_node: cleanup_invariant "\<lambda>s. pods_only ev \<and> safety_cleared m s" ev for ev m
  by unfold_locales (auto simp: pods_only_nodes safety_cleared_def list_ex_iff)


lemma deletion_done:
  assumes "run_state (delete_or_fail ev message f) s = (None, s')"
  shows "(\<exists>s1. f s1 = Inr s') \<or> f s' = Inl NotFound"
  using assms by (auto simp: delete_or_fail_def api_write_def split: prod.splits api_outcome.splits sum.splits if_splits)

lemma until_error_each:
  assumes "run_state (until_error f xs) s = (None, s')" and "x \<in> set xs"
    and "\<And>s s'. run_state (f x) s = (None, s') \<Longrightarrow> Q s'" and "\<And>y. keeps Q (f y)"
  shows "Q s'"
  using assms(1,2)
proof (induction xs arbitrary: s)
  case (Cons y ys)
  obtain e s1 where y: "run_state (f y) s = (e, s1)" by fastforce
  then have e: "e = None" and rest: "run_state (until_error f ys) s1 = (None, s')" using Cons.prems(1) by (auto split: option.splits)
  show ?case
  proof (cases "x = y")
    case True
    then have "Q s1" using assms(3) y e by blast
    moreover have "keeps Q (until_error f ys)" by (intro keeps_until_error assms(4))
    ultimately show ?thesis using keepsD rest by metis
  next
    case False
    then show ?thesis using Cons.IH [OF rest] Cons.prems(2) by simp
  qed
qed simp

lemma clear_conditions_success:
  assumes "run_state (clear_conditions ev m node) s = (None, s')" and "gm_get (kn_nodes s) m = Some node"
    and "\<not> list_ex safety_taint (no_Taints node)"
  shows "safety_cleared m s'"
proof (cases "length (filter (\<lambda>c. \<not> safety_condition c) (no_Conditions node)) = length (no_Conditions node)")
  case True
  then have "filter (\<lambda>c. \<not> safety_condition c) (no_Conditions node) = no_Conditions node"
    using length_filter_less by (metis filter_True less_irrefl)
  then have "\<not> list_ex safety_condition (no_Conditions node)" by (simp add: filter_id_conv list_ex_iff)
  then show ?thesis using assms True by (auto simp: clear_conditions_def safety_cleared_def Let_def)
next
  case False
  then have "run_state (api_write ev (write_conditions m node (filter (\<lambda>c. \<not> safety_condition c) (no_Conditions node)))) s = (None, s')"
    using assms(1) by (simp add: clear_conditions_def Let_def)
  from write_applied [OF this] show ?thesis using assms(3)
    by (auto simp: write_conditions_def safety_cleared_def list_ex_iff split: option.splits if_splits)
qed

lemma ClearNodeSafety_success:
  assumes "run_state (ClearNodeSafety ev m) s = (None, s')"
  shows "safety_cleared m s'"
proof -
  obtain r s1 where g: "run_state (api_get ev (\<lambda>s. gm_get (kn_nodes s) m)) s = (r, s1)" by fastforce
  then obtain node where r: "r = Inr node" using assms by (cases r) (auto simp: ClearNodeSafety_def)
  have node: "gm_get (kn_nodes s1) m = Some node"
    using g r by (auto simp: api_get_def split: prod.splits api_outcome.splits option.splits)
  let ?ts = "filter (\<lambda>t. \<not> safety_taint t) (no_Taints node)"
  show ?thesis
  proof (cases "length ?ts = length (no_Taints node)")
    case True
    then have "?ts = no_Taints node" using length_filter_less by (metis filter_True less_irrefl)
    then have "\<not> list_ex safety_taint (no_Taints node)" by (simp add: filter_id_conv list_ex_iff)
    then show ?thesis using clear_conditions_success [OF _ node] assms g r True by (simp add: ClearNodeSafety_def Let_def)
  next
    case False
    obtain e s2 where w: "run_state (api_write ev (write_taints m node ?ts)) s1 = (e, s2)" by fastforce
    have e: "e = None" and rest: "run_state (clear_conditions ev m (node\<lparr>no_Taints := ?ts\<rparr>)) s2 = (None, s')"
      using assms g r False w by (cases e; auto simp: ClearNodeSafety_def Let_def)+
    have "gm_get (kn_nodes s2) m = Some (node\<lparr>no_Taints := ?ts\<rparr>)"
      using write_applied [of ev "write_taints m node ?ts" s1 s2] w e by (auto simp: write_taints_def split: option.splits if_splits)
    then show ?thesis using clear_conditions_success [OF rest] by (simp add: list_ex_iff)
  qed
qed


text \<open>What a successful removal of the objects leaves.\<close>

definition objects_removed :: "cluster \<Rightarrow> cluster \<Rightarrow> bool" where
  "objects_removed s s' \<longleftrightarrow> (\<forall>k x. gm_get (kn_slices s') k = Some x \<longrightarrow> rs_Driver x \<noteq> DefaultDriverName) \<and>
     kn_topologies s' = [] \<and> \<not> kn_fabric s' \<and>
     (\<forall>m node. gm_get (kn_nodes s) m = Some node \<longrightarrow> list_ex safety_condition (no_Conditions node) \<longrightarrow> safety_cleared m s')"

interpretation same_objects: api_invariant "\<lambda>s. pods_only ev \<and> kn_nodes s = x \<and> kn_slices s = y" ev for ev x y
  by unfold_locales (auto simp: pods_only_nodes)

interpretation same_nodes: removal_invariant "\<lambda>s. pods_only ev \<and> kn_nodes s = x" ev for ev x
  by unfold_locales (auto simp: pods_only_nodes)

lemma cleanup_slice_gone:
  assumes "run_state (cleanup_slice ev x) s = (None, s')" and "rs_Driver x = DefaultDriverName"
  shows "gm_get (kn_slices s') (rs_Name x) = None"
  using deletion_done assms unfolding cleanup_slice_def by (fastforce simp: delete_slice_def split: if_splits)

lemma cleanup_node_cleared:
  assumes "run_state (cleanup_node ev node) s = (None, s')" and "list_ex safety_condition (no_Conditions node)"
  shows "safety_cleared (no_Name node) s'"
proof -
  obtain e s1 where "run_state (ClearNodeSafety ev (no_Name node)) s = (e, s1)" by fastforce
  then show ?thesis using ClearNodeSafety_success assms by (auto simp: cleanup_node_def split: if_splits)
qed

lemma then_success:
  assumes "run_state (do { e \<leftarrow> m; case e of None \<Rightarrow> n | Some e \<Rightarrow> ret (Some e) }) s = (None, s')"
  obtains s1 where "run_state m s = (None, s1)" and "run_state n s1 = (None, s')"
proof -
  obtain e s1 where "run_state m s = (e, s1)" by fastforce
  then show thesis using assms that by (cases e) auto
qed

lemma list_success:
  assumes "run_state (do { r \<leftarrow> api_get ev (\<lambda>s. Some (f s)); case r of Inl e \<Rightarrow> ret (Some message) | Inr x \<Rightarrow> m x }) s = (None, s')"
  obtains s1 where "run_state (api_get ev (\<lambda>s. Some (f s))) s = (Inr (f s1), s1)" and "run_state (m (f s1)) s1 = (None, s')"
proof -
  obtain r s1 where g: "run_state (api_get ev (\<lambda>s. Some (f s))) s = (r, s1)" by fastforce
  then obtain x where r: "r = Inr x" using assms by (cases r) auto
  have "x = f s1" using g r by (auto simp: api_get_def split: prod.splits api_outcome.splits)
  then show thesis using assms that g r by auto
qed

lemma named_slice:
  assumes "cluster_wf s" and "gm_get (kn_slices s) k = Some x"
  shows "x \<in> set (map snd (kn_slices s))" and "rs_Name x = k"
  using gm_get_SomeD [OF assms(2)] assms(1) by (force simp: cluster_wf_def list_all_iff)+

lemma named_node:
  assumes "cluster_wf s" and "gm_get (kn_nodes s) m = Some node"
  shows "node \<in> set (map snd (kn_nodes s))" and "no_Name node = m"
  using gm_get_SomeD [OF assms(2)] assms(1) by (force simp: cluster_wf_def list_all_iff)+

lemma cleanup_objects_success:
  assumes "pods_only ev" and "cluster_wf s" and "run_state (cleanup_objects ev) s = (None, s')"
  shows "objects_removed s s'"
proof -
  obtain s1 where 1: "run_state (api_get ev (\<lambda>s. Some (map snd (kn_slices s)))) s = (Inr (map snd (kn_slices s1)), s1)"
    and r1: "run_state (do { e \<leftarrow> until_error (cleanup_slice ev) (map snd (kn_slices s1)); case e of None \<Rightarrow> cleanup_topologies ev | Some e \<Rightarrow> ret (Some e) }) s1 = (None, s')"
    using assms(3) unfolding cleanup_objects_def by (rule list_success)
  obtain s2 where 2: "run_state (until_error (cleanup_slice ev) (map snd (kn_slices s1))) s1 = (None, s2)"
    and r2: "run_state (cleanup_topologies ev) s2 = (None, s')" using r1 by (rule then_success)
  obtain s3 where 3: "run_state (delete_or_fail ev ''delete node topology objects'' delete_topologies) s2 = (None, s3)"
    and r3: "run_state (cleanup_fabric ev) s3 = (None, s')" using r2 unfolding cleanup_topologies_def by (rule then_success)
  obtain s4 where 4: "run_state (delete_or_fail ev ''delete fabric topology'' delete_fabric) s3 = (None, s4)"
    and r4: "run_state (cleanup_nodes ev) s4 = (None, s')" using r3 unfolding cleanup_fabric_def by (rule then_success)
  obtain s5 where 5: "run_state (api_get ev (\<lambda>s. Some (map snd (kn_nodes s)))) s4 = (Inr (map snd (kn_nodes s5)), s5)"
    and 6: "run_state (until_error (cleanup_node ev) (map snd (kn_nodes s5))) s5 = (None, s')"
    using r4 unfolding cleanup_nodes_def by (rule list_success)
  have s1: "kn_nodes s1 = kn_nodes s" "kn_slices s1 = kn_slices s" using keepsD [OF same_objects.k_get _ 1] assms(1) by simp_all
  have "kn_nodes s2 = kn_nodes s"
    using keepsD [OF keeps_until_error [OF same_nodes.k_slice] _ 2, of "kn_nodes s"] assms(1) s1 by simp
  then have "kn_nodes s3 = kn_nodes s" using keepsD [OF same_nodes.k_topologies _ 3, of "kn_nodes s"] assms(1) by simp
  then have "kn_nodes s4 = kn_nodes s" using keepsD [OF same_nodes.k_fabric _ 4, of "kn_nodes s"] assms(1) by simp
  then have s5: "kn_nodes s5 = kn_nodes s" using keepsD [OF same_nodes.k_get _ 5, of "kn_nodes s"] assms(1) by simp
  have "kn_topologies s3 = []" using deletion_done [OF 3] by (auto simp: delete_topologies_def)
  then have top: "kn_topologies s' = []" using keepsD [OF gone_topologies.k_cleanup_fabric _ r3] assms(1) by simp
  have "\<not> kn_fabric s4" using deletion_done [OF 4] by (auto simp: delete_fabric_def split: if_splits)
  then have fab: "\<not> kn_fabric s'" using keepsD [OF gone_fabric.k_nodes _ r4] assms(1) by simp
  have node: "safety_cleared m s'" if "gm_get (kn_nodes s) m = Some node" "list_ex safety_condition (no_Conditions node)" for m node
  proof -
    note nn = named_node [OF assms(2) that(1)]
    have "pods_only ev \<and> safety_cleared m s'"
      by (rule until_error_each [OF 6 _ _ cleared_node.k_node, where x = node])
        (use nn s5 cleanup_node_cleared that(2) assms(1) in auto)
    then show ?thesis by simp
  qed
  have fewer: "gm_get (kn_slices s') \<subseteq>\<^sub>m gm_get (kn_slices s)" using keepsD [OF fewer_slices.k_objects _ assms(3)] assms(1) by simp
  have sl: "rs_Driver x \<noteq> DefaultDriverName" if k: "gm_get (kn_slices s') k = Some x" for k x
  proof
    assume d: "rs_Driver x = DefaultDriverName"
    have "gm_get (kn_slices s) k = Some x" using fewer k by (metis domI map_le_def)
    note ns = named_slice [OF assms(2) this]
    have "pods_only ev \<and> gm_get (kn_slices s2) k = None"
      by (rule until_error_each [OF 2 _ _ gone_slice.k_slice, where x = x])
        (use ns s1 cleanup_slice_gone d assms(1) in auto)
    then have "gm_get (kn_slices s') k = None" using keepsD [OF gone_slice.k_cleanup_topologies _ r2] by blast
    then show False using k by simp
  qed
  show ?thesis using top fab node sl by (simp add: objects_removed_def)
qed


lemma owner_deleted:
  assumes "run_state (delete_or_fail ev message (delete_daemonset j)) s = (None, s')"
  shows "gm_get (kn_daemonsets s') j = None"
  using deletion_done [OF assms] by (auto simp: delete_daemonset_def split: if_splits)

lemma controller_deleted:
  assumes "run_state (delete_or_fail ev message (delete_deployment k)) s = (None, s')"
  shows "gm_get (kn_deployments s') k = None"
  using deletion_done [OF assms] by (auto simp: delete_deployment_def split: if_splits)

text \<open>The part before the objects: nodes and slices stay, the two owners go.\<close>

interpretation before: api_invariant "\<lambda>s. pods_only ev \<and> kn_nodes s = x \<and> kn_slices s = y \<and> gm_get (kn_daemonsets s) j = None" ev for ev x y j
  by unfold_locales (auto simp: pods_only_nodes)

interpretation waiting: api_invariant "\<lambda>s. pods_only ev \<and> kn_nodes s = x \<and> kn_slices s = y \<and> gm_get (kn_daemonsets s) j = None \<and>
    gm_get (kn_deployments s) k = None" ev for ev x y j k
  by unfold_locales (auto simp: pods_only_nodes)

lemma waiting_pods: "keeps (\<lambda>s. pods_only ev \<and> kn_nodes s = x \<and> kn_slices s = y \<and> gm_get (kn_daemonsets s) j = None \<and>
    gm_get (kn_deployments s) k = None) (wait_pods fuel ev releaseName releaseNamespace resourcePrefix deadline)"
  by (induction fuel) (auto intro!: keeps_intro waiting.k_get waiting.k_now waiting.k_step)

lemma wait_pods_success:
  "run_state (wait_pods fuel ev releaseName releaseNamespace resourcePrefix deadline) s = (Some None, s') \<Longrightarrow>
     remaining_pods releaseName releaseNamespace resourcePrefix s' = 0"
proof (induction fuel arbitrary: s)
  case (Suc fuel)
  obtain r s1 where g: "run_state (api_get ev (\<lambda>s. Some (remaining_pods releaseName releaseNamespace resourcePrefix s))) s = (r, s1)"
    by fastforce
  have "r = Inr (remaining_pods releaseName releaseNamespace resourcePrefix s1) \<or> (\<exists>e. r = Inl e)"
    using g by (auto simp: api_get_def split: prod.splits api_outcome.splits)
  then show ?case using Suc g by (auto simp: kube_now_def kube_step_def split: if_splits)
qed simp

lemma cleanup_release_success:
  assumes "pods_only ev" and "cluster_wf s"
    and "run_state (cleanup_release fuel ev releaseName releaseNamespace resourcePrefix) s = (Some None, s')"
  shows "objects_removed s s' \<and> gm_get (kn_daemonsets s') (join_key releaseNamespace (resourcePrefix @ ''-node'')) = None \<and>
    gm_get (kn_deployments s') (join_key releaseNamespace (resourcePrefix @ ''-controller'')) = None"
proof -
  let ?j = "join_key releaseNamespace (resourcePrefix @ ''-node'')" and ?k = "join_key releaseNamespace (resourcePrefix @ ''-controller'')"
  obtain e1 s1 where 1: "run_state (delete_or_fail ev ''delete node DaemonSet'' (delete_daemonset ?j)) s = (e1, s1)" by fastforce
  have e1: "e1 = None" using assms(3) 1 by (cases e1) (auto simp: cleanup_release_def)
  obtain e2 s2 where 2: "run_state (delete_or_fail ev ''delete controller Deployment'' (delete_deployment ?k)) s1 = (e2, s2)" by fastforce
  have e2: "e2 = None" using assms(3) 1 e1 2 by (cases e2) (auto simp: cleanup_release_def)
  have w: "run_state (cleanup_waited fuel ev releaseName releaseNamespace resourcePrefix) s2 = (Some None, s')"
    using assms(3) 1 e1 2 e2 by (simp add: cleanup_release_def)
  obtain t s3 where 3: "run_state (kube_now ev) s2 = (t, s3)" by fastforce
  obtain r4 s4 where 4: "run_state (wait_pods fuel ev releaseName releaseNamespace resourcePrefix (t + minute)) s3 = (r4, s4)" by fastforce
  have r4: "r4 = Some None" using w 3 4 by (auto simp: cleanup_waited_def split: option.splits)
  have 5: "run_state (cleanup_objects ev) s4 = (None, s')" using w 3 4 r4 by (auto simp: cleanup_waited_def split: prod.splits)
  have "keeps (\<lambda>t. pods_only ev \<and> kn_nodes t = kn_nodes s \<and> kn_slices t = kn_slices s) (delete_or_fail ev ''delete node DaemonSet'' (delete_daemonset ?j))"
    unfolding delete_or_fail_def by (intro keeps_intro same_objects.k_write) (auto simp: delete_daemonset_def split: if_splits)
  from keepsD [OF this _ 1] have s1: "kn_nodes s1 = kn_nodes s \<and> kn_slices s1 = kn_slices s" using assms(1) by simp
  have d1: "gm_get (kn_daemonsets s1) ?j = None" using owner_deleted 1 e1 by blast
  have "keeps (\<lambda>t. pods_only ev \<and> kn_nodes t = kn_nodes s \<and> kn_slices t = kn_slices s \<and> gm_get (kn_daemonsets t) ?j = None)
      (delete_or_fail ev ''delete controller Deployment'' (delete_deployment ?k))"
    unfolding delete_or_fail_def by (intro keeps_intro before.k_write) (auto simp: delete_deployment_def split: if_splits)
  from keepsD [OF this _ 2] have s2: "kn_nodes s2 = kn_nodes s \<and> kn_slices s2 = kn_slices s \<and> gm_get (kn_daemonsets s2) ?j = None"
    using assms(1) s1 d1 by simp
  have d2: "gm_get (kn_deployments s2) ?k = None" using controller_deleted 2 e2 by blast
  let ?I = "\<lambda>t. pods_only ev \<and> kn_nodes t = kn_nodes s \<and> kn_slices t = kn_slices s \<and> gm_get (kn_daemonsets t) ?j = None \<and>
    gm_get (kn_deployments t) ?k = None"
  have "?I s3" by (rule keepsD [OF waiting.k_now _ 3]) (use assms(1) s2 d2 in simp)
  then have s4: "?I s4" by (rule keepsD [OF waiting_pods _ 4])
  then have "cluster_wf s4" using assms(2) by (simp add: cluster_wf_def)
  from cleanup_objects_success [OF assms(1) this 5] s4 have "objects_removed s s'" by (simp add: objects_removed_def)
  moreover have "gm_get (kn_daemonsets s') ?j = None \<and> gm_get (kn_deployments s') ?k = None"
    using keepsD [OF gone_owners.k_objects _ 5, of ?j ?k] s4 by simp
  ultimately show ?thesis by simp
qed

text \<open>
  C14: when cleanup reports success, no claim and no workload was using the driver, and everything it
  generated is gone: its slices, the topology objects, the fabric object, the taint and condition of every node it
  managed, and the objects its own Pods belong to.
\<close>

theorem cleanup_complete:
  assumes "pods_only ev" and "cluster_wf s"
    and "run_state (runCleanup fuel ev releaseName releaseNamespace resourcePrefix) s = (Some None, s')"
  shows "\<not> in_use s \<and> objects_removed s s' \<and> gm_get (kn_daemonsets s') (join_key releaseNamespace (resourcePrefix @ ''-node'')) = None \<and>
    gm_get (kn_deployments s') (join_key releaseNamespace (resourcePrefix @ ''-controller'')) = None"
proof -
  have free: "\<not> in_use s"
  proof
    assume "in_use s"
    from in_use_refused [OF assms(1) this, of fuel releaseName releaseNamespace resourcePrefix] assms(3)
    show False by (simp add: refused_def)
  qed
  obtain r1 s1 where 1: "run_state (api_get ev (\<lambda>s. Some (kn_claims s))) s = (r1, s1)" by fastforce
  obtain r2 s2 where 2: "run_state (api_get ev kn_workloads) s1 = (r2, s2)" by fastforce
  obtain k1 ps1 where k1: "s1 = s\<lparr>kw_step := k1, kn_pods := ps1\<rparr>" using pods_only_read(1) [OF assms(1) 1] by blast
  obtain k2 ps2 where k2: "s2 = s\<lparr>kw_step := k2, kn_pods := ps2\<rparr>" using pods_only_read(1) [OF assms(1) 2] k1 by auto
  have run: "run_state (cleanup_release fuel ev releaseName releaseNamespace resourcePrefix) s2 = (Some None, s')"
    using assms(3) 1 2 by (auto simp: runCleanup_def split: sum.splits option.splits if_splits)
  have "cluster_wf s2" using assms(2) k2 by (simp add: cluster_wf_def)
  from cleanup_release_success [OF assms(1) this run] free show ?thesis by (simp add: objects_removed_def k2)
qed


section \<open>Runs\<close>

definition busy_cluster :: cluster where
  "busy_cluster = sample_cluster\<lparr>kn_workloads := Some [\<lparr>wk_Namespace = ''ns'', wk_Name = ''w'', wk_Phase = None\<rparr>]\<rparr>"

text \<open>A clock that counts the questions.\<close>

definition ticking_api :: cluster_env where
  "ticking_api = (sample_api [])\<lparr>ke_now := int\<rparr>"

lemma sample_pods_only: "pods_only (sample_api failing)" "pods_only ticking_api"
proof -
  have "s = s\<lparr>kn_pods := kn_pods s\<rparr>" for s :: cluster by simp
  then show "pods_only (sample_api failing)" "pods_only ticking_api"
    unfolding pods_only_def ticking_api_def sample_api_def by (metis api_env.select_convs(3) api_env.update_convs(1))+
qed

theorem cleanup_refuses_witness:
  "refused busy_cluster (run_state (runCleanup 1 (sample_api []) ''r'' ''ns'' ''p'') busy_cluster)"
  by (rule cleanup_refuses [OF sample_pods_only(1)]) (simp add: in_use_def busy_cluster_def)

theorem cleanup_terminates_witness:
  "\<exists>n. \<forall>fuel \<ge> n. fst (run_state (runCleanup fuel ticking_api ''r'' ''ns'' ''p'') sample_cluster) \<noteq> None"
proof (rule cleanup_terminates [OF sample_pods_only(2)])
  have "\<exists>n. \<forall>m \<ge> n. int m > t" for t by (rule exI [of _ "Suc (nat t)"]) auto
  then show "clock_advances ticking_api" by (simp add: clock_advances_def ticking_api_def)
qed

theorem cleanup_complete_witness:
  "\<exists>s'. run_state (runCleanup 1 (sample_api []) ''r'' ''ns'' ''p'') sample_cluster = (Some None, s') \<and> objects_removed sample_cluster s'"
proof -
  have "fst (run_state (runCleanup 1 (sample_api []) ''r'' ''ns'' ''p'') sample_cluster) = Some None"
    by (simp add: runCleanup_def sample_api_run sample_cluster_def claim_refusal_def workload_refusal_def cleanup_release_def cleanup_waited_def delete_or_fail_def
      delete_daemonset_def delete_deployment_def remaining_pods_def cleanup_objects_def cleanup_topologies_def cleanup_fabric_def cleanup_nodes_def
      cleanup_slice_def DefaultDriverName_def delete_topologies_def delete_fabric_def cleanup_node_def sample_condition_def ClearNodeSafety_def clear_conditions_def
      write_conditions_def gm_get_Cons gm_put_def)
  then obtain s' where run: "run_state (runCleanup 1 (sample_api []) ''r'' ''ns'' ''p'') sample_cluster = (Some None, s')"
    by (metis prod.collapse)
  with cleanup_complete [OF sample_pods_only(1) sample_cluster_ok run] show ?thesis by blast
qed

end
