(* ===== verification/Health.thy ===== *)
theory Health
  imports Prelude
begin

text \<open>
  The probes of a process (\<open>src/internal/observability/health.go\<close>): startup, readiness and liveness with a deadline
  for progress.  The gauge of \<open>SetReady\<close> and the HTTP server are not modelled.  Times are those of the development;
  \<open>UnixNano\<close> counts them from 1970, and the stored value 0 stands for no progress yet.
\<close>

record Health =
  he_started :: bool
  he_ready :: bool
  he_live :: bool
  he_lastProgress :: int
  he_progressDeadline :: duration

definition unix_epoch :: go_time where "unix_epoch = 62135596800 * second"

definition unix_nano :: "go_time \<Rightarrow> int" where "unix_nano t = t - unix_epoch"

definition time_unix :: "int \<Rightarrow> go_time" where "time_unix n = n + unix_epoch"

definition NewHealth :: Health where
  "NewHealth = \<lparr>he_started = False, he_ready = False, he_live = True, he_lastProgress = 0, he_progressDeadline = 0\<rparr>"

definition MarkStarted :: "Health \<Rightarrow> Health" where
  "MarkStarted h = h\<lparr>he_started := True\<rparr>"

definition SetReady :: "bool \<Rightarrow> Health \<Rightarrow> Health" where
  "SetReady ready h = h\<lparr>he_ready := ready\<rparr>"

definition SetLive :: "bool \<Rightarrow> Health \<Rightarrow> Health" where
  "SetLive live h = h\<lparr>he_live := live\<rparr>"

definition MarkProgress :: "go_time \<Rightarrow> Health \<Rightarrow> Health" where
  "MarkProgress t h = h\<lparr>he_lastProgress := unix_nano t\<rparr>"

definition SetProgressDeadline :: "duration \<Rightarrow> go_time \<Rightarrow> Health \<Rightarrow> Health" where
  "SetProgressDeadline deadline t h = MarkProgress t (h\<lparr>he_progressDeadline := deadline\<rparr>)"

definition isLive :: "go_time \<Rightarrow> Health \<Rightarrow> bool" where
  "isLive t h \<longleftrightarrow> he_live h \<and> (he_progressDeadline h \<le> 0 \<or> he_lastProgress h = 0 \<or>
     time_sub t (time_unix (he_lastProgress h)) \<le> he_progressDeadline h)"

definition probe :: "bool \<Rightarrow> nat \<times> string" where
  "probe current = (if \<not> current then (503, ''not ready'' @ [CHR 0x0A]) else (200, ''ok'' @ [CHR 0x0A]))"

text \<open>The answer to a request for a path; other paths, and the metrics, are answered by the library.\<close>

definition Handler :: "go_time \<Rightarrow> Health \<Rightarrow> string \<Rightarrow> (nat \<times> string) option" where
  "Handler t h path =
     (if path = ''/startupz'' then Some (probe (he_started h))
      else if path = ''/readyz'' then Some (probe (he_ready h))
      else if path = ''/livez'' then Some (probe (isLive t h))
      else None)"

lemma progress_live:
  assumes "he_live h" and "0 \<le> t - t0" and "t - t0 \<le> he_progressDeadline h"
  shows "isLive t (MarkProgress t0 h)"
proof -
  have "time_sub t t0 \<le> t - t0" using assms(2) by (simp add: time_sub_def)
  then show ?thesis using assms by (simp add: isLive_def MarkProgress_def unix_nano_def time_unix_def)
qed

lemma stalled_dead:
  assumes "0 < he_progressDeadline h" and "he_progressDeadline h < 2 ^ 63 - 1" and "he_progressDeadline h < t - t0" and "t0 \<noteq> unix_epoch"
  shows "\<not> isLive t (MarkProgress t0 h)"
  using assms time_sub_le_iff [of "he_progressDeadline h" t t0] by (simp add: isLive_def MarkProgress_def unix_nano_def time_unix_def)

end
