(* ===== verification/Node_Agent.thy ===== *)
theory Node_Agent
  imports Node_Safety Recovery Health
begin

text \<open>
  The node agent's main loop (\<open>runNode\<close> of \<open>src/cmd/tt-dra-driver/main.go\<close>), with the functions that wait for the
  publication and the registration, and the mailbox for errors of the kubelet helper (\<open>HandleError\<close>, \<open>HelperError\<close>,
  \<open>ConfirmHelperRecovery\<close> of \<open>src/internal/lifecycle/manager.go\<close>).

  The loop joins the lifecycle manager (\<open>nw_sys\<close>), the API server (\<open>nw_cluster\<close>) and the probes.  What the kubelet
  helper answers is read from the environment: whether \<open>PublishResources\<close> fails, the registration status, an error it
  reports through \<open>HandleError\<close> before the mailbox is read, and how often the publication is polled before the
  confirmation times out.  The slices themselves are written by the helper, at an API call of somebody else.  The text of
  an API error and the semantic comparison are arguments.  Logs and metrics are not modelled; the parsing of the flags
  is, as a check of their values.
\<close>

section \<open>Flags\<close>

record node_flags =
  nf_NodeName :: string
  nf_PodUID :: string
  nf_ResetMode :: string
  nf_RequireIOMMU :: bool
  nf_Interval :: duration
  nf_InventoryGrace :: duration
  nf_QPSPositive :: bool
  nf_BurstPositive :: bool

definition node_flags_error :: "node_flags \<Rightarrow> go_error" where
  "node_flags_error f =
     (if nf_NodeName f = [] then Some ''node name is required''
      else if nf_Interval f \<le> 0 then Some ''inventory interval must be positive''
      else if nf_InventoryGrace f < nf_Interval f then Some ''inventory grace period must be at least the inventory interval''
      else if \<not> nf_QPSPositive f \<or> \<not> nf_BurstPositive f then Some ''Kubernetes API QPS and burst must be positive''
      else if nf_ResetMode f = ''ioctl'' then None
      else if nf_ResetMode f = ''noop''
      then (if nf_RequireIOMMU f then Some ''noop reset mode requires -require-iommu=false and is for synthetic validation only''
            else None)
      else Some (''unsupported reset mode '' @ go_quote (nf_ResetMode f)))"

definition resourcePublicationTimeout :: duration where "resourcePublicationTimeout = 30 * second"

definition progress_deadline :: "node_flags \<Rightarrow> duration" where
  "progress_deadline f = max (max (3 * nf_Interval f) (nf_InventoryGrace f + nf_Interval f)) (2 * resourcePublicationTimeout + nf_Interval f)"

text \<open>The configuration the flags give; the driver's name is fixed.\<close>

definition node_config :: "node_flags \<Rightarrow> Config" where
  "node_config f = \<lparr>cf_NodeName = nf_NodeName f, cf_Driver = DefaultDriverName, cf_RequireIOMMU = nf_RequireIOMMU f,
     cf_MaxInventoryAge = nf_InventoryGrace f\<rparr>"

section \<open>The world of the loop\<close>

record node_world =
  nw_step :: nat
  nw_sys :: sys
  nw_cluster :: cluster
  nw_helperErr :: go_error
  nw_health :: Health
  nw_stopped :: bool
  nw_lastReason :: string
  nw_lastObservation :: go_time
  nw_published :: "DriverResources_type list"
  nw_events :: "(bool \<times> string \<times> string) list"

record node_env =
  ne_sys :: env
  ne_cluster :: cluster_env
  ne_now :: "nat \<Rightarrow> go_time"
  ne_publish :: "nat \<Rightarrow> go_error"
  ne_registration :: "nat \<Rightarrow> (bool \<times> string) option"
  ne_helper :: "nat \<Rightarrow> (string \<times> bool \<times> string) option"
  ne_polls :: "nat \<Rightarrow> nat"
  ne_ctx :: "nat \<Rightarrow> go_error"
  ne_tick :: "nat \<Rightarrow> bool"
  ne_start :: "nat \<Rightarrow> go_error"
  ne_allocs :: allocations
  ne_text :: "kube_error \<Rightarrow> string"
  ne_equal :: "ResourceDevice list \<Rightarrow> ResourceDevice list \<Rightarrow> bool"

type_synonym 'a aop = "(node_world, 'a) state"

definition on_sys :: "'a op \<Rightarrow> 'a aop" where
  "on_sys m = State (\<lambda>w. case run_state m (nw_sys w) of (x, s) \<Rightarrow> (x, w\<lparr>nw_sys := s\<rparr>))"

definition on_cluster :: "'a nop \<Rightarrow> 'a aop" where
  "on_cluster m = State (\<lambda>w. case run_state m (nw_cluster w) of (x, s) \<Rightarrow> (x, w\<lparr>nw_cluster := s\<rparr>))"

definition loop_step :: "nat aop" where
  "loop_step = State (\<lambda>w. (nw_step w, w\<lparr>nw_step := Suc (nw_step w)\<rparr>))"

definition agent_now :: "node_env \<Rightarrow> go_time aop" where
  "agent_now ev = do { n \<leftarrow> loop_step; ret (ne_now ev n) }"

definition set_health :: "(Health \<Rightarrow> Health) \<Rightarrow> unit aop" where
  "set_health f = modify (\<lambda>w. w\<lparr>nw_health := f (nw_health w)\<rparr>)"

definition emit :: "bool \<Rightarrow> string \<Rightarrow> string \<Rightarrow> unit aop" where
  "emit warning reason message = modify (\<lambda>w. w\<lparr>nw_events := nw_events w @ [(warning, reason, message)]\<rparr>)"

section \<open>The mailbox of the kubelet helper\<close>

text \<open>A fatal error reaches the callback of \<open>runNode\<close>, which stops the process.\<close>

definition HandleError :: "go_error \<Rightarrow> bool \<Rightarrow> string \<Rightarrow> unit aop" where
  "HandleError err recoverable msg =
     (case err of
        None \<Rightarrow> ret ()
      | Some e \<Rightarrow> do {
          modify (\<lambda>w. w\<lparr>nw_helperErr := Some (msg @ '': '' @ e)\<rparr>);
          if recoverable then ret ()
          else do {
            set_health (SetReady False);
            set_health (SetLive False);
            modify (\<lambda>w. w\<lparr>nw_stopped := True\<rparr>) } })"

definition HelperError :: "go_error aop" where
  "HelperError = gets nw_helperErr"

definition ConfirmHelperRecovery :: "unit aop" where
  "ConfirmHelperRecovery = modify (\<lambda>w. w\<lparr>nw_helperErr := None\<rparr>)"

text \<open>What the helper reports meanwhile.\<close>

definition helper_reports :: "node_env \<Rightarrow> unit aop" where
  "helper_reports ev = do {
     n \<leftarrow> loop_step;
     case ne_helper ev n of
       None \<Rightarrow> ret ()
     | Some (e, recoverable, msg) \<Rightarrow> HandleError (Some e) recoverable msg }"

section \<open>Waiting\<close>

text \<open>One poll, and as many more as the timeout and the context (\<open>ne_ctx\<close> is its error, if it is done) allow.\<close>

definition poll_publication :: "node_env \<Rightarrow> string \<Rightarrow> DriverResources_type \<Rightarrow> go_error aop" where
  "poll_publication ev nodeName desired = do {
     r \<leftarrow> on_cluster (api_get (ne_cluster ev) (\<lambda>s. Some (map snd (kn_slices s))));
     ret (ConfirmResourcePublication (ne_equal ev) nodeName DefaultDriverName desired
       (case r of Inl e \<Rightarrow> Inl (ne_text ev e) | Inr slices \<Rightarrow> Inr slices)) }"

fun waitForResourcePublication :: "nat \<Rightarrow> node_env \<Rightarrow> string \<Rightarrow> DriverResources_type \<Rightarrow> go_error aop" where
  "waitForResourcePublication 0 ev nodeName desired = do {
     lastErr \<leftarrow> poll_publication ev nodeName desired;
     case lastErr of
       None \<Rightarrow> ret None
     | Some e \<Rightarrow> do {
         n \<leftarrow> loop_step;
         ret (Some (''confirm ResourceSlice publication: '' @
           (case ne_ctx ev n of None \<Rightarrow> ''context deadline exceeded'' | Some c \<Rightarrow> c) @ '': '' @ e)) } }"
| "waitForResourcePublication (Suc n) ev nodeName desired = do {
     lastErr \<leftarrow> poll_publication ev nodeName desired;
     case lastErr of
       None \<Rightarrow> ret None
     | Some e \<Rightarrow> waitForResourcePublication n ev nodeName desired }"

text \<open>The loop that waits for the registration: the poll that still waits when the deadline passes fails.\<close>

fun waitForRegistration :: "nat \<Rightarrow> node_env \<Rightarrow> go_error aop" where
  "waitForRegistration polls ev = do {
     n \<leftarrow> loop_step;
     case ne_registration ev n of
       Some (registered, e) \<Rightarrow>
         ret (if \<not> registered then Some (''kubelet rejected DRA plugin registration: '' @ e) else None)
     | None \<Rightarrow>
         (case polls of
            0 \<Rightarrow> do {
              n \<leftarrow> loop_step;
              ret (Some (case ne_ctx ev n of
                None \<Rightarrow> ''timed out waiting for kubelet DRA plugin registration'' | Some c \<Rightarrow> c)) }
          | Suc polls \<Rightarrow> waitForRegistration polls ev) }"

definition registrationError :: "node_env \<Rightarrow> go_error aop" where
  "registrationError ev = do {
     n \<leftarrow> loop_step;
     ret (case ne_registration ev n of
       None \<Rightarrow> Some ''kubelet DRA plugin registration status is unavailable''
     | Some (registered, e) \<Rightarrow>
         if \<not> registered then Some (''kubelet DRA plugin registration failed: '' @ e) else None) }"

section \<open>Publication\<close>

definition update_topology :: "string \<Rightarrow> NodeTopologySpec \<Rightarrow> NodeTopologySpec \<Rightarrow> cluster \<Rightarrow> kube_error + cluster" where
  "update_topology nodeName current desired s =
     (case gm_get (kn_topologies s) nodeName of
        None \<Rightarrow> Inl NotFound
      | Some object \<Rightarrow> if object \<noteq> current then Inl Conflict
          else Inr (s\<lparr>kn_topologies := gm_put nodeName desired (kn_topologies s)\<rparr>))"

definition create_topology :: "string \<Rightarrow> NodeTopologySpec \<Rightarrow> cluster \<Rightarrow> kube_error + cluster" where
  "create_topology nodeName desired s =
     (if gm_get (kn_topologies s) nodeName \<noteq> None then Inl AlreadyExists
      else Inr (s\<lparr>kn_topologies := gm_put nodeName desired (kn_topologies s)\<rparr>))"

text \<open>The calls of \<open>PublishNode\<close> of \<open>src/internal/topology/topology.go\<close>.\<close>

definition publish_topology :: "cluster_env \<Rightarrow> string \<Rightarrow> InventorySnapshot \<Rightarrow> kube_error option nop" where
  "publish_topology ev nodeName snapshot = do {
     r \<leftarrow> api_get ev (\<lambda>s. gm_get (kn_topologies s) nodeName);
     case r of
       Inr current \<Rightarrow> api_write ev (update_topology nodeName current (node_topology nodeName snapshot))
     | Inl e \<Rightarrow> if e \<noteq> NotFound then ret (Some e)
                else api_write ev (create_topology nodeName (node_topology nodeName snapshot)) }"

definition publish_resources :: "node_env \<Rightarrow> DriverResources_type \<Rightarrow> go_error aop" where
  "publish_resources ev desired = do {
     n \<leftarrow> loop_step;
     modify (\<lambda>w. w\<lparr>nw_published := nw_published w @ [desired]\<rparr>);
     ret (ne_publish ev n) }"

definition api_error :: "node_env \<Rightarrow> kube_error option \<Rightarrow> go_error" where
  "api_error ev = map_option (ne_text ev)"

text \<open>The resources of a cycle: handed to the helper, and confirmed on the API server.\<close>

definition confirm_resources :: "node_env \<Rightarrow> string \<Rightarrow> DriverResources_type \<Rightarrow> go_error aop" where
  "confirm_resources ev nodeName desired = do {
     err \<leftarrow> publish_resources ev desired;
     case err of
       Some e \<Rightarrow> ret (Some e)
     | None \<Rightarrow> do {
         n \<leftarrow> loop_step;
         err \<leftarrow> waitForResourcePublication (ne_polls ev n) ev nodeName desired;
         case err of
           None \<Rightarrow> do { ConfirmHelperRecovery; ret None }
         | Some e \<Rightarrow> do {
             helper_reports ev;
             helperErr \<leftarrow> HelperError;
             ret (errors_join (Some e) helperErr) } } }"

section \<open>The cycle\<close>

record node_report =
  nr_Snapshot :: InventorySnapshot
  nr_Safety :: Safety
  nr_DiscoverErr :: go_error
  nr_MonitorErr :: go_error
  nr_ResourcesErr :: go_error
  nr_TopologyErr :: go_error
  nr_RegistrationErr :: go_error
  nr_SafetyErr :: go_error

definition observe_hardware ::
    "node_env \<Rightarrow> Config \<Rightarrow> (InventorySnapshot \<times> Safety \<times> go_error \<times> go_error) aop" where
  "observe_hardware ev cfg = do {
     r \<leftarrow> on_sys (inventory (ne_sys ev));
     case r of
       Inl e \<Rightarrow> do {
         (snapshot, safety, monitorErr) \<leftarrow> on_sys (InventoryFailed (ne_sys ev) cfg (Some e));
         ret (snapshot, safety, Some e, monitorErr) }
     | Inr observed \<Rightarrow> do {
         modify (\<lambda>w. w\<lparr>nw_lastObservation := sn_ObservedAt observed\<rparr>);
         (snapshot, safety, monitorErr) \<leftarrow> on_sys (Monitor (ne_sys ev) cfg observed);
         ret (snapshot, safety, None, monitorErr) } }"

definition publication_unavailable :: "Safety \<Rightarrow> Safety" where
  "publication_unavailable safety = \<lparr>sf_Unsafe = True, sf_Healthy = sf_Healthy safety, sf_Total = sf_Total safety,
     sf_Reason = ''PublicationUnavailable'', sf_Message = ''Tenstorrent capacity, topology, or kubelet registration is unavailable''\<rparr>"

definition warn_if :: "go_error \<Rightarrow> string \<Rightarrow> string \<Rightarrow> unit aop" where
  "warn_if err reason message = (case err of None \<Rightarrow> ret () | Some e \<Rightarrow> emit True reason (message @ e))"

definition note_safety :: "Safety \<Rightarrow> unit aop" where
  "note_safety safety = do {
     lastReason \<leftarrow> gets nw_lastReason;
     if sf_Reason safety \<noteq> lastReason
     then do {
       emit (sf_Unsafe safety) (sf_Reason safety) (sf_Message safety);
       modify (\<lambda>w. w\<lparr>nw_lastReason := sf_Reason safety\<rparr>) }
     else ret () }"

text \<open>The publication of a cycle, and the safety that follows from it.\<close>

definition publish_cycle ::
    "node_env \<Rightarrow> Config \<Rightarrow> InventorySnapshot \<Rightarrow> Safety \<Rightarrow> (go_error \<times> go_error \<times> go_error \<times> Safety) aop" where
  "publish_cycle ev cfg snapshot safety = do {
     t \<leftarrow> agent_now ev;
     let desired = DriverResourcesAt (cf_NodeName cfg) snapshot (cf_MaxInventoryAge cfg) t;
     resourcesErr \<leftarrow> confirm_resources ev (cf_NodeName cfg) desired;
     warn_if resourcesErr ''ResourcePublicationFailed'' ''ResourceSlice publication failed: '';
     err \<leftarrow> on_cluster (publish_topology (ne_cluster ev) (cf_NodeName cfg) snapshot);
     let topologyErr = api_error ev err;
     warn_if topologyErr ''TopologyPublicationFailed'' ''Node topology publication failed: '';
     registrationErr \<leftarrow> registrationError ev;
     (if registrationErr \<noteq> None then set_health (SetLive False) else ret ());
     ret (resourcesErr, topologyErr, registrationErr,
       if resourcesErr \<noteq> None \<or> topologyErr \<noteq> None \<or> registrationErr \<noteq> None then publication_unavailable safety else safety) }"

definition cycle_failed :: "node_report \<Rightarrow> bool" where
  "cycle_failed r \<longleftrightarrow> nr_DiscoverErr r \<noteq> None \<or> nr_MonitorErr r \<noteq> None \<or> nr_ResourcesErr r \<noteq> None \<or>
     nr_TopologyErr r \<noteq> None \<or> nr_SafetyErr r \<noteq> None \<or> nr_RegistrationErr r \<noteq> None"

definition reconcile_node :: "node_env \<Rightarrow> Config \<Rightarrow> node_report aop" where
  "reconcile_node ev cfg = do {
     t \<leftarrow> agent_now ev;
     set_health (MarkProgress t);
     (snapshot, safety, discoverErr, monitorErr) \<leftarrow> observe_hardware ev cfg;
     (resourcesErr, topologyErr, registrationErr, safety) \<leftarrow> publish_cycle ev cfg snapshot safety;
     err \<leftarrow> on_cluster (UpdateNodeSafety (ne_cluster ev) (cf_NodeName cfg) safety);
     let safetyErr = api_error ev err;
     warn_if safetyErr ''NodeSafetyPublicationFailed'' ''Node safety publication failed: '';
     note_safety safety;
     _ \<leftarrow> on_sys (SnapshotStats (ne_sys ev));
     let report = \<lparr>nr_Snapshot = snapshot, nr_Safety = safety, nr_DiscoverErr = discoverErr, nr_MonitorErr = monitorErr,
       nr_ResourcesErr = resourcesErr, nr_TopologyErr = topologyErr, nr_RegistrationErr = registrationErr, nr_SafetyErr = safetyErr\<rparr>;
     set_health (SetReady (\<not> cycle_failed report));
     ret report }"

text \<open>The end of the loop: without a rolling update the agent withdraws its capacity.\<close>

definition stopping :: Safety where
  "stopping = \<lparr>sf_Unsafe = True, sf_Healthy = 0, sf_Total = 0, sf_Reason = ''AgentUnavailable'',
     sf_Message = ''Tenstorrent DRA node agent is stopping''\<rparr>"

definition shutdown_node :: "node_env \<Rightarrow> Config \<Rightarrow> string \<Rightarrow> unit aop" where
  "shutdown_node ev cfg podUID = do {
     set_health (SetReady False);
     if podUID \<noteq> [] then ret ()
     else do {
       t \<leftarrow> agent_now ev;
       let empty = \<lparr>sn_Devices = [], sn_ObservedAt = t\<rparr>;
       t \<leftarrow> agent_now ev;
       _ \<leftarrow> publish_resources ev (DriverResourcesAt (cf_NodeName cfg) empty (cf_MaxInventoryAge cfg) t);
       _ \<leftarrow> on_cluster (publish_topology (ne_cluster ev) (cf_NodeName cfg) empty);
       _ \<leftarrow> on_cluster (UpdateNodeSafety (ne_cluster ev) (cf_NodeName cfg) stopping);
       ret () } }"

text \<open>
  The loop: one cycle, then the end when the process was told to stop (by a signal, \<open>signalled\<close>, or by a fatal
  error), otherwise the next one.  When the interval has passed as well, the \<open>select\<close> may take the tick and run another
  cycle (\<open>ne_tick\<close>).  The number of cycles is the fuel; the result tells whether the loop ended.
\<close>

fun node_loop :: "nat \<Rightarrow> node_env \<Rightarrow> Config \<Rightarrow> string \<Rightarrow> (nat \<Rightarrow> bool) \<Rightarrow> bool aop" where
  "node_loop 0 ev cfg podUID signalled = ret False"
| "node_loop (Suc fuel) ev cfg podUID signalled = do {
     _ \<leftarrow> reconcile_node ev cfg;
     n \<leftarrow> loop_step;
     stopped \<leftarrow> gets nw_stopped;
     if (signalled n \<or> stopped) \<and> \<not> ne_tick ev n then do { shutdown_node ev cfg podUID; ret True }
     else node_loop fuel ev cfg podUID signalled }"

section \<open>The command\<close>

text \<open>
  The start of the agent: the lifecycle manager (\<open>ne_allocs\<close> is its view of the allocations), the kubelet helper, its
  registration and the node object.
\<close>

definition start_node :: "node_env \<Rightarrow> node_flags \<Rightarrow> string \<Rightarrow> string \<Rightarrow> go_error aop" where
  "start_node ev f stateDir cdiDir = do {
     err \<leftarrow> on_sys (NewManager (ne_sys ev) (node_config f) stateDir cdiDir (ne_allocs ev));
     case err of
       Some e \<Rightarrow> ret (Some e)
     | None \<Rightarrow> do {
         n \<leftarrow> loop_step;
         case ne_start ev n of
           Some e \<Rightarrow> ret (Some e)
         | None \<Rightarrow> do {
             err \<leftarrow> waitForRegistration (ne_polls ev n) ev;
             case err of
               Some e \<Rightarrow> ret (Some e)
             | None \<Rightarrow> do {
                 r \<leftarrow> on_cluster (api_get (ne_cluster ev) (\<lambda>s. gm_get (kn_nodes s) (nf_NodeName f)));
                 case r of
                   Inl e \<Rightarrow> ret (Some (ne_text ev e))
                 | Inr _ \<Rightarrow> do {
                     set_health MarkStarted;
                     t \<leftarrow> agent_now ev;
                     set_health (SetProgressDeadline (progress_deadline f) t);
                     ret None } } } } }"

text \<open>\<open>None\<close> when the fuel of the loop is used up, otherwise the error the command returns.\<close>

definition runNode :: "nat \<Rightarrow> node_env \<Rightarrow> node_flags \<Rightarrow> string \<Rightarrow> string \<Rightarrow> (nat \<Rightarrow> bool) \<Rightarrow> go_error option aop" where
  "runNode fuel ev f stateDir cdiDir signalled =
     (case node_flags_error f of
        Some e \<Rightarrow> ret (Some (Some e))
      | None \<Rightarrow> do {
          err \<leftarrow> start_node ev f stateDir cdiDir;
          case err of
            Some e \<Rightarrow> ret (Some (Some e))
          | None \<Rightarrow> do {
              ended \<leftarrow> node_loop fuel ev (node_config f) (nf_PodUID f) signalled;
              ret (if ended then Some None else None) } })"

section \<open>Events of the lifecycle\<close>

definition upper_char :: "char \<Rightarrow> char" where
  "upper_char c = (if CHR ''a'' \<le> c \<and> c \<le> CHR ''z'' then char_of (of_char c - 32 :: nat) else c)"

text \<open>The words between hyphens and underscores, each with a capital first letter; the names of actions are ASCII.\<close>

fun camel_case :: "bool \<Rightarrow> string \<Rightarrow> string" where
  "camel_case start [] = []"
| "camel_case start (c # cs) =
     (if c = CHR ''-'' \<or> c = CHR ''_'' then camel_case True cs
      else (if start then upper_char c else c) # camel_case False cs)"

definition lifecycleEventReason :: "AuditEvent \<Rightarrow> string" where
  "lifecycleEventReason event =
     (if au_Outcome event = ''quarantined'' then ''DeviceQuarantined''
      else if au_Action event = ''claim-prepare-intent'' then ''ClaimPrepareStarted''
      else if au_Action event = ''claim-prepare'' then ''ClaimPrepared''
      else if au_Action event = ''claim-release-intent'' then ''ClaimReleaseStarted''
      else if au_Action event = ''claim-release'' then ''ClaimReleased''
      else if au_Action event = ''preflight-sanitize'' then ''PreflightSanitized''
      else if au_Action event = ''postflight-sanitize'' then ''PostflightSanitized''
      else if au_Action event = ''recovery-sanitize'' \<or> au_Action event = ''recovery-health'' then ''DeviceRecovered''
      else if au_Action event = ''inventory'' then ''InventoryDegraded''
      else if au_Action event = ''state-recovery'' \<or> au_Action event = ''startup-recovery'' then ''StateRecovered''
      else camel_case True (au_Action event))"

definition event_warning :: "AuditEvent \<Rightarrow> bool" where
  "event_warning event \<longleftrightarrow> au_Outcome event = ''failure'' \<or> au_Outcome event = ''quarantined'' \<or> au_Outcome event = ''degraded''"

section \<open>The controller process\<close>

text \<open>The checks on the flags of \<open>runController\<close>, and the interval of its watchdog (\<open>runNodeAgentWatchdog\<close>).\<close>

definition controller_flags_error :: "duration \<Rightarrow> duration \<Rightarrow> duration \<Rightarrow> bool \<Rightarrow> bool \<Rightarrow> go_error" where
  "controller_flags_error ttl nodeAgentTTL placementTimeout qpsPositive burstPositive =
     (if ttl \<le> 0 \<or> nodeAgentTTL \<le> 0 \<or> placementTimeout \<le> 0
      then Some ''topology TTL, node-agent TTL, and placement timeout must be positive''
      else if \<not> qpsPositive \<or> \<not> burstPositive then Some ''Kubernetes API QPS and burst must be positive''
      else None)"

definition watchdog_interval :: "duration \<Rightarrow> duration" where
  "watchdog_interval ttl = (let interval = min (30 * second) (if ttl < 0 then - ((- ttl) div 2) else ttl div 2)
     in if interval \<le> 0 then second else interval)"

end
