(* ===== verification/Node_Agent_Correct.thy ===== *)
theory Node_Agent_Correct
  imports Node_Agent Node_Safety_Correct Publication_Correct Samples
begin

text \<open>
  What the loop of the node agent promises (\<open>runNode\<close> of \<open>src/cmd/tt-dra-driver/main.go\<close>): the pool it hands to the
  kubelet helper offers no quarantined device, a cycle that fails is not ready and marks the node as unsafe, a fatal error
  of the helper ends the loop.  A cycle that cannot take the lock of the lifecycle state reports a healthy node all the same.
\<close>


section \<open>What the steps of the loop touch\<close>

lemma run_on_sys [simp]: "run_state (on_sys m) w = (case run_state m (nw_sys w) of (x, s) \<Rightarrow> (x, w\<lparr>nw_sys := s\<rparr>))"
  by (simp add: on_sys_def)

lemma run_on_cluster [simp]: "run_state (on_cluster m) w = (case run_state m (nw_cluster w) of (x, s) \<Rightarrow> (x, w\<lparr>nw_cluster := s\<rparr>))"
  by (simp add: on_cluster_def)

lemma run_set_health [simp]: "run_state (set_health f) w = ((), w\<lparr>nw_health := f (nw_health w)\<rparr>)"
  by (simp add: set_health_def)

text \<open>An invariant of the loop: over the lifecycle manager, the cluster and what was published.\<close>

locale agent_invariant =
  fixes I :: "node_world \<Rightarrow> bool" and ev :: node_env
  assumes inv_private: "I w \<Longrightarrow> nw_sys w' = nw_sys w \<Longrightarrow> nw_cluster w' = nw_cluster w \<Longrightarrow> nw_published w' = nw_published w \<Longrightarrow> I w'"
begin

lemma k_private: "(\<And>w. nw_sys (f w) = nw_sys w \<and> nw_cluster (f w) = nw_cluster w \<and> nw_published (f w) = nw_published w) \<Longrightarrow> keeps I (modify f)"
  by (rule keeps_modify, rule inv_private) auto

lemma k_loop_step: "keeps I loop_step"
  by (rule keepsI) (auto simp: loop_step_def elim: inv_private)

lemma k_agent_now: "keeps I (agent_now ev)"
  unfolding agent_now_def by (intro keeps_intro k_loop_step)

lemma k_health: "keeps I (set_health f)"
  unfolding set_health_def by (intro k_private) simp

lemma k_emit: "keeps I (emit b r m)"
  unfolding emit_def by (intro k_private) simp

lemma k_warn: "keeps I (warn_if e r m)"
  unfolding warn_if_def by (intro keeps_intro k_emit)

lemma k_note: "keeps I (note_safety safety)"
  unfolding note_safety_def by (intro keeps_intro k_emit k_private) simp

lemma k_handle: "keeps I (HandleError e b m)"
  unfolding HandleError_def by (intro keeps_intro k_health k_private) simp_all

lemma k_helper: "keeps I (helper_reports ev)"
  unfolding helper_reports_def by (intro keeps_intro k_loop_step k_handle)

lemma k_mailbox: "keeps I HelperError" "keeps I ConfirmHelperRecovery"
  unfolding HelperError_def ConfirmHelperRecovery_def by (intro keeps_intro k_private; simp)+

lemma k_registration: "keeps I (registrationError ev)"
  unfolding registrationError_def by (intro keeps_intro k_loop_step)

lemmas k_loop = k_loop_step k_agent_now k_health k_emit k_warn k_note k_handle k_helper k_mailbox k_registration

end

section \<open>What a cycle hands over\<close>

text \<open>The calls to the API server leave the lifecycle manager and the published pools alone, and the manager the cluster.\<close>

lemma keeps_cluster: "keeps (\<lambda>w. J (nw_sys w) (nw_published w)) (on_cluster m)"
  by (rule keepsI) (auto simp: on_cluster_def split: prod.splits)

lemma keeps_sys: "keeps (\<lambda>w. J (nw_cluster w)) (on_sys m)"
  by (rule keepsI) (auto simp: on_sys_def split: prod.splits)

lemma hoare_sys: "hoare P m Q \<Longrightarrow> hoare (\<lambda>w. P (nw_sys w) \<and> nw_published w = p) (on_sys m) (\<lambda>x w. Q x (nw_sys w) \<and> nw_published w = p)"
  by (rule hoareI) (auto simp: on_sys_def split: prod.splits dest: hoareD)

definition handed_over :: "DriverResources_type list \<Rightarrow> node_world \<Rightarrow> bool" where
  "handed_over p w \<longleftrightarrow> (\<exists>d. nw_published w = p @ [d] \<and> pool_names d \<inter> fenced (nw_sys w) = {})"

definition offering :: "InventorySnapshot \<Rightarrow> DriverResources_type list \<Rightarrow> node_world \<Rightarrow> bool" where
  "offering sn p w \<longleftrightarrow> safe_offer sn (nw_sys w) \<and> nw_published w = p"

interpretation handed: agent_invariant "handed_over p" ev for p ev
  by unfold_locales (simp add: handed_over_def)

interpretation offering: agent_invariant "offering sn p" ev for sn p ev
  by unfold_locales (simp add: offering_def)

lemma handed_cluster: "keeps (handed_over p) (on_cluster m)"
  unfolding handed_over_def by (rule keeps_cluster)

lemma handed_wait: "keeps (handed_over p) (waitForResourcePublication n ev nodeName desired)"
  by (induction n) (auto simp: poll_publication_def intro!: keeps_intro handed_cluster handed.k_loop split: sum.split option.split)

lemma desired_safe: "safe_offer sn s \<Longrightarrow> pool_names (DriverResourcesAt nodeName sn maxAge t) \<inter> fenced s = {}"
  by (auto simp: DriverResourcesAt_names safe_offer_def fenced_def publishable_def)

lemma publish_hands_over:
  "hoare (offering sn p) (publish_resources ev (DriverResourcesAt nodeName sn maxAge t)) (\<lambda>_. handed_over p)"
proof (rule hoareI)
  fix w x w'
  assume a: "offering sn p w" "run_state (publish_resources ev (DriverResourcesAt nodeName sn maxAge t)) w = (x, w')"
  then have "nw_published w' = p @ [DriverResourcesAt nodeName sn maxAge t]" "nw_sys w' = nw_sys w"
    by (auto simp: publish_resources_def loop_step_def offering_def)
  then show "handed_over p w'" using a(1) desired_safe [of sn "nw_sys w" nodeName maxAge t] by (simp add: handed_over_def offering_def)
qed

lemma confirm_hands_over:
  "hoare (offering sn p) (confirm_resources ev nodeName (DriverResourcesAt n sn maxAge t)) (\<lambda>_. handed_over p)"
  unfolding confirm_resources_def
  by (rule hoare_bind [OF publish_hands_over], fold keeps_def)
    (intro keeps_intro handed.k_loop handed_wait)

lemma publish_cycle_hands_over: "hoare (offering sn p) (publish_cycle ev cfg sn sf) (\<lambda>_. handed_over p)"
  unfolding publish_cycle_def Let_def
  by (rule hoare_bind [where R = "\<lambda>_. offering sn p"], use offering.k_agent_now in \<open>simp add: keeps_def\<close>,
      rule hoare_bind [OF confirm_hands_over], fold keeps_def)
    (intro keeps_intro handed.k_loop handed_cluster)

lemma observe_hardware_offers:
  "hoare (\<lambda>w. nw_published w = p) (observe_hardware ev cfg) (\<lambda>(sn, _). offering sn p)"
proof -
  have inv: "hoare (\<lambda>w. nw_published w = p) (on_sys m) (\<lambda>_ w. nw_published w = p)" for m :: "'x op"
    by (rule hoareI) (auto simp: on_sys_def split: prod.splits)
  have offer: "hoare (\<lambda>w. nw_published w = p) (on_sys m) (\<lambda>(sn, _, _). offering sn p)"
    if "hoare (\<lambda>_. True) m (\<lambda>(f, _, _). safe_offer f)" for m :: "(InventorySnapshot \<times> Safety \<times> go_error) op"
    using hoare_sys [OF that, of p] by (simp add: offering_def [abs_def] split_def)
  have failed: "hoare (\<lambda>_. True) (InventoryFailed e c x) (\<lambda>(f, _, _). safe_offer f)" for e c x
    unfolding InventoryFailed_def
    by (rule hoare_skip) (auto simp: hoare_ret intro: inventoryFailed_offer split: option.split)
  show ?thesis unfolding observe_hardware_def
    by (rule hoare_bind [OF inv]) (auto simp: hoare_ret split: sum.split
      intro!: hoare_bind [OF offer [OF failed]] hoare_bind [OF hoare_modify [where Q = "\<lambda>_ w. nw_published w = p"]] hoare_bind [OF offer [OF Monitor_safe_offer]])
qed

text \<open>
  C4: a cycle offers no device that is unfit.  Whatever the inventory and the lifecycle manager answer, a cycle hands
  exactly one pool to the kubelet helper, and it contains no device that is quarantined then.
\<close>

theorem cycle_offers_safe:
  "case run_state (do { (snapshot, safety, _) \<leftarrow> observe_hardware ev cfg; publish_cycle ev cfg snapshot safety }) w of (_, w') \<Rightarrow>
     \<exists>d. nw_published w' = nw_published w @ [d] \<and> pool_names d \<inter> fenced (nw_sys w') = {}"
proof -
  have "hoare (\<lambda>v. nw_published v = nw_published w) (do { (snapshot, safety, _) \<leftarrow> observe_hardware ev cfg; publish_cycle ev cfg snapshot safety })
    (\<lambda>_. handed_over (nw_published w))"
    by (rule hoare_bind [OF observe_hardware_offers]) (auto intro: publish_cycle_hands_over)
  then show ?thesis by (auto simp: hoare_def handed_over_def)
qed

section \<open>What a cycle reports\<close>

text \<open>The report of a cycle agrees with the node object: the condition, and the taint when the node is unsafe.\<close>

definition node_says :: "string \<Rightarrow> Safety \<Rightarrow> cluster \<Rightarrow> bool" where
  "node_says nodeName safety s \<longleftrightarrow> reported nodeName safety s \<and> (sf_Unsafe safety \<longrightarrow> cordoned nodeName s)"

lemma UpdateNodeSafety_says:
  assumes "leaves_node nodeName ev"
  shows "hoare (\<lambda>_. True) (UpdateNodeSafety ev nodeName safety) (\<lambda>err s. err = None \<longrightarrow> node_says nodeName safety s)"
proof (rule hoareI)
  fix s err s'
  assume run: "run_state (UpdateNodeSafety ev nodeName safety) s = (err, s')"
  show "err = None \<longrightarrow> node_says nodeName safety s'"
  proof
    assume "err = None"
    then obtain t old where "gm_get (kn_nodes s') nodeName = Some (published_node t safety old)"
      using UpdateNodeSafety_published [OF assms] run by metis
    then show "node_says nodeName safety s'"
      using set_condition [of t safety "no_Conditions old"] set_taint_unsafe [OF prod.collapse [symmetric]]
      by (auto simp: node_says_def cordoned_def reported_def published_node_def)
  qed
qed

lemma hoare_pure: "(A \<Longrightarrow> hoare (\<lambda>_. True) m Q) \<Longrightarrow> hoare (\<lambda>_. A) m Q"
  by (auto simp: hoare_def)

lemma hoare_cluster: "hoare (\<lambda>_. True) m Q \<Longrightarrow> hoare (\<lambda>_. True) (on_cluster m) (\<lambda>x w. Q x (nw_cluster w))"
  by (rule hoareI) (auto simp: on_cluster_def split: prod.splits dest: hoareD)

interpretation says: agent_invariant "\<lambda>w. b \<longrightarrow> node_says nodeName safety (nw_cluster w)" ev for b nodeName safety ev
  by unfold_locales simp

definition report_of :: "string \<Rightarrow> node_report \<Rightarrow> node_world \<Rightarrow> bool" where
  "report_of nodeName r w \<longleftrightarrow>
     (nr_SafetyErr r = None \<longrightarrow> node_says nodeName (nr_Safety r) (nw_cluster w)) \<and>
     (nr_ResourcesErr r \<noteq> None \<or> nr_TopologyErr r \<noteq> None \<or> nr_RegistrationErr r \<noteq> None \<longrightarrow> sf_Unsafe (nr_Safety r)) \<and>
     he_ready (nw_health w) = (\<not> cycle_failed r)"

lemma publish_cycle_safety:
  "returns (\<lambda>(re, te, ge, sf). re \<noteq> None \<or> te \<noteq> None \<or> ge \<noteq> None \<longrightarrow> sf_Unsafe sf) (publish_cycle ev cfg sn safety)"
  unfolding publish_cycle_def Let_def by (intro returns_intro) (simp add: publication_unavailable_def)

lemma reconcile_node_report:
  assumes "leaves_node (cf_NodeName cfg) (ne_cluster ev)" and "run_state (reconcile_node ev cfg) w = (r, w')"
  shows "report_of (cf_NodeName cfg) r w'"
proof -
  let ?n = "cf_NodeName cfg"
  let ?says = "\<lambda>b sf w. b \<longrightarrow> node_says ?n sf (nw_cluster w)"
  have finish: "hoare (?says (api_error ev err = None) sf) (do {
      warn_if (api_error ev err) a b; note_safety sf; _ \<leftarrow> on_sys (SnapshotStats (ne_sys ev));
      set_health (SetReady (\<not> cycle_failed rep)); ret rep }) (\<lambda>r. report_of ?n r)"
    if "nr_SafetyErr rep = api_error ev err" "nr_Safety rep = sf"
      "nr_ResourcesErr rep \<noteq> None \<or> nr_TopologyErr rep \<noteq> None \<or> nr_RegistrationErr rep \<noteq> None \<longrightarrow> sf_Unsafe sf" for err sf a b rep
    by (rule hoare_bind [OF says.k_warn [unfolded keeps_def]], rule hoare_bind [OF says.k_note [unfolded keeps_def]],
        rule hoare_bind [OF keeps_sys [where J = "\<lambda>c. api_error ev err = None \<longrightarrow> node_says ?n sf c", unfolded keeps_def]])
      (simp add: hoare_def set_health_def report_of_def SetReady_def that)
  have update: "hoare (\<lambda>_. True) (on_cluster (UpdateNodeSafety (ne_cluster ev) ?n sf)) (\<lambda>err. ?says (api_error ev err = None) sf)" for sf
    using hoare_cluster [OF UpdateNodeSafety_says [OF assms(1), of sf]] by (simp add: api_error_def)
  have publish: "hoare (\<lambda>_. True) (publish_cycle ev cfg sn sf)
      (\<lambda>x _. case x of (re, te, ge, sf) \<Rightarrow> re \<noteq> None \<or> te \<noteq> None \<or> ge \<noteq> None \<longrightarrow> sf_Unsafe sf)" for sn sf
    by (rule hoareI) (rule returnsD [OF publish_cycle_safety])
  have "hoare (\<lambda>_. True) (reconcile_node ev cfg) (\<lambda>r. report_of ?n r)"
    unfolding reconcile_node_def Let_def
    by (rule hoare_skip, rule hoare_skip, rule hoare_skip, (rule hoare_prod)+, rule hoare_bind [OF publish], (rule hoare_prod)+,
        rule hoare_pure, rule hoare_bind [OF update], rule finish) simp_all
  then show ?thesis using hoareD [OF _ _ assms(2)] by blast
qed

section \<open>A cycle without the lock\<close>

text \<open>A node that was fenced, whose agent has published an empty pool; the lock of the lifecycle state cannot be taken.\<close>

definition fenced_node :: NodeObject where
  "fenced_node = \<lparr>no_Name = ''n1'', no_Taints = [\<lparr>ta_Key = NodeTaintKey, ta_Value = ''true'', ta_Effect = ''NoSchedule''\<rparr>],
     no_Conditions = [(sample_condition 1)\<lparr>nc_Status := ConditionFalse, nc_Reason := ''NoHealthyDevices''\<rparr>]\<rparr>"

definition empty_slice :: ResourceSlice where
  "empty_slice = \<lparr>rs_Name = ''s1'', rs_Driver = DefaultDriverName, rs_NodeName = Some ''n1'', rs_PoolName = ''n1'', rs_Generation = 1,
     rs_ResourceSliceCount = 1, rs_Devices = []\<rparr>"

definition sample_agent_env :: node_env where
  "sample_agent_env = \<lparr>ne_sys = sample_env [1] True, ne_cluster = sample_api [], ne_now = \<lambda>_. 1, ne_publish = \<lambda>_. None,
     ne_registration = \<lambda>_. Some (True, []), ne_helper = \<lambda>_. None, ne_polls = \<lambda>_. 0, ne_ctx = \<lambda>_. None, ne_tick = \<lambda>_. False, ne_start = \<lambda>_. None, ne_allocs = None, ne_text = \<lambda>_. [], ne_equal = (=)\<rparr>"

definition sample_agent :: node_world where
  "sample_agent = \<lparr>nw_step = 0, nw_sys = sample_node,
     nw_cluster = sample_cluster\<lparr>kn_nodes := [(''n1'', fenced_node)], kn_slices := [(''s1'', empty_slice)]\<rparr>,
     nw_helperErr = None, nw_health = NewHealth, nw_stopped = False, nw_lastReason = [], nw_lastObservation = 0, nw_published = [],
     nw_events = []\<rparr>"

lemma sample_env_sel: "ne_sys sample_agent_env = sample_env [1] True" "ne_cluster sample_agent_env = sample_api []"
  "ne_now sample_agent_env n = 1" "ne_publish sample_agent_env n = None" "ne_registration sample_agent_env n = Some (True, [])"
  "ne_polls sample_agent_env n = 0" "ne_equal sample_agent_env = (=)"
  by (simp_all add: sample_agent_env_def)

lemma sample_observed:
  "run_state (observe_hardware sample_agent_env sample_config) w =
    ((zero_snapshot, zero_safety, None, Some ''lock lifecycle state: disk full''),
     w\<lparr>nw_lastObservation := 1, nw_sys := (nw_sys w)\<lparr>sy_step := 2\<rparr>\<rparr>)" if "sy_step (nw_sys w) = 0"
  using that by (simp add: observe_hardware_def sample_env_sel Monitor_def lockAndReload_def sample_run eval_nat_numeral cong: weak_congs)

lemma sample_pool: "DriverResourcesAt ''n1'' zero_snapshot maxAge t = [(''n1'', [[]])]"
  by (simp add: DriverResourcesAt_def fresh_at_def zero_snapshot_def cut_slices.simps)

lemma sample_confirmed: "ConfirmResourcePublication (=) ''n1'' DefaultDriverName [(''n1'', [[]])] (Inr [empty_slice]) = None"
  by (simp add: ConfirmResourcePublication_def empty_slice_def published_here_def slice_error_def same_devices_def gm_get_Cons)

lemma sample_lock_run:
  "\<exists>r w'. run_state (reconcile_node sample_agent_env sample_config) sample_agent = (r, w') \<and>
    nr_MonitorErr r \<noteq> None \<and> nr_ResourcesErr r = None \<and> nr_TopologyErr r = None \<and> nr_RegistrationErr r = None \<and>
    nr_SafetyErr r = None \<and> nr_Safety r = zero_safety \<and> nw_published w' = [[(''n1'', [[]])]] \<and>
    \<not> he_ready (nw_health w') \<and> \<not> cordoned ''n1'' (nw_cluster w')" 
proof -
  have p: "\<exists>w'. run_state (publish_cycle sample_agent_env sample_config zero_snapshot zero_safety) w = ((None, None, None, zero_safety), w') \<and>
     nw_sys w' = nw_sys w \<and> nw_published w' = nw_published w @ [[(''n1'', [[]])]] \<and> kn_nodes (nw_cluster w') = [(''n1'', fenced_node)]"
     if "nw_cluster w = sample_cluster\<lparr>kn_nodes := [(''n1'', fenced_node)], kn_slices := [(''s1'', empty_slice)]\<rparr>" for w
    using that by (simp add: publish_cycle_def Let_def agent_now_def loop_step_def sample_pool sample_env_sel sample_config_def confirm_resources_def publish_resources_def
     poll_publication_def sample_api_run sample_confirmed ConfirmHelperRecovery_def warn_if_def publish_topology_def sample_cluster_def
     create_topology_def api_error_def registrationError_def)
  have u: "\<exists>c'. run_state (UpdateNodeSafety (sample_api []) ''n1'' zero_safety) c = (None, c') \<and> \<not> cordoned ''n1'' c'"
    if "kn_nodes c = [(''n1'', fenced_node)]" for c
    using that by (simp add: UpdateNodeSafety_def publish_condition_def setSafetyTaint_def zero_safety_def write_taints_def write_conditions_def
      sample_api_run fenced_node_def gm_get_Cons gm_put_def cordoned_def)
  let ?w = "sample_agent\<lparr>nw_step := 1, nw_health := MarkProgress 1 NewHealth, nw_lastObservation := 1, nw_sys := sample_node\<lparr>sy_step := 2\<rparr>\<rparr>"
  have start: "sy_step sample_node = 0" by (simp add: sample_node_def)
  obtain w1 where w1: "run_state (publish_cycle sample_agent_env sample_config zero_snapshot zero_safety) ?w = ((None, None, None, zero_safety), w1)"
    "nw_published w1 = [[(''n1'', [[]])]]" "kn_nodes (nw_cluster w1) = [(''n1'', fenced_node)]"
    using p [of ?w] by (auto simp: sample_agent_def)
  obtain c where c: "run_state (UpdateNodeSafety (sample_api []) ''n1'' zero_safety) (nw_cluster w1) = (None, c)" "\<not> cordoned ''n1'' c"
    using u [OF w1(3)] by blast
  obtain w2 where w2: "run_state (note_safety zero_safety) (w1\<lparr>nw_cluster := c\<rparr>) = ((), w2)" "nw_published w2 = nw_published w1" "nw_cluster w2 = c"
    by (cases "sf_Reason zero_safety = nw_lastReason w1") (simp_all add: note_safety_def emit_def)
  obtain st sy where st: "run_state (SnapshotStats (sample_env [1] True)) (nw_sys w2) = (st, sy)" by fastforce
  have observed: "run_state (observe_hardware sample_agent_env sample_config) (sample_agent\<lparr>nw_step := 1, nw_health := MarkProgress 1 (nw_health sample_agent)\<rparr>) =
      ((zero_snapshot, zero_safety, None, Some ''lock lifecycle state: disk full''), ?w)"
    using start by (simp add: sample_observed sample_agent_def)
  have enter: "run_state (agent_now sample_agent_env) sample_agent = (1, sample_agent\<lparr>nw_step := 1\<rparr>)"
    by (simp add: agent_now_def loop_step_def sample_env_sel sample_agent_def)
  have name: "cf_NodeName sample_config = ''n1''" by (simp add: sample_config_def)
  show ?thesis
    by (simp add: reconcile_node_def enter observed w1 name sample_env_sel c w2 st api_error_def warn_if_def cycle_failed_def SetReady_def del: One_nat_def)
qed

text \<open>What a cycle leaves of the node object before it updates it, and the pool it hands over.\<close>

lemma topology_keeps_node:
  "keeps (\<lambda>s. leaves_node nodeName cev \<and> gm_get (kn_nodes s) nodeName = x) (publish_topology cev name snapshot)"
  unfolding publish_topology_def
  by (intro keeps_intro same_node.k_get same_node.k_write)
    (auto simp: update_topology_def create_topology_def split: option.splits if_splits)

lemma keeps_on_cluster: "keeps J m \<Longrightarrow> keeps (\<lambda>w. J (nw_cluster w)) (on_cluster m)"
  by (rule keepsI) (auto simp: on_cluster_def split: prod.splits dest: keepsD)

interpretation node_kept: agent_invariant
  "\<lambda>w. leaves_node nodeName (ne_cluster ev) \<and> gm_get (kn_nodes (nw_cluster w)) nodeName = x" ev for nodeName x ev
  by unfold_locales auto

lemma node_kept_calls:
  "keeps (\<lambda>w. leaves_node nodeName (ne_cluster ev) \<and> gm_get (kn_nodes (nw_cluster w)) nodeName = x)
     (on_cluster (publish_topology (ne_cluster ev) name snapshot))"
  "keeps (\<lambda>w. leaves_node nodeName (ne_cluster ev) \<and> gm_get (kn_nodes (nw_cluster w)) nodeName = x)
     (on_cluster (api_get (ne_cluster ev) f))"
  by (rule keeps_on_cluster [OF topology_keeps_node], rule keeps_on_cluster [OF same_node.k_get])

lemma node_kept_wait:
  "keeps (\<lambda>w. leaves_node nodeName (ne_cluster ev) \<and> gm_get (kn_nodes (nw_cluster w)) nodeName = x)
     (waitForResourcePublication n ev name desired)"
  by (induction n) (auto simp: poll_publication_def intro!: keeps_intro node_kept_calls node_kept.k_loop split: sum.split option.split)

lemma publish_cycle_node:
  "keeps (\<lambda>w. leaves_node nodeName (ne_cluster ev) \<and> gm_get (kn_nodes (nw_cluster w)) nodeName = x) (publish_cycle ev cfg sn sf)"
proof -
  have "keeps (\<lambda>w. leaves_node nodeName (ne_cluster ev) \<and> gm_get (kn_nodes (nw_cluster w)) nodeName = x) (publish_resources ev d)" for d
    by (rule keepsI) (auto simp: publish_resources_def loop_step_def)
  then show ?thesis unfolding publish_cycle_def confirm_resources_def Let_def
    by (intro keeps_intro node_kept.k_loop node_kept_calls node_kept_wait)
qed

interpretation pool_kept: agent_invariant "\<lambda>w. nw_published w = p" ev for p ev
  by unfold_locales simp

lemma pool_kept_calls: "keeps (\<lambda>w. nw_published w = p) (on_cluster m)" "keeps (\<lambda>w. nw_published w = p) (on_sys m')"
  by (rule keepsI, auto simp: on_cluster_def on_sys_def split: prod.splits)+

lemma pool_kept_wait: "keeps (\<lambda>w. nw_published w = p) (waitForResourcePublication n ev name desired)"
  by (induction n) (auto simp: poll_publication_def intro!: keeps_intro pool_kept_calls pool_kept.k_loop split: sum.split option.split)

lemma publish_cycle_pool:
  "hoare (\<lambda>w. nw_published w = p) (publish_cycle ev cfg sn sf)
     (\<lambda>_ w. \<exists>t. nw_published w = p @ [DriverResourcesAt (cf_NodeName cfg) sn (cf_MaxInventoryAge cfg) t])"
proof -
  have pub: "hoare (\<lambda>w. nw_published w = p) (publish_resources ev d) (\<lambda>_ w. nw_published w = p @ [d])" for d
    by (rule hoareI) (auto simp: publish_resources_def loop_step_def)
  have con: "hoare (\<lambda>w. nw_published w = p) (confirm_resources ev name d) (\<lambda>_ w. nw_published w = p @ [d])" for name d
    unfolding confirm_resources_def
    by (rule hoare_bind [OF pub], fold keeps_def) (intro keeps_intro pool_kept.k_loop pool_kept_wait)
  have rest: "hoare (\<lambda>w. nw_published w = p @ [d]) m (\<lambda>_ w. \<exists>t. nw_published w = p @ [f t])"
    if "keeps (\<lambda>w. nw_published w = p @ [d]) m" "d = f t" for m :: "'x aop" and d f t
    using that(1) unfolding that(2) keeps_def by (rule hoare_weaken) auto
  show ?thesis unfolding publish_cycle_def Let_def
    by (rule hoare_bind [where R = "\<lambda>_ w. nw_published w = p"], use pool_kept.k_agent_now in \<open>simp add: keeps_def\<close>,
        rule hoare_bind [OF con], rule rest [OF _ refl]) (intro keeps_intro pool_kept.k_loop pool_kept_calls)
qed

lemma publish_cycle_keeps_safety:
  "returns (\<lambda>(re, te, ge, sf). re = None \<and> te = None \<and> ge = None \<longrightarrow> sf = safety) (publish_cycle ev cfg sn safety)"
  unfolding publish_cycle_def Let_def by (intro returns_intro) simp

text \<open>Without the lock, or when the state cannot be reloaded under it, the observation is the zero value.\<close>

definition unlocked :: "env \<Rightarrow> sys \<Rightarrow> bool" where
  "unlocked ev s \<longleftrightarrow> fst (run_state (lockAndReload ev) (snd (run_state (inventory ev) s))) \<noteq> None"

lemma observe_unlocked:
  assumes "unlocked (ne_sys ev) (nw_sys w)" and "run_state (observe_hardware ev cfg) w = ((sn, sf, d, m), w')"
  shows "sn = zero_snapshot \<and> sf = zero_safety \<and> m \<noteq> None \<and> nw_cluster w' = nw_cluster w \<and> nw_published w' = nw_published w"
proof -
  obtain i s1 where inv: "run_state (inventory (ne_sys ev)) (nw_sys w) = (i, s1)" by fastforce
  obtain e s2 where lk: "run_state (lockAndReload (ne_sys ev)) s1 = (Some e, s2)"
    using assms(1) inv by (cases "run_state (lockAndReload (ne_sys ev)) s1") (auto simp: unlocked_def)
  show ?thesis using assms(2) inv lk
    by (cases i) (auto simp: observe_hardware_def Monitor_def InventoryFailed_def)
qed

lemma reconcile_unlocked:
  assumes "leaves_node (cf_NodeName cfg) (ne_cluster ev)" and "unlocked (ne_sys ev) (nw_sys w)"
    and "run_state (reconcile_node ev cfg) w = (r, w')"
  obtains w1 c t where "nr_MonitorErr r \<noteq> None"
    and "nr_ResourcesErr r = None \<and> nr_TopologyErr r = None \<and> nr_RegistrationErr r = None \<longrightarrow> nr_Safety r = zero_safety"
    and "gm_get (kn_nodes w1) (cf_NodeName cfg) = gm_get (kn_nodes (nw_cluster w)) (cf_NodeName cfg)"
    and "run_state (UpdateNodeSafety (ne_cluster ev) (cf_NodeName cfg) (nr_Safety r)) w1 = (c, nw_cluster w')"
    and "nr_SafetyErr r = api_error ev c"
    and "nw_published w' = nw_published w @ [DriverResourcesAt (cf_NodeName cfg) zero_snapshot (cf_MaxInventoryAge cfg) t]"
    and "he_ready (nw_health w') = (\<not> cycle_failed r)"
proof -
  let ?n = "cf_NodeName cfg"
  define w0 where "w0 = w\<lparr>nw_step := Suc (nw_step w), nw_health := MarkProgress (ne_now ev (nw_step w)) (nw_health w)\<rparr>"
  obtain sn sf d m v where ob: "run_state (observe_hardware ev cfg) w0 = ((sn, sf, d, m), v)" by (metis prod.collapse)
  have z: "sn = zero_snapshot" "sf = zero_safety" "m \<noteq> None" "nw_cluster v = nw_cluster w" "nw_published v = nw_published w"
    using observe_unlocked [OF _ ob] assms(2) by (simp_all add: w0_def)
  obtain re te ge sf' u where pc: "run_state (publish_cycle ev cfg sn sf) v = ((re, te, ge, sf'), u)" by (metis prod.collapse)
  have safe: "re = None \<and> te = None \<and> ge = None \<longrightarrow> sf' = zero_safety"
    using returnsD [OF publish_cycle_keeps_safety pc] z(2) by simp
  have node: "gm_get (kn_nodes (nw_cluster u)) ?n = gm_get (kn_nodes (nw_cluster w)) ?n"
    using keepsD [OF publish_cycle_node _ pc] assms(1) z(4) by metis
  obtain t where pool: "nw_published u = nw_published w @ [DriverResourcesAt ?n zero_snapshot (cf_MaxInventoryAge cfg) t]"
    using hoareD [OF publish_cycle_pool _ pc] z(1,5) by blast
  obtain c k where up: "run_state (UpdateNodeSafety (ne_cluster ev) ?n sf') (nw_cluster u) = (c, k)" by fastforce
  have end_of: "nw_cluster w' = k \<and> nw_published w' = nw_published u \<and> he_ready (nw_health w') = (\<not> cycle_failed r) \<and>
      nr_MonitorErr r = m \<and> nr_ResourcesErr r = re \<and> nr_TopologyErr r = te \<and> nr_RegistrationErr r = ge \<and> nr_Safety r = sf' \<and>
      nr_SafetyErr r = api_error ev c"
    using assms(3) ob pc up
    by (auto simp: reconcile_node_def agent_now_def loop_step_def w0_def Let_def warn_if_def emit_def note_safety_def SetReady_def
        split: prod.splits option.splits if_splits)
  show thesis
    by (rule that [of "nw_cluster u" c t]) (use end_of z safe node pool up in simp_all)
qed

text \<open>
  C36: a cycle without the lock reports a healthy node.  When the lock of the lifecycle state cannot be taken, or the state
  not be reloaded, \<open>Monitor\<close> and \<open>InventoryFailed\<close> return the zero value of \<open>Safety\<close>, which is not unsafe.  So in every
  such cycle whose publications, registration and node update succeed, the agent hands over an empty pool and is not
  ready, and yet reports the accelerators as healthy and takes the taint off the node, if the node was fenced.  (The
  node has at most one taint of the driver, and nobody else writes it meanwhile.)
\<close>

theorem lock_failure_reports_healthy:
  assumes "leaves_node (cf_NodeName cfg) (ne_cluster ev)" and "unlocked (ne_sys ev) (nw_sys w)"
    and "\<And>node. gm_get (kn_nodes (nw_cluster w)) (cf_NodeName cfg) = Some node \<Longrightarrow> length (filter safety_taint (no_Taints node)) \<le> 1"
    and "run_state (reconcile_node ev cfg) w = (r, w')"
    and "nr_ResourcesErr r = None" and "nr_TopologyErr r = None" and "nr_RegistrationErr r = None" and "nr_SafetyErr r = None"
  shows "nr_MonitorErr r \<noteq> None \<and> \<not> he_ready (nw_health w') \<and> (\<exists>d. nw_published w' = nw_published w @ [d] \<and> pool_names d = {}) \<and>
    reported (cf_NodeName cfg) zero_safety (nw_cluster w') \<and> \<not> cordoned (cf_NodeName cfg) (nw_cluster w')"
proof -
  obtain w1 c t where mon: "nr_MonitorErr r \<noteq> None" and safe: "nr_Safety r = zero_safety"
    and node: "gm_get (kn_nodes w1) (cf_NodeName cfg) = gm_get (kn_nodes (nw_cluster w)) (cf_NodeName cfg)"
    and up: "run_state (UpdateNodeSafety (ne_cluster ev) (cf_NodeName cfg) (nr_Safety r)) w1 = (c, nw_cluster w')"
    and err: "nr_SafetyErr r = api_error ev c"
    and pool: "nw_published w' = nw_published w @ [DriverResourcesAt (cf_NodeName cfg) zero_snapshot (cf_MaxInventoryAge cfg) t]"
    and ready: "he_ready (nw_health w') = (\<not> cycle_failed r)"
    using reconcile_unlocked [OF assms(1,2,4)] assms(5-7) by metis
  have "c = None" using err assms(8) by (simp add: api_error_def)
  with up safe have run: "run_state (UpdateNodeSafety (ne_cluster ev) (cf_NodeName cfg) zero_safety) w1 = (None, nw_cluster w')" by simp
  have "\<not> sf_Unsafe zero_safety" by (simp add: zero_safety_def)
  then have "reported (cf_NodeName cfg) zero_safety (nw_cluster w') \<and> \<not> cordoned (cf_NodeName cfg) (nw_cluster w')"
    using UpdateNodeSafety_success [OF assms(1) run] node assms(3) by metis
  moreover have "pool_names (DriverResourcesAt (cf_NodeName cfg) zero_snapshot (cf_MaxInventoryAge cfg) t) = {}"
    by (simp add: DriverResourcesAt_names zero_snapshot_def)
  ultimately show ?thesis using mon ready pool by (auto simp: cycle_failed_def)
qed

theorem lock_failure_reports_healthy_witness:
  "\<exists>r w'. cordoned ''n1'' (nw_cluster sample_agent) \<and> run_state (reconcile_node sample_agent_env sample_config) sample_agent = (r, w') \<and>
    \<not> he_ready (nw_health w') \<and> reported ''n1'' zero_safety (nw_cluster w') \<and> \<not> cordoned ''n1'' (nw_cluster w')"
proof -
  obtain r w' where run: "run_state (reconcile_node sample_agent_env sample_config) sample_agent = (r, w')"
    and r: "nr_ResourcesErr r = None" "nr_TopologyErr r = None" "nr_RegistrationErr r = None" "nr_SafetyErr r = None"
    using sample_lock_run by blast
  have c: "cordoned ''n1'' (nw_cluster sample_agent)" by (simp add: cordoned_def sample_agent_def fenced_node_def gm_get_Cons)
  have n: "cf_NodeName sample_config = ''n1''" by (simp add: sample_config_def)
  have "leaves_node (cf_NodeName sample_config) (ne_cluster sample_agent_env)" by (simp add: sample_agent_env_def sample_api_quiet)
  moreover have "unlocked (ne_sys sample_agent_env) (nw_sys sample_agent)"
    by (simp add: unlocked_def sample_env_sel sample_agent_def sample_node_def lockAndReload_def sample_run eval_nat_numeral cong: weak_congs)
  moreover have "length (filter safety_taint (no_Taints node)) \<le> 1"
    if "gm_get (kn_nodes (nw_cluster sample_agent)) (cf_NodeName sample_config) = Some node" for node
    using that n by (auto simp: sample_agent_def fenced_node_def gm_get_Cons)
  ultimately show ?thesis using lock_failure_reports_healthy [OF _ _ _ run r] run c n by metis
qed

text \<open>
  C7: a cycle fails safe.  When its pool, its topology or its registration with the kubelet is not confirmed, the safety it
  reports is unsafe; when the update of the node succeeds, the node object carries the reported condition, and the taint if
  the safety is unsafe; and the agent is ready afterwards exactly when nothing in the cycle failed.
\<close>

theorem cycle_fails_safe:
  assumes "leaves_node (cf_NodeName cfg) (ne_cluster ev)" and "run_state (reconcile_node ev cfg) w = (r, w')"
  shows "(nr_ResourcesErr r \<noteq> None \<or> nr_TopologyErr r \<noteq> None \<or> nr_RegistrationErr r \<noteq> None \<longrightarrow> sf_Unsafe (nr_Safety r)) \<and>
    (nr_SafetyErr r = None \<longrightarrow> reported (cf_NodeName cfg) (nr_Safety r) (nw_cluster w') \<and>
       (sf_Unsafe (nr_Safety r) \<longrightarrow> cordoned (cf_NodeName cfg) (nw_cluster w'))) \<and>
    he_ready (nw_health w') = (nr_DiscoverErr r = None \<and> nr_MonitorErr r = None \<and> nr_ResourcesErr r = None \<and>
       nr_TopologyErr r = None \<and> nr_RegistrationErr r = None \<and> nr_SafetyErr r = None)"
  using reconcile_node_report [OF assms] by (auto simp: report_of_def node_says_def cycle_failed_def)

theorem cycle_fails_safe_witness:
  "\<exists>r w'. run_state (reconcile_node sample_agent_env sample_config) sample_agent = (r, w') \<and> cycle_failed r \<and>
     \<not> he_ready (nw_health w') \<and> reported ''n1'' zero_safety (nw_cluster w')"
proof -
  obtain r w' where run: "run_state (reconcile_node sample_agent_env sample_config) sample_agent = (r, w')"
    and r: "nr_MonitorErr r \<noteq> None" "nr_SafetyErr r = None" "nr_Safety r = zero_safety" using sample_lock_run by blast
  have "leaves_node (cf_NodeName sample_config) (ne_cluster sample_agent_env)" "cf_NodeName sample_config = ''n1''"
    by (simp_all add: sample_agent_env_def sample_api_quiet sample_config_def)
  then show ?thesis using run r cycle_fails_safe [OF _ run] by (auto simp: cycle_failed_def)
qed

section \<open>The end of the loop\<close>

text \<open>After a fatal error, at the step \<open>k\<close> or later.\<close>

definition dying :: "nat \<Rightarrow> node_world \<Rightarrow> bool" where
  "dying k w \<longleftrightarrow> nw_stopped w \<and> \<not> he_live (nw_health w) \<and> k \<le> nw_step w"

text \<open>No step takes back a fatal error.\<close>

lemma dying_set: "(\<And>w. nw_stopped (f w) = nw_stopped w \<and> nw_health (f w) = nw_health w \<and> nw_step (f w) = nw_step w) \<Longrightarrow> keeps (dying k) (modify f)"
  by (rule keeps_modify) (simp add: dying_def)

lemma dying_health: "keeps (dying k) (set_health (SetReady b))" "keeps (dying k) (set_health (SetLive False))" "keeps (dying k) (set_health (MarkProgress t))"
  by (rule keepsI, auto simp: dying_def SetReady_def SetLive_def MarkProgress_def)+

lemma dying_lift: "keeps (dying k) (on_sys m)" "keeps (dying k) (on_cluster n)"
  by (rule keepsI, auto simp: dying_def on_sys_def on_cluster_def split: prod.splits)+

lemma dying_step: "keeps (dying k) loop_step"
  by (rule keepsI) (auto simp: dying_def loop_step_def)

lemma dying_handle: "keeps (dying k) (HandleError e b m)"
  unfolding HandleError_def
  by (intro keeps_intro dying_set dying_health keeps_modify) (simp_all add: dying_def)

lemma dying_waiting: "keeps (dying k) (waitForResourcePublication n ev nodeName desired)"
  by (induction n) (auto simp: poll_publication_def intro!: keeps_intro dying_lift dying_step split: sum.split option.split)

lemma dying_observe: "keeps (dying k) (observe_hardware ev cfg)"
  unfolding observe_hardware_def by (intro keeps_intro dying_lift dying_set) simp_all

lemma dying_confirm: "keeps (dying k) (confirm_resources ev nodeName desired)"
  unfolding confirm_resources_def publish_resources_def helper_reports_def HelperError_def ConfirmHelperRecovery_def
  by (intro keeps_intro dying_step dying_waiting dying_handle dying_set) simp_all

lemmas dying_ops = dying_step dying_health dying_lift dying_observe dying_confirm

lemma dying_reconcile: "keeps (dying k) (reconcile_node ev cfg)"
  unfolding reconcile_node_def publish_cycle_def agent_now_def warn_if_def emit_def note_safety_def registrationError_def
  by (intro keeps_intro dying_ops dying_set) simp_all

definition dead :: "node_world \<Rightarrow> bool" where
  "dead w \<longleftrightarrow> \<not> he_live (nw_health w) \<and> \<not> he_ready (nw_health w)"

lemma shutdown_dead: "hoare (dying k) (shutdown_node ev cfg podUID) (\<lambda>_. dead)"
proof -
  have start: "hoare (dying k) (set_health (SetReady False)) (\<lambda>_. dead)"
    by (rule hoareI) (auto simp: dying_def dead_def SetReady_def)
  have k: "keeps dead (on_cluster m)" "keeps dead (publish_resources ev d)" "keeps dead (agent_now ev)" for m :: "'x nop" and d
    by (rule keepsI, auto simp: on_cluster_def publish_resources_def agent_now_def loop_step_def dead_def split: prod.splits)+
  show ?thesis unfolding shutdown_node_def
    by (rule hoare_bind [OF start], fold keeps_def) (intro keeps_intro k)
qed

lemma hoare_premise: "(P \<Longrightarrow> hoare Q m R) \<Longrightarrow> hoare (\<lambda>w. P \<and> Q w) m R"
  by (auto simp: hoare_def)

lemma dying_next: "hoare (dying k) loop_step (\<lambda>n w. k \<le> n \<and> dying (Suc k) w)"
  by (rule hoareI) (auto simp: loop_step_def dying_def)

text \<open>One cycle and the \<open>select\<close> after it: the end, or another cycle when the tick is taken.\<close>

lemma node_loop_select:
  assumes "\<And>n. k \<le> n \<Longrightarrow> ne_tick ev n \<Longrightarrow> hoare (dying (Suc k)) (node_loop fuel ev cfg podUID signalled) (\<lambda>b w. b \<and> dead w)"
  shows "hoare (dying k) (node_loop (Suc fuel) ev cfg podUID signalled) (\<lambda>b w. b \<and> dead w)"
  unfolding node_loop.simps
proof (rule hoare_bind [OF dying_reconcile [unfolded keeps_def]], rule hoare_bind [OF dying_next], rule hoare_premise,
    rule hoare_bind [OF hoare_gets [where Q = "\<lambda>b w. b \<and> dying (Suc k) w"]])
  show "nw_stopped w \<and> dying (Suc k) w" if "dying (Suc k) w" for w
    using that by (simp add: dying_def)
  fix n b
  assume n: "k \<le> n"
  show "hoare (\<lambda>w. b \<and> dying (Suc k) w) (if (signalled n \<or> b) \<and> \<not> ne_tick ev n then do { shutdown_node ev cfg podUID; ret True }
      else node_loop fuel ev cfg podUID signalled) (\<lambda>b w. b \<and> dead w)"
    by (rule hoare_premise, simp, intro conjI impI assms [OF n] hoare_bind [OF shutdown_dead] hoare_ret) simp_all
qed

lemma node_loop_ends:
  assumes "\<forall>n \<ge> N. \<not> ne_tick ev n"
  shows "N \<le> k + j \<Longrightarrow> j < fuel \<Longrightarrow> hoare (dying k) (node_loop fuel ev cfg podUID signalled) (\<lambda>b w. b \<and> dead w)"
proof (induction j arbitrary: k fuel)
  case 0
  then obtain f where "fuel = Suc f" by (cases fuel) auto
  then show ?case using assms 0 by (auto intro!: node_loop_select simp del: node_loop.simps)
next
  case (Suc j)
  then obtain f where "fuel = Suc f" by (cases fuel) auto
  then show ?case using Suc by (auto intro!: node_loop_select simp del: node_loop.simps)
qed

text \<open>
  C16: a fatal error of the kubelet helper ends the agent.  If from some moment on the tick is not taken in place of the end,
  enough cycles end the loop, whatever the environment answers, and the process is neither live nor ready then.
\<close>

theorem fatal_error_stops:
  assumes "\<forall>n \<ge> N. \<not> ne_tick ev n"
  shows "case run_state (do { HandleError (Some e) False msg; node_loop (Suc (N + fuel)) ev cfg podUID signalled }) w of (ended, w') \<Rightarrow>
     ended \<and> \<not> he_live (nw_health w') \<and> \<not> he_ready (nw_health w')"
proof -
  have "hoare (\<lambda>_. True) (HandleError (Some e) False msg) (\<lambda>_. dying 0)"
    by (rule hoareI) (auto simp: HandleError_def dying_def SetLive_def)
  then have "hoare (\<lambda>_. True) (do { HandleError (Some e) False msg; node_loop (Suc (N + fuel)) ev cfg podUID signalled }) (\<lambda>b w. b \<and> dead w)"
    by (rule hoare_bind) (rule node_loop_ends [OF assms, where j = N], simp_all)
  then show ?thesis by (auto simp: hoare_def dead_def)
qed

theorem fatal_error_stops_witness:
  "fst (run_state (do { HandleError (Some ''gone'') False ''serve''; node_loop 5 (sample_agent_env\<lparr>ne_tick := \<lambda>n. n < 4\<rparr>) sample_config [] (\<lambda>_. False) }) sample_agent)"
  using fatal_error_stops [of 4 "sample_agent_env\<lparr>ne_tick := \<lambda>n. n < 4\<rparr>" "''gone''" "''serve''" 0 sample_config "[]" "\<lambda>_. False" sample_agent]
  by (simp add: split_def del: node_loop.simps)

end
