(* ===== verification/Filesystem.thy ===== *)
theory Filesystem
  imports Inventory
begin

text \<open>
  The provider that reads the devices from sysfs: \<open>src/internal/device/filesystem.go\<close>, with the classification of
  character devices (\<open>discovery.go\<close>) and the driver information (\<open>kmd.go\<close>).

  The operating system is the argument \<open>filesystem\<close>: what a call answers for a path during one observation, an
  error being its text.  \<open>fs_Lstat\<close> tells a missing path from another error.
\<close>

section \<open>The operating system\<close>

datatype file_type = TypeDirectory | TypeSymlink | TypeCharDevice | TypeOther

text \<open>\<open>fs.FileInfo\<close>: the type, the mode as text and the device number, if \<open>Sys()\<close> has one; otherwise the name of its type.\<close>

record FileInfo =
  in_Type :: file_type
  in_Mode :: string
  in_Rdev :: "string + uint64"

datatype lstat_answer = LstatMissing | LstatError string | LstatInfo FileInfo

record driverInfoRequest =
  di_ReturnedOutputSize :: "32 word"
  di_DriverVersion :: "32 word"
  di_Major :: "8 word"
  di_Minor :: "8 word"
  di_Patch :: "8 word"

record filesystem =
  fs_ReadDir :: "string \<Rightarrow> string + (string \<times> file_type) list"
  fs_ReadFile :: "string \<Rightarrow> string + string"
  fs_EvalSymlinks :: "string \<Rightarrow> string + string"
  fs_Readlink :: "string \<Rightarrow> string + string"
  fs_Lstat :: "string \<Rightarrow> lstat_answer"
  fs_Open :: "string \<Rightarrow> go_error"
  fs_DriverInfo :: "string \<Rightarrow> string + driverInfoRequest"

section \<open>Files of a device\<close>

text \<open>The error of \<open>readSelectedValues\<close> is always nil: a file that cannot be read is left out.\<close>

definition read_value :: "filesystem \<Rightarrow> string \<Rightarrow> string \<Rightarrow> raw_values \<Rightarrow> raw_values" where
  "read_value fs root name values =
     (case fs_ReadFile fs (path_join [root, name]) of
        Inl _ \<Rightarrow> values
      | Inr data \<Rightarrow> gm_put name (trim_space data) values)"

definition readSelectedValues :: "filesystem \<Rightarrow> string \<Rightarrow> string list \<Rightarrow> raw_values" where
  "readSelectedValues fs root names = fold (read_value fs root) names []"

definition readDeviceValues :: "filesystem \<Rightarrow> string \<Rightarrow> raw_values" where
  "readDeviceValues fs root = readSelectedValues fs root
     [''uevent'', ''dev'', ''architecture'', ''health'', ''fault_code'', ''device_uuid'', ''serial_number'',
      ''firmware_version'', ''tt_fw_bundle_ver'', ''kmd_version'', ''driver_version'', ''driver_abi_version'',
      ''memory_capacity_bytes'', ''memory_available_bytes'', ''tensix_cores_total'',
      ''fabric_id'', ''fabric_domain'', ''ring_id'', ''fabric_ring'', ''fabric_endpoint'', ''fabric_endpoint_id'']"

abbreviation newline :: char where "newline \<equiv> CHR 0x0A"

definition uevent_line :: "string \<Rightarrow> raw_values \<Rightarrow> raw_values" where
  "uevent_line line values =
     (case splitn_char 2 CHR ''='' line of
        [key, value] \<Rightarrow> gm_put (''uevent.'' @ key) (trim_space value) values
      | _ \<Rightarrow> values)"

definition readPCIValues :: "filesystem \<Rightarrow> string \<Rightarrow> raw_values" where
  "readPCIValues fs root =
     (let values = readSelectedValues fs root
            [''uevent'', ''PCI_SLOT_NAME'', ''vendor'', ''device'', ''subsystem_vendor'', ''subsystem_device'',
             ''revision'', ''numa_node'', ''current_link_state'', ''current_link_speed'', ''current_link_width'', ''link_state''];
          uevent = raw_value values ''uevent'';
          values = (if uevent \<noteq> [] then fold uevent_line (split_char newline uevent) values else values)
      in if raw_value values ''PCI_SLOT_NAME'' \<noteq> []
         then gm_put ''PCI_SLOT_NAME'' (trim_space (raw_value values ''PCI_SLOT_NAME'')) values
         else values)"

definition readIOMMUGroup :: "filesystem \<Rightarrow> string \<Rightarrow> string \<times> string" where
  "readIOMMUGroup fs root =
     (let link = path_join [root, ''iommu_group'']
      in case fs_Readlink fs link of
           Inl _ \<Rightarrow> ([], [])
         | Inr target \<Rightarrow>
             let group = path_base (path_clean target)
             in case fs_EvalSymlinks fs link of
                  Inl _ \<Rightarrow> (group, [])
                | Inr resolved \<Rightarrow>
                    (case fs_ReadDir fs (path_join [resolved, ''devices'']) of
                       Inl _ \<Rightarrow> (group, [])
                     | Inr entries \<Rightarrow> (group, show_nat (length entries))))"

definition read_link :: "filesystem \<Rightarrow> string \<Rightarrow> string \<Rightarrow> FabricLink" where
  "read_link fs root name =
     (let values = readSelectedValues fs (path_join [root, name]) [''state'', ''speed_gbps'', ''remote_bdf'', ''remote_endpoint_id'']
      in \<lparr>fl_Name = name, fl_State = raw_value values ''state'', fl_SpeedGbps = parseUint (raw_value values ''speed_gbps''),
          fl_RemoteBDF = raw_value values ''remote_bdf'', fl_RemoteEndpointID = raw_value values ''remote_endpoint_id''\<rparr>)"

definition readFabricLinks :: "filesystem \<Rightarrow> string \<Rightarrow> FabricLink list" where
  "readFabricLinks fs root =
     (case fs_ReadDir fs root of
        Inl _ \<Rightarrow> []
      | Inr entries \<Rightarrow> sort_key fl_Name (map (read_link fs root \<circ> fst) (filter (\<lambda>e. snd e = TypeDirectory) entries)))"

fun key_line :: "string \<Rightarrow> string list \<Rightarrow> string" where
  "key_line key [] = []"
| "key_line key (line # lines) =
     (case splitn_char 2 CHR ''='' line of
        [k, v] \<Rightarrow> if trim_space k = key then trim_space v else key_line key lines
      | _ \<Rightarrow> key_line key lines)"

definition valuesPath :: "raw_values \<Rightarrow> string \<Rightarrow> string \<Rightarrow> string" where
  "valuesPath values fname key = key_line key (split_char newline (raw_value values fname))"

definition kernelVersion :: "filesystem \<Rightarrow> string" where
  "kernelVersion fs = (case fs_ReadFile fs ''/proc/sys/kernel/osrelease'' of Inl _ \<Rightarrow> [] | Inr data \<Rightarrow> trim_space data)"

section \<open>The PCI device\<close>

text \<open>A path that the PCI root contains, or that the root names.\<close>

definition outside :: "string \<Rightarrow> string \<Rightarrow> bool" where
  "outside root target = (case path_rel root target of None \<Rightarrow> True | Some rel \<Rightarrow> rel = ''..'' \<or> has_prefix rel ''../'')"

definition resolvePCIPath :: "filesystem \<Rightarrow> string \<Rightarrow> string \<Rightarrow> string + string" where
  "resolvePCIPath fs linkPath pciRoot =
     (case fs_Lstat fs linkPath of
        LstatMissing \<Rightarrow> Inl (''PCI backing link '' @ go_quote linkPath @ '' is missing'')
      | LstatError e \<Rightarrow> Inl e
      | LstatInfo info \<Rightarrow>
          if in_Type info \<noteq> TypeSymlink then Inl (''PCI backing path '' @ go_quote linkPath @ '' is not a symlink'')
          else case fs_EvalSymlinks fs linkPath of
            Inl e \<Rightarrow> Inl (''resolve PCI backing link '' @ go_quote linkPath @ '': '' @ e)
          | Inr target \<Rightarrow>
              (case fs_EvalSymlinks fs pciRoot of
                 Inl e \<Rightarrow> Inl (''resolve PCI root '' @ go_quote pciRoot @ '': '' @ e)
               | Inr root \<Rightarrow>
                   if outside root target \<and> fs_EvalSymlinks fs (path_join [pciRoot, path_base target]) \<noteq> Inr target
                   then Inl (''PCI backing path '' @ go_quote target @ '' escapes PCI root '' @ go_quote root)
                   else Inr target))"

section \<open>The device node\<close>

definition zero_node :: Node where
  "zero_node = \<lparr>nd_ID = [], nd_Path = [], nd_Major = 0, nd_Minor = 0, nd_Mode = [], nd_ChipSeries = []\<rparr>"

definition classifyCharacterDevice :: "string \<Rightarrow> FileInfo \<Rightarrow> string + (Node \<times> bool)" where
  "classifyCharacterDevice path info =
     (if in_Type info \<noteq> TypeCharDevice then Inr (zero_node, False)
      else case in_Rdev info of
        Inl t \<Rightarrow> Inl (''device '' @ go_quote path @ '' has unsupported stat type '' @ t)
      | Inr rdev \<Rightarrow>
          (let (major, minor) = majorMinor rdev
           in Inr (\<lparr>nd_ID = path_base path, nd_Path = path, nd_Major = major, nd_Minor = minor, nd_Mode = in_Mode info,
                    nd_ChipSeries = []\<rparr>, True)))"

definition readKMDInfo :: "filesystem \<Rightarrow> string \<Rightarrow> string + (string \<times> 32 word)" where
  "readKMDInfo fs path =
     (case fs_Open fs path of
        Some e \<Rightarrow> Inl e
      | None \<Rightarrow>
          (case fs_DriverInfo fs path of
             Inl e \<Rightarrow> Inl e
           | Inr r \<Rightarrow>
               if di_ReturnedOutputSize r < 12
               then Inl (''tt-kmd returned '' @ show_nat (unat (di_ReturnedOutputSize r)) @ '' driver-info bytes'')
               else Inr (show_nat (unat (di_Major r)) @ ''.'' @ show_nat (unat (di_Minor r)) @ ''.'' @ show_nat (unat (di_Patch r)),
                         di_DriverVersion r)))"

text \<open>The path of the node, from the event of the device or from the device root.\<close>

definition node_path :: "Roots \<Rightarrow> string \<Rightarrow> raw_values \<Rightarrow> string" where
  "node_path roots name values =
     (let path = valuesPath values ''uevent'' ''DEVNAME''
      in if path = [] then path_join [rt_DeviceRoot roots, name]
         else if \<not> is_abs path then path_join [''/dev'', path]
         else path)"

definition observe_node :: "filesystem \<Rightarrow> Roots \<Rightarrow> string \<Rightarrow> RawDevice \<Rightarrow> RawDevice" where
  "observe_node fs roots name raw =
     (let path = node_path roots name (rw_Values raw);
          raw = raw\<lparr>rw_Node := zero_node\<lparr>nd_ID := name, nd_Path := path\<rparr>\<rparr>
      in case fs_Lstat fs path of
           LstatInfo info \<Rightarrow>
             if in_Type info \<noteq> TypeCharDevice then raw
             else (case classifyCharacterDevice path info of
                     Inl e \<Rightarrow> raw\<lparr>rw_DiscoveryError := Some e\<rparr>
                   | Inr (discovered, ok) \<Rightarrow>
                       if ok then raw\<lparr>rw_Node := discovered, rw_CharacterDevicePresent := True\<rparr> else raw)
         | _ \<Rightarrow> raw)"

text \<open>The version and the ABI the driver tells, against those of sysfs.\<close>

definition merge_driver :: "filesystem \<Rightarrow> RawDevice \<Rightarrow> RawDevice" where
  "merge_driver fs raw =
     (if \<not> rw_CharacterDevicePresent raw then raw
      else case readKMDInfo fs (nd_Path (rw_Node raw)) of
        Inl _ \<Rightarrow> raw
      | Inr (version, abi) \<Rightarrow>
          let abi = show_nat (unat abi);
              observed = firstValue (rw_Values raw) [''kmd_version'', ''driver_version''];
              versionErr = (if observed \<noteq> [] \<and> observed \<noteq> version
                then Some (''tt-kmd version sources disagree: '' @ observed @ '' != '' @ version) else None);
              observed = raw_value (rw_Values raw) ''driver_abi_version'';
              abiErr = (if observed \<noteq> [] \<and> observed \<noteq> abi
                then Some (''tt-kmd ABI sources disagree: '' @ observed @ '' != '' @ abi) else None)
          in raw\<lparr>rw_DiscoveryError := errors_join (errors_join (rw_DiscoveryError raw) versionErr) abiErr,
                 rw_Values := gm_put ''driver_abi_version'' abi (gm_put ''kmd_version'' version (rw_Values raw))\<rparr>)"

definition merge_numbers :: "RawDevice \<Rightarrow> RawDevice" where
  "merge_numbers raw =
     (let dev = raw_value (rw_Values raw) ''dev''; node = rw_Node raw
      in if dev \<noteq> [] \<and> nd_Major node = 0 \<and> nd_Minor node = 0
         then (let (major, minor) = parseDeviceNumbers dev in raw\<lparr>rw_Node := node\<lparr>nd_Major := major, nd_Minor := minor\<rparr>\<rparr>)
         else raw)"

text \<open>The PCI values go under their own prefix; their keys differ, so the order in which the map is visited does not matter.\<close>

definition pci_values :: "filesystem \<Rightarrow> string \<Rightarrow> raw_values \<Rightarrow> raw_values" where
  "pci_values fs path values =
     (let values = fold (\<lambda>(key, value). gm_put (''pci.'' @ key) value) (readPCIValues fs path) values;
          (group, size) = readIOMMUGroup fs path
      in gm_put ''pci.iommu_group_size'' size (gm_put ''pci.iommu_group'' group values))"

definition observe_backing :: "filesystem \<Rightarrow> Roots \<Rightarrow> string \<Rightarrow> RawDevice \<Rightarrow> RawDevice" where
  "observe_backing fs roots dataPath raw =
     (case resolvePCIPath fs (path_join [dataPath, ''device'']) (rt_PCISysfsRoot roots) of
        Inl e \<Rightarrow> raw\<lparr>rw_PCIPath := [], rw_DiscoveryError := Some e\<rparr>
      | Inr path \<Rightarrow> raw\<lparr>rw_PCIPath := path,
          rw_Values := (if path \<noteq> [] then pci_values fs path (rw_Values raw) else rw_Values raw),
          rw_FabricLinks := readFabricLinks fs (path_join [dataPath, ''fabric_links''])\<rparr>)"

definition empty_raw :: "string \<Rightarrow> string \<Rightarrow> RawDevice" where
  "empty_raw name sysfsPath = \<lparr>rw_ID = name, rw_Node = zero_node, rw_CharacterDevicePresent = False, rw_SysfsPath = sysfsPath,
     rw_PCIPath = [], rw_Values = [], rw_FabricLinks = [], rw_DiscoveryError = None\<rparr>"

definition observeEntry :: "filesystem \<Rightarrow> Roots \<Rightarrow> string \<Rightarrow> RawDevice" where
  "observeEntry fs roots name =
     (let sysfsPath = path_join [rt_TenstorrentSysfsRoot roots, name]; raw = empty_raw name sysfsPath
      in case fs_EvalSymlinks fs sysfsPath of
           Inl e \<Rightarrow> raw\<lparr>rw_DiscoveryError := Some (''resolve Tenstorrent sysfs entry '' @ go_quote sysfsPath @ '': '' @ e)\<rparr>
         | Inr dataPath \<Rightarrow>
             observe_backing fs roots dataPath (merge_numbers (merge_driver fs (observe_node fs roots name
               (raw\<lparr>rw_Values := gm_put ''kernel_version'' (kernelVersion fs) (readDeviceValues fs dataPath)\<rparr>)))))"

section \<open>The provider\<close>

definition rawSortKey :: "RawDevice \<Rightarrow> string" where
  "rawSortKey raw = (if rw_PCIPath raw \<noteq> [] then rw_PCIPath raw else rw_ID raw)"

text \<open>The loop over the entries: before each one the context is checked (\<open>ctx n\<close> is its error at the \<open>n\<close>-th check).\<close>

fun observe_entries :: "filesystem \<Rightarrow> Roots \<Rightarrow> (nat \<Rightarrow> go_error) \<Rightarrow> nat \<Rightarrow> (string \<times> file_type) list \<Rightarrow> string + RawDevice list" where
  "observe_entries fs roots ctx n [] = Inr []"
| "observe_entries fs roots ctx n ((name, t) # entries) =
     (case ctx n of
        Some e \<Rightarrow> Inl e
      | None \<Rightarrow>
          if t \<noteq> TypeSymlink \<and> t \<noteq> TypeDirectory then observe_entries fs roots ctx (Suc n) entries
          else case observe_entries fs roots ctx (Suc n) entries of
            Inl e \<Rightarrow> Inl e
          | Inr devices \<Rightarrow> Inr (observeEntry fs roots name # devices))"

definition Observe :: "filesystem \<Rightarrow> Roots \<Rightarrow> (nat \<Rightarrow> go_error) \<Rightarrow> string + RawDevice list" where
  "Observe fs roots ctx =
     (case ctx 0 of
        Some e \<Rightarrow> Inl e
      | None \<Rightarrow>
          (case fs_ReadDir fs (rt_TenstorrentSysfsRoot roots) of
             Inl e \<Rightarrow> Inl (''read Tenstorrent sysfs root '' @ go_quote (rt_TenstorrentSysfsRoot roots) @ '': '' @ e)
           | Inr entries \<Rightarrow>
               (case observe_entries fs roots ctx 1 entries of
                  Inl e \<Rightarrow> Inl e
                | Inr devices \<Rightarrow> Inr (sort_key (\<lambda>d. (rawSortKey d, rw_ID d)) devices))))"

definition NewFilesystemProvider :: "((string \<times> string) list \<Rightarrow> (string \<times> string) list) \<Rightarrow> Roots \<Rightarrow> string + Roots" where
  "NewFilesystemProvider rng roots = (case roots_validate rng roots of Some e \<Rightarrow> Inl e | None \<Rightarrow> Inr roots)"

end
