(* ===== verification/Filesystem_Correct.thy ===== *)
theory Filesystem_Correct
  imports Filesystem Inventory_Correct
begin

text \<open>
  What the sysfs provider promises (\<open>src/internal/device/filesystem.go\<close>): a PCI backing path is accepted exactly when
  it lies inside the PCI root or the root itself names it, and no device is ever offered whose backing was not accepted.
\<close>

section \<open>Confinement\<close>

text \<open>The documented behaviour of \<open>filepath.EvalSymlinks\<close>: it cleans its result, and keeps an absolute path absolute.\<close>

definition links_resolve :: "filesystem \<Rightarrow> bool" where
  "links_resolve fs \<longleftrightarrow> (\<forall>p q. is_abs p \<longrightarrow> fs_EvalSymlinks fs p = Inr q \<longrightarrow> is_abs q \<and> path_clean q = q)"

definition under :: "string \<Rightarrow> string \<Rightarrow> bool" where
  "under root target \<longleftrightarrow> prefix (path_names root) (path_names target)"

definition confined :: "filesystem \<Rightarrow> string \<Rightarrow> string \<Rightarrow> bool" where
  "confined fs pciRoot target \<longleftrightarrow> (\<exists>root. fs_EvalSymlinks fs pciRoot = Inr root \<and>
     (under root target \<or> fs_EvalSymlinks fs (path_join [pciRoot, path_base target]) = Inr target))"

lemma outside_iff:
  assumes "is_abs root" "path_clean root = root" "is_abs target" "path_clean target = target"
  shows "outside root target \<longleftrightarrow> \<not> under root target"
  using rel_inside [OF assms(1,3)] assms(2,4)
  by (auto simp: outside_def under_def goes_up_def split: option.splits)

lemma resolve_iff:
  assumes "links_resolve fs" and "is_abs linkPath" and "is_abs pciRoot"
  shows "resolvePCIPath fs linkPath pciRoot = Inr target \<longleftrightarrow>
    (\<exists>info. fs_Lstat fs linkPath = LstatInfo info \<and> in_Type info = TypeSymlink) \<and>
    fs_EvalSymlinks fs linkPath = Inr target \<and> confined fs pciRoot target"
  using assms outside_iff unfolding resolvePCIPath_def confined_def links_resolve_def
  by (auto split: lstat_answer.split sum.split)

text \<open>
  A device stays in its PCI tree.  For absolute paths, the PCI path of a device is the target of its backing link, and
  it is accepted exactly when the link is a symbolic link that resolves and the target lies under the resolved PCI root, name
  by name, or is what the PCI root has under its last name.
\<close>

theorem resolvePCIPath_iff:
  assumes "links_resolve fs" and "is_abs linkPath" and "is_abs pciRoot"
  shows "resolvePCIPath fs linkPath pciRoot = Inr target \<longleftrightarrow>
    (\<exists>info. fs_Lstat fs linkPath = LstatInfo info \<and> in_Type info = TypeSymlink) \<and>
    fs_EvalSymlinks fs linkPath = Inr target \<and> confined fs pciRoot target"
  by (rule resolve_iff [OF assms])

section \<open>From sysfs to the inventory\<close>

lemma join_abs: "is_abs p \<Longrightarrow> is_abs (path_join [p, e])"
  by (cases p; cases e) (auto simp: path_join_def is_abs_def has_prefix_def intro!: clean_abs [unfolded is_abs_def has_prefix_def, simplified])

lemma observeEntry_resolved:
  assumes "rw_DiscoveryError (observeEntry fs roots name) = None"
  obtains dataPath where "fs_EvalSymlinks fs (path_join [rt_TenstorrentSysfsRoot roots, name]) = Inr dataPath"
    and "resolvePCIPath fs (path_join [dataPath, ''device'']) (rt_PCISysfsRoot roots) = Inr (rw_PCIPath (observeEntry fs roots name))"
  using assms that by (auto simp: observeEntry_def observe_backing_def Let_def split: sum.splits)

lemma snapshot_eligible:
  assumes "BuildSnapshot (Some (Inr obs)) t = Inr sn" and "d \<in> set (sn_Devices sn)" and "dv_Eligible d"
  shows "\<exists>raw \<in> set obs. d = normalize_device raw t \<and> rw_DiscoveryError raw = None"
proof -
  let ?ds = "sort_key dv_StableID (map (\<lambda>obs. normalize_device obs t) obs)"
  have "sn_Devices sn = markDuplicateIdentities ?ds" using assms(1) by (auto simp: BuildSnapshot_def)
  then have "d \<in> set ?ds" using assms(2,3) mark_sorted_eligible [of ?ds d] by simp
  then show ?thesis using assms(3) normalize_eligible by auto
qed

lemma observe_entries_from:
  "observe_entries fs roots ctx n entries = Inr ds \<Longrightarrow>
    ds = map (observeEntry fs roots \<circ> fst) (filter (\<lambda>e. snd e = TypeSymlink \<or> snd e = TypeDirectory) entries)"
  by (induction fs roots ctx n entries arbitrary: ds rule: observe_entries.induct) (auto split: option.splits sum.splits if_splits)

lemma Observe_from:
  assumes "Observe fs roots ctx = Inr obs" and "raw \<in> set obs"
  obtains entries name t where "fs_ReadDir fs (rt_TenstorrentSysfsRoot roots) = Inr entries" and "(name, t) \<in> set entries"
    and "t = TypeSymlink \<or> t = TypeDirectory" and "raw = observeEntry fs roots name"
  using assms by (auto simp: Observe_def dest!: observe_entries_from split: option.splits sum.splits)

text \<open>
  C11: no device is offered whose backing is not confined.  Every eligible device of an inventory built from sysfs is the
  normalized observation of an entry of the sysfs class, a link or a directory, which resolves, and whose PCI path was
  accepted as one of the PCI root.
\<close>

theorem eligible_confined:
  assumes "links_resolve fs" and "is_abs (rt_TenstorrentSysfsRoot roots)" and "is_abs (rt_PCISysfsRoot roots)"
    and "Observe fs roots ctx = Inr obs" and "BuildSnapshot (Some (Inr obs)) t = Inr sn"
    and "d \<in> set (sn_Devices sn)" and "dv_Eligible d"
  shows "\<exists>name dataPath. d = normalize_device (observeEntry fs roots name) t \<and>
    fs_EvalSymlinks fs (path_join [rt_TenstorrentSysfsRoot roots, name]) = Inr dataPath \<and>
    fs_EvalSymlinks fs (path_join [dataPath, ''device'']) = Inr (rw_PCIPath (observeEntry fs roots name)) \<and>
    confined fs (rt_PCISysfsRoot roots) (rw_PCIPath (observeEntry fs roots name))"
proof -
  obtain raw where raw: "raw \<in> set obs" "d = normalize_device raw t" "rw_DiscoveryError raw = None"
    using snapshot_eligible [OF assms(5,6,7)] by blast
  obtain name where name: "raw = observeEntry fs roots name" using Observe_from [OF assms(4) raw(1)] by metis
  obtain dataPath where data: "fs_EvalSymlinks fs (path_join [rt_TenstorrentSysfsRoot roots, name]) = Inr dataPath"
    "resolvePCIPath fs (path_join [dataPath, ''device'']) (rt_PCISysfsRoot roots) = Inr (rw_PCIPath raw)"
    using observeEntry_resolved raw(3) unfolding name by metis
  have "is_abs dataPath" using assms(1) join_abs [OF assms(2)] data(1) by (auto simp: links_resolve_def)
  note join_abs [OF this, of "''device''"]
  note resolve_iff [OF assms(1) this assms(3), of "rw_PCIPath raw"]
  with raw(2) data show ?thesis unfolding name by blast
qed

section \<open>A sample file system\<close>

definition sample_files :: "(string \<times> string) list" where
  "sample_files = [(''/d/0/device_uuid'', ''A1''), (''/d/0/health'', ''ok''), (''/d/0/architecture'', ''wh''), (''/d/0/firmware_version'', ''19.2.1''),
     (''/d/0/kmd_version'', ''2.6.0''), (''/d/0/driver_abi_version'', ''2''), (''/p/0/PCI_SLOT_NAME'', ''0''), (''/p/0/vendor'', ''1e52''), (''/proc/sys/kernel/osrelease'', ''6.8.0'')]"

definition sample_links :: "(string \<times> string) list" where
  "sample_links = [(''/s/0'', ''/d/0''), (''/d/0/device'', ''/p/0''), (''/p'', ''/p'')]"

definition sample_info :: "file_type \<Rightarrow> FileInfo" where
  "sample_info t = \<lparr>in_Type = t, in_Mode = [], in_Rdev = Inr 0\<rparr>"

definition sample_fs :: filesystem where
  "sample_fs = \<lparr>fs_ReadDir = \<lambda>p. if p = ''/s'' then Inr [(''0'', TypeSymlink)] else Inl ''missing'',
     fs_ReadFile = \<lambda>p. (case gm_get sample_files p of None \<Rightarrow> Inl ''missing'' | Some x \<Rightarrow> Inr x),
     fs_EvalSymlinks = \<lambda>p. (case gm_get sample_links p of None \<Rightarrow> Inl ''missing'' | Some x \<Rightarrow> Inr x),
     fs_Readlink = \<lambda>p. Inl ''missing'',
     fs_Lstat = \<lambda>p. if p = ''/d/0/device'' then LstatInfo (sample_info TypeSymlink)
       else if p = ''/n/0'' then LstatInfo (sample_info TypeCharDevice) else LstatMissing,
     fs_Open = \<lambda>_. Some ''busy'',
     fs_DriverInfo = \<lambda>_. Inr \<lparr>di_ReturnedOutputSize = 12, di_DriverVersion = 2, di_Major = 2, di_Minor = 6, di_Patch = 0\<rparr>\<rparr>"

definition sample_roots :: Roots where
  "sample_roots = \<lparr>rt_DeviceRoot = ''/n'', rt_TenstorrentSysfsRoot = ''/s'', rt_PCISysfsRoot = ''/p'', rt_StateDir = ''/v''\<rparr>"




lemmas path_defs = path_join_def path_clean_def path_names_def is_abs_def has_prefix_def
lemmas fs_defs = sample_fs_def sample_info_def sample_links_def sample_files_def gm_get_def

definition sysfs_values :: raw_values where
  "sysfs_values = [(''architecture'', ''wh''), (''health'', ''ok''), (''device_uuid'', ''A1''), (''firmware_version'', ''19.2.1''),
     (''kmd_version'', ''2.6.0''), (''driver_abi_version'', ''2'')]"

lemma sysfs_device_values: "readDeviceValues sample_fs ''/d/0'' = sysfs_values"
  by (simp add: readDeviceValues_def readSelectedValues_def read_value_def path_defs fs_defs scan_defs gm_put_def sysfs_values_def)

lemma sysfs_pci_values: "readPCIValues sample_fs ''/p/0'' = [(''PCI_SLOT_NAME'', ''0''), (''vendor'', ''1e52'')]"
  by (simp add: readPCIValues_def readSelectedValues_def read_value_def path_defs fs_defs scan_defs gm_put_def raw_value_def)

lemma sysfs_resolved: "resolvePCIPath sample_fs ''/d/0/device'' ''/p'' = Inr ''/p/0''" 
  by (simp add: resolvePCIPath_def outside_def path_rel_def path_defs fs_defs)

lemma sysfs_joins: "path_join [''/s'', ''0''] = ''/s/0''" "path_join [''/d/0'', ''device''] = ''/d/0/device''" "path_join [''/n'', ''0''] = ''/n/0''" 
  "path_join [''/p/0'', ''iommu_group''] = ''/p/0/iommu_group''" "path_join [''/d/0'', ''fabric_links''] = ''/d/0/fabric_links''"
  by (simp_all add: path_defs)

lemma sysfs_fields: "fs_EvalSymlinks sample_fs ''/s/0'' = Inr ''/d/0''" "kernelVersion sample_fs = ''6.8.0''"
  "fs_Lstat sample_fs ''/n/0'' = LstatInfo (sample_info TypeCharDevice)" "fs_Open sample_fs p = Some ''busy''"
  "readIOMMUGroup sample_fs ''/p/0'' = ([], [])" "readFabricLinks sample_fs ''/d/0/fabric_links'' = []"
  "rt_TenstorrentSysfsRoot sample_roots = ''/s''" "rt_DeviceRoot sample_roots = ''/n''" "rt_PCISysfsRoot sample_roots = ''/p''"
  by (simp_all add: sample_roots_def kernelVersion_def readIOMMUGroup_def readFabricLinks_def sysfs_joins fs_defs scan_defs)

definition sysfs_read :: raw_values where
  "sysfs_read = sysfs_values @ [(''kernel_version'', ''6.8.0'')]"

lemma sysfs_put: "gm_put ''kernel_version'' ''6.8.0'' sysfs_values = sysfs_read"
  by (simp add: sysfs_values_def sysfs_read_def gm_put_def)

lemma sysfs_missing: "raw_value sysfs_read ''uevent'' = []" "raw_value sysfs_read ''dev'' = []"
  by (simp_all add: sysfs_values_def sysfs_read_def raw_value_def gm_get_def)

lemma sysfs_entry: "observeEntry sample_fs sample_roots ''0'' = (empty_raw ''0'' ''/s/0'')\<lparr>rw_Node := zero_node\<lparr>nd_ID := ''0'', nd_Path := ''/n/0''\<rparr>,
   rw_CharacterDevicePresent := True, rw_PCIPath := ''/p/0'', rw_Values := pci_values sample_fs ''/p/0'' sysfs_read\<rparr>"
proof -
  let ?raw = "(empty_raw ''0'' ''/s/0'')\<lparr>rw_Values := sysfs_read\<rparr>"
  let ?dev = "?raw\<lparr>rw_Node := zero_node\<lparr>nd_ID := ''0'', nd_Path := ''/n/0''\<rparr>, rw_CharacterDevicePresent := True\<rparr>"
  have "node_path sample_roots ''0'' sysfs_read = ''/n/0''"
    by (simp add: node_path_def valuesPath_def sysfs_missing sysfs_fields sysfs_joins Let_def numeral_2_eq_2)
  moreover have "path_base ''/n/0'' = ''0''" "majorMinor 0 = (0, 0)" by (simp_all add: path_base_def path_names_def majorMinor_def)
  ultimately have "observe_node sample_fs sample_roots ''0'' ?raw = ?dev"
    by (simp add: observe_node_def sysfs_fields sample_info_def classifyCharacterDevice_def zero_node_def empty_raw_def Let_def)
  moreover have "merge_numbers (merge_driver sample_fs ?dev) = ?dev"
    by (simp add: merge_driver_def readKMDInfo_def sysfs_fields merge_numbers_def sysfs_missing Let_def)
  ultimately show ?thesis
    by (simp add: observeEntry_def sysfs_joins sysfs_fields sysfs_device_values sysfs_put observe_backing_def sysfs_resolved Let_def empty_raw_def)
qed

lemma sysfs_pci: "pci_values sample_fs ''/p/0'' sysfs_read = sysfs_read @ [(''pci.PCI_SLOT_NAME'', ''0''), (''pci.vendor'', ''1e52''), (''pci.iommu_group'', []), (''pci.iommu_group_size'', [])]"
  by (simp add: pci_values_def sysfs_pci_values sysfs_fields gm_put_def sysfs_read_def sysfs_values_def)

lemma sample_fs_eligible: "dv_Eligible (normalize_device (observeEntry sample_fs sample_roots ''0'') t)"
proof -
  let ?v = "pci_values sample_fs ''/p/0'' sysfs_read"
  have vals: "raw_value ?v ''device_uuid'' = ''A1''" "raw_value ?v ''health'' = ''ok''" "raw_value ?v ''architecture'' = ''wh''"
    "raw_value ?v ''kmd_version'' = ''2.6.0''" "raw_value ?v ''tt_fw_bundle_ver'' = []" "raw_value ?v ''firmware_version'' = ''19.2.1''"
    "raw_value ?v ''driver_abi_version'' = ''2''" "raw_value ?v ''kernel_version'' = ''6.8.0''" "raw_value ?v ''fault_code'' = []"
    "raw_value ?v ''memory_capacity_bytes'' = []" "raw_value ?v ''memory_available_bytes'' = []"
    unfolding sysfs_pci by (simp_all add: sysfs_read_def sysfs_values_def raw_value_def gm_get_def)
  have "validateRawValues ?v = None"
    unfolding sysfs_pci by (simp add: sysfs_read_def sysfs_values_def validateRawValues_def raw_number_error_def raw_value_def gm_get_def sample_trims atoi_def digit_val_def less_eq_char_def)
  moreover have "pci_BDF (pciIdentity (observeEntry sample_fs sample_roots ''0'')) \<noteq> []" 
    "pci_Vendor (pciIdentity (observeEntry sample_fs sample_roots ''0'')) = tenstorrentPCIVendor"
    using sample_vendor unfolding sysfs_entry sysfs_pci
    by (simp_all add: pciIdentity_def sysfs_read_def sysfs_values_def raw_value_def gm_get_def scan_defs)
  ultimately show ?thesis by (intro eligible_values) (simp_all add: sysfs_entry vals empty_raw_def)
qed

lemma sample_fs_ok: "links_resolve sample_fs"
proof -
  have "q \<in> {''/d/0'', ''/p/0'', ''/p''}" if "fs_EvalSymlinks sample_fs p = Inr q" for p q
    using that by (auto simp: fs_defs split: if_splits option.splits)
  then show ?thesis by (fastforce simp: links_resolve_def path_defs)
qed

lemma sysfs_observed: "Observe sample_fs sample_roots (\<lambda>_. None) = Inr [observeEntry sample_fs sample_roots ''0'']"
proof -
  have "fs_ReadDir sample_fs ''/s'' = Inr [(''0'', TypeSymlink)]" by (simp add: sample_fs_def)
  then show ?thesis by (simp add: Observe_def sysfs_fields)
qed

theorem resolvePCIPath_iff_witness:
  "resolvePCIPath sample_fs ''/d/0/device'' ''/p'' = Inr ''/p/0'' \<and> confined sample_fs ''/p'' ''/p/0''"
  using resolvePCIPath_iff [OF sample_fs_ok, of "''/d/0/device''" "''/p''" "''/p/0''"] sysfs_resolved
  by (simp add: is_abs_def has_prefix_def)

theorem eligible_confined_witness:
  "\<exists>d. dv_Eligible d \<and> (\<exists>name. d = normalize_device (observeEntry sample_fs sample_roots name) 1 \<and>
     confined sample_fs ''/p'' (rw_PCIPath (observeEntry sample_fs sample_roots name)))"
proof -
  let ?d = "normalize_device (observeEntry sample_fs sample_roots ''0'') 1"
  have "BuildSnapshot (Some (Inr [observeEntry sample_fs sample_roots ''0''])) 1 = Inr \<lparr>sn_Devices = [?d], sn_ObservedAt = 1\<rparr>"
    by (simp add: BuildSnapshot_def)
  from eligible_confined [OF sample_fs_ok _ _ sysfs_observed this, of ?d] sample_fs_eligible [of 1]
  show ?thesis by (auto simp: sysfs_fields is_abs_def has_prefix_def)
qed

end
