(* ===== verification/Reset.thy ===== *)
theory Reset
  imports Operations
begin

text \<open>
  The reset of a device through tt-kmd (\<open>src/internal/lifecycle/reset.go\<close>).

  The driver is the environment \<open>reset_env\<close>: what it answers to the \<open>n\<close>-th system call.  The state keeps the
  number of calls so far and the calls themselves; a descriptor is the number of the call that opened it.
\<close>

text \<open>\<open>0xfa<<8 | 6\<close> and the flags of the public ABI.\<close>

definition ttIoctlResetDevice :: nat where "ttIoctlResetDevice = 0xfa06"
definition ttResetASIC :: "32 word" where "ttResetASIC = 4"
definition ttResetPost :: "32 word" where "ttResetPost = 6"

datatype errno = ENODEV | Errno string

fun errno_text :: "errno \<Rightarrow> string" where
  "errno_text ENODEV = ''no such device''"
| "errno_text (Errno e) = e"

text \<open>An ioctl fails, or returns the result field of the request.\<close>

datatype ioctl_answer = IoctlFails errno | IoctlResult "32 word"

text \<open>The flags \<open>Reset\<close> opens the device with.\<close>

datatype open_flag = O_RDWR | O_CLOEXEC | O_EXCL | O_NONBLOCK

definition reset_flags :: "open_flag list" where "reset_flags = [O_RDWR, O_CLOEXEC, O_EXCL, O_NONBLOCK]"

datatype driver_call =
    CallOpen string "open_flag list" go_error
  | CallIoctl nat nat "32 word" ioctl_answer
  | CallClose nat go_error

record reset_env =
  re_ctx :: go_error
  re_open :: "nat \<Rightarrow> go_error"
  re_ioctl :: "nat \<Rightarrow> ioctl_answer"
  re_close :: "nat \<Rightarrow> go_error"

type_synonym 'a rop = "(driver_call list, 'a) state"

definition sys_open :: "reset_env \<Rightarrow> string \<Rightarrow> open_flag list \<Rightarrow> (string + nat) rop" where
  "sys_open ev path flags = do {
     n \<leftarrow> gets length;
     modify (\<lambda>t. t @ [CallOpen path flags (re_open ev n)]);
     ret (case re_open ev n of Some e \<Rightarrow> Inl e | None \<Rightarrow> Inr n) }"

definition sys_ioctl :: "reset_env \<Rightarrow> nat \<Rightarrow> nat \<Rightarrow> 32 word \<Rightarrow> ioctl_answer rop" where
  "sys_ioctl ev fd request flag = do {
     n \<leftarrow> gets length;
     modify (\<lambda>t. t @ [CallIoctl fd request flag (re_ioctl ev n)]);
     ret (re_ioctl ev n) }"

definition sys_close :: "reset_env \<Rightarrow> nat \<Rightarrow> go_error rop" where
  "sys_close ev fd = do {
     n \<leftarrow> gets length;
     modify (\<lambda>t. t @ [CallClose fd (re_close ev n)]);
     ret (re_close ev n) }"

text \<open>The error of a reset request; \<open>errors.Is\<close> finds an errno in it, and never in the error of a result.\<close>

datatype reset_error = ResetErrno errno | ResetResult "32 word"

fun reset_text :: "reset_error \<Rightarrow> string" where
  "reset_text (ResetErrno e) = errno_text e"
| "reset_text (ResetResult r) = ''tt-kmd reset result '' @ show_nat (unat r)"

definition resetIoctl :: "reset_env \<Rightarrow> nat \<Rightarrow> 32 word \<Rightarrow> reset_error option rop" where
  "resetIoctl ev fd flag = do {
     answer \<leftarrow> sys_ioctl ev fd ttIoctlResetDevice flag;
     ret (case answer of
            IoctlFails e \<Rightarrow> Some (ResetErrno e)
          | IoctlResult r \<Rightarrow> if r \<noteq> 0 then Some (ResetResult r) else None) }"

text \<open>The end of \<open>Reset\<close>: the error of the post-reset, with that of closing.\<close>

definition reset_outcome :: "string \<Rightarrow> reset_error option \<Rightarrow> go_error \<Rightarrow> go_error" where
  "reset_outcome path postErr closeErr =
     (case postErr of
        Some e \<Rightarrow> errors_join (Some (''post-reset '' @ path @ '': '' @ reset_text e)) closeErr
      | None \<Rightarrow> closeErr)"

text \<open>The post-reset after the device has gone away and come back.\<close>

definition reopen_reset :: "reset_env \<Rightarrow> string \<Rightarrow> go_error \<Rightarrow> go_error rop" where
  "reopen_reset ev path closeErr = do {
     r \<leftarrow> sys_open ev path reset_flags;
     case r of
       Inl e \<Rightarrow> ret (Some (''reopen '' @ path @ '' after ASIC reset: '' @ e))
     | Inr fd \<Rightarrow> do {
         postErr \<leftarrow> resetIoctl ev fd ttResetPost;
         err \<leftarrow> sys_close ev fd;
         ret (reset_outcome path postErr (errors_join closeErr err)) } }"

definition KMDReset :: "reset_env \<Rightarrow> string \<Rightarrow> go_error rop" where
  "KMDReset ev path =
     (case re_ctx ev of
        Some e \<Rightarrow> ret (Some e)
      | None \<Rightarrow> do {
          r \<leftarrow> sys_open ev path reset_flags;
          case r of
            Inl e \<Rightarrow> ret (Some (''open '' @ path @ '': '' @ e))
          | Inr fd \<Rightarrow> do {
              err \<leftarrow> resetIoctl ev fd ttResetASIC;
              case err of
                Some e \<Rightarrow> do { _ \<leftarrow> sys_close ev fd; ret (Some (''ASIC reset '' @ path @ '': '' @ reset_text e)) }
              | None \<Rightarrow> do {
                  postErr \<leftarrow> resetIoctl ev fd ttResetPost;
                  closeErr \<leftarrow> sys_close ev fd;
                  if postErr = Some (ResetErrno ENODEV) then reopen_reset ev path closeErr
                  else ret (reset_outcome path postErr closeErr) } } })"

definition NoopReset :: "string \<Rightarrow> go_error rop" where
  "NoopReset path = ret None"

end
