(* ===== verification/Reset_Correct.thy ===== *)
theory Reset_Correct
  imports Reset
begin

text \<open>
  What the reset of a device promises (\<open>src/internal/lifecycle/reset.go\<close>): success means that the driver performed the ASIC
  reset and then the post-reset, and every descriptor that was opened is closed again, on every path.
\<close>

section \<open>The calls of a reset\<close>

lemma run_sys_open [simp]: "run_state (sys_open ev path flags) t =
    (case re_open ev (length t) of Some e \<Rightarrow> Inl e | None \<Rightarrow> Inr (length t), t @ [CallOpen path flags (re_open ev (length t))])"
  by (simp add: sys_open_def)

lemma run_sys_close [simp]: "run_state (sys_close ev fd) t = (re_close ev (length t), t @ [CallClose fd (re_close ev (length t))])"
  by (simp add: sys_close_def)

definition ioctl_error :: "ioctl_answer \<Rightarrow> reset_error option" where
  "ioctl_error a = (case a of IoctlFails e \<Rightarrow> Some (ResetErrno e) | IoctlResult r \<Rightarrow> if r \<noteq> 0 then Some (ResetResult r) else None)"

lemma ioctl_ok: "ioctl_error a = None \<longleftrightarrow> a = IoctlResult 0"
  by (auto simp: ioctl_error_def split: ioctl_answer.splits)

lemma run_resetIoctl [simp]: "run_state (resetIoctl ev fd flag) t = (ioctl_error (re_ioctl ev (length t)),
    t @ [CallIoctl fd ttIoctlResetDevice flag (re_ioctl ev (length t))])"
  by (simp add: resetIoctl_def sys_ioctl_def ioctl_error_def)

lemma ioctl_gone: "ioctl_error a = Some (ResetErrno ENODEV) \<longleftrightarrow> a = IoctlFails ENODEV"
  by (auto simp: ioctl_error_def split: ioctl_answer.splits if_splits)

text \<open>The descriptors that are open after the calls of a trace.\<close>

fun open_fds :: "nat \<Rightarrow> driver_call list \<Rightarrow> nat set \<Rightarrow> nat set" where
  "open_fds n [] fds = fds"
| "open_fds n (CallOpen path flags err # t) fds = open_fds (Suc n) t (if err = None then insert n fds else fds)"
| "open_fds n (CallIoctl fd request flag a # t) fds = open_fds (Suc n) t fds"
| "open_fds n (CallClose fd err # t) fds = open_fds (Suc n) t (fds - {fd})"

definition done_on :: "nat \<Rightarrow> 32 word \<Rightarrow> driver_call" where
  "done_on fd flag = CallIoctl fd ttIoctlResetDevice flag (IoctlResult 0)"

lemma outcome_None: "reset_outcome path p c = None \<longleftrightarrow> p = None \<and> c = None"
  by (simp add: reset_outcome_def split: option.split)

text \<open>
  C12: a reset that reports success has reset the device.  The driver was asked for exactly this, and accepted it: the ASIC
  reset on the descriptor that was opened first, exclusively, and then the post-reset, either on the same descriptor or, when the device
  had gone away, on a second one; and each descriptor was closed without an error.
\<close>

theorem KMDReset_success:
  "case run_state (KMDReset ev path) [] of (err, t) \<Rightarrow> err = None \<longrightarrow>
     t = [CallOpen path reset_flags None, done_on 0 ttResetASIC, done_on 0 ttResetPost, CallClose 0 None] \<or>
     t = [CallOpen path reset_flags None, done_on 0 ttResetASIC, CallIoctl 0 ttIoctlResetDevice ttResetPost (IoctlFails ENODEV), CallClose 0 None,
          CallOpen path reset_flags None, done_on 4 ttResetPost, CallClose 4 None]"
  by (auto simp: KMDReset_def reopen_reset_def outcome_None ioctl_ok ioctl_gone done_on_def split: option.splits prod.splits)

text \<open>A device that goes away after the ASIC reset and comes back.\<close>

definition sample_driver :: reset_env where
  "sample_driver = \<lparr>re_ctx = None, re_open = \<lambda>_. None,
     re_ioctl = \<lambda>n. if n = 2 then IoctlFails ENODEV else IoctlResult 0, re_close = \<lambda>_. None\<rparr>"

theorem KMDReset_success_witness:
  "\<exists>t. run_state (KMDReset sample_driver ''/dev/tt0'') [] = (None, t) \<and> done_on 0 ttResetASIC \<in> set t"
proof -
  obtain t where run: "run_state (KMDReset sample_driver ''/dev/tt0'') [] = (None, t)"
    by (simp add: KMDReset_def reopen_reset_def sample_driver_def ioctl_error_def reset_outcome_def)
  then show ?thesis using KMDReset_success [where ev = sample_driver and path = "''/dev/tt0''"] by auto
qed

text \<open>
  A reset leaks no descriptor.  On every path, failures included, each descriptor that was opened has been closed
  when \<open>Reset\<close> returns.
\<close>

theorem KMDReset_closes:
  "case run_state (KMDReset ev path) [] of (err, t) \<Rightarrow> open_fds 0 t {} = {}"
  by (simp add: KMDReset_def reopen_reset_def split: option.split prod.split)

end
