(* ===== verification/Spec2Isabelle.thy ===== *)
theory Spec2Isabelle
  imports Topology_Correct Placement_Bounds Sha256_Vector Inventory_Correct Publication_Correct Release Agent
    Controller_Lifecycle Cleanup_Correct Node_Agent_Correct Filesystem_Correct Reset_Correct
begin

text \<open>
  Verification of the Tenstorrent DRA framework.

  The program offers Tenstorrent accelerators to Kubernetes through dynamic resource allocation.  A node agent on every
  node observes the hardware, publishes the devices that are fit as ResourceSlices and as a topology object, and prepares
  and releases them for the claims the kubelet hands it, resetting each device before and after its use.  A controller in
  the cluster joins the topology objects to a fabric, places the ranks of a workload on it, and creates a claim and a Pod
  per rank.  The two meet only through the API server.

  All paths below are relative to \<open>src/\<close> of the program; the Go packages are under \<open>src/internal/\<close>.

  \<^bold>\<open>Ground.\<close>  \<open>Prelude\<close> has Go's built-in values: maps (association lists with the interface \<open>go_map\<close>), times and durations in
  nanoseconds, loops with early return.  \<open>Go_Strings\<close>, \<open>Go_Json\<close>, \<open>Paths\<close> and \<open>Sha256\<close> are the parts of Go's library that
  the program uses, \<open>Sha256_Vector\<close> a test vector, \<open>Dns_Labels\<close> what Kubernetes accepts as a name.  \<open>Operations\<close> is the
  state monad of every stateful component with its program logic: \<open>hoare\<close>, \<open>keeps\<close>, \<open>returns\<close>.  \<open>Kube_Api\<close> models calls to
  the API server: before each call others may act, and the call may succeed, fail, conflict, or be applied although its
  answer is lost.

  \<^bold>\<open>Inventory.\<close>  \<open>Inventory\<close> is \<open>device/model.go\<close> and \<open>normalize.go\<close>, \<open>Filesystem\<close> is \<open>device/filesystem.go\<close>, \<open>discovery.go\<close> and
  \<open>kmd.go\<close>.  \<open>Inventory_Correct\<close> shows which observations become eligible devices, that names are DNS labels, and that device
  numbers decode; \<open>Filesystem_Correct\<close> that no device is offered whose PCI backing leaves the PCI root.

  \<^bold>\<open>Lifecycle of devices.\<close>  \<open>Lifecycle_State\<close> (\<open>lifecycle/state.go\<close>, \<open>cdi.go\<close>, and the lock), \<open>Janitor\<close> (\<open>janitor.go\<close>, \<open>health.go\<close>),
  \<open>Claims\<close> (\<open>manager.go\<close>), \<open>Recovery\<close> (\<open>recovery.go\<close> and \<open>NewManager\<close>), \<open>Reset\<close> (\<open>reset.go\<close>).  The state \<open>sys\<close> holds the memory
  of the manager, the state file, the CDI directory, the audit log and a trace of effects; the environment \<open>env\<close> decides
  every clock reading, file operation, reset, inventory and map order.  The interfaces \<open>frame_invariant\<close>, \<open>op_invariant\<close> and
  \<open>storage_invariant\<close> (\<open>Lifecycle_Logic\<close>) carry an invariant through every operation; \<open>Ownership\<close> and \<open>Agent\<close> use them for the
  exclusive ownership of devices over all calls, crashes and restarts, \<open>Janitor_Correct\<close> for what monitoring offers and
  resets, \<open>Exposure\<close> and \<open>Release\<close> for the order of effects when a claim is prepared or released, \<open>Replacement\<close> for hardware
  that was replaced in place.  \<open>Samples\<close> has the concrete node the theorems are applied to.

  \<^bold>\<open>Publication and the node.\<close>  \<open>Publication\<close> (\<open>dra/resourceslice.go\<close>, \<open>publication.go\<close>, \<open>PublishNode\<close> of \<open>topology/topology.go\<close>),
  \<open>Device_Class\<close> (\<open>dra/deviceclass.go\<close>), \<open>Node_Safety\<close> (\<open>lifecycle/node.go\<close>, \<open>watchdog.go\<close>), \<open>Health\<close> (\<open>observability/health.go\<close>),
  \<open>Cleanup\<close> and \<open>Node_Agent\<close> (\<open>runCleanup\<close> and \<open>runNode\<close> of \<open>src/cmd/tt-dra-driver/main.go\<close>).  \<open>Node_Agent\<close> composes the manager
  (\<open>nw_sys\<close>), the API server (\<open>nw_cluster\<close>) and the probes.  \<open>Publication_Correct\<close> characterizes the published pool and its
  confirmation; \<open>Node_Safety_Correct\<close> shows that exactly the silent agents are fenced, \<open>Cleanup_Correct\<close> that cleanup refuses,
  ends and is complete, \<open>Node_Agent_Correct\<close> that a cycle offers nothing unfit and fails safe.  Two lemmas state gaps: a cycle
  without the lock reports a healthy node (\<open>lock_failure_reports_healthy\<close>), and the watchdog does not retry a failed
  deletion in time (\<open>fence_retry_skipped\<close>).

  \<^bold>\<open>Placement and the controller.\<close>  \<open>Api_Types\<close> (\<open>api/types.go\<close>), \<open>Topology\<close> (\<open>topology/topology.go\<close>), \<open>Placement\<close>
  (\<open>placement/placement.go\<close>), \<open>Workloads\<close> (\<open>controller/validation.go\<close>), \<open>Children\<close> (\<open>children.go\<close>), \<open>Controller\<close> (\<open>controller.go\<close>).
  \<open>Topology_Correct\<close> gives the specification of a valid fabric; \<open>Placement_Connected\<close>, \<open>Placement_Search\<close> (the contract of a
  visitor that backtracks is the locale \<open>backtracking\<close>), \<open>Placement_Correct\<close> and \<open>Placement_Bounds\<close> show that the search is sound,
  complete and deterministic.  \<open>Children_Correct\<close> shows that the Pods are confined.  The state \<open>world\<close> of the controller has the API
  server, the caches that lag behind it and the pending assignments; \<open>Controller_Invariants\<close> carries invariants through a
  reconciliation, \<open>Controller_Logic\<close> and \<open>Controller_Exclusive\<close> prove that two unfinished workloads never share a device,
  \<open>Controller_Lifecycle\<close> treats final phases, frozen assignments and progress, and two gaps: a running rank behind an
  unschedulable one, and the children of a failed workload.  \<open>Controller_Samples\<close> has the runs.

  \<^bold>\<open>Bounds and fuel.\<close>  Fuel stands for loops of the program that have no bound of their own: \<open>wait_pods\<close> (some fuel is enough
  when the clock advances, \<open>cleanup_terminates\<close>), \<open>node_loop\<close> (one cycle per unit; some fuel is enough
  after a fatal error, \<open>fatal_error_stops\<close>), and the polls of a publication and of a registration, whose number the environment chooses.
  Retries on conflicts are bounded as in client-go.  Integers are words where the program relies on their width (counts,
  device numbers, driver versions, SHA-256), otherwise \<open>int\<close>; sums of durations are not expected to overflow.

  \<^bold>\<open>Not modelled.\<close>  Metrics (\<open>observability/metrics.go\<close>) and logs, which nothing reads; the registration of informers, the leader
  election, the construction of clients and the parsing of flags, which are calls of libraries; the gRPC stream of health
  reports and the HTTP server; the opening and closing of the lock file; events of the controller; the test helpers; the conversion of
  objects to and from their unstructured form (an argument, \<open>kl_decode\<close>), the defaults of the Kubernetes scheme and the
  semantic comparison of objects (arguments).  The operating system, the driver, the API server and the kubelet helper
  are environments: what they answer is arbitrary unless a theorem says what it assumes.

  \<^bold>\<open>Limits of the models.\<close>  In \<open>Node_Agent\<close> the manager changes only through the loop: the calls of the kubelet, which run on
  the same manager between the steps of a cycle, and a report of the kubelet helper that arrives at another moment than after
  an unconfirmed publication are not interleaved with a cycle (\<open>Agent\<close> interleaves whole calls of the manager, the loop's included).
  A write of the state file has one outcome for the whole sequence of write, sync, rename and directory sync.  A map of claims that an
  earlier failed load left nil, and phases in the state file other than the four of the program, are not represented.
  The relations \<open>agent_step\<close> and \<open>controller_step\<close> are specifications of a whole system: their steps carry assumptions on the
  kubelet, the API server and the caches that the code does not check (\<open>batch_disjoint\<close>, \<open>start_consistent\<close>; \<open>definite\<close>,
  \<open>in_sync\<close>, \<open>undisturbed\<close>), and \<open>lost_update_double_assignment\<close> and \<open>batch_double_owner\<close> show runs without them.
\<close>

end
